(* ===== verification/Prelude.thy ===== *)
theory Prelude
  imports Main
begin

text \<open>
  Shared vocabulary of the development: Go error values and what the operator asks of
  them, results of calls that may panic, instants of time, Go maps, and the list and map
  lemmas that the component theories use.  Collections: \<open>go_errs\<close> (classification of
  errors), \<open>go_maps\<close> (map facts).
\<close>

named_theorems go_errs
named_theorems go_maps

section \<open>Errors\<close>

text \<open>
  A Go error value, as far as the operator can tell errors apart:
  \<^item> \<open>ErrNotFound\<close> is the sentinel of controllers/nodes/cache.go;
  \<^item> \<open>KubeNotFound\<close> and \<open>KubeNoMatch\<close> are the errors for which
    \<open>k8serrors.IsNotFound\<close> and \<open>meta.IsNoMatchError\<close> answer true;
  \<^item> \<open>ServerErr code message\<close> is \<open>dtclient.ServerError\<close>;
  \<^item> \<open>ErrMsg\<close> is an error made by \<open>errors.New\<close> or by \<open>fmt.Errorf\<close> without \<open>%w\<close>;
  \<^item> \<open>Wrapped\<close> is \<open>fmt.Errorf\<close> with \<open>%w\<close>, or \<open>errors.Wrap\<close>: it keeps the cause;
  \<^item> \<open>ExtErr\<close> is any other error of a library or of a service.
\<close>

datatype go_error =
    ErrNotFound
  | KubeNotFound
  | KubeNoMatch
  | ServerErr int string
  | ErrMsg string
  | Wrapped string go_error
  | ExtErr string

text \<open>\<open>k8serrors.IsNotFound(err)\<close>, used on errors that the Kubernetes client returned as they are.\<close>

fun IsNotFound :: "go_error \<Rightarrow> bool" where
  "IsNotFound KubeNotFound = True"
| "IsNotFound _ = False"

text \<open>\<open>errors.As(err, &serr)\<close> for a \<open>ServerError\<close>: follows the chain of wrapped errors.\<close>

fun as_server_error :: "go_error \<Rightarrow> (int \<times> string) option" where
  "as_server_error (ServerErr c m) = Some (c, m)"
| "as_server_error (Wrapped _ e) = as_server_error e"
| "as_server_error _ = None"

definition StatusOK :: int where "StatusOK = 200"
definition StatusUnauthorized :: int where "StatusUnauthorized = 401"
definition StatusTooManyRequests :: int where "StatusTooManyRequests = 429"

text \<open>\<open>errors.As(err, &serr) && serr.Code == code\<close>\<close>

definition is_server_error_code :: "int \<Rightarrow> go_error \<Rightarrow> bool" where
  "is_server_error_code code e =
     (case as_server_error e of Some (c, _) \<Rightarrow> c = code | None \<Rightarrow> False)"

lemma IsNotFound_iff [go_errs]: "IsNotFound e \<longleftrightarrow> e = KubeNotFound"
  by (cases e) auto

lemma is_server_error_code_simps [simp]:
  "is_server_error_code k (ServerErr c m) \<longleftrightarrow> c = k"
  "is_server_error_code k (Wrapped s e) \<longleftrightarrow> is_server_error_code k e"
  "\<not> is_server_error_code k ErrNotFound"
  "\<not> is_server_error_code k KubeNotFound"
  "\<not> is_server_error_code k KubeNoMatch"
  "\<not> is_server_error_code k (ErrMsg s)"
  "\<not> is_server_error_code k (ExtErr s)"
  by (auto simp: is_server_error_code_def)

text \<open>Results of code that may also panic (an index out of range).\<close>

datatype 'a outcome = Ok 'a | Err go_error | Panic

section \<open>Time\<close>

text \<open>
  An instant is its number of nanoseconds since the Unix epoch, as an unbounded integer;
  \<open>time.Time\<close>'s zero value is 1 January of the year 1, UTC.  \<open>time.Duration\<close> is an
  \<open>int64\<close> of nanoseconds and \<open>Time.Sub\<close> saturates at its ends.
\<close>

type_synonym time = int

definition zero_time :: time where "zero_time = - 62135596800 * 1000000000"

definition Second :: int where "Second = 1000000000"
definition Minute :: int where "Minute = 60 * Second"
definition Hour :: int where "Hour = 60 * Minute"

definition IsZero :: "time \<Rightarrow> bool" where "IsZero t = (t = zero_time)"

definition time_Sub :: "time \<Rightarrow> time \<Rightarrow> int" where
  "time_Sub t u = max (- (2 ^ 63)) (min (2 ^ 63 - 1) (t - u))"

lemma durations_pos [simp]: "0 < Second" "0 < Minute" "0 < Hour"
  by (simp_all add: Second_def Minute_def Hour_def)

lemma time_Sub_gt_Hour: "time_Sub t u > Hour \<longleftrightarrow> t - u > Hour"
  by (auto simp: time_Sub_def Hour_def Minute_def Second_def)

section \<open>Maps\<close>

text \<open>
  \<open>map[string]v\<close> is a partial function; where the code ranges over a map, the model takes
  the keys as a list (their order is the run time's choice and a parameter of the code's
  model).  \<open>GetField\<close>-like reads of a missing key give the zero value.
\<close>

definition map_get :: "(string \<rightharpoonup> string) \<Rightarrow> string \<Rightarrow> string" where
  "map_get m k = (case m k of Some v \<Rightarrow> v | None \<Rightarrow> '''')"

lemma map_get_upd [simp]: "map_get (m(k \<mapsto> v)) k' = (if k' = k then v else map_get m k')"
  by (simp add: map_get_def)

lemma map_le_add_right [go_maps]: "m \<subseteq>\<^sub>m n ++ m"
  by (simp add: map_le_def map_add_dom_app_simps)

lemma foldl_fun_upd_notin [go_maps]:
  "k \<notin> set (map f xs) \<Longrightarrow> foldl (\<lambda>m x. m(f x \<mapsto> g x)) m xs k = m k"
  by (induction xs arbitrary: m) auto

section \<open>Lists\<close>

lemma find_Some_split:
  "List.find P xs = Some x \<longleftrightarrow>
     (\<exists>ys zs. xs = ys @ x # zs \<and> P x \<and> (\<forall>y \<in> set ys. \<not> P y))"
proof (induction xs)
  case Nil
  then show ?case by simp
next
  case (Cons a xs)
  show ?case
  proof (cases "P a")
    case True
    show ?thesis
    proof
      assume "List.find P (a # xs) = Some x"
      with True have "a # xs = [] @ x # xs \<and> P x \<and> (\<forall>y \<in> set []. \<not> P y)" by simp
      then show "\<exists>ys zs. a # xs = ys @ x # zs \<and> P x \<and> (\<forall>y \<in> set ys. \<not> P y)" by blast
    next
      assume "\<exists>ys zs. a # xs = ys @ x # zs \<and> P x \<and> (\<forall>y \<in> set ys. \<not> P y)"
      then obtain ys zs where e: "a # xs = ys @ x # zs" "\<forall>y \<in> set ys. \<not> P y" by blast
      with True have "ys = []" by (cases ys) auto
      with e True show "List.find P (a # xs) = Some x" by simp
    qed
  next
    case False
    have "(\<exists>ys zs. a # xs = ys @ x # zs \<and> P x \<and> (\<forall>y \<in> set ys. \<not> P y)) \<longleftrightarrow>
          (\<exists>ys zs. xs = ys @ x # zs \<and> P x \<and> (\<forall>y \<in> set ys. \<not> P y))" (is "?L \<longleftrightarrow> ?R")
    proof
      assume ?L
      then obtain ys zs where e: "a # xs = ys @ x # zs" "P x" "\<forall>y \<in> set ys. \<not> P y" by blast
      with False show ?R by (cases ys) auto
    next
      assume ?R
      then obtain ys zs where "xs = ys @ x # zs" "P x" "\<forall>y \<in> set ys. \<not> P y" by blast
      with False have "a # xs = (a # ys) @ x # zs \<and> P x \<and> (\<forall>y \<in> set (a # ys). \<not> P y)" by simp
      then show ?L by blast
    qed
    with False Cons.IH show ?thesis by simp
  qed
qed

lemma filter_eq_ConsI: "P x \<Longrightarrow> filter P (x # xs) = x # filter P xs"
  by simp

end
