(* ===== verification/Go_Std.thy ===== *)
theory Go_Std
  imports Prelude "HOL-Library.Word" "HOL-Library.Char_ord" "HOL-Library.List_Lexorder"
begin

unbundle bit_operations_syntax

text \<open>
  The parts of Go's standard library that the operator computes with: \<open>strings\<close>,
  \<open>strconv\<close>, \<open>net/url\<close> escaping and \<open>hash/fnv\<close>.  A Go string is its list of bytes, a
  byte is a \<open>char\<close>; comparison of strings is bytewise lexicographic, which is the order
  of \<open>List_Lexorder\<close> over \<open>Char_ord\<close>.
\<close>

section \<open>How a function ends\<close>

text \<open>What a function may do besides returning: panic, or never return.\<close>

datatype 'a run = Returns 'a | Panics | Diverges

section \<open>Package strings\<close>

text \<open>\<open>strings.Split(s, sep)\<close> for a separator of one byte: never empty.\<close>

fun Split :: "char \<Rightarrow> string \<Rightarrow> string list" where
  "Split sep [] = [[]]"
| "Split sep (c # cs) =
     (if c = sep then [] # Split sep cs
      else (case Split sep cs of [] \<Rightarrow> [[c]] | p # ps \<Rightarrow> (c # p) # ps))"

text \<open>\<open>strings.Join(parts, sep)\<close>\<close>

fun Join :: "string list \<Rightarrow> string \<Rightarrow> string" where
  "Join [] sep = []"
| "Join [p] sep = p"
| "Join (p # q # ps) sep = p @ sep @ Join (q # ps) sep"

definition HasPrefix :: "string \<Rightarrow> string \<Rightarrow> bool" where
  "HasPrefix s p = (take (length p) s = p)"

definition HasSuffix :: "string \<Rightarrow> string \<Rightarrow> bool" where
  "HasSuffix s p = HasPrefix (rev s) (rev p)"

definition TrimPrefix :: "string \<Rightarrow> string \<Rightarrow> string" where
  "TrimPrefix s p = (if HasPrefix s p then drop (length p) s else s)"

definition TrimSuffix :: "string \<Rightarrow> string \<Rightarrow> string" where
  "TrimSuffix s p = (if HasSuffix s p then take (length s - length p) s else s)"

text \<open>\<open>strings.TrimSpace\<close> on ASCII text: tab, newline, vertical tab, form feed, return, space.\<close>

definition is_space :: "char \<Rightarrow> bool" where
  "is_space c = (of_char c \<in> {9, 10, 11, 12, 13, 32 :: nat})"

definition TrimSpace :: "string \<Rightarrow> string" where
  "TrimSpace s = rev (dropWhile is_space (rev (dropWhile is_space s)))"

text \<open>\<open>s[:strings.LastIndex(s, "-")]\<close> when there is such an index, \<open>s\<close> otherwise.\<close>

definition cut_last :: "char \<Rightarrow> string \<Rightarrow> string" where
  "cut_last c s = (if c \<in> set s then rev (drop 1 (dropWhile (\<lambda>x. x \<noteq> c) (rev s))) else s)"

definition upper_char :: "char \<Rightarrow> char" where
  "upper_char c = (let n = of_char c :: nat in if 97 \<le> n \<and> n \<le> 122 then char_of (n - 32) else c)"

definition ToUpper :: "string \<Rightarrow> string" where
  "ToUpper s = map upper_char s"

lemma Split_not_Nil [simp]: "Split sep s \<noteq> []"
  by (induction s) (auto split: list.splits)

lemma length_Split: "length (Split sep s) = Suc (length (filter (\<lambda>c. c = sep) s))"
  by (induction s) (auto split: list.splits)

lemma Join_Split: "Join (Split sep s) [sep] = s"
proof (induction s)
  case Nil
  then show ?case by simp
next
  case (Cons c cs)
  obtain p ps where s: "Split sep cs = p # ps" by (cases "Split sep cs") auto
  show ?case
  proof (cases "c = sep")
    case True
    with Cons s show ?thesis by simp
  next
    case False
    with Cons s show ?thesis by (cases ps) auto
  qed
qed

lemma Split_no_sep: "sep \<notin> set p \<Longrightarrow> Split sep p = [p]"
  by (induction p) auto

lemma Split_append: "sep \<notin> set p \<Longrightarrow> Split sep (p @ sep # s) = p # Split sep s"
  by (induction p) auto

lemma Split_append_sep: "sep \<notin> set s \<Longrightarrow> Split sep (p @ sep # s) = Split sep p @ [s]"
  by (induction p) (auto simp: Split_no_sep split: list.splits)

lemma Split_Join:
  "ps \<noteq> [] \<Longrightarrow> (\<forall>p \<in> set ps. sep \<notin> set p) \<Longrightarrow> Split sep (Join ps [sep]) = ps"
  by (induction ps "[sep]" rule: Join.induct) (auto simp: Split_no_sep Split_append)

lemma sep_notin_Split: "p \<in> set (Split sep s) \<Longrightarrow> sep \<notin> set p"
proof (induction s arbitrary: p)
  case Nil
  then show ?case by simp
next
  case (Cons c cs)
  obtain q qs where s: "Split sep cs = q # qs" by (cases "Split sep cs") auto
  show ?case using Cons s by (auto split: if_splits)
qed

lemma HasPrefix_iff: "HasPrefix s p \<longleftrightarrow> (\<exists>r. s = p @ r)"
  unfolding HasPrefix_def by (metis append_take_drop_id append_eq_conv_conj)

lemma HasSuffix_iff: "HasSuffix s p \<longleftrightarrow> (\<exists>r. s = r @ p)"
  unfolding HasSuffix_def HasPrefix_iff by (metis rev_append rev_rev_ident)

lemma TrimPrefix_append [simp]: "TrimPrefix (p @ r) p = r"
  by (simp add: TrimPrefix_def HasPrefix_def)

lemma TrimSuffix_append [simp]: "TrimSuffix (r @ p) p = r"
  by (simp add: TrimSuffix_def HasSuffix_def HasPrefix_def)

lemma TrimSpace_ends:
  assumes "TrimSpace s = c # cs"
  shows "\<not> is_space c" and "\<not> is_space (last (c # cs))"
proof -
  let ?d = "dropWhile is_space s"
  have s: "TrimSpace s = rev (dropWhile is_space (rev ?d))" by (simp add: TrimSpace_def)
  have "rev (TrimSpace s) = dropWhile is_space (rev ?d)" by (simp add: s)
  moreover have ne: "rev (TrimSpace s) \<noteq> []" using assms by simp
  ultimately have "\<not> is_space (hd (rev (TrimSpace s)))" by (metis hd_dropWhile)
  then show "\<not> is_space (last (c # cs))" unfolding assms hd_rev .
  obtain r where r: "?d = TrimSpace s @ r"
  proof -
    have "rev ?d = takeWhile is_space (rev ?d) @ dropWhile is_space (rev ?d)" by simp
    then have "?d = rev (dropWhile is_space (rev ?d)) @ rev (takeWhile is_space (rev ?d))"
      by (metis rev_append rev_rev_ident)
    with s that show ?thesis by metis
  qed
  with assms have d: "?d = c # (cs @ r)" by simp
  then have "?d \<noteq> []" by simp
  then have "\<not> is_space (hd ?d)" by (rule hd_dropWhile)
  with d show "\<not> is_space c" by simp
qed

lemma cut_last_eq: "c \<notin> set q \<Longrightarrow> cut_last c (p @ c # q) = p"
proof -
  assume "c \<notin> set q"
  then have "dropWhile (\<lambda>x. x \<noteq> c) (rev q @ c # rev p) = c # rev p"
    by (subst dropWhile_append2) auto
  then show ?thesis by (simp add: cut_last_def)
qed

section \<open>Package strconv\<close>

definition is_digit :: "char \<Rightarrow> bool" where
  "is_digit c = (48 \<le> (of_char c :: nat) \<and> (of_char c :: nat) \<le> 57)"

fun digits_val :: "nat \<Rightarrow> string \<Rightarrow> nat" where
  "digits_val acc [] = acc"
| "digits_val acc (c # cs) = digits_val (10 * acc + (of_char c - 48)) cs"

definition parse_digits :: "string \<Rightarrow> nat option" where
  "parse_digits s = (if s \<noteq> [] \<and> list_all is_digit s then Some (digits_val 0 s) else None)"

text \<open>
  \<open>strconv.Atoi\<close>: an optional sign and decimal digits, with a range error outside
  \<open>int64\<close>; every error is None.
\<close>

definition int64_range :: "int \<Rightarrow> int option" where
  "int64_range i = (if - (2 ^ 63) \<le> i \<and> i < 2 ^ 63 then Some i else None)"

fun Atoi :: "string \<Rightarrow> int option" where
  "Atoi [] = None"
| "Atoi (c # cs) =
     (if c = CHR ''-'' then Option.bind (parse_digits cs) (\<lambda>n. int64_range (- int n))
      else if c = CHR ''+'' then Option.bind (parse_digits cs) (\<lambda>n. int64_range (int n))
      else Option.bind (parse_digits (c # cs)) (\<lambda>n. int64_range (int n)))"

text \<open>\<open>strconv.ParseUint(s, 10, 32)\<close>, then the conversion to \<open>uint32\<close>.\<close>

definition ParseUint32 :: "string \<Rightarrow> 32 word option" where
  "ParseUint32 s =
     Option.bind (parse_digits s) (\<lambda>n. if n < 2 ^ 32 then Some (of_nat n) else None)"

text \<open>\<open>strconv.Itoa\<close>, \<open>strconv.FormatUint(_, 10)\<close> and the verb \<open>%d\<close>.\<close>

fun nat_digits :: "nat \<Rightarrow> string" where
  "nat_digits n = (if n < 10 then [char_of (48 + n)] else nat_digits (n div 10) @ [char_of (48 + n mod 10)])"

declare nat_digits.simps [simp del]

definition Itoa :: "int \<Rightarrow> string" where
  "Itoa i = (if i < 0 then CHR ''-'' # nat_digits (nat (- i)) else nat_digits (nat i))"

lemma of_char_of_digit [simp]: "d < 10 \<Longrightarrow> (of_char (char_of (48 + d) :: char) :: nat) = 48 + d"
  by (simp add: of_char_of take_bit_eq_mod)

lemma is_digit_char_of [simp]: "d < 10 \<Longrightarrow> is_digit (char_of (48 + d :: nat))"
  by (simp add: is_digit_def)

lemma digits_val_append: "digits_val a (xs @ ys) = digits_val (digits_val a xs) ys"
  by (induction xs arbitrary: a) auto

lemma nat_digits_props:
  "nat_digits n \<noteq> [] \<and> list_all is_digit (nat_digits n) \<and> digits_val 0 (nat_digits n) = n"
proof (induction n rule: nat_digits.induct)
  case (1 n)
  show ?case
  proof (cases "n < 10")
    case True
    then show ?thesis by (simp add: nat_digits.simps [of n])
  next
    case False
    with 1 have "list_all is_digit (nat_digits (n div 10))"
      "digits_val 0 (nat_digits (n div 10)) = n div 10" by simp_all
    with False show ?thesis
      by (simp add: nat_digits.simps [of n] digits_val_append)
  qed
qed

lemma nat_digits_ne [simp]: "nat_digits n \<noteq> []"
  using nat_digits_props by blast

lemma nat_digits_digits [simp]: "list_all is_digit (nat_digits n)"
  using nat_digits_props by blast

lemma parse_digits_nat_digits [simp]: "parse_digits (nat_digits n) = Some n"
  using nat_digits_props by (simp add: parse_digits_def)

lemma nat_digits_inj: "nat_digits m = nat_digits n \<longleftrightarrow> m = n"
  by (metis nat_digits_props)

lemma notin_nat_digits: "\<not> is_digit c \<Longrightarrow> c \<notin> set (nat_digits n)"
  using nat_digits_digits [of n] by (auto simp: list_all_iff)

lemma not_is_digit_sign [simp]: "\<not> is_digit CHR ''-''" "\<not> is_digit CHR ''+''" "\<not> is_digit CHR ''.''"
  by (simp_all add: is_digit_def)

lemma Atoi_Itoa: "- (2 ^ 63) \<le> i \<Longrightarrow> i < 2 ^ 63 \<Longrightarrow> Atoi (Itoa i) = Some i"
proof -
  assume r: "- (2 ^ 63) \<le> i" "i < 2 ^ 63"
  show ?thesis
  proof (cases "i < 0")
    case True
    with r show ?thesis by (simp add: Itoa_def int64_range_def)
  next
    case False
    obtain c cs where n: "nat_digits (nat i) = c # cs" by (cases "nat_digits (nat i)") auto
    have "is_digit c" using nat_digits_digits [of "nat i"] n by simp
    then have "c \<noteq> CHR ''-''" "c \<noteq> CHR ''+''" by auto
    moreover have "parse_digits (c # cs) = Some (nat i)"
      using parse_digits_nat_digits [of "nat i"] n by simp
    ultimately show ?thesis using False r n by (simp add: Itoa_def int64_range_def)
  qed
qed

lemma Itoa_no_dot [simp]: "CHR ''.'' \<notin> set (Itoa i)"
  by (auto simp: Itoa_def notin_nat_digits)

lemma ParseUint32_nat_digits: "n < 2 ^ 32 \<Longrightarrow> ParseUint32 (nat_digits n) = Some (of_nat n)"
  by (simp add: ParseUint32_def)

lemma ParseUint32_Some:
  "ParseUint32 s = Some p \<Longrightarrow> list_all is_digit s \<and> s \<noteq> [] \<and> unat p = digits_val 0 s"
  by (auto simp: ParseUint32_def parse_digits_def bind_eq_Some_conv unat_of_nat split: if_splits)

section \<open>Package net/url: QueryEscape\<close>

definition is_alnum :: "char \<Rightarrow> bool" where
  "is_alnum c = (let n = of_char c :: nat in
     48 \<le> n \<and> n \<le> 57 \<or> 65 \<le> n \<and> n \<le> 90 \<or> 97 \<le> n \<and> n \<le> 122)"

definition query_unreserved :: "char \<Rightarrow> bool" where
  "query_unreserved c = (is_alnum c \<or> c \<in> {CHR ''-'', CHR ''_'', CHR ''.'', CHR ''~''})"

definition hex_digit :: "nat \<Rightarrow> char" where
  "hex_digit n = (if n < 10 then char_of (48 + n) else char_of (55 + n))"

definition escape_char :: "char \<Rightarrow> string" where
  "escape_char c =
     (if query_unreserved c then [c]
      else if c = CHR '' '' then ''+''
      else [CHR ''%'', hex_digit (of_char c div 16), hex_digit (of_char c mod 16)])"

definition QueryEscape :: "string \<Rightarrow> string" where
  "QueryEscape s = concat (map escape_char s)"

lemma QueryEscape_id: "list_all query_unreserved s \<Longrightarrow> QueryEscape s = s"
  by (induction s) (auto simp: QueryEscape_def escape_char_def)

section \<open>Package hash/fnv: New32\<close>

definition fnv_step :: "32 word \<Rightarrow> char \<Rightarrow> 32 word" where
  "fnv_step h c = (h * 16777619) XOR of_nat (of_char c)"

definition fnv32 :: "string \<Rightarrow> 32 word" where
  "fnv32 s = foldl fnv_step 2166136261 s"

end
