(* ===== verification/Api_Types.thy ===== *)
theory Api_Types
  imports Go_Std
begin

text \<open>
  The custom resources of api/v1alpha1: \<open>OneAgent\<close> and \<open>OneAgentAPM\<close>, their specs and
  statuses.  A struct that Go embeds (\<open>BaseOneAgentSpec\<close> in \<open>OneAgentSpec\<close>) is a record
  that the other one extends, so a function on the interface \<open>BaseOneAgent\<close> is a function
  on every record that extends the base records.  Values of Kubernetes types that the
  operator copies without looking inside (tolerations, quantities) are their text.
\<close>

section \<open>base\_types.go\<close>

record OneAgentProxy =
  prx_Value :: string
  prx_ValueFrom :: string

record BaseOneAgentSpec =
  sp_APIURL :: string
  sp_Tokens :: string
  sp_SkipCertCheck :: bool
  sp_EnableIstio :: bool
  sp_Proxy :: "OneAgentProxy option"
  sp_TrustedCAs :: string
  sp_NetworkZone :: string
  sp_UseImmutableImage :: bool

datatype ConditionStatus = ConditionTrue | ConditionFalse | ConditionUnknown

record Condition =
  cond_Type :: string
  cond_Status :: ConditionStatus
  cond_Reason :: string
  cond_Message :: string
  cond_LastTransitionTime :: time

record BaseOneAgentStatus =
  st_UpdatedTimestamp :: time
  st_Conditions :: "Condition list"
  st_LastAPITokenProbeTimestamp :: "time option"
  st_LastPaaSTokenProbeTimestamp :: "time option"
  st_EnvironmentID :: string
  st_Tokens :: string
  st_UseImmutableImage :: bool

definition APITokenConditionType :: string where "APITokenConditionType = ''APIToken''"
definition PaaSTokenConditionType :: string where "PaaSTokenConditionType = ''PaaSToken''"

definition ReasonTokenReady :: string where "ReasonTokenReady = ''TokenReady''"
definition ReasonTokenSecretNotFound :: string where "ReasonTokenSecretNotFound = ''TokenSecretNotFound''"
definition ReasonTokenMissing :: string where "ReasonTokenMissing = ''TokenMissing''"
definition ReasonTokenUnauthorized :: string where "ReasonTokenUnauthorized = ''TokenUnauthorized''"
definition ReasonTokenScopeMissing :: string where "ReasonTokenScopeMissing = ''TokenScopeMissing''"
definition ReasonTokenError :: string where "ReasonTokenError = ''TokenError''"

section \<open>The resource object and the interface BaseOneAgent\<close>

record ('s, 't) custom_resource =
  cr_Name :: string
  cr_Namespace :: string
  cr_Spec :: 's
  cr_Status :: 't

type_synonym ('a, 'b) BaseOneAgent =
  "('a BaseOneAgentSpec_scheme, 'b BaseOneAgentStatus_scheme) custom_resource"

section \<open>oneagent\_types.go\<close>

record OneAgentInstance =
  inst_PodName :: string
  inst_Version :: string
  inst_IPAddress :: string

text \<open>\<open>OneAgentPhaseType\<close> is a string type; its zero value is the empty string.\<close>

datatype OneAgentPhaseType = PhaseUnset | Running | Deploying | PhaseError

datatype EnvVarSource =
    FieldRef string
  | SecretKeyRef string string
  | OtherSource string

record EnvVar =
  ev_Name :: string
  ev_Value :: string
  ev_ValueFrom :: "EnvVarSource option"

text \<open>A nil \<open>Requests\<close> map is None.\<close>

record ResourceRequirements =
  rr_Limits :: "string \<rightharpoonup> string"
  rr_Requests :: "(string \<rightharpoonup> string) option"

record OneAgentSpec = BaseOneAgentSpec +
  sp_NodeSelector :: "string \<rightharpoonup> string"
  sp_Tolerations :: "string list"
  sp_WaitReadySeconds :: "16 word option"
  sp_Image :: string
  sp_AgentVersion :: string
  sp_CustomPullSecret :: string
  sp_Resources :: ResourceRequirements
  sp_WebhookInjection :: bool
  sp_Args :: "string list"
  sp_Env :: "EnvVar list"
  sp_PriorityClassName :: string
  sp_DisableAgentUpdate :: bool
  sp_DNSPolicy :: string
  sp_ServiceAccountName :: string
  sp_Labels :: "string \<rightharpoonup> string"
  sp_UseUnprivilegedMode :: "bool option"

text \<open>A nil \<open>Instances\<close> map is None.\<close>

record OneAgentStatus = BaseOneAgentStatus +
  st_Version :: string
  st_Instances :: "(string \<rightharpoonup> OneAgentInstance) option"
  st_Phase :: OneAgentPhaseType
  st_LastUpdateProbeTimestamp :: "time option"
  st_ImageHash :: string
  st_ImageVersion :: string
  st_LastImageVersionProbeTimestamp :: "time option"

type_synonym OneAgent = "(OneAgentSpec, OneAgentStatus) custom_resource"

definition SetPhase :: "OneAgentPhaseType \<Rightarrow> OneAgentStatus \<Rightarrow> bool \<times> OneAgentStatus" where
  "SetPhase phase oa = (phase \<noteq> st_Phase oa, oa\<lparr>st_Phase := phase\<rparr>)"

definition SetPhaseOnError :: "go_error option \<Rightarrow> OneAgentStatus \<Rightarrow> bool \<times> OneAgentStatus" where
  "SetPhaseOnError err oa = (if err \<noteq> None then SetPhase PhaseError oa else (False, oa))"

section \<open>oneagentapm\_types.go\<close>

record OneAgentAPMSpec = BaseOneAgentSpec +
  apm_Image :: string
  apm_AgentVersion :: string
  apm_Resources :: ResourceRequirements
  apm_Flavor :: string

type_synonym OneAgentAPMStatus = BaseOneAgentStatus

type_synonym OneAgentAPM = "(OneAgentAPMSpec, OneAgentAPMStatus) custom_resource"

section \<open>Updating the status of a resource\<close>

abbreviation update_status :: "('t \<Rightarrow> 't) \<Rightarrow> ('s, 't) custom_resource \<Rightarrow> ('s, 't) custom_resource" where
  "update_status f oa \<equiv> oa\<lparr>cr_Status := f (cr_Status oa)\<rparr>"

lemma SetPhase_unchanged: "SetPhase p oa = (False, oa') \<Longrightarrow> oa' = oa"
  by (auto simp: SetPhase_def)

lemma SetPhase_changed: "fst (SetPhase p oa) \<longleftrightarrow> snd (SetPhase p oa) \<noteq> oa"
  by (auto simp: SetPhase_def dest!: arg_cong [where f = st_Phase])

text \<open>Empty resources, for concrete inputs.\<close>

definition empty_spec :: OneAgentSpec where
  "empty_spec = \<lparr>sp_APIURL = [], sp_Tokens = [], sp_SkipCertCheck = False, sp_EnableIstio = False,
     sp_Proxy = None, sp_TrustedCAs = [], sp_NetworkZone = [], sp_UseImmutableImage = False,
     sp_NodeSelector = Map.empty, sp_Tolerations = [], sp_WaitReadySeconds = None, sp_Image = [],
     sp_AgentVersion = [], sp_CustomPullSecret = [],
     sp_Resources = \<lparr>rr_Limits = Map.empty, rr_Requests = None\<rparr>,
     sp_WebhookInjection = False, sp_Args = [], sp_Env = [], sp_PriorityClassName = [],
     sp_DisableAgentUpdate = False, sp_DNSPolicy = [], sp_ServiceAccountName = [],
     sp_Labels = Map.empty, sp_UseUnprivilegedMode = None\<rparr>"

definition empty_base_status :: BaseOneAgentStatus where
  "empty_base_status = \<lparr>st_UpdatedTimestamp = zero_time, st_Conditions = [],
     st_LastAPITokenProbeTimestamp = None, st_LastPaaSTokenProbeTimestamp = None,
     st_EnvironmentID = [], st_Tokens = [], st_UseImmutableImage = False\<rparr>"

definition empty_status :: OneAgentStatus where
  "empty_status = \<lparr>st_UpdatedTimestamp = zero_time, st_Conditions = [],
     st_LastAPITokenProbeTimestamp = None, st_LastPaaSTokenProbeTimestamp = None,
     st_EnvironmentID = [], st_Tokens = [], st_UseImmutableImage = False,
     st_Version = [], st_Instances = None, st_Phase = PhaseUnset,
     st_LastUpdateProbeTimestamp = None, st_ImageHash = [], st_ImageVersion = [],
     st_LastImageVersionProbeTimestamp = None\<rparr>"

definition empty_oneagent :: "string \<Rightarrow> string \<Rightarrow> OneAgent" where
  "empty_oneagent name ns =
     \<lparr>cr_Name = name, cr_Namespace = ns, cr_Spec = empty_spec, cr_Status = empty_status\<rparr>"

definition empty_apm :: "string \<Rightarrow> string \<Rightarrow> OneAgentAPM" where
  "empty_apm name ns =
     \<lparr>cr_Name = name, cr_Namespace = ns,
      cr_Spec = \<lparr>sp_APIURL = [], sp_Tokens = [], sp_SkipCertCheck = False, sp_EnableIstio = False,
        sp_Proxy = None, sp_TrustedCAs = [], sp_NetworkZone = [], sp_UseImmutableImage = False,
        apm_Image = [], apm_AgentVersion = [],
        apm_Resources = \<lparr>rr_Limits = Map.empty, rr_Requests = None\<rparr>, apm_Flavor = []\<rparr>,
      cr_Status = empty_base_status\<rparr>"

lemmas empty_resources =
  empty_spec_def empty_base_status_def empty_status_def empty_oneagent_def empty_apm_def

end
