(* ===== verification/Dt_Client.thy ===== *)
theory Dt_Client
  imports Api_Types "HOL-Library.Signed_Division"
begin

text \<open>
  The Dynatrace REST client (dtclient): authentication of requests, the classification of
  responses, the cache of hosts by IP address, and the readers of the endpoints' answers.
  The HTTP transport, \<open>url.ParseRequestURI\<close> and \<open>encoding/json\<close> are parameters: a record
  of functions over an abstract world, which every call may change.
\<close>

section \<open>Parameters: transport and codecs\<close>

record http_request =
  rq_Method :: string
  rq_URL :: string
  rq_Headers :: "(string \<times> string) list"
  rq_Body :: string

text \<open>The body is what \<open>ioutil.ReadAll\<close> makes of it: an error or the bytes.\<close>

record http_response =
  rs_Body :: "go_error + string"
  rs_StatusCode :: int

record 'w transport =
  ht_NewRequest :: "string \<Rightarrow> string \<Rightarrow> go_error option"
  ht_Do :: "http_request \<Rightarrow> 'w \<Rightarrow> (go_error + http_response) \<times> 'w"
  ht_Now :: "'w \<Rightarrow> time \<times> 'w"

record agent_version_parts =
  av_Major :: int
  av_Minor :: int
  av_Revision :: int
  av_Timestamp :: string

record hostInfoResponse =
  hr_IPAddresses :: "string list"
  hr_AgentVersion :: "agent_version_parts option"
  hr_EntityID :: string
  hr_NetworkZoneID :: string
  hr_LastSeenTimestamp :: int

record EventData =
  evd_EventType :: string
  evd_StartInMillis :: "64 word"
  evd_EndInMillis :: "64 word"
  evd_Description :: string
  evd_EntityIDs :: "string list"
  evd_Source :: string

text \<open>\<open>url.URL\<close>, its fields that are read.\<close>

record go_url =
  u_Scheme :: string
  u_Host :: string

record codec =
  js_hosts :: "string \<Rightarrow> go_error + hostInfoResponse list"
  js_server_error :: "string \<Rightarrow> go_error + (int \<times> string)"
  js_latest_version :: "string \<Rightarrow> go_error + string"
  js_connection_info :: "string \<Rightarrow> go_error + (string \<times> string list)"
  js_scopes :: "string \<Rightarrow> go_error + string list"
  js_cluster :: "string \<Rightarrow> go_error + string"
  js_token :: "string \<Rightarrow> string"
  js_event :: "EventData \<Rightarrow> string"
  parse_uri :: "string \<Rightarrow> go_url option"

section \<open>The client\<close>

record hostInfo =
  hi_version :: string
  hi_entityID :: string

record dynatraceClient =
  dc_url :: string
  dc_apiToken :: string
  dc_paasToken :: string
  dc_networkZone :: string
  dc_hostCache :: "string \<rightharpoonup> hostInfo"
  dc_now :: time

datatype tokenType = dynatraceApiToken | dynatracePaaSToken

text \<open>The options that \<open>NewClient\<close> accepts; only the network zone is read by the client's own code.\<close>

datatype client_option =
    OptSkipCertificateValidation bool
  | OptProxy string
  | OptCerts string
  | OptNetworkZone string

fun apply_option :: "client_option \<Rightarrow> dynatraceClient \<Rightarrow> dynatraceClient" where
  "apply_option (OptNetworkZone z) c = c\<lparr>dc_networkZone := z\<rparr>"
| "apply_option (OptSkipCertificateValidation _) c = c"
| "apply_option (OptProxy _) c = c"
| "apply_option (OptCerts _) c = c"

definition NewClient ::
  "string \<Rightarrow> string \<Rightarrow> string \<Rightarrow> client_option list \<Rightarrow> go_error + dynatraceClient" where
  "NewClient url apiToken paasToken opts =
     (if url = [] then Inl (ErrMsg ''url is empty'')
      else if apiToken = [] \<and> paasToken = [] then Inl (ErrMsg ''tokens are empty'')
      else Inr (foldl (\<lambda>c opt. apply_option opt c)
        \<lparr>dc_url = (if HasSuffix url ''/'' then take (length url - 1) url else url),
         dc_apiToken = apiToken, dc_paasToken = paasToken, dc_networkZone = [],
         dc_hostCache = Map.empty, dc_now = zero_time\<rparr> opts))"

definition auth_header :: "string \<Rightarrow> string \<times> string" where
  "auth_header token = (''Authorization'', ''Api-Token '' @ token)"

definition token_of :: "dynatraceClient \<Rightarrow> tokenType \<Rightarrow> string" where
  "token_of dc tt = (case tt of dynatraceApiToken \<Rightarrow> dc_apiToken dc | dynatracePaaSToken \<Rightarrow> dc_paasToken dc)"

definition makeRequest ::
  "'w transport \<Rightarrow> dynatraceClient \<Rightarrow> string \<Rightarrow> tokenType \<Rightarrow> 'w \<Rightarrow> (go_error + http_response) \<times> 'w" where
  "makeRequest H dc url tt w =
     (case ht_NewRequest H ''GET'' url of
        Some e \<Rightarrow> (Inl (ErrMsg ''error initializing http request''), w)
      | None \<Rightarrow>
          (case tt of
             dynatraceApiToken \<Rightarrow>
               (if dc_apiToken dc = []
                then (Inl (ErrMsg (''not able to set token since api token is empty for request: '' @ url)), w)
                else ht_Do H \<lparr>rq_Method = ''GET'', rq_URL = url,
                  rq_Headers = [auth_header (dc_apiToken dc)], rq_Body = []\<rparr> w)
           | dynatracePaaSToken \<Rightarrow>
               (if dc_paasToken dc = []
                then (Inl (ErrMsg (''not able to set token since paas token is empty for request: '' @ url)), w)
                else ht_Do H \<lparr>rq_Method = ''GET'', rq_URL = url,
                  rq_Headers = [auth_header (dc_paasToken dc)], rq_Body = []\<rparr> w)))"

definition handleErrorResponseFromAPI :: "codec \<Rightarrow> string \<Rightarrow> int \<Rightarrow> go_error" where
  "handleErrorResponseFromAPI J response statusCode =
     (case js_server_error J response of
        Inl e \<Rightarrow> Wrapped (''response error: '' @ Itoa statusCode @ '', can't unmarshal json response'') e
      | Inr (code, msg) \<Rightarrow> ServerErr code msg)"

definition getServerResponseData :: "codec \<Rightarrow> http_response \<Rightarrow> go_error + string" where
  "getServerResponseData J response =
     (case rs_Body response of
        Inl e \<Rightarrow> Inl (Wrapped ''error reading response'' e)
      | Inr responseData \<Rightarrow>
          (if rs_StatusCode response \<noteq> StatusOK
           then Inl (handleErrorResponseFromAPI J responseData (rs_StatusCode response))
           else Inr responseData))"

text \<open>\<open>ServerError.Error()\<close>\<close>

definition ServerError_Error :: "int \<Rightarrow> string \<Rightarrow> string" where
  "ServerError_Error code msg =
     (if msg = [] \<and> code = 0 then ''unknown server error''
      else ''dynatrace server error '' @ Itoa code @ '': '' @ msg)"

text \<open>A GET request and the data of its answer: the common start of the readers below.\<close>

definition get_data ::
  "'w transport \<Rightarrow> codec \<Rightarrow> dynatraceClient \<Rightarrow> string \<Rightarrow> tokenType \<Rightarrow> 'w \<Rightarrow> (go_error + string) \<times> 'w" where
  "get_data H J dc url tt w =
     (case makeRequest H dc url tt w of
        (Inl e, w1) \<Rightarrow> (Inl e, w1)
      | (Inr resp, w1) \<Rightarrow> (getServerResponseData J resp, w1))"

section \<open>The host cache\<close>

text \<open>
  \<open>time.Unix(info.LastSeenTimestamp/1000, 0)\<close>: Go's division truncates towards zero.
\<close>

definition last_seen :: "hostInfoResponse \<Rightarrow> time" where
  "last_seen info = (hr_LastSeenTimestamp info sdiv 1000) * Second"

definition is_inactive :: "time \<Rightarrow> hostInfoResponse \<Rightarrow> bool" where
  "is_inactive now info = (last_seen info < now - 30 * Minute)"

definition zone_matches :: "string \<Rightarrow> hostInfoResponse \<Rightarrow> bool" where
  "zone_matches zone info =
     (let nz = hr_NetworkZoneID info
      in zone \<noteq> [] \<and> nz = zone \<or> zone = [] \<and> (nz = ''default'' \<or> nz = []))"

definition version_text :: "agent_version_parts \<Rightarrow> string" where
  "version_text v =
     Itoa (av_Major v) @ ''.'' @ Itoa (av_Minor v) @ ''.'' @ Itoa (av_Revision v) @ ''.'' @ av_Timestamp v"

definition host_info_of :: "hostInfoResponse \<Rightarrow> hostInfo" where
  "host_info_of info =
     \<lparr>hi_version = (case hr_AgentVersion info of None \<Rightarrow> [] | Some v \<Rightarrow> version_text v),
      hi_entityID = hr_EntityID info\<rparr>"

text \<open>The body of the loop over the hosts of the answer.\<close>

definition add_host :: "time \<Rightarrow> string \<Rightarrow> (string \<rightharpoonup> hostInfo) \<Rightarrow> hostInfoResponse \<Rightarrow> (string \<rightharpoonup> hostInfo)" where
  "add_host now zone cache info =
     (if is_inactive now info then cache
      else if zone_matches zone info
           then foldl (\<lambda>c ip. c(ip \<mapsto> host_info_of info)) cache (hr_IPAddresses info)
           else cache)"

definition setHostCacheFromResponse ::
  "'w transport \<Rightarrow> codec \<Rightarrow> string \<Rightarrow> dynatraceClient \<Rightarrow> 'w \<Rightarrow> go_error option \<times> dynatraceClient \<times> 'w" where
  "setHostCacheFromResponse H J response dc w =
     (let dc0 = dc\<lparr>dc_hostCache := Map.empty\<rparr>
      in case js_hosts J response of
           Inl e \<Rightarrow> (Some e, dc0, w)
         | Inr infos \<Rightarrow>
             (let (now, w1) = (if IsZero (dc_now dc) then ht_Now H w else (dc_now dc, w))
              in (None, dc0\<lparr>dc_hostCache := foldl (add_host now (dc_networkZone dc)) Map.empty infos\<rparr>, w1)))"

definition buildHostCache ::
  "'w transport \<Rightarrow> codec \<Rightarrow> dynatraceClient \<Rightarrow> 'w \<Rightarrow> go_error option \<times> dynatraceClient \<times> 'w" where
  "buildHostCache H J dc w =
     (case makeRequest H dc (dc_url dc @ ''/v1/entity/infrastructure/hosts?includeDetails=false'') dynatraceApiToken w of
        (Inl e, w1) \<Rightarrow> (Some e, dc, w1)
      | (Inr resp, w1) \<Rightarrow>
          (case getServerResponseData J resp of
             Inl e \<Rightarrow> (Some e, dc, w1)
           | Inr responseData \<Rightarrow> setHostCacheFromResponse H J responseData dc w1))"

definition getHostInfoForIP ::
  "'w transport \<Rightarrow> codec \<Rightarrow> string \<Rightarrow> dynatraceClient \<times> 'w \<Rightarrow> (go_error + hostInfo) \<times> dynatraceClient \<times> 'w" where
  "getHostInfoForIP H J ip s =
     (let (err, dc, w) =
        (if dc_hostCache (fst s) = Map.empty then buildHostCache H J (fst s) (snd s)
         else (None, fst s, snd s))
      in case err of
           Some e \<Rightarrow> (Inl (Wrapped ''error building hostcache from dynatrace cluster'' e), dc, w)
         | None \<Rightarrow>
             (case dc_hostCache dc ip of
                None \<Rightarrow> (Inl (ErrMsg ''host not found''), dc, w)
              | Some hi \<Rightarrow> (Inr hi, dc, w)))"

definition GetAgentVersionForIP ::
  "'w transport \<Rightarrow> codec \<Rightarrow> string \<Rightarrow> dynatraceClient \<times> 'w \<Rightarrow> (go_error + string) \<times> dynatraceClient \<times> 'w" where
  "GetAgentVersionForIP H J ip s =
     (if ip = [] then (Inl (ErrMsg ''ip is invalid''), s)
      else case getHostInfoForIP H J ip s of
             (Inl e, s1) \<Rightarrow> (Inl e, s1)
           | (Inr hi, s1) \<Rightarrow>
               (if hi_version hi = [] then (Inl (ErrMsg ''agent version not set for host''), s1)
                else (Inr (hi_version hi), s1)))"

definition GetEntityIDForIP ::
  "'w transport \<Rightarrow> codec \<Rightarrow> string \<Rightarrow> dynatraceClient \<times> 'w \<Rightarrow> (go_error + string) \<times> dynatraceClient \<times> 'w" where
  "GetEntityIDForIP H J ip s =
     (if ip = [] then (Inl (ErrMsg ''ip is invalid''), s)
      else case getHostInfoForIP H J ip s of
             (Inl e, s1) \<Rightarrow> (Inl e, s1)
           | (Inr hi, s1) \<Rightarrow>
               (if hi_entityID hi = [] then (Inl (ErrMsg ''entity id not set for host''), s1)
                else (Inr (hi_entityID hi), s1)))"

section \<open>The other endpoints\<close>

definition readResponseForLatestVersion :: "codec \<Rightarrow> string \<Rightarrow> go_error + string" where
  "readResponseForLatestVersion J response =
     (case js_latest_version J response of
        Inl e \<Rightarrow> Inl e
      | Inr v \<Rightarrow> (if v = [] then Inl (ErrMsg ''agent version not set'') else Inr v))"

definition GetLatestAgentVersion ::
  "'w transport \<Rightarrow> codec \<Rightarrow> string \<Rightarrow> string \<Rightarrow> dynatraceClient \<times> 'w \<Rightarrow> (go_error + string) \<times> dynatraceClient \<times> 'w" where
  "GetLatestAgentVersion H J os installerType s =
     (if os = [] \<or> installerType = [] then (Inl (ErrMsg ''os or installerType is empty''), s)
      else let (dc, w) = s;
               url = dc_url dc @ ''/v1/deployment/installer/agent/'' @ os @ ''/'' @ installerType @ ''/latest/metainfo''
           in case get_data H J dc url dynatracePaaSToken w of
                (Inl e, w1) \<Rightarrow> (Inl e, dc, w1)
              | (Inr data, w1) \<Rightarrow> (readResponseForLatestVersion J data, dc, w1))"

definition GetClusterInfo ::
  "'w transport \<Rightarrow> codec \<Rightarrow> dynatraceClient \<times> 'w \<Rightarrow> (go_error + string) \<times> dynatraceClient \<times> 'w" where
  "GetClusterInfo H J s =
     (let (dc, w) = s
      in case get_data H J dc (dc_url dc @ ''/v1/config/clusterversion'') dynatraceApiToken w of
           (Inl e, w1) \<Rightarrow> (Inl e, dc, w1)
         | (Inr data, w1) \<Rightarrow> (js_cluster J data, dc, w1))"

text \<open>\<open>TokenScopes.Contains\<close>\<close>

fun TokenScopes_Contains :: "string list \<Rightarrow> string \<Rightarrow> bool" where
  "TokenScopes_Contains [] scope = False"
| "TokenScopes_Contains (x # s) scope = (if x = scope then True else TokenScopes_Contains s scope)"

definition readResponseForTokenScopes :: "codec \<Rightarrow> string \<Rightarrow> go_error + string list" where
  "readResponseForTokenScopes J response =
     (case js_scopes J response of
        Inl e \<Rightarrow> Inl (Wrapped ''error unmarshalling json response'' e)
      | Inr ss \<Rightarrow> Inr ss)"

definition post_headers :: "string \<Rightarrow> (string \<times> string) list" where
  "post_headers token = [(''Content-Type'', ''application/json''), auth_header token]"

definition GetTokenScopes ::
  "'w transport \<Rightarrow> codec \<Rightarrow> string \<Rightarrow> dynatraceClient \<times> 'w \<Rightarrow> (go_error + string list) \<times> dynatraceClient \<times> 'w" where
  "GetTokenScopes H J token s =
     (let (dc, w) = s; url = dc_url dc @ ''/v1/tokens/lookup''
      in case ht_NewRequest H ''POST'' url of
           Some e \<Rightarrow> (Inl (Wrapped ''error initializing http request'' e), dc, w)
         | None \<Rightarrow>
             (case ht_Do H \<lparr>rq_Method = ''POST'', rq_URL = url, rq_Headers = post_headers token,
                            rq_Body = js_token J token\<rparr> w of
                (Inl e, w1) \<Rightarrow> (Inl (Wrapped ''error making post request to dynatrace api'' e), dc, w1)
              | (Inr resp, w1) \<Rightarrow>
                  (case getServerResponseData J resp of
                     Inl e \<Rightarrow> (Inl e, dc, w1)
                   | Inr data \<Rightarrow> (readResponseForTokenScopes J data, dc, w1))))"

text \<open>A nil argument of \<open>SendEvent\<close> is None.\<close>

definition SendEvent ::
  "'w transport \<Rightarrow> codec \<Rightarrow> EventData option \<Rightarrow> dynatraceClient \<times> 'w \<Rightarrow> go_error option \<times> dynatraceClient \<times> 'w" where
  "SendEvent H J eventData s =
     (let (dc, w) = s; url = dc_url dc @ ''/v1/events''
      in case eventData of
           None \<Rightarrow> (Some (ErrMsg ''no data found in eventData payload''), dc, w)
         | Some ed \<Rightarrow>
             (if evd_EventType ed = [] then (Some (ErrMsg ''no key set for eventType in eventData payload''), dc, w)
              else case ht_NewRequest H ''POST'' url of
                Some e \<Rightarrow> (Some (ErrMsg ''error initializing http request''), dc, w)
              | None \<Rightarrow>
                  (case ht_Do H \<lparr>rq_Method = ''POST'', rq_URL = url,
                        rq_Headers = post_headers (dc_apiToken dc), rq_Body = js_event J ed\<rparr> w of
                     (Inl e, w1) \<Rightarrow> (Some (ErrMsg ''error making post request to dynatrace api''), dc, w1)
                   | (Inr resp, w1) \<Rightarrow>
                       (case getServerResponseData J resp of
                          Inl e \<Rightarrow> (Some e, dc, w1)
                        | Inr _ \<Rightarrow> (None, dc, w1)))))"

section \<open>Communication hosts\<close>

record CommunicationHost =
  ch_Protocol :: string
  ch_Host :: string
  ch_Port :: "32 word"

record ConnectionInfo =
  ci_CommunicationHosts :: "CommunicationHost list"
  ci_TenantUUID :: string

text \<open>
  \<open>URL.Hostname()\<close> and \<open>URL.Port()\<close> (net/url, \<open>splitHostPort\<close>): the text after the last
  colon is the port when it is made of digits; the brackets of an IPv6 literal are removed.
\<close>

definition last_index :: "char \<Rightarrow> string \<Rightarrow> nat option" where
  "last_index c s =
     (if c \<in> set s then Some (length s - 1 - length (takeWhile (\<lambda>x. x \<noteq> c) (rev s))) else None)"

definition splitHostPort :: "string \<Rightarrow> string \<times> string" where
  "splitHostPort hostport =
     (let (host, port) =
        (case last_index CHR '':'' hostport of
           None \<Rightarrow> (hostport, [])
         | Some i \<Rightarrow>
             (if list_all is_digit (drop (i + 1) hostport)
              then (take i hostport, drop (i + 1) hostport) else (hostport, [])))
      in (if HasPrefix host ''['' \<and> HasSuffix host '']'' then (butlast (drop 1 host), port)
          else (host, port)))"

definition parseEndpoint :: "codec \<Rightarrow> string \<Rightarrow> go_error + CommunicationHost" where
  "parseEndpoint J s =
     (case parse_uri J s of
        None \<Rightarrow> Inl (ErrMsg ''failed to parse URL'')
      | Some u \<Rightarrow>
          (if u_Scheme u = [] then Inl (ErrMsg ''no protocol provided'')
           else if u_Scheme u \<noteq> ''http'' \<and> u_Scheme u \<noteq> ''https'' then Inl (ErrMsg ''unknown protocol'')
           else let rp = snd (splitHostPort (u_Host u)); host = fst (splitHostPort (u_Host u))
                in if rp = []
                   then Inr \<lparr>ch_Protocol = u_Scheme u, ch_Host = host,
                             ch_Port = (if u_Scheme u = ''http'' then 80 else 443)\<rparr>
                   else case ParseUint32 rp of
                          None \<Rightarrow> Inl (ErrMsg ''failed to parse port'')
                        | Some q \<Rightarrow> Inr \<lparr>ch_Protocol = u_Scheme u, ch_Host = host, ch_Port = q\<rparr>))"

definition GetCommunicationHostForClient :: "codec \<Rightarrow> dynatraceClient \<Rightarrow> go_error + CommunicationHost" where
  "GetCommunicationHostForClient J dc = parseEndpoint J (dc_url dc)"

text \<open>The loop of \<open>readResponseForConnectionInfo\<close>: endpoints that do not parse are skipped.\<close>

fun parse_endpoints :: "codec \<Rightarrow> string list \<Rightarrow> CommunicationHost list" where
  "parse_endpoints J [] = []"
| "parse_endpoints J (s # ss) =
     (case parseEndpoint J s of Inl _ \<Rightarrow> parse_endpoints J ss | Inr e \<Rightarrow> e # parse_endpoints J ss)"

definition readResponseForConnectionInfo :: "codec \<Rightarrow> string \<Rightarrow> go_error + ConnectionInfo" where
  "readResponseForConnectionInfo J response =
     (case js_connection_info J response of
        Inl e \<Rightarrow> Inl e
      | Inr (t, endpoints) \<Rightarrow>
          (let ch = parse_endpoints J endpoints
           in if ch = [] then Inl (ErrMsg ''no communication hosts available'')
              else Inr \<lparr>ci_CommunicationHosts = ch, ci_TenantUUID = t\<rparr>))"

definition GetConnectionInfo ::
  "'w transport \<Rightarrow> codec \<Rightarrow> dynatraceClient \<times> 'w \<Rightarrow> (go_error + ConnectionInfo) \<times> dynatraceClient \<times> 'w" where
  "GetConnectionInfo H J s =
     (let (dc, w) = s
      in case get_data H J dc (dc_url dc @ ''/v1/deployment/installer/agent/connectioninfo'') dynatracePaaSToken w of
           (Inl e, w1) \<Rightarrow> (Inl e, dc, w1)
         | (Inr data, w1) \<Rightarrow> (readResponseForConnectionInfo J data, dc, w1))"


section \<open>Lemmas: requests and responses\<close>

lemma getServerResponseData_Inr:
  "getServerResponseData J resp = Inr d \<longleftrightarrow> rs_Body resp = Inr d \<and> rs_StatusCode resp = StatusOK"
  by (auto simp: getServerResponseData_def split: sum.splits)

lemma getServerResponseData_server_error:
  "rs_Body resp = Inr b \<Longrightarrow> rs_StatusCode resp \<noteq> StatusOK \<Longrightarrow> js_server_error J b = Inr (c, m) \<Longrightarrow>
   getServerResponseData J resp = Inl (ServerErr c m)"
  by (simp add: getServerResponseData_def handleErrorResponseFromAPI_def)

section \<open>Lemmas: the host cache\<close>

definition serves_ip :: "time \<Rightarrow> string \<Rightarrow> string \<Rightarrow> hostInfoResponse \<Rightarrow> bool" where
  "serves_ip now zone ip info =
     (\<not> is_inactive now info \<and> zone_matches zone info \<and> ip \<in> set (hr_IPAddresses info))"

lemma foldl_const_upd: "foldl (\<lambda>c ip. c(ip \<mapsto> v)) m ips ip = (if ip \<in> set ips then Some v else m ip)"
  by (induction ips arbitrary: m) auto

lemma add_host_lookup:
  "add_host now zone c info ip =
     (if serves_ip now zone ip info then Some (host_info_of info) else c ip)"
  by (simp add: add_host_def serves_ip_def foldl_const_upd)

lemma host_cache_last_match:
  "foldl (add_host now zone) c infos ip =
     (case List.find (serves_ip now zone ip) (rev infos) of
        None \<Rightarrow> c ip | Some info \<Rightarrow> Some (host_info_of info))"
proof (induction infos rule: rev_induct)
  case Nil
  then show ?case by simp
next
  case (snoc info infos)
  then show ?case by (simp add: add_host_lookup)
qed

lemma getHostInfoForIP_cached:
  "dc_hostCache dc \<noteq> Map.empty \<Longrightarrow>
   getHostInfoForIP H J ip (dc, w) =
     ((case dc_hostCache dc ip of None \<Rightarrow> Inl (ErrMsg ''host not found'') | Some hi \<Rightarrow> Inr hi), dc, w)"
  by (simp add: getHostInfoForIP_def split: option.splits)

lemma getHostInfoForIP_Inr:
  "getHostInfoForIP H J ip s = (Inr hi, s') \<Longrightarrow> dc_hostCache (fst s') ip = Some hi"
  by (auto simp: getHostInfoForIP_def Let_def split: prod.splits option.splits if_splits)

lemma getHostInfoForIP_Inr_cached:
  assumes "getHostInfoForIP H J ip s = (Inr hi, dc, w)"
  shows "getHostInfoForIP H J ip' (dc, w) =
     ((case dc_hostCache dc ip' of None \<Rightarrow> Inl (ErrMsg ''host not found'') | Some hi \<Rightarrow> Inr hi), dc, w)"
proof (rule getHostInfoForIP_cached)
  show "dc_hostCache dc \<noteq> Map.empty"
    using getHostInfoForIP_Inr [OF assms] by auto
qed

lemma lookup_empty_ip:
  "GetAgentVersionForIP H J [] s = (Inl (ErrMsg ''ip is invalid''), s)"
  "GetEntityIDForIP H J [] s = (Inl (ErrMsg ''ip is invalid''), s)"
  by (simp_all add: GetAgentVersionForIP_def GetEntityIDForIP_def)

lemma GetAgentVersionForIP_Inr:
  "GetAgentVersionForIP H J ip s = (Inr v, s') \<Longrightarrow>
   ip \<noteq> [] \<and> v \<noteq> [] \<and> (\<exists>hi. dc_hostCache (fst s') ip = Some hi \<and> hi_version hi = v)"
  by (auto simp: GetAgentVersionForIP_def split: if_splits prod.splits sum.splits
      dest!: getHostInfoForIP_Inr)

lemma GetEntityIDForIP_Inr:
  "GetEntityIDForIP H J ip s = (Inr v, s') \<Longrightarrow>
   ip \<noteq> [] \<and> v \<noteq> [] \<and> (\<exists>hi. dc_hostCache (fst s') ip = Some hi \<and> hi_entityID hi = v)"
  by (auto simp: GetEntityIDForIP_def split: if_splits prod.splits sum.splits
      dest!: getHostInfoForIP_Inr)

lemma GetLatestAgentVersion_Inr:
  "GetLatestAgentVersion H J os it s = (Inr v, s') \<Longrightarrow> v \<noteq> []"
  by (auto simp: GetLatestAgentVersion_def readResponseForLatestVersion_def Let_def
      split: if_splits prod.splits sum.splits)

lemma lookup_keeps_nonempty_cache:
  assumes "dc_hostCache (fst s) \<noteq> Map.empty"
  shows "snd (GetAgentVersionForIP H J ip s) = s" and "snd (GetEntityIDForIP H J ip s) = s"
  using assms
  by (cases s, auto simp: GetAgentVersionForIP_def GetEntityIDForIP_def getHostInfoForIP_cached
      split: option.splits)+

lemma buildHostCache_server_error:
  assumes "ht_NewRequest H ''GET'' (dc_url dc @ ''/v1/entity/infrastructure/hosts?includeDetails=false'') = None"
    and "dc_apiToken dc \<noteq> []"
    and "\<And>rq. ht_Do H rq w = (Inr resp, w1)"
    and "rs_Body resp = Inr b" and "rs_StatusCode resp \<noteq> StatusOK"
    and "js_server_error J b = Inr (c, m)"
  shows "buildHostCache H J dc w = (Some (ServerErr c m), dc, w1)"
  using assms by (simp add: buildHostCache_def makeRequest_def getServerResponseData_server_error)

section \<open>Lemmas: endpoints\<close>

lemma parse_endpoints_eq:
  "parse_endpoints J ss = map (\<lambda>s. projr (parseEndpoint J s)) (filter (\<lambda>s. \<not> isl (parseEndpoint J s)) ss)"
  by (induction ss) (auto split: sum.splits)

lemma parseEndpoint_Inr:
  assumes "parseEndpoint J s = Inr h"
  obtains u where "parse_uri J s = Some u" "ch_Protocol h = u_Scheme u"
    "ch_Host h = fst (splitHostPort (u_Host u))" "ch_Protocol h = ''http'' \<or> ch_Protocol h = ''https''"
    "snd (splitHostPort (u_Host u)) = [] \<and> ch_Port h = (if ch_Protocol h = ''http'' then 80 else 443) \<or>
     ParseUint32 (snd (splitHostPort (u_Host u))) = Some (ch_Port h)"
  using assms
  by (auto simp: parseEndpoint_def Let_def split: option.splits if_splits)

lemma last_index_no [simp]: "c \<notin> set s \<Longrightarrow> last_index c s = None"
  by (simp add: last_index_def)

lemma last_index_append:
  assumes "c \<notin> set t"
  shows "last_index c (h @ c # t) = Some (length h)"
proof -
  have "takeWhile (\<lambda>x. x \<noteq> c) (rev (h @ c # t)) = rev t"
    using assms by (simp add: takeWhile_append takeWhile_eq_all_conv)
  then show ?thesis by (simp add: last_index_def)
qed

lemma splitHostPort_port:
  assumes "CHR '':'' \<notin> set h" and "hd h \<noteq> CHR ''['' \<or> h = []" and "list_all is_digit p"
  shows "splitHostPort (h @ '':'' @ p) = (h, p)"
proof -
  have "CHR '':'' \<notin> set p" using assms(3) by (auto simp: list_all_iff is_digit_def)
  from last_index_append [OF this, of h] have li: "last_index CHR '':'' (h @ '':'' @ p) = Some (length h)" by simp
  have "\<not> (HasPrefix h ''['' \<and> HasSuffix h '']'')"
    using assms(2) by (cases h) (auto simp: HasPrefix_iff)
  with li assms(3) show ?thesis by (auto simp: splitHostPort_def)
qed

section \<open>The contract of the client that controllers use\<close>

text \<open>
  What dtclient/client.go promises in the comments of its interface \<open>Client\<close> about the
  three lookups by which the controllers learn versions and entities: an answer is never
  empty, and an empty address or an empty argument is an error.
\<close>

locale agent_client =
  fixes agent_version :: "string \<Rightarrow> 's \<Rightarrow> (go_error + string) \<times> 's"
    and entity_id :: "string \<Rightarrow> 's \<Rightarrow> (go_error + string) \<times> 's"
    and latest_version :: "string \<Rightarrow> string \<Rightarrow> 's \<Rightarrow> (go_error + string) \<times> 's"
  assumes version_nonempty: "agent_version ip s = (Inr v, s') \<Longrightarrow> v \<noteq> []"
    and version_needs_ip: "agent_version [] s = (r, s') \<Longrightarrow> isl r"
    and entity_nonempty: "entity_id ip s = (Inr v, s') \<Longrightarrow> v \<noteq> []"
    and entity_needs_ip: "entity_id [] s = (r, s') \<Longrightarrow> isl r"
    and latest_nonempty: "latest_version os it s = (Inr v, s') \<Longrightarrow> v \<noteq> []"
begin

lemma version_ok_args: "agent_version ip s = (Inr v, s') \<Longrightarrow> ip \<noteq> [] \<and> v \<noteq> []"
  using version_nonempty version_needs_ip by fastforce

lemma entity_ok_args: "entity_id ip s = (Inr v, s') \<Longrightarrow> ip \<noteq> [] \<and> v \<noteq> []"
  using entity_nonempty entity_needs_ip by fastforce

end

interpretation dtc: agent_client
  "GetAgentVersionForIP H J" "GetEntityIDForIP H J" "GetLatestAgentVersion H J" for H J
  by unfold_locales
    (fastforce dest: GetAgentVersionForIP_Inr GetEntityIDForIP_Inr GetLatestAgentVersion_Inr
      simp: lookup_empty_ip)+

section \<open>Properties\<close>

text \<open>C32: After an answer of the hosts endpoint was read, the cache holds for every address
  exactly the last host of the answer that lists the address, was seen in the last thirty
  minutes and belongs to the client's network zone (no zone: the default zone).\<close>

theorem host_cache_correct:
  assumes "js_hosts J response = Inr infos"
    and "(now, w1) = (if IsZero (dc_now dc) then ht_Now H w else (dc_now dc, w))"
  shows "\<exists>dc'. setHostCacheFromResponse H J response dc w = (None, dc', w1) \<and>
     (\<forall>ip. dc_hostCache dc' ip =
        map_option host_info_of (List.find (serves_ip now (dc_networkZone dc) ip) (rev infos)))"
  using assms
  by (auto simp: setHostCacheFromResponse_def Let_def host_cache_last_match
      split: prod.splits option.splits if_splits)

definition sample_codec :: codec where
  "sample_codec =
     \<lparr>js_hosts = (\<lambda>_. Inr
        [\<lparr>hr_IPAddresses = [''1.1.1.1'', ''1.2.3.4''], hr_AgentVersion = None, hr_EntityID = ''HOST-1'',
          hr_NetworkZoneID = [], hr_LastSeenTimestamp = 0\<rparr>,
         \<lparr>hr_IPAddresses = [''1.2.3.4''],
          hr_AgentVersion = Some \<lparr>av_Major = 1, av_Minor = 202, av_Revision = 0, av_Timestamp = ''20190101-000000''\<rparr>,
          hr_EntityID = ''HOST-2'', hr_NetworkZoneID = ''default'', hr_LastSeenTimestamp = 60000\<rparr>]),
      js_server_error = (\<lambda>_. Inr (429, ''too many requests'')),
      js_latest_version = (\<lambda>s. Inr s),
      js_connection_info = (\<lambda>_. Inr (''tenant'', [''bad'', ''https://abc.com:8080/x''])),
      js_scopes = (\<lambda>_. Inr [''DataExport'']),
      js_cluster = (\<lambda>s. Inr s),
      js_token = (\<lambda>t. t),
      js_event = (\<lambda>_. []),
      parse_uri = (\<lambda>s. if s = ''https://abc.com:8080/x''
                         then Some \<lparr>u_Scheme = ''https'', u_Host = ''abc.com:8080''\<rparr> else None)\<rparr>"

text \<open>A transport that answers every request with the given status; its world counts requests.\<close>

definition sample_transport :: "int \<Rightarrow> nat transport" where
  "sample_transport code =
     \<lparr>ht_NewRequest = (\<lambda>m u. None),
      ht_Do = (\<lambda>rq w. (Inr \<lparr>rs_Body = Inr ''{}'', rs_StatusCode = code\<rparr>, Suc w)),
      ht_Now = (\<lambda>w. (0, w))\<rparr>"

definition sample_client :: dynatraceClient where
  "sample_client = \<lparr>dc_url = ''https://x/api'', dc_apiToken = ''a'', dc_paasToken = ''p'',
     dc_networkZone = [], dc_hostCache = Map.empty, dc_now = zero_time\<rparr>"

lemmas dt_samples = sample_codec_def sample_transport_def sample_client_def

theorem host_cache_correct_witness:
  "\<exists>dc'. setHostCacheFromResponse (sample_transport 200) sample_codec [] sample_client 0 = (None, dc', 0) \<and>
     map_option hi_entityID (dc_hostCache dc' ''1.2.3.4'') = Some ''HOST-2''"
proof -
  have j: "js_hosts sample_codec [] = Inr (projr (js_hosts sample_codec []))" by (simp add: sample_codec_def)
  have n: "(0, 0) = (if IsZero (dc_now sample_client) then ht_Now (sample_transport 200) 0
     else (dc_now sample_client, 0))" by (simp add: dt_samples IsZero_def)
  from host_cache_correct [OF j n] show ?thesis
    by (auto simp: dt_samples serves_ip_def is_inactive_def last_seen_def zone_matches_def host_info_of_def
        Minute_def Second_def)
qed

text \<open>One successful lookup by address is enough: from then on every lookup on that client,
  for any address, is answered from the cache, makes no request and changes nothing.\<close>

theorem lookups_after_a_success_are_cached:
  assumes "GetEntityIDForIP H J ip s = (Inr ent, s1) \<or> GetAgentVersionForIP H J ip s = (Inr ent, s1)"
  shows "snd (GetAgentVersionForIP H' J' ip' s1) = s1 \<and> snd (GetEntityIDForIP H' J' ip' s1) = s1"
proof -
  have "dc_hostCache (fst s1) \<noteq> Map.empty"
    using assms by (auto dest!: GetEntityIDForIP_Inr GetAgentVersionForIP_Inr)
  then show ?thesis using lookup_keeps_nonempty_cache by blast
qed

theorem lookups_after_a_success_are_cached_witness:
  "\<exists>s1. GetEntityIDForIP (sample_transport 200) sample_codec ''1.2.3.4'' (sample_client, 0) = (Inr ''HOST-2'', s1) \<and>
     snd s1 = 1 \<and> snd (GetAgentVersionForIP (sample_transport 200) sample_codec ''9.9.9.9'' s1) = s1"
proof -
  have "\<exists>s1. GetEntityIDForIP (sample_transport 200) sample_codec ''1.2.3.4'' (sample_client, 0) = (Inr ''HOST-2'', s1) \<and>
     snd s1 = 1"
    by (simp add: GetEntityIDForIP_def getHostInfoForIP_def buildHostCache_def makeRequest_def
        getServerResponseData_def setHostCacheFromResponse_def StatusOK_def dt_samples IsZero_def
        add_host_def is_inactive_def last_seen_def zone_matches_def host_info_of_def Minute_def Second_def)
  with lookups_after_a_success_are_cached show ?thesis by metis
qed

text \<open>A transport that also keeps every request that it is given, in order.\<close>

definition logged :: "'w transport \<Rightarrow> ('w \<times> http_request list) transport" where
  "logged H =
     \<lparr>ht_NewRequest = ht_NewRequest H,
      ht_Do = (\<lambda>rq s. let (r, w) = ht_Do H rq (fst s) in (r, (w, snd s @ [rq]))),
      ht_Now = (\<lambda>s. let (t, w) = ht_Now H (fst s) in (t, (w, snd s)))\<rparr>"

text \<open>The requests of a run that starts with an empty log.\<close>

abbreviation requests_of :: "('r \<times> dynatraceClient \<times> 'w \<times> http_request list) \<Rightarrow> http_request list" where
  "requests_of run \<equiv> snd (snd (snd run))"

definition get_with :: "string \<Rightarrow> string \<Rightarrow> http_request" where
  "get_with url token = \<lparr>rq_Method = ''GET'', rq_URL = url,
     rq_Headers = [(''Authorization'', ''Api-Token '' @ token)], rq_Body = []\<rparr>"

definition post_with :: "string \<Rightarrow> string \<Rightarrow> string \<Rightarrow> http_request" where
  "post_with url token body = \<lparr>rq_Method = ''POST'', rq_URL = url,
     rq_Headers = [(''Content-Type'', ''application/json''), (''Authorization'', ''Api-Token '' @ token)], rq_Body = body\<rparr>"

lemma makeRequest_logged:
  "snd (snd (makeRequest (logged H) dc url tt (w, l))) =
     (if ht_NewRequest H ''GET'' url = None \<and> token_of dc tt \<noteq> [] then l @ [get_with url (token_of dc tt)] else l)"
  by (cases tt) (auto simp: makeRequest_def logged_def token_of_def get_with_def auth_header_def Let_def split_beta
      split: option.split)

lemma get_data_logged:
  "snd (snd (get_data (logged H) J dc url tt (w, l))) =
     (if ht_NewRequest H ''GET'' url = None \<and> token_of dc tt \<noteq> [] then l @ [get_with url (token_of dc tt)] else l)"
  unfolding makeRequest_logged [symmetric, where w = w]
  by (simp add: get_data_def split_beta split: sum.split)

lemma buildHostCache_logged:
  "snd (snd (snd (buildHostCache (logged H) J dc (w, l)))) =
     (if ht_NewRequest H ''GET'' (dc_url dc @ ''/v1/entity/infrastructure/hosts?includeDetails=false'') = None
         \<and> dc_apiToken dc \<noteq> []
      then l @ [get_with (dc_url dc @ ''/v1/entity/infrastructure/hosts?includeDetails=false'') (dc_apiToken dc)] else l)"
proof -
  have "snd (snd (snd (setHostCacheFromResponse (logged H) J d dc (w1, l1)))) = l1" for d w1 l1
    by (simp add: setHostCacheFromResponse_def logged_def Let_def split_beta split: sum.split)
  then have "snd (snd (snd (setHostCacheFromResponse (logged H) J d dc s1))) = snd s1" for d s1
    by (metis prod.collapse)
  then show ?thesis
    using makeRequest_logged [of H dc "dc_url dc @ ''/v1/entity/infrastructure/hosts?includeDetails=false''" dynatraceApiToken w l]
    by (simp add: buildHostCache_def token_of_def split_beta split: sum.split)
qed

lemma getHostInfoForIP_logged:
  "requests_of (getHostInfoForIP (logged H) J ip (dc, w, [])) =
     (if dc_hostCache dc = Map.empty then snd (snd (snd (buildHostCache (logged H) J dc (w, [])))) else [])"
  by (simp add: getHostInfoForIP_def Let_def split_beta split: option.split)

text \<open>C37: Every request goes to its endpoint with a token of the kind that the endpoint
  needs, and a GET request never with an empty one: the installer's endpoints (latest version,
  connection info) are asked with the PaaS token; the cluster version, the hosts (only when the cache
  is empty) and the events with the API token; the lookup of a token's scopes with that
  token itself.  The lists are all requests that the seven operations send, whatever the
  transport answers.\<close>

theorem requests_are_authenticated:
  "requests_of (GetLatestAgentVersion (logged H) J os it (dc, w, [])) =
     (let url = dc_url dc @ ''/v1/deployment/installer/agent/'' @ os @ ''/'' @ it @ ''/latest/metainfo''
      in if os \<noteq> [] \<and> it \<noteq> [] \<and> ht_NewRequest H ''GET'' url = None \<and> dc_paasToken dc \<noteq> []
         then [get_with url (dc_paasToken dc)] else []) \<and>
   requests_of (GetConnectionInfo (logged H) J (dc, w, [])) =
     (let url = dc_url dc @ ''/v1/deployment/installer/agent/connectioninfo''
      in if ht_NewRequest H ''GET'' url = None \<and> dc_paasToken dc \<noteq> [] then [get_with url (dc_paasToken dc)] else []) \<and>
   requests_of (GetClusterInfo (logged H) J (dc, w, [])) =
     (let url = dc_url dc @ ''/v1/config/clusterversion''
      in if ht_NewRequest H ''GET'' url = None \<and> dc_apiToken dc \<noteq> [] then [get_with url (dc_apiToken dc)] else []) \<and>
   (let url = dc_url dc @ ''/v1/entity/infrastructure/hosts?includeDetails=false'';
        hosts = (if ip \<noteq> [] \<and> dc_hostCache dc = Map.empty \<and> ht_NewRequest H ''GET'' url = None \<and> dc_apiToken dc \<noteq> []
                 then [get_with url (dc_apiToken dc)] else [])
    in requests_of (GetAgentVersionForIP (logged H) J ip (dc, w, [])) = hosts \<and>
       requests_of (GetEntityIDForIP (logged H) J ip (dc, w, [])) = hosts) \<and>
   requests_of (SendEvent (logged H) J (Some ed) (dc, w, [])) =
     (let url = dc_url dc @ ''/v1/events''
      in if evd_EventType ed \<noteq> [] \<and> ht_NewRequest H ''POST'' url = None
         then [post_with url (dc_apiToken dc) (js_event J ed)] else []) \<and>
   requests_of (GetTokenScopes (logged H) J token (dc, w, [])) =
     (let url = dc_url dc @ ''/v1/tokens/lookup''
      in if ht_NewRequest H ''POST'' url = None then [post_with url token (js_token J token)] else [])"
proof (intro conjI, goal_cases)
  case 1
  show ?case using get_data_logged [of H J dc _ dynatracePaaSToken w "[]"]
    by (simp add: GetLatestAgentVersion_def Let_def split_beta token_of_def split: sum.split)
next
  case 2
  show ?case using get_data_logged [of H J dc _ dynatracePaaSToken w "[]"]
    by (simp add: GetConnectionInfo_def Let_def split_beta token_of_def split: sum.split)
next
  case 3
  show ?case using get_data_logged [of H J dc _ dynatraceApiToken w "[]"]
    by (simp add: GetClusterInfo_def Let_def split_beta token_of_def split: sum.split)
next
  case 4
  show ?case using getHostInfoForIP_logged [of H J ip dc w]
    by (simp add: buildHostCache_logged GetAgentVersionForIP_def GetEntityIDForIP_def Let_def split_beta split: sum.split)
next
  case 5
  show ?case
    by (simp add: SendEvent_def logged_def post_with_def post_headers_def auth_header_def Let_def split_beta
        split: sum.split option.split)
next
  case 6
  show ?case
    by (simp add: GetTokenScopes_def logged_def post_with_def post_headers_def auth_header_def Let_def split_beta
        split: sum.split option.split)
qed

text \<open>When the hosts cannot be fetched because the server answers with an error, the caller
  of a lookup by address sees that error's code through the wrapping: this is how the
  reconciler recognises that the request limit was reached.\<close>

theorem server_error_reaches_caller:
  assumes "ip \<noteq> []" and "dc_hostCache dc = Map.empty" and "dc_apiToken dc \<noteq> []"
    and "ht_NewRequest H ''GET'' (dc_url dc @ ''/v1/entity/infrastructure/hosts?includeDetails=false'') = None"
    and "\<And>rq. ht_Do H rq w = (Inr resp, w1)"
    and "rs_Body resp = Inr b" and "rs_StatusCode resp \<noteq> StatusOK"
    and "js_server_error J b = Inr (code, msg)"
  shows "\<exists>e. GetAgentVersionForIP H J ip (dc, w) = (Inl e, dc, w1) \<and> is_server_error_code code e"
  using assms buildHostCache_server_error [OF assms(4,3,5-8)]
  by (auto simp: GetAgentVersionForIP_def getHostInfoForIP_def)

theorem server_error_reaches_caller_witness:
  "\<exists>e. GetAgentVersionForIP (sample_transport 429) sample_codec ''1.2.3.4'' (sample_client, 0) = (Inl e, sample_client, 1)
     \<and> is_server_error_code StatusTooManyRequests e"
  unfolding StatusTooManyRequests_def
  by (rule server_error_reaches_caller [where b = "''{}''" and msg = "''too many requests''"
        and resp = "\<lparr>rs_Body = Inr ''{}'', rs_StatusCode = 429\<rparr>"])
    (simp_all add: dt_samples StatusOK_def)

text \<open>Connection info holds exactly the endpoints of the answer that parse, in their order;
  there is at least one, and each is a http or https host.\<close>

theorem connection_info_hosts:
  assumes "readResponseForConnectionInfo J response = Inr ci"
  shows "\<exists>endpoints. js_connection_info J response = Inr (ci_TenantUUID ci, endpoints) \<and>
     ci_CommunicationHosts ci \<noteq> [] \<and>
     map Inr (ci_CommunicationHosts ci) = filter (\<lambda>r. \<not> isl r) (map (parseEndpoint J) endpoints) \<and>
     (\<forall>h \<in> set (ci_CommunicationHosts ci).
        ch_Protocol h = ''http'' \<or> ch_Protocol h = ''https'')"
proof -
  from assms obtain endpoints where e: "js_connection_info J response = Inr (ci_TenantUUID ci, endpoints)"
    "ci_CommunicationHosts ci = parse_endpoints J endpoints" "parse_endpoints J endpoints \<noteq> []"
    by (auto simp: readResponseForConnectionInfo_def Let_def split: sum.splits if_splits)
  have "map Inr (parse_endpoints J endpoints) = filter (\<lambda>r. \<not> isl r) (map (parseEndpoint J) endpoints)"
    by (induction endpoints) (auto split: sum.splits)
  moreover have "ch_Protocol h = ''http'' \<or> ch_Protocol h = ''https''"
    if "h \<in> set (parse_endpoints J endpoints)" for h
  proof -
    from that obtain s where "parseEndpoint J s = Inr h"
      by (auto simp: parse_endpoints_eq)
    then show ?thesis by (rule parseEndpoint_Inr)
  qed
  ultimately show ?thesis using e by auto
qed

theorem connection_info_hosts_witness:
  "\<exists>ci. readResponseForConnectionInfo sample_codec [] = Inr ci \<and> ci_TenantUUID ci = ''tenant'' \<and>
     ci_CommunicationHosts ci \<noteq> []"
proof -
  have "\<exists>ci. readResponseForConnectionInfo sample_codec [] = Inr ci \<and> ci_TenantUUID ci = ''tenant''"
    by (simp add: readResponseForConnectionInfo_def sample_codec_def parseEndpoint_def splitHostPort_def
        last_index_def is_digit_def ParseUint32_def parse_digits_def HasPrefix_def)
  with connection_info_hosts show ?thesis by blast
qed

text \<open>A port that is written in an endpoint is read back unchanged when it fits in 32 bits,
  and the endpoint is refused when it does not.\<close>

theorem endpoint_port:
  assumes "parse_uri J s = Some \<lparr>u_Scheme = proto, u_Host = host @ '':'' @ nat_digits p\<rparr>"
    and "proto = ''http'' \<or> proto = ''https''" and "CHR '':'' \<notin> set host" and "hd host \<noteq> CHR ''['' \<or> host = []"
  shows "parseEndpoint J s =
     (if p < 2 ^ 32 then Inr \<lparr>ch_Protocol = proto, ch_Host = host, ch_Port = of_nat p\<rparr>
      else Inl (ErrMsg ''failed to parse port''))"
proof -
  have "splitHostPort (host @ '':'' @ nat_digits p) = (host, nat_digits p)"
    using assms(3,4) by (intro splitHostPort_port) auto
  with assms(1,2) show ?thesis
    by (auto simp: parseEndpoint_def ParseUint32_def)
qed

theorem endpoint_port_witness:
  "parseEndpoint sample_codec ''https://abc.com:8080/x'' =
     Inr \<lparr>ch_Protocol = ''https'', ch_Host = ''abc.com'', ch_Port = 8080\<rparr>"
proof -
  have "nat_digits 8080 = ''8080''" by (simp add: nat_digits.simps char_of_eq_iff)
  then have "parse_uri sample_codec ''https://abc.com:8080/x'' =
      Some \<lparr>u_Scheme = ''https'', u_Host = ''abc.com'' @ '':'' @ nat_digits 8080\<rparr>"
    by (simp add: sample_codec_def)
  from endpoint_port [OF this] show ?thesis by simp
qed

end
