(* ===== verification/Kube.thy ===== *)
theory Kube
  imports Dt_Client
begin

text \<open>
  What the controllers see of the world outside the operator: the Kubernetes API through
  controller-runtime's client, the environment, the clock, and the interface of the
  Dynatrace client.  None of it is code of the repository, so it is a record of functions
  over an abstract world \<open>'w\<close>: every call takes the world and returns it changed, so other
  actors may move between any two calls.
\<close>

section \<open>Objects\<close>

text \<open>A nil \<open>Data\<close> map is None; the values are texts, of a type of their own for each use.\<close>

record 'v ConfigMap =
  cm_Name :: string
  cm_Namespace :: string
  cm_Data :: "(string \<rightharpoonup> 'v) option"
  cm_Owner :: "string option"

record Secret =
  sec_Name :: string
  sec_Namespace :: string
  sec_Type :: string
  sec_Data :: "(string \<rightharpoonup> string) option"

record Node =
  nd_Name :: string
  nd_Unschedulable :: bool
  nd_Taints :: "string list"

record owner_ref =
  own_Kind :: string
  own_Name :: string

datatype PodPhase = PodPending | PodRunning | PodSucceeded | PodFailed | PodUnknown

record Pod =
  pod_Name :: string
  pod_Namespace :: string
  pod_Labels :: "string \<rightharpoonup> string"
  pod_NodeName :: string
  pod_HostIP :: string
  pod_Phase :: PodPhase
  pod_ContainersReady :: "bool list"
  pod_Controller :: "owner_ref option"

record ReplicaSet =
  rs_Name :: string
  rs_Controller :: "owner_ref option"

record Deployment =
  dep_Name :: string

record Namespace =
  ns_Name :: string
  ns_UID :: string
  ns_Labels :: "(string \<rightharpoonup> string) option"
  ns_Annotations :: "(string \<rightharpoonup> string) option"

section \<open>The interface of the Dynatrace client (dtclient/client.go)\<close>

record 'w dt_client =
  c_GetLatestAgentVersion :: "string \<Rightarrow> string \<Rightarrow> 'w \<Rightarrow> (go_error + string) \<times> 'w"
  c_GetAgentVersionForIP :: "string \<Rightarrow> 'w \<Rightarrow> (go_error + string) \<times> 'w"
  c_GetConnectionInfo :: "'w \<Rightarrow> (go_error + ConnectionInfo) \<times> 'w"
  c_GetCommunicationHostForClient :: "'w \<Rightarrow> (go_error + CommunicationHost) \<times> 'w"
  c_SendEvent :: "EventData option \<Rightarrow> 'w \<Rightarrow> go_error option \<times> 'w"
  c_GetEntityIDForIP :: "string \<Rightarrow> 'w \<Rightarrow> (go_error + string) \<times> 'w"
  c_GetTokenScopes :: "string \<Rightarrow> 'w \<Rightarrow> (go_error + string list) \<times> 'w"

text \<open>\<open>utils.DynatraceClientFunc\<close>\<close>

type_synonym ('a, 'b, 'w) DynatraceClientFunc =
  "('a, 'b) BaseOneAgent \<Rightarrow> bool \<Rightarrow> bool \<Rightarrow> 'w \<Rightarrow> (go_error + 'w dt_client) \<times> 'w"

section \<open>The cluster\<close>

text \<open>
  \<open>k_range ks\<close> is the order in which a \<open>for ... range\<close> over a map with the key set \<open>ks\<close>
  visits the keys: any enumeration of the set, chosen anew by every loop.
\<close>

record ('v, 'w) cluster =
  k_getenv :: "string \<Rightarrow> string"
  k_now :: "'w \<Rightarrow> time \<times> 'w"
  k_sleep :: "int \<Rightarrow> 'w \<Rightarrow> 'w"
  k_range :: "string set \<Rightarrow> 'w \<Rightarrow> string list \<times> 'w"
  k_get_oneagent :: "string \<Rightarrow> string \<Rightarrow> 'w \<Rightarrow> (go_error + OneAgent) \<times> 'w"
  k_list_oneagents :: "string \<Rightarrow> 'w \<Rightarrow> (go_error + OneAgent list) \<times> 'w"
  k_get_node :: "string \<Rightarrow> 'w \<Rightarrow> (go_error + Node) \<times> 'w"
  k_list_nodes :: "'w \<Rightarrow> (go_error + Node list) \<times> 'w"
  k_get_configmap :: "string \<Rightarrow> string \<Rightarrow> 'w \<Rightarrow> (go_error + 'v ConfigMap) \<times> 'w"
  k_create_configmap :: "'v ConfigMap \<Rightarrow> 'w \<Rightarrow> go_error option \<times> 'w"
  k_update_configmap :: "'v ConfigMap \<Rightarrow> 'w \<Rightarrow> go_error option \<times> 'w"
  k_get_secret :: "string \<Rightarrow> string \<Rightarrow> 'w \<Rightarrow> (go_error + Secret) \<times> 'w"
  k_create_secret :: "Secret \<Rightarrow> 'w \<Rightarrow> go_error option \<times> 'w"
  k_update_secret :: "Secret \<Rightarrow> 'w \<Rightarrow> go_error option \<times> 'w"
  k_get_pod :: "string \<Rightarrow> string \<Rightarrow> 'w \<Rightarrow> (go_error + Pod) \<times> 'w"
  k_list_pods :: "string \<Rightarrow> (string \<rightharpoonup> string) \<Rightarrow> 'w \<Rightarrow> (go_error + Pod list) \<times> 'w"
  k_delete_pod :: "Pod \<Rightarrow> 'w \<Rightarrow> go_error option \<times> 'w"
  k_get_replicaset :: "string \<Rightarrow> string \<Rightarrow> 'w \<Rightarrow> (go_error + ReplicaSet) \<times> 'w"
  k_get_deployment :: "string \<Rightarrow> string \<Rightarrow> 'w \<Rightarrow> (go_error + Deployment) \<times> 'w"
  k_set_owner :: "Deployment \<Rightarrow> 'v ConfigMap \<Rightarrow> go_error + 'v ConfigMap"

definition range_law :: "('v, 'w, 'z) cluster_scheme \<Rightarrow> bool" where
  "range_law K \<longleftrightarrow> (\<forall>ks w. finite ks \<longrightarrow> set (fst (k_range K ks w)) = ks \<and> distinct (fst (k_range K ks w)))"

lemma range_lawD:
  "range_law K \<Longrightarrow> finite ks \<Longrightarrow> k_range K ks w = (xs, w') \<Longrightarrow> set xs = ks \<and> distinct xs"
  unfolding range_law_def by (metis fst_conv)

section \<open>GetDeployment (controllers/utils/utils.go)\<close>

definition GetDeployment :: "('v, 'w, 'z) cluster_scheme \<Rightarrow> string \<Rightarrow> 'w \<Rightarrow> (go_error + Deployment) \<times> 'w" where
  "GetDeployment K ns w =
     (let podName = k_getenv K ''POD_NAME''
      in if podName = [] then (Inl (ErrMsg ''POD_NAME environment variable does not exist''), w)
         else case k_get_pod K ns podName w of
           (Inl e, w1) \<Rightarrow> (Inl (Wrapped [] e), w1)
         | (Inr pod, w1) \<Rightarrow>
             (case pod_Controller pod of
                None \<Rightarrow> (Inl (ErrMsg (''no controller found for Pod: '' @ pod_Name pod)), w1)
              | Some rsOwner \<Rightarrow>
                  (if own_Kind rsOwner \<noteq> ''ReplicaSet''
                   then (Inl (ErrMsg (''unexpected controller found for Pod: '' @ pod_Name pod)), w1)
                   else case k_get_replicaset K ns (own_Name rsOwner) w1 of
                     (Inl e, w2) \<Rightarrow> (Inl (Wrapped [] e), w2)
                   | (Inr rs, w2) \<Rightarrow>
                       (case rs_Controller rs of
                          None \<Rightarrow> (Inl (ErrMsg (''no controller found for ReplicaSet: '' @ pod_Name pod)), w2)
                        | Some dOwner \<Rightarrow>
                            (if own_Kind dOwner \<noteq> ''Deployment''
                             then (Inl (ErrMsg (''unexpected controller found for ReplicaSet: '' @ pod_Name pod)), w2)
                             else case k_get_deployment K ns (own_Name dOwner) w2 of
                               (Inl e, w3) \<Rightarrow> (Inl (Wrapped [] e), w3)
                             | (Inr d, w3) \<Rightarrow> (Inr d, w3))))))"

section \<open>A concrete cluster\<close>

text \<open>
  A cluster whose answers are given as lists, whose world is its clock and whose clock
  stands still: for evaluating the handlers on inputs.
\<close>

definition sample_cluster ::
  "OneAgent list \<Rightarrow> Node list \<Rightarrow> 'v ConfigMap option \<Rightarrow> ('v, time) cluster" where
  "sample_cluster oas nds cm =
     \<lparr>k_getenv = (\<lambda>_. []), k_now = (\<lambda>w. (w, w)), k_sleep = (\<lambda>d w. w + d),
      k_range = (\<lambda>ks w. (sorted_list_of_set ks, w)),
      k_get_oneagent = (\<lambda>ns n w. ((case List.find (\<lambda>oa. cr_Name oa = n) oas of
         None \<Rightarrow> Inl KubeNotFound | Some oa \<Rightarrow> Inr oa), w)),
      k_list_oneagents = (\<lambda>ns w. (Inr oas, w)),
      k_get_node = (\<lambda>n w. ((case List.find (\<lambda>nd. nd_Name nd = n) nds of
         None \<Rightarrow> Inl KubeNotFound | Some nd \<Rightarrow> Inr nd), w)),
      k_list_nodes = (\<lambda>w. (Inr nds, w)),
      k_get_configmap = (\<lambda>ns n w. ((case cm of None \<Rightarrow> Inl KubeNotFound | Some x \<Rightarrow> Inr x), w)),
      k_create_configmap = (\<lambda>x w. (None, w)),
      k_update_configmap = (\<lambda>x w. (None, w)),
      k_get_secret = (\<lambda>ns n w. (Inl KubeNotFound, w)),
      k_create_secret = (\<lambda>x w. (None, w)),
      k_update_secret = (\<lambda>x w. (None, w)),
      k_get_pod = (\<lambda>ns n w. (Inl KubeNotFound, w)),
      k_list_pods = (\<lambda>ns l w. (Inr [], w)),
      k_delete_pod = (\<lambda>p w. (None, w)),
      k_get_replicaset = (\<lambda>ns n w. (Inl KubeNotFound, w)),
      k_get_deployment = (\<lambda>ns n w. (Inl KubeNotFound, w)),
      k_set_owner = (\<lambda>d x. Inr x)\<rparr>"

definition sample_dt_client :: "go_error option \<Rightarrow> 'w dt_client" where
  "sample_dt_client send_result =
     \<lparr>c_GetLatestAgentVersion = (\<lambda>os it w. (Inr ''1.202.0.20190101-000000'', w)),
      c_GetAgentVersionForIP = (\<lambda>ip w. (Inr ''1.201.0.20190101-000000'', w)),
      c_GetConnectionInfo = (\<lambda>w. (Inr \<lparr>ci_CommunicationHosts = [], ci_TenantUUID = ''abc''\<rparr>, w)),
      c_GetCommunicationHostForClient = (\<lambda>w. (Inl (ExtErr []), w)),
      c_SendEvent = (\<lambda>ev w. (send_result, w)),
      c_GetEntityIDForIP = (\<lambda>ip w. (Inr ''HOST-42'', w)),
      c_GetTokenScopes = (\<lambda>t w. (Inr [], w))\<rparr>"

lemma sample_cluster_simps [simp]:
  "k_getenv (sample_cluster oas nds cm) = (\<lambda>_. [])"
  "k_now (sample_cluster oas nds cm) = (\<lambda>w. (w, w))"
  "k_sleep (sample_cluster oas nds cm) = (\<lambda>d w. w + d)"
  "k_range (sample_cluster oas nds cm) = (\<lambda>ks w. (sorted_list_of_set ks, w))"
  "k_list_oneagents (sample_cluster oas nds cm) = (\<lambda>ns w. (Inr oas, w))"
  "k_list_nodes (sample_cluster oas nds cm) = (\<lambda>w. (Inr nds, w))"
  "k_create_configmap (sample_cluster oas nds cm) = (\<lambda>x w. (None, w))"
  "k_update_configmap (sample_cluster oas nds cm) = (\<lambda>x w. (None, w))"
  "k_set_owner (sample_cluster oas nds cm) = (\<lambda>d x. Inr x)"
  "k_get_configmap (sample_cluster oas nds cm) = (\<lambda>ns n w. ((case cm of None \<Rightarrow> Inl KubeNotFound | Some x \<Rightarrow> Inr x), w))"
  "k_get_oneagent (sample_cluster oas nds cm) = (\<lambda>ns n w. ((case List.find (\<lambda>oa. cr_Name oa = n) oas of
     None \<Rightarrow> Inl KubeNotFound | Some oa \<Rightarrow> Inr oa), w))"
  "k_get_node (sample_cluster oas nds cm) = (\<lambda>n w. ((case List.find (\<lambda>nd. nd_Name nd = n) nds of
     None \<Rightarrow> Inl KubeNotFound | Some nd \<Rightarrow> Inr nd), w))"
  "k_list_pods (sample_cluster oas nds cm) = (\<lambda>ns l w. (Inr [], w))"
  "k_delete_pod (sample_cluster oas nds cm) = (\<lambda>p w. (None, w))"
  "k_get_secret (sample_cluster oas nds cm) = (\<lambda>ns n w. (Inl KubeNotFound, w))"
  "k_create_secret (sample_cluster oas nds cm) = (\<lambda>x w. (None, w))"
  "k_update_secret (sample_cluster oas nds cm) = (\<lambda>x w. (None, w))"
  by (simp_all add: sample_cluster_def)

lemma range_law_sample: "range_law (sample_cluster oas nds cm)"
  by (simp add: range_law_def)

text \<open>A cluster on any world that has nothing but perhaps one secret.\<close>

definition idle_cluster :: "Secret option \<Rightarrow> ('v, 'w) cluster" where
  "idle_cluster s =
     \<lparr>k_getenv = (\<lambda>_. []), k_now = (\<lambda>w. (0, w)), k_sleep = (\<lambda>d w. w),
      k_range = (\<lambda>ks w. ([], w)), k_get_oneagent = (\<lambda>ns n w. (Inl KubeNotFound, w)),
      k_list_oneagents = (\<lambda>ns w. (Inr [], w)), k_get_node = (\<lambda>n w. (Inl KubeNotFound, w)),
      k_list_nodes = (\<lambda>w. (Inr [], w)), k_get_configmap = (\<lambda>ns n w. (Inl KubeNotFound, w)),
      k_create_configmap = (\<lambda>x w. (None, w)), k_update_configmap = (\<lambda>x w. (None, w)),
      k_get_secret = (\<lambda>ns n w. ((case s of None \<Rightarrow> Inl KubeNotFound | Some x \<Rightarrow> Inr x), w)),
      k_create_secret = (\<lambda>x w. (None, w)), k_update_secret = (\<lambda>x w. (None, w)),
      k_get_pod = (\<lambda>ns n w. (Inl KubeNotFound, w)), k_list_pods = (\<lambda>ns l w. (Inr [], w)),
      k_delete_pod = (\<lambda>p w. (None, w)), k_get_replicaset = (\<lambda>ns n w. (Inl KubeNotFound, w)),
      k_get_deployment = (\<lambda>ns n w. (Inl KubeNotFound, w)), k_set_owner = (\<lambda>d x. Inr x)\<rparr>"

end
