(* ===== verification/Node_Cache.thy ===== *)
theory Node_Cache
  imports Kube
begin

text \<open>
  The cache of nodes (controllers/nodes/cache.go): a ConfigMap whose data are JSON texts,
  one per node, with the flags that decide whether it must be created or updated.
\<close>

section \<open>Entries and their texts\<close>

record CacheEntry =
  ce_Instance :: string
  ce_IPAddress :: string
  ce_LastSeen :: time
  ce_LastMarkedForTermination :: time

text \<open>
  A value of the ConfigMap is a text.  The code reads it with \<open>json.Unmarshal\<close> into a
  \<open>CacheEntry\<close> and nothing else, so a text is what that reading gives: an entry or an error.
  \<open>json.Marshal\<close> writes a text that reads back as the entry it was given, and fails for a
  time outside the years 0 to 9999 (the documented limit of \<open>time.Time.MarshalJSON\<close>).
\<close>

datatype cache_text = EntryText CacheEntry | BadText string

definition json_unmarshal_entry :: "cache_text \<Rightarrow> go_error + CacheEntry" where
  "json_unmarshal_entry t = (case t of EntryText e \<Rightarrow> Inr e | BadText msg \<Rightarrow> Inl (ExtErr msg))"

definition json_time_ok :: "time \<Rightarrow> bool" where
  "json_time_ok t = (- 62167219200 * 1000000000 \<le> t \<and> t < 253402300800 * 1000000000)"

definition json_marshal_entry :: "CacheEntry \<Rightarrow> go_error + cache_text" where
  "json_marshal_entry e =
     (if json_time_ok (ce_LastSeen e) \<and> json_time_ok (ce_LastMarkedForTermination e)
      then Inr (EntryText e)
      else Inl (ExtErr ''Time.MarshalJSON: year outside of range [0,9999]''))"

section \<open>The cache\<close>

record Cache =
  cc_Obj :: "cache_text ConfigMap"
  cc_Create :: bool
  cc_upd :: bool

definition Cache_Get :: "Cache \<Rightarrow> string \<Rightarrow> go_error + CacheEntry" where
  "Cache_Get c node =
     (case cm_Data (cc_Obj c) of
        None \<Rightarrow> Inl ErrNotFound
      | Some data \<Rightarrow>
          (case data node of
             None \<Rightarrow> Inl ErrNotFound
           | Some raw \<Rightarrow> json_unmarshal_entry raw))"

definition Cache_Set :: "string \<Rightarrow> CacheEntry \<Rightarrow> Cache \<Rightarrow> go_error option \<times> Cache" where
  "Cache_Set node entry c =
     (case json_marshal_entry entry of
        Inl e \<Rightarrow> (Some e, c)
      | Inr raw \<Rightarrow>
          (let data = (case cm_Data (cc_Obj c) of None \<Rightarrow> Map.empty | Some d \<Rightarrow> d)
           in (None, c\<lparr>cc_Obj := (cc_Obj c)\<lparr>cm_Data := Some (data(node \<mapsto> raw))\<rparr>, cc_upd := True\<rparr>)))"

definition Cache_Delete :: "string \<Rightarrow> Cache \<Rightarrow> Cache" where
  "Cache_Delete node c =
     (case cm_Data (cc_Obj c) of
        None \<Rightarrow> c
      | Some data \<Rightarrow> c\<lparr>cc_Obj := (cc_Obj c)\<lparr>cm_Data := Some (data(node := None))\<rparr>, cc_upd := True\<rparr>)"

definition Cache_names :: "Cache \<Rightarrow> string set" where
  "Cache_names c = (case cm_Data (cc_Obj c) of None \<Rightarrow> {} | Some data \<Rightarrow> dom data)"

definition Cache_Keys :: "('v, 'w, 'z) cluster_scheme \<Rightarrow> Cache \<Rightarrow> 'w \<Rightarrow> string list \<times> 'w" where
  "Cache_Keys K c w = (case cm_Data (cc_Obj c) of None \<Rightarrow> ([], w) | Some data \<Rightarrow> k_range K (dom data) w)"

definition Cache_Changed :: "Cache \<Rightarrow> bool" where
  "Cache_Changed c = (cc_Create c \<or> cc_upd c)"

lemma json_roundtrip: "json_marshal_entry e = Inr t \<Longrightarrow> json_unmarshal_entry t = Inr e"
  by (auto simp: json_marshal_entry_def json_unmarshal_entry_def split: if_splits)

section \<open>The cache as a store of entries\<close>

text \<open>
  The contract by which the nodes controller uses the cache.  \<open>get\<close> answers an entry or an
  error, where \<open>ErrNotFound\<close> is the answer for an absent node; \<open>put\<close> may refuse an entry and
  then changes nothing; \<open>names\<close> are the nodes that have an entry.
\<close>

locale node_store =
  fixes get :: "'c \<Rightarrow> string \<Rightarrow> go_error + 'e"
    and put :: "string \<Rightarrow> 'e \<Rightarrow> 'c \<Rightarrow> go_error option \<times> 'c"
    and del :: "string \<Rightarrow> 'c \<Rightarrow> 'c"
    and names :: "'c \<Rightarrow> string set"
  assumes get_put: "put n e c = (None, c') \<Longrightarrow> get c' m = (if m = n then Inr e else get c m)"
    and put_err: "put n e c = (Some x, c') \<Longrightarrow> c' = c"
    and get_del: "get (del n c) m = (if m = n then Inl ErrNotFound else get c m)"
    and names_put: "put n e c = (None, c') \<Longrightarrow> names c' = insert n (names c)"
    and names_del: "names (del n c) = names c - {n}"
    and get_names: "get c n = Inl ErrNotFound \<longleftrightarrow> n \<notin> names c"
begin

lemma get_put_same: "put n e c = (None, c') \<Longrightarrow> get c' n = Inr e"
  by (simp add: get_put)

lemma get_put_other: "put n e c = (r, c') \<Longrightarrow> m \<noteq> n \<Longrightarrow> get c' m = get c m"
  by (cases r) (auto simp: get_put dest: put_err)

lemma names_put_other: "put n e c = (r, c') \<Longrightarrow> m \<noteq> n \<Longrightarrow> m \<in> names c' \<longleftrightarrow> m \<in> names c"
  by (cases r) (auto simp: names_put dest: put_err)

lemma names_put_le: "put n e c = (r, c') \<Longrightarrow> names c' \<subseteq> insert n (names c) \<and> names c \<subseteq> names c'"
  by (cases r) (auto simp: names_put dest: put_err)

lemma put_Inr: "put n e c = (r, c') \<Longrightarrow> get c m = Inr x \<Longrightarrow> \<exists>y. get c' m = Inr y"
  by (cases r) (auto simp: get_put dest: put_err)

lemma get_Inr_names: "get c n = Inr e \<Longrightarrow> n \<in> names c"
  using get_names [of c n] by force

end

interpretation cache: node_store Cache_Get Cache_Set Cache_Delete Cache_names
proof
  fix n m :: string and e :: CacheEntry and c c' :: Cache and x
  show "Cache_Set n e c = (None, c') \<Longrightarrow> Cache_Get c' m = (if m = n then Inr e else Cache_Get c m)"
    by (auto simp: Cache_Set_def Cache_Get_def Let_def json_roundtrip split: sum.splits option.splits)
  show "Cache_Set n e c = (Some x, c') \<Longrightarrow> c' = c"
    by (auto simp: Cache_Set_def Let_def split: sum.splits)
  show "Cache_Get (Cache_Delete n c) m = (if m = n then Inl ErrNotFound else Cache_Get c m)"
    by (auto simp: Cache_Delete_def Cache_Get_def split: option.splits)
  show "Cache_Set n e c = (None, c') \<Longrightarrow> Cache_names c' = insert n (Cache_names c)"
    by (auto simp: Cache_Set_def Cache_names_def Let_def split: sum.splits option.splits if_splits)
  show "Cache_names (Cache_Delete n c) = Cache_names c - {n}"
    by (auto simp: Cache_Delete_def Cache_names_def split: option.splits if_splits)
  show "Cache_Get c n = Inl ErrNotFound \<longleftrightarrow> n \<notin> Cache_names c"
    by (auto simp: Cache_names_def Cache_Get_def json_unmarshal_entry_def
        split: option.splits cache_text.splits)
qed

lemma Cache_Keys_names:
  assumes "range_law K" and "finite (Cache_names c)" and "Cache_Keys K c w = (ks, w')"
  shows "set ks = Cache_names c \<and> distinct ks"
  using assms range_lawD [OF assms(1)]
  by (auto simp: Cache_Keys_def Cache_names_def split: option.splits)

section \<open>The flags tell whether the object was touched\<close>

text \<open>The operations by which a cache is changed, as steps.\<close>

inductive cache_step :: "Cache \<Rightarrow> Cache \<Rightarrow> bool" where
  set_step: "cache_step c (snd (Cache_Set node entry c))"
| delete_step: "cache_step c (Cache_Delete node c)"

inductive cache_run :: "Cache \<Rightarrow> Cache \<Rightarrow> bool" where
  run_refl: "cache_run c c"
| run_step: "cache_run c d \<Longrightarrow> cache_step d e \<Longrightarrow> cache_run c e"

inductive_cases cache_stepE: "cache_step c d"

lemma cache_step_flags:
  "cache_step c d \<Longrightarrow>
   cc_Create d = cc_Create c \<and> (cc_upd c \<longrightarrow> cc_upd d) \<and> (\<not> cc_upd d \<longrightarrow> cc_Obj d = cc_Obj c)"
  by (erule cache_stepE)
    (auto simp: Cache_Set_def Cache_Delete_def Let_def split: sum.splits option.splits)

lemma cache_run_flags:
  "cache_run c d \<Longrightarrow>
   cc_Create d = cc_Create c \<and> (cc_upd c \<longrightarrow> cc_upd d) \<and> (\<not> cc_upd d \<longrightarrow> cc_Obj d = cc_Obj c)"
proof (induction rule: cache_run.induct)
  case (run_step c d e)
  from cache_step_flags [OF run_step.hyps(2)] run_step.IH show ?case by auto
qed simp

lemma cache_run_trans: "cache_run d e \<Longrightarrow> cache_run c d \<Longrightarrow> cache_run c e"
  by (induction rule: cache_run.induct) (auto intro: cache_run.intros)

lemma cache_run_set: "cache_run c d \<Longrightarrow> Cache_Set node entry d = (r, e) \<Longrightarrow> cache_run c e"
  using cache_step.set_step [of d node entry] by (auto intro: run_step)

lemma cache_run_delete: "cache_run c d \<Longrightarrow> cache_run c (Cache_Delete node d)"
  by (auto intro: run_step delete_step)

end
