(* ===== verification/Throttle.thy ===== *)
theory Throttle
  imports Prelude
begin

text \<open>
  Several parts of the operator do something at most once in an interval and remember the
  instant in a field: the mark of a cordoned node (1 hour), the token probes (5 minutes),
  the image version probe and the instance update (15 minutes).  They share one contract.
\<close>

text \<open>The instants of \<open>ts\<close> at which the thing is done, when every instant is tried in turn.\<close>

fun probes :: "('s \<Rightarrow> time \<Rightarrow> bool) \<Rightarrow> ('s \<Rightarrow> time \<Rightarrow> 's) \<Rightarrow> 's \<Rightarrow> time list \<Rightarrow> time list" where
  "probes due stamp s [] = []"
| "probes due stamp s (t # ts) =
     (if due s t then t # probes due stamp (stamp s t) ts else probes due stamp s ts)"

locale throttle =
  fixes due :: "'s \<Rightarrow> time \<Rightarrow> bool"
    and stamp :: "'s \<Rightarrow> time \<Rightarrow> 's"
    and interval :: int
  assumes interval_pos: "0 < interval"
    and due_after: "due (stamp s u) t \<Longrightarrow> u + interval \<le> t"
    and due_again: "u + interval < t \<Longrightarrow> due (stamp s u) t"
begin

lemma not_due_within: "t < u + interval \<Longrightarrow> \<not> due (stamp s u) t"
  using due_after by fastforce

lemma probes_after: "t \<in> set (probes due stamp (stamp s u) ts) \<Longrightarrow> u + interval \<le> t"
proof (induction ts arbitrary: s u)
  case (Cons t' ts)
  show ?case
  proof (cases "due (stamp s u) t'")
    case True
    then have u: "u + interval \<le> t'" by (rule due_after)
    from Cons.prems True consider "t = t'" | "t \<in> set (probes due stamp (stamp (stamp s u) t') ts)" by auto
    then show ?thesis
    proof cases
      case 2
      then have "t' + interval \<le> t" by (rule Cons.IH)
      with u interval_pos show ?thesis by linarith
    qed (use u in simp)
  next
    case False
    with Cons show ?thesis by simp
  qed
qed simp

lemma probes_apart: "sorted_wrt (\<lambda>t u. t + interval \<le> u) (probes due stamp s ts)"
  by (induction ts arbitrary: s) (auto dest: probes_after)

lemma probes_resume:
  "t \<in> set ts \<Longrightarrow> u + interval < t \<Longrightarrow> probes due stamp (stamp s u) ts \<noteq> []"
proof (induction ts)
  case (Cons t' ts)
  then show ?case using due_again by (cases "due (stamp s u) t'") auto
qed simp

end

end
