(* ===== verification/Nodes.thy ===== *)
theory Nodes
  imports Node_Cache Throttle
begin

text \<open>
  The nodes controller (controllers/nodes): it keeps the cache of nodes that carry a
  OneAgent, tells Dynatrace when a node is cordoned or removed, and forgets nodes that
  left the cluster.  \<open>K\<close> is the cluster, \<open>D\<close> the reconciler's \<open>dtClientFunc\<close>, \<open>R\<close> the
  reconciler's own fields; a handler takes the cache and the world and returns both.
\<close>

record reconcile_nodes =
  rn_namespace :: string
  rn_local :: bool

type_synonym 'w nodes_cluster = "(cache_text, 'w) cluster"
type_synonym 'w nodes_dtf = "(OneAgent \<Rightarrow> bool \<Rightarrow> bool \<Rightarrow> 'w \<Rightarrow> (go_error + 'w dt_client) \<times> 'w)"

definition cacheName :: string where "cacheName = ''dynatrace-node-cache''"

definition unschedulableTaints :: "string list" where
  "unschedulableTaints = [''ToBeDeletedByClusterAutoscaler'']"

section \<open>Predicates\<close>

definition hasUnschedulableTaint :: "Node \<Rightarrow> bool" where
  "hasUnschedulableTaint node =
     list_ex (\<lambda>taint. list_ex (\<lambda>u. taint = u) unschedulableTaints) (nd_Taints node)"

definition isUnschedulable :: "Node \<Rightarrow> bool" where
  "isUnschedulable node = (nd_Unschedulable node \<or> hasUnschedulableTaint node)"

text \<open>\<open>isMarkableForTermination\<close>, at the instant that its \<open>time.Now()\<close> returns.\<close>

definition markable_at :: "CacheEntry \<Rightarrow> time \<Rightarrow> bool" where
  "markable_at nodeInfo now = (ce_LastMarkedForTermination nodeInfo + Hour < now)"

definition isMarkableForTermination :: "'w nodes_cluster \<Rightarrow> CacheEntry \<Rightarrow> 'w \<Rightarrow> bool \<times> 'w" where
  "isMarkableForTermination K nodeInfo w = (let (now, w1) = k_now K w in (markable_at nodeInfo now, w1))"

definition updateLastMarkedForTerminationTimestamp ::
  "'w nodes_cluster \<Rightarrow> Cache \<Rightarrow> CacheEntry \<Rightarrow> string \<Rightarrow> 'w \<Rightarrow> go_error option \<times> CacheEntry \<times> Cache \<times> 'w" where
  "updateLastMarkedForTerminationTimestamp K c nodeInfo nodeName w =
     (let (now, w1) = k_now K w;
          nodeInfo' = nodeInfo\<lparr>ce_LastMarkedForTermination := now\<rparr>;
          (err, c') = Cache_Set nodeName nodeInfo' c
      in (err, nodeInfo', c', w1))"

section \<open>The event\<close>

text \<open>
  \<open>uint64(lastSeen.Add(-10*time.Minute).UnixNano()) / uint64(time.Millisecond)\<close>: the
  nanoseconds wrap around at 64 bits before the division.
\<close>

definition event_millis :: "time \<Rightarrow> 64 word" where
  "event_millis lastSeen = (word_of_int (lastSeen - 10 * Minute) :: 64 word) div 1000000"

definition termination_event :: "string \<Rightarrow> time \<Rightarrow> EventData" where
  "termination_event entityID lastSeen =
     \<lparr>evd_EventType = ''MARKED_FOR_TERMINATION'',
      evd_StartInMillis = event_millis lastSeen,
      evd_EndInMillis = event_millis lastSeen,
      evd_Description = ''Kubernetes node cordoned. Node might be drained or terminated.'',
      evd_EntityIDs = [entityID],
      evd_Source = ''OneAgent Operator''\<rparr>"

definition sendMarkedForTermination ::
  "'w nodes_dtf \<Rightarrow> OneAgent \<Rightarrow> string \<Rightarrow> time \<Rightarrow> 'w \<Rightarrow> go_error option \<times> 'w" where
  "sendMarkedForTermination D oa nodeIP lastSeen w =
     (case D oa True True w of
        (Inl e, w1) \<Rightarrow> (Some e, w1)
      | (Inr dtc, w1) \<Rightarrow>
          (case c_GetEntityIDForIP dtc nodeIP w1 of
             (Inl e, w2) \<Rightarrow> (Some e, w2)
           | (Inr entityID, w2) \<Rightarrow> c_SendEvent dtc (Some (termination_event entityID lastSeen)) w2))"

definition markForTermination ::
  "'w nodes_cluster \<Rightarrow> 'w nodes_dtf \<Rightarrow> Cache \<Rightarrow> OneAgent \<Rightarrow> string \<Rightarrow> string \<Rightarrow> 'w
     \<Rightarrow> go_error option \<times> Cache \<times> 'w" where
  "markForTermination K D c oneAgent ipAddress nodeName w =
     (case Cache_Get c nodeName of
        Inl e \<Rightarrow> (Some e, c, w)
      | Inr cachedNode \<Rightarrow>
          (let (markable, w1) = isMarkableForTermination K cachedNode w
           in if \<not> markable then (None, c, w1)
              else (case updateLastMarkedForTerminationTimestamp K c cachedNode nodeName w1 of
                      (Some e, _, c', w2) \<Rightarrow> (Some e, c', w2)
                    | (None, cachedNode', c', w2) \<Rightarrow>
                        (let (err, w3) =
                           sendMarkedForTermination D oneAgent ipAddress (ce_LastSeen cachedNode') w2
                         in (err, c', w3)))))"

section \<open>Which OneAgent runs on a node (oneagent\_dao.go)\<close>

definition filterOneAgentFromList :: "OneAgent list \<Rightarrow> string \<Rightarrow> OneAgent option" where
  "filterOneAgentFromList items nodeName =
     List.find (\<lambda>oa. case st_Instances (cr_Status oa) of
                       None \<Rightarrow> False | Some m \<Rightarrow> m nodeName \<noteq> None) items"

definition getOneAgentList :: "'w nodes_cluster \<Rightarrow> 'w \<Rightarrow> (go_error + OneAgent list) \<times> 'w" where
  "getOneAgentList K w = k_list_oneagents K (k_getenv K ''POD_NAMESPACE'') w"

definition determineOneAgentForNode ::
  "'w nodes_cluster \<Rightarrow> string \<Rightarrow> 'w \<Rightarrow> (go_error + OneAgent option) \<times> 'w" where
  "determineOneAgentForNode K nodeName w =
     (case getOneAgentList K w of
        (Inl e, w1) \<Rightarrow> (Inl e, w1)
      | (Inr items, w1) \<Rightarrow> (Inr (filterOneAgentFromList items nodeName), w1))"

text \<open>\<open>oneAgent.Status.Instances[node]\<close>: the zero value for a missing key.\<close>

definition instance_on :: "OneAgent \<Rightarrow> string \<Rightarrow> OneAgentInstance" where
  "instance_on oa node =
     (case Option.bind (st_Instances (cr_Status oa)) (\<lambda>m. m node) of
        Some i \<Rightarrow> i
      | None \<Rightarrow> \<lparr>inst_PodName = [], inst_Version = [], inst_IPAddress = []\<rparr>)"

section \<open>Cordoned nodes\<close>

definition reconcileUnschedulableNode ::
  "'w nodes_cluster \<Rightarrow> 'w nodes_dtf \<Rightarrow> Node \<Rightarrow> Cache \<Rightarrow> 'w \<Rightarrow> go_error option \<times> Cache \<times> 'w" where
  "reconcileUnschedulableNode K D node c w =
     (case determineOneAgentForNode K (nd_Name node) w of
        (Inl e, w1) \<Rightarrow> (Some e, c, w1)
      | (Inr None, w1) \<Rightarrow> (None, c, w1)
      | (Inr (Some oneAgent), w1) \<Rightarrow>
          (let ip = inst_IPAddress (instance_on oneAgent (nd_Name node))
           in case Cache_Get c (nd_Name node) of
                Inr _ \<Rightarrow> markForTermination K D c oneAgent ip (nd_Name node) w1
              | Inl e \<Rightarrow>
                  (if e = ErrNotFound
                   then let (now, w2) = k_now K w1;
                            cachedNode = \<lparr>ce_Instance = cr_Name oneAgent, ce_IPAddress = ip,
                                          ce_LastSeen = now, ce_LastMarkedForTermination = zero_time\<rparr>
                        in (case Cache_Set (nd_Name node) cachedNode c of
                              (Some err, c') \<Rightarrow> (Some err, c', w2)
                            | (None, c') \<Rightarrow> markForTermination K D c' oneAgent ip (nd_Name node) w2)
                   else (Some e, c, w1))))"

definition updateNode ::
  "'w nodes_cluster \<Rightarrow> 'w nodes_dtf \<Rightarrow> Cache \<Rightarrow> string \<Rightarrow> 'w \<Rightarrow> go_error option \<times> Cache \<times> 'w" where
  "updateNode K D c nodeName w =
     (case k_get_node K nodeName w of
        (Inl e, w1) \<Rightarrow> (Some e, c, w1)
      | (Inr node, w1) \<Rightarrow>
          (if \<not> isUnschedulable node then (None, c, w1)
           else reconcileUnschedulableNode K D node c w1))"

section \<open>Removed nodes\<close>

text \<open>\<open>oaFunc\<close> looks the OneAgent up that the entry names.\<close>

definition removeNode ::
  "'w nodes_cluster \<Rightarrow> 'w nodes_dtf \<Rightarrow> Cache \<Rightarrow> string \<Rightarrow> (string \<Rightarrow> 'w \<Rightarrow> (go_error + OneAgent) \<times> 'w) \<Rightarrow> 'w
     \<Rightarrow> go_error option \<times> Cache \<times> 'w" where
  "removeNode K D c node oaFunc w =
     (case Cache_Get c node of
        Inl e \<Rightarrow> (if e = ErrNotFound then (None, c, w) else (Some e, c, w))
      | Inr nodeInfo \<Rightarrow>
          (let (now, w1) = k_now K w
           in if time_Sub now (ce_LastSeen nodeInfo) > Hour then (None, Cache_Delete node c, w1)
              else if ce_IPAddress nodeInfo = [] then (None, Cache_Delete node c, w1)
              else (case oaFunc (ce_Instance nodeInfo) w1 of
                      (Inl e, w2) \<Rightarrow>
                        (if IsNotFound e then (None, Cache_Delete node c, w2) else (Some e, c, w2))
                    | (Inr oa, w2) \<Rightarrow>
                        (case markForTermination K D c oa (ce_IPAddress nodeInfo) node w2 of
                           (Some e, c', w3) \<Rightarrow> (Some e, c', w3)
                         | (None, c', w3) \<Rightarrow> (None, Cache_Delete node c', w3)))))"

section \<open>Reading and writing the cache object\<close>

definition getCache :: "'w nodes_cluster \<Rightarrow> reconcile_nodes \<Rightarrow> 'w \<Rightarrow> (go_error + Cache) \<times> 'w" where
  "getCache K R w =
     (case k_get_configmap K (rn_namespace R) cacheName w of
        (Inr cm, w1) \<Rightarrow> (Inr \<lparr>cc_Obj = cm, cc_Create = False, cc_upd = False\<rparr>, w1)
      | (Inl err, w1) \<Rightarrow>
          (if IsNotFound err
           then let cm = \<lparr>cm_Name = cacheName, cm_Namespace = rn_namespace R,
                          cm_Data = Some Map.empty, cm_Owner = None\<rparr>
                in (if rn_local R then (Inr \<lparr>cc_Obj = cm, cc_Create = True, cc_upd = False\<rparr>, w1)
                    else case GetDeployment K (rn_namespace R) w1 of
                      (Inl e, w2) \<Rightarrow> (Inl e, w2)
                    | (Inr deploy, w2) \<Rightarrow>
                        (case k_set_owner K deploy cm of
                           Inl e \<Rightarrow> (Inl e, w2)
                         | Inr cm' \<Rightarrow> (Inr \<lparr>cc_Obj = cm', cc_Create = True, cc_upd = False\<rparr>, w2)))
           else (Inl err, w1)))"

definition updateCache :: "'w nodes_cluster \<Rightarrow> Cache \<Rightarrow> 'w \<Rightarrow> go_error option \<times> 'w" where
  "updateCache K c w =
     (if \<not> Cache_Changed c then (None, w)
      else if cc_Create c then k_create_configmap K (cc_Obj c) w
      else k_update_configmap K (cc_Obj c) w)"

section \<open>The handlers\<close>

definition onUpdate ::
  "'w nodes_cluster \<Rightarrow> 'w nodes_dtf \<Rightarrow> reconcile_nodes \<Rightarrow> string \<Rightarrow> 'w \<Rightarrow> go_error option \<times> 'w" where
  "onUpdate K D R node w =
     (case getCache K R w of
        (Inl e, w1) \<Rightarrow> (Some e, w1)
      | (Inr c, w1) \<Rightarrow>
          (case updateNode K D c node w1 of
             (Some e, _, w2) \<Rightarrow> (Some e, w2)
           | (None, c', w2) \<Rightarrow> updateCache K c' w2))"

definition onDeletion ::
  "'w nodes_cluster \<Rightarrow> 'w nodes_dtf \<Rightarrow> reconcile_nodes \<Rightarrow> string \<Rightarrow> 'w \<Rightarrow> go_error option \<times> 'w" where
  "onDeletion K D R node w =
     (case getCache K R w of
        (Inl e, w1) \<Rightarrow> (Some e, w1)
      | (Inr c, w1) \<Rightarrow>
          (case removeNode K D c node (\<lambda>oaName. k_get_oneagent K (rn_namespace R) oaName) w1 of
             (Some e, _, w2) \<Rightarrow> (Some e, w2)
           | (None, c', w2) \<Rightarrow> updateCache K c' w2))"

text \<open>The loop of \<open>reconcileAll\<close> over the nodes of the cluster.\<close>

fun scan_nodes ::
  "'w nodes_cluster \<Rightarrow> 'w nodes_dtf \<Rightarrow> Node list \<Rightarrow> Cache \<Rightarrow> 'w \<Rightarrow> go_error option \<times> Cache \<times> 'w" where
  "scan_nodes K D [] c w = (None, c, w)"
| "scan_nodes K D (node # rest) c w =
     (if isUnschedulable node
      then (case reconcileUnschedulableNode K D node c w of
              (Some e, c', w1) \<Rightarrow> (Some e, c', w1)
            | (None, c', w1) \<Rightarrow> scan_nodes K D rest c' w1)
      else scan_nodes K D rest c w)"

text \<open>\<open>oas\<close>: the OneAgents by name, a later one replacing an earlier one of the same name.\<close>

definition oneagents_by_name :: "OneAgent list \<Rightarrow> string \<rightharpoonup> OneAgent" where
  "oneagents_by_name items = foldl (\<lambda>m oa. m(cr_Name oa \<mapsto> oa)) Map.empty items"

text \<open>The body of the inner loop over the instances of one OneAgent.\<close>

fun add_instances ::
  "'w nodes_cluster \<Rightarrow> string set \<Rightarrow> OneAgent \<Rightarrow> string list \<Rightarrow> Cache \<Rightarrow> 'w
     \<Rightarrow> go_error option \<times> Cache \<times> 'w" where
  "add_instances K nodes oa [] c w = (None, c, w)"
| "add_instances K nodes oa (node # rest) c w =
     (if node \<notin> nodes then add_instances K nodes oa rest c w
      else let (now, w1) = k_now K w;
               info = \<lparr>ce_Instance = cr_Name oa,
                       ce_IPAddress = inst_IPAddress (instance_on oa node),
                       ce_LastSeen = now,
                       ce_LastMarkedForTermination =
                         (case Cache_Get c node of
                            Inr cached \<Rightarrow> ce_LastMarkedForTermination cached
                          | Inl _ \<Rightarrow> zero_time)\<rparr>
           in (case Cache_Set node info c of
                 (Some e, c') \<Rightarrow> (Some e, c', w1)
               | (None, c') \<Rightarrow> add_instances K nodes oa rest c' w1))"

fun add_oneagents ::
  "'w nodes_cluster \<Rightarrow> string set \<Rightarrow> (string \<rightharpoonup> OneAgent) \<Rightarrow> string list \<Rightarrow> Cache \<Rightarrow> 'w
     \<Rightarrow> go_error option \<times> Cache \<times> 'w" where
  "add_oneagents K nodes oas [] c w = (None, c, w)"
| "add_oneagents K nodes oas (name # rest) c w =
     (case oas name of
        None \<Rightarrow> add_oneagents K nodes oas rest c w
      | Some oa \<Rightarrow>
          (case st_Instances (cr_Status oa) of
             None \<Rightarrow> add_oneagents K nodes oas rest c w
           | Some instances \<Rightarrow>
               (let (keys, w1) = k_range K (dom instances) w
                in case add_instances K nodes oa keys c w1 of
                     (Some e, c', w2) \<Rightarrow> (Some e, c', w2)
                   | (None, c', w2) \<Rightarrow> add_oneagents K nodes oas rest c' w2)))"

text \<open>The last loop: nodes of the cache that are not in the cluster; an error is only logged.\<close>

fun drop_nodes ::
  "'w nodes_cluster \<Rightarrow> 'w nodes_dtf \<Rightarrow> string set \<Rightarrow> (string \<rightharpoonup> OneAgent) \<Rightarrow> string list \<Rightarrow> Cache \<Rightarrow> 'w
     \<Rightarrow> Cache \<times> 'w" where
  "drop_nodes K D nodes oas [] c w = (c, w)"
| "drop_nodes K D nodes oas (node # rest) c w =
     (if node \<in> nodes then drop_nodes K D nodes oas rest c w
      else (case removeNode K D c node
                   (\<lambda>name w. ((case oas name of Some oa \<Rightarrow> Inr oa | None \<Rightarrow> Inl KubeNotFound), w)) w of
              (_, c', w1) \<Rightarrow> drop_nodes K D nodes oas rest c' w1))"

text \<open>\<open>reconcileAll\<close> up to the final \<open>updateCache\<close>: the cache that it will write, or the error.\<close>

definition reconcileAll_cache ::
  "'w nodes_cluster \<Rightarrow> 'w nodes_dtf \<Rightarrow> reconcile_nodes \<Rightarrow> 'w \<Rightarrow> (go_error + Cache) \<times> 'w" where
  "reconcileAll_cache K D R w =
     (case k_list_oneagents K (rn_namespace R) w of
        (Inl e, w1) \<Rightarrow> (Inl e, w1)
      | (Inr oaLst, w1) \<Rightarrow>
     (let oas = oneagents_by_name oaLst in
      case getCache K R w1 of
        (Inl e, w2) \<Rightarrow> (Inl e, w2)
      | (Inr c, w2) \<Rightarrow>
     (case k_list_nodes K w2 of
        (Inl e, w3) \<Rightarrow> (Inl e, w3)
      | (Inr nodeLst, w3) \<Rightarrow>
     (let nodes = set (map nd_Name nodeLst) in
      case scan_nodes K D nodeLst c w3 of
        (Some e, _, w4) \<Rightarrow> (Inl e, w4)
      | (None, c1, w4) \<Rightarrow>
     (let (names, w5) = k_range K (dom oas) w4 in
      case add_oneagents K nodes oas names c1 w5 of
        (Some e, _, w6) \<Rightarrow> (Inl e, w6)
      | (None, c2, w6) \<Rightarrow>
     (let (keys, w7) = Cache_Keys K c2 w6;
          (c3, w8) = drop_nodes K D nodes oas keys c2 w7
      in (Inr c3, w8)))))))"

definition reconcileAll ::
  "'w nodes_cluster \<Rightarrow> 'w nodes_dtf \<Rightarrow> reconcile_nodes \<Rightarrow> 'w \<Rightarrow> go_error option \<times> 'w" where
  "reconcileAll K D R w =
     (case reconcileAll_cache K D R w of
        (Inl e, w1) \<Rightarrow> (Some e, w1)
      | (Inr c, w1) \<Rightarrow> updateCache K c w1)"

text \<open>
  The loop of \<open>Start\<close>: one event at a time from the three channels, in any order; an error
  of a handler is logged and the loop goes on.
\<close>

datatype node_event = ChDels string | ChUpdates string | ChAll

fun handle_event ::
  "'w nodes_cluster \<Rightarrow> 'w nodes_dtf \<Rightarrow> reconcile_nodes \<Rightarrow> node_event \<Rightarrow> 'w \<Rightarrow> 'w" where
  "handle_event K D R (ChDels node) w = snd (onDeletion K D R node w)"
| "handle_event K D R (ChUpdates node) w = snd (onUpdate K D R node w)"
| "handle_event K D R ChAll w = snd (reconcileAll K D R w)"

fun Start :: "'w nodes_cluster \<Rightarrow> 'w nodes_dtf \<Rightarrow> reconcile_nodes \<Rightarrow> node_event list \<Rightarrow> 'w \<Rightarrow> 'w" where
  "Start K D R [] w = w"
| "Start K D R (ev # evs) w = Start K D R evs (handle_event K D R ev w)"

section \<open>A concrete client function\<close>

definition sample_dtf :: "go_error option \<Rightarrow> 'w nodes_dtf" where
  "sample_dtf send_result = (\<lambda>oa a p w. (Inr (sample_dt_client send_result), w))"

end
