(* ===== verification/Nodes_Props.thy ===== *)
theory Nodes_Props
  imports Nodes
begin

text \<open>
  What the nodes controller keeps: what the cache holds after a full reconciliation, when a node is
  marked (the contract \<open>throttle\<close>) and what becomes of marks whose event could not be sent, and the
  removal of nodes.
\<close>

section \<open>The mark of a node\<close>

interpretation mark: throttle markable_at "\<lambda>e t. e\<lparr>ce_LastMarkedForTermination := t\<rparr>" Hour
  by unfold_locales (auto simp: markable_at_def)

lemma markForTermination_not_markable:
  assumes "Cache_Get c n = Inr e" and "k_now K w = (t, w1)" and "\<not> markable_at e t"
  shows "markForTermination K D c oa ip n w = (None, c, w1)"
  using assms by (simp add: markForTermination_def isMarkableForTermination_def)

lemma updateLastMarked_cases:
  assumes "updateLastMarkedForTerminationTimestamp K c e n w = (r, e', c', w')"
  obtains (ok) t where "r = None" "e' = e\<lparr>ce_LastMarkedForTermination := t\<rparr>" "k_now K w = (t, w')"
      "Cache_Set n e' c = (None, c')"
    | (err) x where "r = Some x" "c' = c"
proof (cases r)
  case None
  with assms ok show thesis
    by (auto simp: updateLastMarkedForTerminationTimestamp_def Let_def split: prod.splits)
next
  case (Some x)
  with assms have "c' = c"
    by (auto simp: updateLastMarkedForTerminationTimestamp_def Let_def split: prod.splits
        dest: cache.put_err)
  with Some err show thesis by blast
qed

text \<open>Either the cache is as it was, or the node was markable and its entry carries a new mark.\<close>

lemma markForTermination_cases:
  assumes "markForTermination K D c oa ip n w = (r, c', w')"
  obtains (same) "c' = c"
    | (stamped) e t0 w1 t w2 where "Cache_Get c n = Inr e" "k_now K w = (t0, w1)" "markable_at e t0"
      "k_now K w1 = (t, w2)" "Cache_Set n (e\<lparr>ce_LastMarkedForTermination := t\<rparr>) c = (None, c')"
      "sendMarkedForTermination D oa ip (ce_LastSeen e) w2 = (r, w')"
proof (cases "Cache_Get c n")
  case (Inl a)
  with assms same show thesis by (simp add: markForTermination_def)
next
  case (Inr e)
  obtain t0 w1 where now: "k_now K w = (t0, w1)" by fastforce
  show thesis
  proof (cases "markable_at e t0")
    case False
    with assms Inr now same show thesis by (simp add: markForTermination_not_markable)
  next
    case True
    obtain x e' c1 w2 where u: "updateLastMarkedForTerminationTimestamp K c e n w1 = (x, e', c1, w2)"
      by (metis prod_cases4)
    from u show thesis
    proof (cases rule: updateLastMarked_cases)
      case (ok t)
      with assms Inr now True u show thesis
        by (intro stamped [of e t0 w1 t w2])
          (auto simp: markForTermination_def isMarkableForTermination_def split: prod.splits)
    next
      case (err y)
      with assms Inr now True u same show thesis
        by (auto simp: markForTermination_def isMarkableForTermination_def)
    qed
  qed
qed

lemma markForTermination_run:
  "markForTermination K D c oa ip n w = (r, c', w') \<Longrightarrow> cache_run b c \<Longrightarrow> cache_run b c'"
  by (erule markForTermination_cases) (auto intro: cache_run_set)

lemma markForTermination_get:
  assumes "markForTermination K D c oa ip n w = (r, c', w')"
  shows "m \<noteq> n \<Longrightarrow> Cache_Get c' m = Cache_Get c m"
    and "Cache_Get c n = Inr e \<Longrightarrow> \<exists>t. Cache_Get c' n = Inr (e\<lparr>ce_LastMarkedForTermination := t\<rparr>)"
    and "Cache_names c' = Cache_names c"
proof -
  show "m \<noteq> n \<Longrightarrow> Cache_Get c' m = Cache_Get c m"
    using assms by (cases rule: markForTermination_cases) (auto simp: cache.get_put_other)
  show "Cache_Get c n = Inr e \<Longrightarrow> \<exists>t. Cache_Get c' n = Inr (e\<lparr>ce_LastMarkedForTermination := t\<rparr>)"
    using assms
  proof (cases rule: markForTermination_cases)
    case same
    assume "Cache_Get c n = Inr e"
    with same show ?thesis by (intro exI [of _ "ce_LastMarkedForTermination e"]) simp
  next
    case (stamped e' t0 w1 t w2)
    assume "Cache_Get c n = Inr e"
    with stamped show ?thesis by (auto dest!: cache.get_put_same)
  qed
  show "Cache_names c' = Cache_names c"
    using assms
  proof (cases rule: markForTermination_cases)
    case (stamped e' t0 w1 t w2)
    with cache.names_put [OF stamped(5)] cache.get_Inr_names [OF stamped(1)] show ?thesis by auto
  qed simp
qed

section \<open>Removal of a node\<close>

text \<open>Every way in which \<open>removeNode\<close> ends.\<close>

lemma removeNode_cases:
  assumes "removeNode K D c n f w = (r, c', w')"
  obtains (absent) "Cache_Get c n = Inl ErrNotFound" "r = None" "c' = c"
    | (unreadable) x where "Cache_Get c n = Inl x" "x \<noteq> ErrNotFound" "r = Some x" "c' = c"
    | (dropped) e where "Cache_Get c n = Inr e" "r = None" "c' = Cache_Delete n c"
    | (lookup_failed) e w1 w2 x where "Cache_Get c n = Inr e" "f (ce_Instance e) w1 = (Inl x, w2)"
      "x \<noteq> KubeNotFound" "r = Some x" "c' = c" "ce_IPAddress e \<noteq> []"
    | (mark_failed) e w1 oa w2 x where "Cache_Get c n = Inr e" "f (ce_Instance e) w1 = (Inr oa, w2)"
      "markForTermination K D c oa (ce_IPAddress e) n w2 = (Some x, c', w')" "r = Some x"
      "ce_IPAddress e \<noteq> []"
    | (marked) e w1 oa w2 c1 where "Cache_Get c n = Inr e" "f (ce_Instance e) w1 = (Inr oa, w2)"
      "markForTermination K D c oa (ce_IPAddress e) n w2 = (None, c1, w')" "r = None"
      "c' = Cache_Delete n c1"
proof (cases "Cache_Get c n")
  case (Inl x)
  with assms absent unreadable show thesis by (auto simp: removeNode_def split: if_splits)
next
  case (Inr e)
  obtain t w1 where now: "k_now K w = (t, w1)" by fastforce
  show thesis
  proof (cases "time_Sub t (ce_LastSeen e) > Hour \<or> ce_IPAddress e = []")
    case True
    with assms Inr now dropped show thesis by (auto simp: removeNode_def split: if_splits)
  next
    case False
    obtain l w2 where f: "f (ce_Instance e) w1 = (l, w2)" by fastforce
    show thesis
    proof (cases l)
      case (Inl x)
      with assms Inr now False f dropped lookup_failed show thesis
        by (auto simp: removeNode_def go_errs split: if_splits)
    next
      case l: (Inr oa)
      obtain x c1 w3 where m: "markForTermination K D c oa (ce_IPAddress e) n w2 = (x, c1, w3)"
        by (metis prod_cases3)
      from assms Inr now False f l m have
        "(r, c', w') = (case x of None \<Rightarrow> (None, Cache_Delete n c1, w3) | Some y \<Rightarrow> (Some y, c1, w3))"
        by (auto simp: removeNode_def split: option.splits)
      with Inr False f l m mark_failed marked show thesis
        by (cases x) auto
    qed
  qed
qed

lemma removeNode_others:
  assumes "removeNode K D c n f w = (r, c', w')" and "m \<noteq> n"
  shows "Cache_Get c' m = Cache_Get c m"
  using assms by (cases rule: removeNode_cases) (auto simp: cache.get_del markForTermination_get)

lemma removeNode_names:
  assumes "removeNode K D c n f w = (r, c', w')"
  shows "Cache_names c' \<subseteq> Cache_names c" and "Cache_names c - {n} \<subseteq> Cache_names c'"
  using assms by (cases rule: removeNode_cases; auto simp: cache.names_del dest: markForTermination_get(3))+

lemma removeNode_None:
  assumes "removeNode K D c n f w = (None, c', w')"
  shows "Cache_Get c' n = Inl ErrNotFound"
  using assms by (cases rule: removeNode_cases) (auto simp: cache.get_del)

text \<open>
  Whether the removal of a node fails, from its entry and the world in which the removal
  starts: the entry's text is unreadable, or the node was seen within the hour, has an
  address and an existing OneAgent, its last mark is over an hour old, and either the new
  mark cannot be stored or the event for Dynatrace cannot be sent.
\<close>

definition removal_fails ::
  "'w nodes_cluster \<Rightarrow> 'w nodes_dtf \<Rightarrow> (string \<rightharpoonup> OneAgent) \<Rightarrow> go_error + CacheEntry \<Rightarrow> 'w \<Rightarrow> bool" where
  "removal_fails K D oas entry w =
     (case entry of
        Inl x \<Rightarrow> x \<noteq> ErrNotFound
      | Inr e \<Rightarrow>
          (let (t1, w1) = k_now K w; (t2, w2) = k_now K w1; (t3, w3) = k_now K w2
           in t1 - ce_LastSeen e \<le> Hour \<and> ce_IPAddress e \<noteq> [] \<and>
              ce_LastMarkedForTermination e + Hour < t2 \<and>
              (case oas (ce_Instance e) of
                 None \<Rightarrow> False
               | Some oa \<Rightarrow> \<not> (json_time_ok (ce_LastSeen e) \<and> json_time_ok t3) \<or>
                   fst (sendMarkedForTermination D oa (ce_IPAddress e) (ce_LastSeen e) w3) \<noteq> None)))"

abbreviation lookup_by_name :: "(string \<rightharpoonup> OneAgent) \<Rightarrow> string \<Rightarrow> 'w \<Rightarrow> (go_error + OneAgent) \<times> 'w" where
  "lookup_by_name oas \<equiv> \<lambda>name w. ((case oas name of Some oa \<Rightarrow> Inr oa | None \<Rightarrow> Inl KubeNotFound), w)"

lemma markForTermination_fails:
  assumes "Cache_Get c n = Inr e" and "markForTermination K D c oa ip n w = (r, c', w')"
    and "k_now K w = (t2, w2)" and "k_now K w2 = (t3, w3)"
  shows "r \<noteq> None \<longleftrightarrow> ce_LastMarkedForTermination e + Hour < t2 \<and>
     (\<not> (json_time_ok (ce_LastSeen e) \<and> json_time_ok t3) \<or>
      fst (sendMarkedForTermination D oa ip (ce_LastSeen e) w3) \<noteq> None)"
  using assms
  by (auto simp: markForTermination_def isMarkableForTermination_def markable_at_def Let_def
      updateLastMarkedForTerminationTimestamp_def Cache_Set_def json_marshal_entry_def
      split: if_splits prod.splits option.splits)

lemma removeNode_fails:
  assumes rm: "removeNode K D c n (lookup_by_name oas) w = (r, c', w')"
  shows "r \<noteq> None \<longleftrightarrow> removal_fails K D oas (Cache_Get c n) w"
proof (cases "Cache_Get c n")
  case (Inl x)
  with rm show ?thesis by (auto simp: removeNode_def removal_fails_def split: if_splits)
next
  case (Inr e)
  obtain t1 w1 t2 w2 t3 w3 where now: "k_now K w = (t1, w1)" "k_now K w1 = (t2, w2)" "k_now K w2 = (t3, w3)"
    by (metis surj_pair)
  show ?thesis
  proof (cases "t1 - ce_LastSeen e \<le> Hour \<and> ce_IPAddress e \<noteq> [] \<and> ce_Instance e \<in> dom oas")
    case False
    with rm Inr now show ?thesis
      by (auto simp: removeNode_def removal_fails_def time_Sub_gt_Hour go_errs split: option.splits if_splits)
  next
    case True
    then obtain oa where oa: "oas (ce_Instance e) = Some oa" by blast
    obtain x c1 w4 where m: "markForTermination K D c oa (ce_IPAddress e) n w1 = (x, c1, w4)"
      by (metis prod_cases3)
    with rm Inr now True oa have "r = x"
      by (auto simp: removeNode_def time_Sub_gt_Hour split: option.splits if_splits)
    with markForTermination_fails [OF Inr m now(2,3)] Inr now True oa show ?thesis
      by (simp add: removal_fails_def)
  qed
qed

lemma removeNode_keeps_iff:
  assumes "removeNode K D c n (lookup_by_name oas) w = (r, c', w')"
  shows "n \<in> Cache_names c' \<longleftrightarrow> removal_fails K D oas (Cache_Get c n) w"
proof (cases r)
  case None
  with assms removeNode_fails [OF assms] removeNode_None [of K D c n _ w c' w'] show ?thesis
    using cache.get_names by auto
next
  case (Some x)
  with assms removeNode_fails [OF assms] have "Cache_names c' = Cache_names c" "Cache_Get c n \<noteq> Inl ErrNotFound"
    by (cases rule: removeNode_cases; auto simp: markForTermination_get(3))+
  with Some removeNode_fails [OF assms] cache.get_names show ?thesis by auto
qed

section \<open>The loops of reconcileAll\<close>

lemma removeNode_run:
  "removeNode K D c n f w = (r, c', w') \<Longrightarrow> cache_run b c \<Longrightarrow> cache_run b c'"
  by (erule removeNode_cases) (auto intro: cache_run_delete markForTermination_run)

lemma drop_nodes_names:
  "drop_nodes K D nodes oas ks c w = (c', w') \<Longrightarrow>
   Cache_names c' \<subseteq> Cache_names c \<and> (\<forall>m. m \<notin> set ks - nodes \<longrightarrow> Cache_Get c' m = Cache_Get c m)"
proof (induction ks arbitrary: c w)
  case (Cons n ks)
  show ?case
  proof (cases "n \<in> nodes")
    case False
    obtain r c1 w1 where rm: "removeNode K D c n
        (\<lambda>name w. ((case oas name of Some oa \<Rightarrow> Inr oa | None \<Rightarrow> Inl KubeNotFound), w)) w = (r, c1, w1)"
      by (metis prod_cases3)
    with Cons.prems False have rest: "drop_nodes K D nodes oas ks c1 w1 = (c', w')" by simp
    have "\<forall>m. m \<noteq> n \<longrightarrow> Cache_Get c1 m = Cache_Get c m" using removeNode_others [OF rm] by blast
    note oth = this
    show ?thesis
    proof (intro conjI allI impI)
      show "Cache_names c' \<subseteq> Cache_names c"
        using Cons.IH [OF rest] removeNode_names(1) [OF rm] by blast
      fix m assume "m \<notin> set (n # ks) - nodes"
      with False have "m \<noteq> n" "m \<notin> set ks - nodes" by auto
      with Cons.IH [OF rest] oth show "Cache_Get c' m = Cache_Get c m" by simp
    qed
  qed (use Cons in auto)
qed simp

text \<open>
  When the last loop comes to a node, its entry is the one from before the loop, and the
  world is the one in which the removals before it ended.
\<close>

definition world_at ::
  "'w nodes_cluster \<Rightarrow> 'w nodes_dtf \<Rightarrow> string set \<Rightarrow> (string \<rightharpoonup> OneAgent) \<Rightarrow> string list \<Rightarrow> Cache \<Rightarrow> 'w \<Rightarrow> string \<Rightarrow> 'w" where
  "world_at K D nodes oas ks c w n = snd (drop_nodes K D nodes oas (takeWhile (\<lambda>k. k \<noteq> n) ks) c w)"

lemma drop_nodes_append:
  "drop_nodes K D nodes oas (xs @ ys) c w =
     (let (c1, w1) = drop_nodes K D nodes oas xs c w in drop_nodes K D nodes oas ys c1 w1)"
  by (induction xs arbitrary: c w) (auto split: prod.splits)

lemma drop_nodes_keeps_iff:
  assumes run: "drop_nodes K D nodes oas ks c w = (c', w')" and "distinct ks" and "n \<in> set ks" and "n \<notin> nodes"
  shows "n \<in> Cache_names c' \<longleftrightarrow> removal_fails K D oas (Cache_Get c n) (world_at K D nodes oas ks c w n)"
proof -
  let ?before = "takeWhile (\<lambda>k. k \<noteq> n) ks"
  from split_list_first [OF assms(3)] obtain before after where split: "ks = before @ n # after" "n \<notin> set before"
    by blast
  then have "?before = before" by (simp add: takeWhile_append)
  with split have ks: "ks = ?before @ n # after" and out: "n \<notin> set ?before" by simp_all
  from ks assms(2) have out2: "n \<notin> set after" by (metis distinct.simps(2) distinct_append)
  obtain c1 w1 where first: "drop_nodes K D nodes oas ?before c w = (c1, w1)" by fastforce
  obtain r c2 w2 where rm: "removeNode K D c1 n (lookup_by_name oas) w1 = (r, c2, w2)" by (metis prod_cases3)
  from run ks first rm assms(4) have rest: "drop_nodes K D nodes oas after c2 w2 = (c', w')"
    using drop_nodes_append [of K D nodes oas ?before "n # after" c w] by simp
  from drop_nodes_names [OF first] out have "Cache_Get c1 n = Cache_Get c n" by blast
  moreover from drop_nodes_names [OF rest] out2 have "Cache_Get c' n = Cache_Get c2 n" by blast
  then have "n \<in> Cache_names c' \<longleftrightarrow> n \<in> Cache_names c2"
    using cache.get_names [of c' n] cache.get_names [of c2 n] by simp
  ultimately show ?thesis using removeNode_keeps_iff [OF rm] first by (simp add: world_at_def)
qed

lemma drop_nodes_run:
  "drop_nodes K D nodes oas ks c w = (c', w') \<Longrightarrow> cache_run b c \<Longrightarrow> cache_run b c'"
proof (induction ks arbitrary: c w)
  case (Cons n ks)
  then show ?case
    by (auto split: if_splits prod.splits intro: removeNode_run)
qed simp

text \<open>What the second loop stores for a node of the cluster that an instance list names.\<close>

definition stored_for :: "OneAgent \<Rightarrow> string \<Rightarrow> CacheEntry \<Rightarrow> bool" where
  "stored_for oa n e \<longleftrightarrow>
     ce_Instance e = cr_Name oa \<and> ce_IPAddress e = inst_IPAddress (instance_on oa n)"

lemma add_instances_get:
  "add_instances K nodes oa ks c w = (None, c', w') \<Longrightarrow>
   if n \<in> set ks \<inter> nodes then \<exists>e. Cache_Get c' n = Inr e \<and> stored_for oa n e
   else Cache_Get c' n = Cache_Get c n"
proof (induction ks arbitrary: c w)
  case (Cons k ks)
  show ?case
  proof (cases "k \<in> nodes")
    case False
    with Cons.prems have "add_instances K nodes oa ks c w = (None, c', w')" by simp
    from Cons.IH [OF this] False show ?thesis by (auto split: if_splits)
  next
    case True
    obtain info c1 w1 where s: "Cache_Set k info c = (None, c1)" "stored_for oa k info"
      and rest: "add_instances K nodes oa ks c1 w1 = (None, c', w')"
      using Cons.prems True
      by (auto simp: stored_for_def Let_def split: prod.splits option.splits)
    from Cons.IH [OF rest] s True cache.get_put [OF s(1)] show ?thesis
      by (cases "n \<in> set ks") (auto split: if_splits)
  qed
qed simp

lemma add_instances_run:
  "add_instances K nodes oa ks c w = (r, c', w') \<Longrightarrow> cache_run b c \<Longrightarrow> cache_run b c'"
proof (induction ks arbitrary: c w)
  case (Cons k ks)
  then show ?case
    by (auto simp: Let_def split: if_splits prod.splits option.splits intro: cache_run_set)
qed simp

lemma add_instances_names:
  "add_instances K nodes oa ks c w = (r, c', w') \<Longrightarrow>
   Cache_names c \<subseteq> Cache_names c' \<and> Cache_names c' \<subseteq> Cache_names c \<union> nodes"
proof (induction ks arbitrary: c w)
  case (Cons k ks)
  show ?case
  proof (cases "k \<in> nodes")
    case False
    with Cons show ?thesis by simp
  next
    case True
    obtain info x c1 w1 where s: "Cache_Set k info c = (x, c1)"
      and rest: "c' = c1 \<or> add_instances K nodes oa ks c1 w1 = (r, c', w')"
      using Cons.prems True
      by (auto simp: Let_def split: prod.splits option.splits)
    from cache.names_put_le [OF s] True rest Cons.IH [of c1 w1] show ?thesis by auto
  qed
qed simp

definition lists_node :: "OneAgent \<Rightarrow> string \<Rightarrow> bool" where
  "lists_node oa n \<longleftrightarrow> (case st_Instances (cr_Status oa) of None \<Rightarrow> False | Some m \<Rightarrow> n \<in> dom m)"

definition finite_instances :: "OneAgent \<Rightarrow> bool" where
  "finite_instances oa \<longleftrightarrow>
     (case st_Instances (cr_Status oa) of None \<Rightarrow> True | Some m \<Rightarrow> finite (dom m))"

lemma add_oneagents_step:
  assumes law: "range_law K" and "oas name = Some oa" and fin: "finite_instances oa"
    and "add_oneagents K nodes oas (name # rest) c w = (None, c', w')"
  obtains c1 w1 where "add_oneagents K nodes oas rest c1 w1 = (None, c', w')"
    and "\<And>n. if lists_node oa n \<and> n \<in> nodes then \<exists>e. Cache_Get c1 n = Inr e \<and> stored_for oa n e
         else Cache_Get c1 n = Cache_Get c n"
proof (cases "st_Instances (cr_Status oa)")
  case None
  with assms that show thesis by (auto simp: lists_node_def)
next
  case (Some m)
  obtain ks w1 where ks: "k_range K (dom m) w = (ks, w1)" by fastforce
  with law fin Some have set_ks: "set ks = dom m" by (auto simp: finite_instances_def dest: range_lawD)
  obtain r c1 w2 where a: "add_instances K nodes oa ks c w1 = (r, c1, w2)" by (metis prod_cases3)
  with assms(2,4) Some ks have r: "r = None" and rest: "add_oneagents K nodes oas rest c1 w2 = (None, c', w')"
    by (auto split: option.splits)
  from rest show thesis
  proof (rule that)
    fix n
    from add_instances_get [OF a [unfolded r], of n] set_ks Some
    show "if lists_node oa n \<and> n \<in> nodes then \<exists>e. Cache_Get c1 n = Inr e \<and> stored_for oa n e
         else Cache_Get c1 n = Cache_Get c n"
      by (auto simp: lists_node_def split: if_splits)
  qed
qed

lemma add_oneagents_get:
  assumes "range_law K" and "\<And>oa. oa \<in> ran oas \<Longrightarrow> finite_instances oa"
    and "add_oneagents K nodes oas names c w = (None, c', w')"
  shows "(\<exists>name oa e. name \<in> set names \<and> oas name = Some oa \<and> lists_node oa n \<and> n \<in> nodes \<and>
            Cache_Get c' n = Inr e \<and> stored_for oa n e) \<or>
         Cache_Get c' n = Cache_Get c n \<and>
         (n \<in> nodes \<longrightarrow> (\<forall>name \<in> set names. \<forall>oa. oas name = Some oa \<longrightarrow> \<not> lists_node oa n))"
  using assms(3)
proof (induction names arbitrary: c w)
  case (Cons name rest)
  show ?case
  proof (cases "oas name")
    case None
    with Cons.prems have "add_oneagents K nodes oas rest c w = (None, c', w')" by simp
    from Cons.IH [OF this] None show ?thesis by auto
  next
    case (Some oa)
    with assms(2) have "finite_instances oa" by (auto simp: ran_def)
    from add_oneagents_step [OF assms(1) Some this Cons.prems] obtain c1 w1 where
      rest: "add_oneagents K nodes oas rest c1 w1 = (None, c', w')" and
      g: "if lists_node oa n \<and> n \<in> nodes then \<exists>e. Cache_Get c1 n = Inr e \<and> stored_for oa n e
          else Cache_Get c1 n = Cache_Get c n" by blast
    from Cons.IH [OF rest] Some g show ?thesis by (auto split: if_splits)
  qed
qed simp

lemma add_oneagents_names:
  "add_oneagents K nodes oas names c w = (r, c', w') \<Longrightarrow>
   Cache_names c \<subseteq> Cache_names c' \<and> Cache_names c' \<subseteq> Cache_names c \<union> nodes"
proof (induction names arbitrary: c w)
  case (Cons name rest)
  show ?case
  proof (cases "\<exists>oa m. oas name = Some oa \<and> st_Instances (cr_Status oa) = Some m")
    case False
    with Cons show ?thesis by (auto split: option.splits)
  next
    case True
    then obtain oa m where oa: "oas name = Some oa" "st_Instances (cr_Status oa) = Some m" by blast
    obtain ks w1 where ks: "k_range K (dom m) w = (ks, w1)" by fastforce
    obtain x c1 w2 where a: "add_instances K nodes oa ks c w1 = (x, c1, w2)" by (metis prod_cases3)
    from Cons.prems oa ks a have
      "c' = c1 \<or> add_oneagents K nodes oas rest c1 w2 = (r, c', w')" by (auto split: option.splits)
    with add_instances_names [OF a] Cons.IH [of c1 w2] show ?thesis by auto
  qed
qed simp

lemma add_oneagents_run:
  "add_oneagents K nodes oas names c w = (r, c', w') \<Longrightarrow> cache_run b c \<Longrightarrow> cache_run b c'"
proof (induction names arbitrary: c w)
  case (Cons name rest)
  show ?case
  proof (cases "\<exists>oa m. oas name = Some oa \<and> st_Instances (cr_Status oa) = Some m")
    case False
    with Cons show ?thesis by (auto split: option.splits)
  next
    case True
    then obtain oa m where oa: "oas name = Some oa" "st_Instances (cr_Status oa) = Some m" by blast
    obtain ks w1 where ks: "k_range K (dom m) w = (ks, w1)" by fastforce
    obtain x c1 w2 where a: "add_instances K nodes oa ks c w1 = (x, c1, w2)" by (metis prod_cases3)
    from Cons.prems oa ks a have
      "c' = c1 \<or> add_oneagents K nodes oas rest c1 w2 = (r, c', w')" by (auto split: option.splits)
    with add_instances_run [OF a Cons.prems(2)] Cons.IH [of c1 w2] show ?thesis by auto
  qed
qed simp

section \<open>Cordoned nodes\<close>

lemma reconcileUnschedulableNode_cases:
  assumes "reconcileUnschedulableNode K D node c w = (r, c', w')"
  obtains (same) "c' = c"
    | (known) oa w1 where "markForTermination K D c oa (inst_IPAddress (instance_on oa (nd_Name node)))
        (nd_Name node) w1 = (r, c', w')"
    | (new) oa e c1 w1 where "Cache_Set (nd_Name node) e c = (None, c1)" "stored_for oa (nd_Name node) e"
      "ce_LastMarkedForTermination e = zero_time"
      "markForTermination K D c1 oa (inst_IPAddress (instance_on oa (nd_Name node)))
         (nd_Name node) w1 = (r, c', w')"
proof -
  obtain d w1 where d: "determineOneAgentForNode K (nd_Name node) w = (d, w1)" by fastforce
  show thesis
  proof (cases "\<exists>oa. d = Inr (Some oa)")
    case False
    with assms d same show thesis
      by (auto simp: reconcileUnschedulableNode_def split: sum.splits option.splits)
  next
    case True
    then obtain oa where oa: "d = Inr (Some oa)" by blast
    show thesis
    proof (cases "Cache_Get c (nd_Name node)")
      case (Inr e)
      with assms d oa known show thesis by (auto simp: reconcileUnschedulableNode_def Let_def)
    next
      case (Inl x)
      show thesis
      proof (cases "x = ErrNotFound")
        case False
        with assms d oa Inl same show thesis by (auto simp: reconcileUnschedulableNode_def Let_def)
      next
        case True
        obtain t w2 where now: "k_now K w1 = (t, w2)" by fastforce
        let ?e = "\<lparr>ce_Instance = cr_Name oa, ce_IPAddress = inst_IPAddress (instance_on oa (nd_Name node)),
          ce_LastSeen = t, ce_LastMarkedForTermination = zero_time\<rparr>"
        obtain y c1 where s: "Cache_Set (nd_Name node) ?e c = (y, c1)" by fastforce
        show thesis
        proof (cases y)
          case None
          with assms d oa Inl True now s show thesis
            by (intro new [of ?e c1 oa w2])
              (auto simp: reconcileUnschedulableNode_def stored_for_def Let_def)
        next
          case (Some z)
          with assms d oa Inl True now s same show thesis
            by (auto simp: reconcileUnschedulableNode_def Let_def dest: cache.put_err)
        qed
      qed
    qed
  qed
qed

lemma reconcileUnschedulableNode_run:
  "reconcileUnschedulableNode K D node c w = (r, c', w') \<Longrightarrow> cache_run b c \<Longrightarrow> cache_run b c'"
  by (erule reconcileUnschedulableNode_cases)
    (auto intro: markForTermination_run cache_run_set)

lemma reconcileUnschedulableNode_names:
  assumes "reconcileUnschedulableNode K D node c w = (r, c', w')"
  shows "Cache_names c \<subseteq> Cache_names c' \<and> Cache_names c' \<subseteq> insert (nd_Name node) (Cache_names c)"
  using assms
  by (cases rule: reconcileUnschedulableNode_cases)
    (auto simp: markForTermination_get(3) cache.names_put)

lemma scan_nodes_names:
  "scan_nodes K D nds c w = (r, c', w') \<Longrightarrow>
   Cache_names c \<subseteq> Cache_names c' \<and> Cache_names c' \<subseteq> Cache_names c \<union> set (map nd_Name nds)"
proof (induction nds arbitrary: c w)
  case (Cons nd nds)
  show ?case
  proof (cases "isUnschedulable nd")
    case False
    with Cons show ?thesis by auto
  next
    case True
    obtain x c1 w1 where u: "reconcileUnschedulableNode K D nd c w = (x, c1, w1)" by (metis prod_cases3)
    with Cons.prems True have "c' = c1 \<or> scan_nodes K D nds c1 w1 = (r, c', w')"
      by (auto split: option.splits)
    with reconcileUnschedulableNode_names [OF u] Cons.IH [of c1 w1] show ?thesis by auto
  qed
qed simp

lemma scan_nodes_others:
  "scan_nodes K D nds c w = (r, c', w') \<Longrightarrow> m \<notin> set (map nd_Name nds) \<Longrightarrow> Cache_Get c' m = Cache_Get c m"
proof (induction nds arbitrary: c w)
  case (Cons nd nds)
  show ?case
  proof (cases "isUnschedulable nd")
    case False
    with Cons show ?thesis by auto
  next
    case True
    obtain x c1 w1 where u: "reconcileUnschedulableNode K D nd c w = (x, c1, w1)" by (metis prod_cases3)
    from u Cons.prems(2) have "Cache_Get c1 m = Cache_Get c m"
      by (cases rule: reconcileUnschedulableNode_cases) (auto simp: markForTermination_get cache.get_put_other)
    moreover have "c' = c1 \<or> scan_nodes K D nds c1 w1 = (r, c', w')"
      using Cons.prems(1) True u by (auto split: option.splits)
    ultimately show ?thesis using Cons.IH [of c1 w1] Cons.prems(2) by auto
  qed
qed simp

lemma scan_nodes_run:
  "scan_nodes K D nds c w = (r, c', w') \<Longrightarrow> cache_run b c \<Longrightarrow> cache_run b c'"
proof (induction nds arbitrary: c w)
  case (Cons nd nds)
  show ?case
  proof (cases "isUnschedulable nd")
    case False
    with Cons show ?thesis by auto
  next
    case True
    obtain x c1 w1 where u: "reconcileUnschedulableNode K D nd c w = (x, c1, w1)" by (metis prod_cases3)
    with Cons.prems True have "c' = c1 \<or> scan_nodes K D nds c1 w1 = (r, c', w')"
      by (auto split: option.splits)
    with reconcileUnschedulableNode_run [OF u Cons.prems(2)] Cons.IH [of c1 w1] show ?thesis by auto
  qed
qed simp

section \<open>reconcileAll\<close>

lemma reconcileAll_cache_steps:
  assumes "reconcileAll_cache K D R w = (Inr c, w')"
  obtains oaLst w1 c0 w2 nodeLst w3 c1 w4 names w5 c2 w6 keys w7 where
    "k_list_oneagents K (rn_namespace R) w = (Inr oaLst, w1)"
    "getCache K R w1 = (Inr c0, w2)"
    "k_list_nodes K w2 = (Inr nodeLst, w3)"
    "scan_nodes K D nodeLst c0 w3 = (None, c1, w4)"
    "k_range K (dom (oneagents_by_name oaLst)) w4 = (names, w5)"
    "add_oneagents K (set (map nd_Name nodeLst)) (oneagents_by_name oaLst) names c1 w5 = (None, c2, w6)"
    "Cache_Keys K c2 w6 = (keys, w7)"
    "drop_nodes K D (set (map nd_Name nodeLst)) (oneagents_by_name oaLst) keys c2 w7 = (c, w')"
  using assms unfolding reconcileAll_cache_def Let_def
  by (auto split: prod.splits sum.splits option.splits)

lemma oneagents_by_name_Some:
  "oneagents_by_name items n = Some oa \<Longrightarrow> oa \<in> set items \<and> cr_Name oa = n"
proof -
  have "foldl (\<lambda>m oa. m(cr_Name oa \<mapsto> oa)) m items n = Some oa \<Longrightarrow>
    m n = Some oa \<or> oa \<in> set items \<and> cr_Name oa = n" for m
    by (induction items arbitrary: m) (fastforce split: if_splits)+
  from this [of Map.empty] show "oneagents_by_name items n = Some oa \<Longrightarrow> ?thesis"
    by (simp add: oneagents_by_name_def)
qed

lemma finite_dom_oneagents_by_name [simp]: "finite (dom (oneagents_by_name items))"
proof -
  have "dom (oneagents_by_name items) \<subseteq> cr_Name ` set items"
    using oneagents_by_name_Some by fastforce
  then show ?thesis by (rule finite_subset) simp
qed

lemma getCache_flags: "getCache K R w = (Inr c, w') \<Longrightarrow> \<not> cc_upd c"
  by (auto simp: getCache_def Let_def split: sum.splits prod.splits if_splits)

section \<open>Properties\<close>

text \<open>C30: A full reconciliation leaves the cache complete and without strangers.  When the
  steps before the last loop succeed the cache is computed, and in it every node of the
  cluster that some OneAgent lists among its instances has an entry that names such a
  OneAgent and the node's address there.  A node that is not in the cluster is in the cache
  exactly when it was there before and its removal failed when the last loop came to it:
  its text is unreadable, or its new mark could not be stored, or its event not be sent.\<close>

theorem reconcileAll_cache_correct:
  assumes law: "range_law K"
    and steps: "k_list_oneagents K (rn_namespace R) w = (Inr oaLst, w1)"
      "getCache K R w1 = (Inr c0, w2)"
      "k_list_nodes K w2 = (Inr nodeLst, w3)"
      "scan_nodes K D nodeLst c0 w3 = (None, c1, w4)"
      "k_range K (dom (oneagents_by_name oaLst)) w4 = (names, w5)"
      "add_oneagents K (set (map nd_Name nodeLst)) (oneagents_by_name oaLst) names c1 w5 = (None, c2, w6)"
      "Cache_Keys K c2 w6 = (keys, w7)"
    and fin: "\<forall>oa \<in> set oaLst. finite_instances oa" "finite (Cache_names c0)"
  shows "\<exists>c w'. reconcileAll_cache K D R w = (Inr c, w') \<and>
     (\<forall>n \<in> set (map nd_Name nodeLst). (\<exists>oa \<in> ran (oneagents_by_name oaLst). lists_node oa n) \<longrightarrow>
        (\<exists>oa e. oa \<in> ran (oneagents_by_name oaLst) \<and> lists_node oa n \<and>
                Cache_Get c n = Inr e \<and> ce_Instance e = cr_Name oa \<and>
                ce_IPAddress e = inst_IPAddress (instance_on oa n))) \<and>
     (\<forall>n. n \<notin> set (map nd_Name nodeLst) \<longrightarrow>
        (n \<in> Cache_names c \<longleftrightarrow> n \<in> Cache_names c0 \<and>
           removal_fails K D (oneagents_by_name oaLst) (Cache_Get c0 n)
             (world_at K D (set (map nd_Name nodeLst)) (oneagents_by_name oaLst) keys c2 w7 n)))"
proof -
  let ?oas = "oneagents_by_name oaLst" and ?nodes = "set (map nd_Name nodeLst)"
  obtain c w' where d: "drop_nodes K D ?nodes ?oas keys c2 w7 = (c, w')" by fastforce
  from steps d have rec: "reconcileAll_cache K D R w = (Inr c, w')"
    by (simp add: reconcileAll_cache_def)
  have names: "set names = dom ?oas" using range_lawD [OF law _ steps(5)] by simp
  have finran: "finite_instances oa" if "oa \<in> ran ?oas" for oa
    using that fin(1) by (auto simp: ran_def dest: oneagents_by_name_Some)
  have "finite (Cache_names c2)"
    by (rule finite_subset [OF _ finite_UnI [OF fin(2), of ?nodes]])
      (use scan_nodes_names [OF steps(4)] add_oneagents_names [OF steps(6)] in auto)
  from Cache_Keys_names [OF law this steps(7)] have keys: "set keys = Cache_names c2" "distinct keys" by auto
  note added = add_oneagents_get [OF law finran steps(6)]
  have listed: "\<exists>oa e. oa \<in> ran ?oas \<and> lists_node oa n \<and> Cache_Get c n = Inr e \<and> stored_for oa n e"
    if n: "n \<in> ?nodes" "\<exists>oa \<in> ran ?oas. lists_node oa n" for n
  proof -
    from n(2) obtain name oa where "name \<in> set names" "?oas name = Some oa" "lists_node oa n"
      using names by (fastforce simp: ran_def)
    with n(1) added [of n] obtain oa' e name' where
      "?oas name' = Some oa'" "lists_node oa' n" "Cache_Get c2 n = Inr e" "stored_for oa' n e" by blast
    moreover have "Cache_Get c n = Cache_Get c2 n" using drop_nodes_names [OF d] n(1) by blast
    ultimately show ?thesis by (auto simp: ran_def)
  qed
  have departed: "n \<in> Cache_names c \<longleftrightarrow> n \<in> Cache_names c0 \<and>
      removal_fails K D ?oas (Cache_Get c0 n) (world_at K D ?nodes ?oas keys c2 w7 n)" if n: "n \<notin> ?nodes" for n
  proof -
    from added [of n] n scan_nodes_others [OF steps(4) n] have same: "Cache_Get c2 n = Cache_Get c0 n" by auto
    show ?thesis
    proof (cases "n \<in> Cache_names c2")
      case True
      with drop_nodes_keeps_iff [OF d keys(2) _ n] keys(1) same cache.get_names show ?thesis by metis
    next
      case False
      with drop_nodes_names [OF d] same cache.get_names show ?thesis by (metis subsetD)
    qed
  qed
  from rec listed departed show ?thesis
    by (intro exI [of _ c] exI [of _ w']) (auto simp: stored_for_def)
qed

definition sample_oneagent :: OneAgent where
  "sample_oneagent = (empty_oneagent ''oneagent'' ''dynatrace'')
     \<lparr>cr_Status := empty_status
        \<lparr>st_Instances := Some [''node1'' \<mapsto> \<lparr>inst_PodName = ''p1'', inst_Version = ''1.2'', inst_IPAddress = ''1.2.3.4''\<rparr>]\<rparr>\<rparr>"

definition sample_entry :: CacheEntry where
  "sample_entry = \<lparr>ce_Instance = ''oneagent'', ce_IPAddress = ''1.2.3.4'', ce_LastSeen = 0,
     ce_LastMarkedForTermination = zero_time\<rparr>"

definition sample_cm :: "cache_text ConfigMap" where
  "sample_cm = \<lparr>cm_Name = cacheName, cm_Namespace = ''dynatrace'',
     cm_Data = Some [''node1'' \<mapsto> EntryText sample_entry], cm_Owner = None\<rparr>"

definition sample_node :: "bool \<Rightarrow> Node" where
  "sample_node cordoned = \<lparr>nd_Name = ''node1'', nd_Unschedulable = cordoned, nd_Taints = []\<rparr>"

definition sample_rec :: reconcile_nodes where
  "sample_rec = \<lparr>rn_namespace = ''dynatrace'', rn_local = True\<rparr>"

definition sample_cache :: Cache where
  "sample_cache = \<lparr>cc_Obj = sample_cm, cc_Create = False, cc_upd = False\<rparr>"

lemmas samples =
  sample_dtf_def sample_dt_client_def sample_oneagent_def sample_entry_def
  sample_cm_def sample_node_def sample_rec_def sample_cache_def empty_resources

lemmas nodes_defs =
  removeNode_def markForTermination_def isMarkableForTermination_def markable_at_def
  updateLastMarkedForTerminationTimestamp_def sendMarkedForTermination_def
  Cache_Get_def Cache_Set_def Cache_Delete_def Cache_Keys_def Cache_names_def
  json_marshal_entry_def json_unmarshal_entry_def json_time_ok_def
  zero_time_def Hour_def Minute_def Second_def time_Sub_def Let_def

lemma sample_getCache: "getCache (sample_cluster oas nds (Some sample_cm)) sample_rec w = (Inr sample_cache, w)"
  by (simp add: getCache_def samples)

lemma sample_reconcileAll:
  "\<exists>c. reconcileAll_cache (sample_cluster [sample_oneagent] [sample_node True] (Some sample_cm))
         (sample_dtf None) sample_rec 0 = (Inr c, 0) \<and> ''node1'' \<in> Cache_names c"
  by (simp add: reconcileAll_cache_def getCache_def oneagents_by_name_def
      reconcileUnschedulableNode_def determineOneAgentForNode_def getOneAgentList_def
      filterOneAgentFromList_def instance_on_def isUnschedulable_def nodes_defs samples)

text \<open>Two cached nodes, of which one has left the cluster while Dynatrace cannot be reached.\<close>

definition two_cm :: "cache_text ConfigMap" where
  "two_cm = sample_cm\<lparr>cm_Data := Some [''node1'' \<mapsto> EntryText sample_entry, ''node2'' \<mapsto> EntryText sample_entry]\<rparr>"

definition two_cache :: Cache where
  "two_cache = \<lparr>cc_Obj = two_cm, cc_Create = False, cc_upd = False\<rparr>"

abbreviation two_cluster :: "(cache_text, time) cluster" where
  "two_cluster \<equiv> sample_cluster [sample_oneagent] [sample_node False] (Some two_cm)"

abbreviation two_result :: "go_error option \<times> Cache \<times> time" where
  "two_result \<equiv> add_oneagents two_cluster {''node1''} (oneagents_by_name [sample_oneagent]) [''oneagent''] two_cache 0"

lemma two_steps:
  "getCache two_cluster sample_rec 0 = (Inr two_cache, 0)"
  "scan_nodes two_cluster D [sample_node False] two_cache 0 = (None, two_cache, 0)"
  "k_range two_cluster (dom (oneagents_by_name [sample_oneagent])) 0 = ([''oneagent''], 0)"
  "\<exists>c2. two_result = (None, c2, 0)"
  by (simp_all add: getCache_def two_cache_def two_cm_def isUnschedulable_def hasUnschedulableTaint_def unschedulableTaints_def
      oneagents_by_name_def nodes_defs samples instance_on_def)

lemma sample_world_at: "world_at (sample_cluster oas nds cm) (sample_dtf r) nodes by_name ks c w n = w"
proof -
  have "snd (snd (removeNode (sample_cluster oas nds cm) (sample_dtf r) c n (lookup_by_name by_name) w)) = w" for c n
    by (simp add: removeNode_def markForTermination_def isMarkableForTermination_def sendMarkedForTermination_def
        updateLastMarkedForTerminationTimestamp_def sample_dtf_def sample_dt_client_def Let_def split_beta
        split: sum.split option.split)
  then have "snd (drop_nodes (sample_cluster oas nds cm) (sample_dtf r) nodes by_name ks c w) = w" for ks
    by (induction ks arbitrary: c) (simp_all add: split_beta)
  then show ?thesis by (simp add: world_at_def)
qed

theorem reconcileAll_cache_correct_witness:
  "\<exists>c w'. reconcileAll_cache two_cluster (sample_dtf (Some (ExtErr ''timeout''))) sample_rec 0 = (Inr c, w') \<and>
     (\<exists>e. Cache_Get c ''node1'' = Inr e \<and> ce_Instance e = ''oneagent'' \<and> ce_IPAddress e = ''1.2.3.4'') \<and>
     ''node2'' \<in> Cache_names c"
proof -
  let ?D = "sample_dtf (Some (ExtErr ''timeout'')) :: time nodes_dtf"
  have fin: "\<forall>oa \<in> set [sample_oneagent]. finite_instances oa" "finite (Cache_names two_cache)"
    by (simp_all add: samples two_cache_def two_cm_def finite_instances_def Cache_names_def)
  obtain c2 where c2: "two_result = (None, c2, 0)" using two_steps(4) by blast
  then have add: "add_oneagents two_cluster (set (map nd_Name [sample_node False]))
      (oneagents_by_name [sample_oneagent]) [''oneagent''] two_cache 0 = (None, c2, 0)"
    by (simp add: sample_node_def)
  have l: "k_list_oneagents two_cluster (rn_namespace sample_rec) 0 = (Inr [sample_oneagent], 0)"
    "k_list_nodes two_cluster 0 = (Inr [sample_node False], 0)" by simp_all
  obtain keys w7 where keys: "Cache_Keys two_cluster c2 0 = (keys, w7)" by fastforce
  have ran: "ran (oneagents_by_name [sample_oneagent]) = {sample_oneagent}"
    by (simp add: oneagents_by_name_def)
  have lists: "lists_node sample_oneagent ''node1''" "instance_on sample_oneagent ''node1'' =
      \<lparr>inst_PodName = ''p1'', inst_Version = ''1.2'', inst_IPAddress = ''1.2.3.4''\<rparr>" "cr_Name sample_oneagent = ''oneagent''"
    by (simp_all add: lists_node_def instance_on_def samples)
  have node: "set (map nd_Name [sample_node False]) = {''node1''}" by (simp add: sample_node_def)
  have fails: "removal_fails two_cluster ?D (oneagents_by_name [sample_oneagent]) (Cache_Get two_cache ''node2'') 0"
    by (simp add: removal_fails_def two_cache_def two_cm_def oneagents_by_name_def sendMarkedForTermination_def nodes_defs samples)
  have w7: "w7 = 0" using keys by (auto simp: Cache_Keys_def split: option.splits)
  have cached: "''node2'' \<in> Cache_names two_cache" by (simp add: two_cache_def two_cm_def Cache_names_def)
  from reconcileAll_cache_correct [OF range_law_sample l(1) two_steps(1) l(2) two_steps(2,3) add keys fin, of ?D]
  obtain c w' where run: "reconcileAll_cache two_cluster ?D sample_rec 0 = (Inr c, w')" and
    present: "\<forall>n \<in> {''node1''}. (\<exists>oa \<in> {sample_oneagent}. lists_node oa n) \<longrightarrow>
        (\<exists>oa e. oa \<in> {sample_oneagent} \<and> lists_node oa n \<and> Cache_Get c n = Inr e \<and> ce_Instance e = cr_Name oa \<and>
                ce_IPAddress e = inst_IPAddress (instance_on oa n))" and
    departed: "\<forall>n. n \<notin> {''node1''} \<longrightarrow>
        (n \<in> Cache_names c \<longleftrightarrow> n \<in> Cache_names two_cache \<and>
           removal_fails two_cluster ?D (oneagents_by_name [sample_oneagent]) (Cache_Get two_cache n) 0)"
    unfolding node ran sample_world_at w7 by (elim exE conjE)
  from present lists have "\<exists>e. Cache_Get c ''node1'' = Inr e \<and> ce_Instance e = ''oneagent'' \<and> ce_IPAddress e = ''1.2.3.4''"
    by auto
  moreover from departed cached fails have "''node2'' \<in> Cache_names c" by simp
  ultimately show ?thesis using run by blast
qed

text \<open>An attempt to remove a node touches no other node; it succeeds only with the node
  gone, and on an error the node's entry is still there, the same but for its mark.\<close>

theorem removeNode_outcome:
  assumes "removeNode K D c n f w = (r, c', w')"
  shows "(\<forall>m. m \<noteq> n \<longrightarrow> Cache_Get c' m = Cache_Get c m) \<and>
         (r = None \<longrightarrow> n \<notin> Cache_names c') \<and>
         (r \<noteq> None \<longrightarrow> Cache_names c' = Cache_names c \<and>
            (\<forall>e. Cache_Get c n = Inr e \<longrightarrow>
                 (\<exists>t. Cache_Get c' n = Inr (e\<lparr>ce_LastMarkedForTermination := t\<rparr>))))"
proof (intro conjI impI allI)
  show "m \<noteq> n \<Longrightarrow> Cache_Get c' m = Cache_Get c m" for m
    using assms by (rule removeNode_others)
  show "r = None \<Longrightarrow> n \<notin> Cache_names c'"
    using removeNode_None [of K D c n f w c' w'] assms cache.get_names by auto
  assume r: "r \<noteq> None"
  show "Cache_names c' = Cache_names c"
    using assms r by (cases rule: removeNode_cases) (auto simp: markForTermination_get(3))
  fix e assume "Cache_Get c n = Inr e"
  with assms r show "\<exists>t. Cache_Get c' n = Inr (e\<lparr>ce_LastMarkedForTermination := t\<rparr>)"
    by (cases rule: removeNode_cases)
      (auto simp: markForTermination_get(2) intro: exI [of _ "ce_LastMarkedForTermination e"])
qed

theorem removeNode_outcome_witness:
  "\<exists>c' w'. removeNode (sample_cluster [sample_oneagent] [] None) (sample_dtf None) sample_cache ''node1''
     (\<lambda>n w. (Inr sample_oneagent, w)) 0 = (None, c', w') \<and> ''node1'' \<notin> Cache_names c'"
proof -
  have "\<exists>c' w'. removeNode (sample_cluster [sample_oneagent] [] None) (sample_dtf None) sample_cache ''node1''
     (\<lambda>n w. (Inr sample_oneagent, w)) 0 = (None, c', w')"
    by (simp add: nodes_defs samples)
  then show ?thesis using removeNode_outcome by metis
qed

text \<open>C31: A node is reported at most once an hour: once a mark was stored, further attempts
  on that cache return at once, whatever client they would use, until the clock passes one
  hour after the stored mark.\<close>

theorem marked_at_most_once_an_hour:
  assumes "markForTermination K D c oa ip n w = (r, c1, w1)" and "c1 \<noteq> c"
  shows "\<exists>e1. Cache_Get c1 n = Inr e1 \<and>
     (\<forall>D' oa' ip' w2. fst (k_now K w2) \<le> ce_LastMarkedForTermination e1 + Hour \<longrightarrow>
        markForTermination K D' c1 oa' ip' n w2 = (None, c1, snd (k_now K w2)))"
  using assms(1)
proof (cases rule: markForTermination_cases)
  case (stamped e t0 v t v')
  let ?e = "e\<lparr>ce_LastMarkedForTermination := t\<rparr>"
  have g: "Cache_Get c1 n = Inr ?e" using stamped(5) by (rule cache.get_put_same)
  show ?thesis
  proof (intro exI conjI allI impI)
    show "Cache_Get c1 n = Inr ?e" by (rule g)
    fix D' :: "'a nodes_dtf" and oa' ip' w2
    assume "fst (k_now K w2) \<le> ce_LastMarkedForTermination ?e + Hour"
    then show "markForTermination K D' c1 oa' ip' n w2 = (None, c1, snd (k_now K w2))"
      using g by (intro markForTermination_not_markable [OF _ prod.collapse [symmetric]])
        (auto simp: markable_at_def)
  qed
qed (use assms(2) in simp)

theorem marked_at_most_once_an_hour_witness:
  "\<exists>c1. markForTermination (sample_cluster [] [] None) (sample_dtf None) sample_cache sample_oneagent
       ''1.2.3.4'' ''node1'' 0 = (None, c1, 0) \<and>
     (\<exists>e1. Cache_Get c1 ''node1'' = Inr e1 \<and>
        (\<forall>D' oa' ip' w2. fst (k_now (sample_cluster [] [] (None :: cache_text ConfigMap option)) w2)
             \<le> ce_LastMarkedForTermination e1 + Hour \<longrightarrow>
           markForTermination (sample_cluster [] [] None) D' c1 oa' ip' ''node1'' w2 =
             (None, c1, snd (k_now (sample_cluster [] [] (None :: cache_text ConfigMap option)) w2))))"
proof -
  obtain c1 where m: "markForTermination (sample_cluster [] [] None) (sample_dtf None) sample_cache sample_oneagent
       ''1.2.3.4'' ''node1'' 0 = (None, c1, 0)" "cc_upd c1"
    by (simp add: nodes_defs samples)
  then have "c1 \<noteq> sample_cache" by (auto simp: sample_cache_def)
  with marked_at_most_once_an_hour [OF m(1)] m(1) show ?thesis by blast
qed

text \<open>C40: An event that could not be sent is lost when the stored mark survives: if the
  removal of a node failed after its entry was marked (the failure is the event's), then the
  next removal within the hour after the mark deletes the entry without any call to the
  Dynatrace client (\<open>D'\<close> is arbitrary), although no event has been delivered.\<close>

theorem failed_event_is_not_retried:
  assumes fail: "removeNode K D c n f w = (Some x, c1, w1)" and "c1 \<noteq> c"
    and e1: "Cache_Get c1 n = Inr e1"
    and now: "k_now K w2 = (t, w3)" "t - ce_LastSeen e1 \<le> Hour"
    and oa: "f (ce_Instance e1) w3 = (Inr oa, w4)"
    and again: "k_now K w4 = (t', w5)" "t' \<le> ce_LastMarkedForTermination e1 + Hour"
  shows "removeNode K D' c1 n f w2 = (None, Cache_Delete n c1, w5)"
proof -
  from fail obtain e where ip: "Cache_Get c n = Inr e" "ce_IPAddress e \<noteq> []"
    by (cases rule: removeNode_cases) (use \<open>c1 \<noteq> c\<close> in auto)
  from fail e1 ip have "ce_IPAddress e1 \<noteq> []"
    by (cases rule: removeNode_cases) (auto dest!: markForTermination_get(2))
  moreover have "markForTermination K D' c1 oa (ce_IPAddress e1) n w4 = (None, c1, w5)"
    using e1 again by (intro markForTermination_not_markable) (auto simp: markable_at_def)
  moreover have "\<not> time_Sub t (ce_LastSeen e1) > Hour" using now(2) by (simp add: time_Sub_gt_Hour)
  ultimately show ?thesis using e1 now(1) oa by (simp add: removeNode_def)
qed

theorem failed_event_is_not_retried_witness:
  "\<exists>c1. removeNode (sample_cluster [] [] None) (sample_dtf (Some (ExtErr ''timeout''))) sample_cache ''node1''
       (\<lambda>n w. (Inr sample_oneagent, w)) 0 = (Some (ExtErr ''timeout''), c1, 0) \<and>
     (\<forall>D'. removeNode (sample_cluster [] [] None) D' c1 ''node1'' (\<lambda>n w. (Inr sample_oneagent, w)) (5 * Minute)
        = (None, Cache_Delete ''node1'' c1, 5 * Minute))"
proof -
  have "\<exists>c1. removeNode (sample_cluster [] [] None) (sample_dtf (Some (ExtErr ''timeout''))) sample_cache ''node1''
       (\<lambda>n w. (Inr sample_oneagent, w)) 0 = (Some (ExtErr ''timeout''), c1, 0) \<and> cc_upd c1 \<and>
       Cache_Get c1 ''node1'' = Inr (sample_entry\<lparr>ce_LastMarkedForTermination := 0\<rparr>)"
    by (simp add: nodes_defs samples)
  then obtain c1 where c1: "removeNode (sample_cluster [] [] None) (sample_dtf (Some (ExtErr ''timeout'')))
       sample_cache ''node1'' (\<lambda>n w. (Inr sample_oneagent, w)) 0 = (Some (ExtErr ''timeout''), c1, 0)"
    "cc_upd c1" "Cache_Get c1 ''node1'' = Inr (sample_entry\<lparr>ce_LastMarkedForTermination := 0\<rparr>)" by blast
  then have "c1 \<noteq> sample_cache" by (auto simp: sample_cache_def)
  from failed_event_is_not_retried [OF c1(1) this c1(3)] c1(1) show ?thesis
    by (simp add: sample_entry_def Hour_def Minute_def Second_def)
qed

text \<open>Within the range where Go's \<open>UnixNano\<close> is defined, the event of a node starts and
  ends ten minutes before the node was last seen, to the millisecond.\<close>

theorem termination_event_time:
  assumes "10 * Minute \<le> lastSeen" and "lastSeen - 10 * Minute < 2 ^ 63"
  shows "uint (evd_StartInMillis (termination_event ent lastSeen)) = (lastSeen - 10 * Minute) div 1000000 \<and>
         evd_EndInMillis (termination_event ent lastSeen) = evd_StartInMillis (termination_event ent lastSeen)"
proof -
  have u: "uint (word_of_int (lastSeen - 10 * Minute) :: 64 word) = lastSeen - 10 * Minute"
    using assms by (subst uint_word_of_int) (simp add: take_bit_int_eq_self)
  have "uint (event_millis lastSeen) = (lastSeen - 10 * Minute) div 1000000"
    unfolding event_millis_def uint_div_distrib u by simp
  then show ?thesis by (simp add: termination_event_def)
qed

theorem termination_event_time_witness:
  "uint (evd_StartInMillis (termination_event ''HOST-42'' (20 * Minute))) = 600000"
proof -
  have h: "10 * Minute \<le> 20 * Minute" "20 * Minute - 10 * Minute < 2 ^ 63"
    by (simp_all add: Minute_def Second_def)
  from termination_event_time [OF h] show ?thesis by (simp add: Minute_def Second_def)
qed

text \<open>Every handler of the nodes controller changes the cache only through its operations:
  the cache that a full reconciliation writes back comes from the one it read by \<open>Set\<close>s and
  \<open>Delete\<close>s, and when the flags say unchanged the object is the one that was read.\<close>

theorem reconcileAll_changes_are_tracked:
  assumes "k_list_oneagents K (rn_namespace R) w = (Inr oaLst, w1)"
    and "getCache K R w1 = (Inr c0, w2)"
    and "reconcileAll_cache K D R w = (Inr c, w')"
  shows "cache_run c0 c \<and> (\<not> Cache_Changed c \<longrightarrow> cc_Obj c = cc_Obj c0)"
proof -
  from assms(3) obtain nodeLst w3 c1 w4 names w5 c2 w6 keys w7 where
    s: "scan_nodes K D nodeLst c0 w3 = (None, c1, w4)" and
    a: "add_oneagents K (set (map nd_Name nodeLst)) (oneagents_by_name oaLst) names c1 w5 = (None, c2, w6)" and
    d: "drop_nodes K D (set (map nd_Name nodeLst)) (oneagents_by_name oaLst) keys c2 w7 = (c, w')"
    by (rule reconcileAll_cache_steps) (use assms(1,2) in auto)
  have "cache_run c0 c"
    by (rule drop_nodes_run [OF d add_oneagents_run [OF a scan_nodes_run [OF s run_refl]]])
  with cache_run_flags [OF this] show ?thesis by (auto simp: Cache_Changed_def)
qed

theorem reconcileAll_changes_are_tracked_witness:
  "\<exists>c w'. reconcileAll_cache (sample_cluster [sample_oneagent] [sample_node True] (Some sample_cm))
         (sample_dtf None) sample_rec 0 = (Inr c, w') \<and> cache_run sample_cache c"
proof -
  let ?K = "sample_cluster [sample_oneagent] [sample_node True] (Some sample_cm)"
  have l: "k_list_oneagents ?K (rn_namespace sample_rec) 0 = (Inr [sample_oneagent], 0)" by simp
  obtain c where c: "reconcileAll_cache ?K (sample_dtf None) sample_rec 0 = (Inr c, 0)"
    using sample_reconcileAll by blast
  from reconcileAll_changes_are_tracked [OF l sample_getCache c] c show ?thesis by blast
qed

text \<open>An update of a node that is not cordoned neither writes the cache object nor calls
  Dynatrace: with an existing cache, the handler only reads the cache and the node.\<close>

theorem onUpdate_schedulable_node:
  assumes "k_get_configmap K (rn_namespace R) cacheName w = (Inr cm, w1)"
    and "k_get_node K n w1 = (Inr nd, w2)"
    and "\<not> nd_Unschedulable nd" and "''ToBeDeletedByClusterAutoscaler'' \<notin> set (nd_Taints nd)"
  shows "onUpdate K D R n w = (None, w2)"
proof -
  have "\<not> isUnschedulable nd"
    using assms(3,4)
    by (auto simp: isUnschedulable_def hasUnschedulableTaint_def unschedulableTaints_def list_ex_iff)
  with assms(1,2) show ?thesis
    by (simp add: onUpdate_def getCache_def updateNode_def updateCache_def Cache_Changed_def)
qed

theorem onUpdate_schedulable_node_witness:
  "onUpdate (sample_cluster [sample_oneagent] [sample_node False] (Some sample_cm)) (sample_dtf None)
     sample_rec ''node1'' 7 = (None, 7)"
proof -
  let ?K = "sample_cluster [sample_oneagent] [sample_node False] (Some sample_cm)"
  have "k_get_configmap ?K (rn_namespace sample_rec) cacheName 7 = (Inr sample_cm, 7)" by simp
  moreover have "k_get_node ?K ''node1'' 7 = (Inr (sample_node False), 7)" by (simp add: sample_node_def)
  moreover have "\<not> nd_Unschedulable (sample_node False)"
    "''ToBeDeletedByClusterAutoscaler'' \<notin> set (nd_Taints (sample_node False))"
    by (simp_all add: sample_node_def)
  ultimately show ?thesis by (rule onUpdate_schedulable_node)
qed

end
