(* ===== verification/Watchers.thy ===== *)
theory Watchers
  imports Nodes_Props
begin

text \<open>
  The watchers of the nodes controller (controllers/nodes/watchers.go) and the loop of \<open>Start\<close> that
  receives from them: three channels between goroutines.  A state machine of the sends and receives,
  in any interleaving; what is proved of it holds of every run.
\<close>

section \<open>The channels\<close>

text \<open>The object of a notification: \<open>meta.Accessor\<close> gives its name, or an error.\<close>

datatype informer_object = HasMeta string | NoMeta

text \<open>A send to a full channel blocks: no step is possible.\<close>

definition chan_send :: "nat \<Rightarrow> 'a \<Rightarrow> 'a list \<Rightarrow> 'a list option" where
  "chan_send capacity x ch = (if length ch < capacity then Some (ch @ [x]) else None)"

text \<open>
  The callbacks: \<open>DeleteFunc\<close> of \<open>watchDeletions\<close> and \<open>UpdateFunc\<close>, made by \<open>handleUpdate\<close>.  An
  object without metadata is logged and dropped.
\<close>

definition delete_func :: "informer_object \<Rightarrow> string list \<Rightarrow> string list option" where
  "delete_func obj chDels = (case obj of HasMeta name \<Rightarrow> chan_send 20 name chDels | NoMeta \<Rightarrow> Some chDels)"

definition handleUpdate :: "informer_object \<Rightarrow> string list \<Rightarrow> string list option" where
  "handleUpdate newObj chUpdates =
     (case newObj of NoMeta \<Rightarrow> Some chUpdates | HasMeta name \<Rightarrow> chan_send 20 name chUpdates)"

text \<open>The goroutine of \<open>watchTicks\<close>: a channel of capacity one that starts with a tick.\<close>

definition first_tick :: "unit list" where "first_tick = [()]"

definition send_tick :: "unit list \<Rightarrow> unit list option" where
  "send_tick chAll = chan_send 1 () chAll"

section \<open>The goroutines\<close>

text \<open>
  \<open>nl_watch_dels\<close> and \<open>nl_watch_updates\<close> tell whether the informer was there; otherwise the channel is
  one that nobody sends to.  \<open>nl_sent\<close> and \<open>nl_handled\<close> are the history of the events.
\<close>

record 'w nodes_loop =
  nl_watch_dels :: bool
  nl_watch_updates :: bool
  nl_dels :: "string list"
  nl_updates :: "string list"
  nl_all :: "unit list"
  nl_stop :: bool
  nl_returned :: bool
  nl_world :: 'w
  nl_sent :: "node_event list"
  nl_handled :: "node_event list"

text \<open>
  \<open>watchDeletions\<close> and \<open>watchUpdates\<close> fail when the informer cannot be had, else they give a new
  channel and register the callback; \<open>Start\<close> goes on without a watcher that failed.
\<close>

definition watchDeletions :: "go_error option \<Rightarrow> go_error + string list" where
  "watchDeletions informer_err = (case informer_err of Some err \<Rightarrow> Inl err | None \<Rightarrow> Inr [])"

definition watchUpdates :: "go_error option \<Rightarrow> go_error + string list" where
  "watchUpdates informer_err = (case informer_err of Some err \<Rightarrow> Inl err | None \<Rightarrow> Inr [])"

definition watched :: "go_error + string list \<Rightarrow> bool \<times> string list" where
  "watched res = (case res of Inl err \<Rightarrow> (False, []) | Inr ch \<Rightarrow> (True, ch))"

definition start_watchers :: "go_error option \<Rightarrow> go_error option \<Rightarrow> 'w \<Rightarrow> 'w nodes_loop" where
  "start_watchers del_err upd_err w =
     (let (on_dels, chDels) = watched (watchDeletions del_err);
          (on_updates, chUpdates) = watched (watchUpdates upd_err)
      in \<lparr>nl_watch_dels = on_dels, nl_watch_updates = on_updates, nl_dels = chDels, nl_updates = chUpdates,
          nl_all = first_tick, nl_stop = False, nl_returned = False, nl_world = w,
          nl_sent = [ChAll], nl_handled = []\<rparr>)"

lemma start_watchers_eq:
  "start_watchers del_err upd_err w =
     \<lparr>nl_watch_dels = (del_err = None), nl_watch_updates = (upd_err = None), nl_dels = [], nl_updates = [],
      nl_all = first_tick, nl_stop = False, nl_returned = False, nl_world = w,
      nl_sent = [ChAll], nl_handled = []\<rparr>"
  by (simp add: start_watchers_def watched_def watchDeletions_def watchUpdates_def split: option.split)

definition event_of :: "(string \<Rightarrow> node_event) \<Rightarrow> informer_object \<Rightarrow> node_event list" where
  "event_of c obj = (case obj of HasMeta name \<Rightarrow> [c name] | NoMeta \<Rightarrow> [])"

text \<open>One event taken from a channel by the \<open>select\<close> of \<open>Start\<close> and handled.\<close>

definition handle_next ::
  "'w nodes_cluster \<Rightarrow> 'w nodes_dtf \<Rightarrow> reconcile_nodes \<Rightarrow> node_event \<Rightarrow> 'w nodes_loop \<Rightarrow> 'w nodes_loop" where
  "handle_next K D R ev s =
     s\<lparr>nl_world := handle_event K D R ev (nl_world s), nl_handled := nl_handled s @ [ev]\<rparr>"

text \<open>
  The steps.  After the stop signal the \<open>select\<close> may still choose an event, and the watchers go on
  sending: neither the informers nor the ticker look at the signal.
\<close>

inductive loop_step ::
  "'w nodes_cluster \<Rightarrow> 'w nodes_dtf \<Rightarrow> reconcile_nodes \<Rightarrow> 'w nodes_loop \<Rightarrow> 'w nodes_loop \<Rightarrow> bool"
  for K :: "'w nodes_cluster" and D :: "'w nodes_dtf" and R :: reconcile_nodes where
  deleted: "nl_watch_dels s \<Longrightarrow> delete_func obj (nl_dels s) = Some ch \<Longrightarrow>
     loop_step K D R s (s\<lparr>nl_dels := ch, nl_sent := nl_sent s @ event_of ChDels obj\<rparr>)"
| updated: "nl_watch_updates s \<Longrightarrow> handleUpdate obj (nl_updates s) = Some ch \<Longrightarrow>
     loop_step K D R s (s\<lparr>nl_updates := ch, nl_sent := nl_sent s @ event_of ChUpdates obj\<rparr>)"
| ticked: "send_tick (nl_all s) = Some ch \<Longrightarrow>
     loop_step K D R s (s\<lparr>nl_all := ch, nl_sent := nl_sent s @ [ChAll]\<rparr>)"
| signalled: "loop_step K D R s (s\<lparr>nl_stop := True\<rparr>)"
| on_stop: "\<not> nl_returned s \<Longrightarrow> nl_stop s \<Longrightarrow> loop_step K D R s (s\<lparr>nl_returned := True\<rparr>)"
| on_del: "\<not> nl_returned s \<Longrightarrow> nl_dels s = node # ch \<Longrightarrow>
     loop_step K D R s (handle_next K D R (ChDels node) (s\<lparr>nl_dels := ch\<rparr>))"
| on_update: "\<not> nl_returned s \<Longrightarrow> nl_updates s = node # ch \<Longrightarrow>
     loop_step K D R s (handle_next K D R (ChUpdates node) (s\<lparr>nl_updates := ch\<rparr>))"
| on_tick: "\<not> nl_returned s \<Longrightarrow> nl_all s = u # ch \<Longrightarrow>
     loop_step K D R s (handle_next K D R ChAll (s\<lparr>nl_all := ch\<rparr>))"

inductive loop_run ::
  "'w nodes_cluster \<Rightarrow> 'w nodes_dtf \<Rightarrow> reconcile_nodes \<Rightarrow> 'w nodes_loop \<Rightarrow> 'w nodes_loop \<Rightarrow> bool"
  for K :: "'w nodes_cluster" and D :: "'w nodes_dtf" and R :: reconcile_nodes where
  loop_refl: "loop_run K D R s s"
| loop_more: "loop_run K D R s t \<Longrightarrow> loop_step K D R t u \<Longrightarrow> loop_run K D R s u"

inductive_cases loop_stepE: "loop_step K D R s t"

section \<open>What every run keeps\<close>

definition is_del :: "node_event \<Rightarrow> bool" where "is_del ev \<longleftrightarrow> (\<exists>n. ev = ChDels n)"
definition is_update :: "node_event \<Rightarrow> bool" where "is_update ev \<longleftrightarrow> (\<exists>n. ev = ChUpdates n)"

lemma event_kinds [simp]:
  "is_del (ChDels n)" "\<not> is_del (ChUpdates n)" "\<not> is_del ChAll"
  "\<not> is_update (ChDels n)" "is_update (ChUpdates n)" "\<not> is_update ChAll"
  by (simp_all add: is_del_def is_update_def)

text \<open>Every channel holds what was sent on it and not yet received, in order, within its capacity.\<close>

definition channels_ok :: "'w nodes_loop \<Rightarrow> bool" where
  "channels_ok s \<longleftrightarrow>
     length (nl_dels s) \<le> 20 \<and> length (nl_updates s) \<le> 20 \<and> length (nl_all s) \<le> 1 \<and>
     filter is_del (nl_sent s) = filter is_del (nl_handled s) @ map ChDels (nl_dels s) \<and>
     filter is_update (nl_sent s) = filter is_update (nl_handled s) @ map ChUpdates (nl_updates s) \<and>
     filter (\<lambda>ev. ev = ChAll) (nl_sent s) = filter (\<lambda>ev. ev = ChAll) (nl_handled s) @ map (\<lambda>_. ChAll) (nl_all s)"

text \<open>The world is what the sequential loop makes of the handled events.\<close>

definition world_ok :: "'w nodes_cluster \<Rightarrow> 'w nodes_dtf \<Rightarrow> reconcile_nodes \<Rightarrow> 'w \<Rightarrow> 'w nodes_loop \<Rightarrow> bool" where
  "world_ok K D R w0 s \<longleftrightarrow> nl_world s = Start K D R (nl_handled s) w0"

lemma Start_snoc: "Start K D R (evs @ [ev]) w = handle_event K D R ev (Start K D R evs w)"
  by (induction evs arbitrary: w) simp_all

lemmas watcher_defs = chan_send_def delete_func_def handleUpdate_def send_tick_def event_of_def handle_next_def

lemma loop_step_channels: "loop_step K D R s t \<Longrightarrow> channels_ok s \<Longrightarrow> channels_ok t"
  by (erule loop_stepE) (auto simp: channels_ok_def watcher_defs split: informer_object.splits if_splits)

lemma loop_step_world: "loop_step K D R s t \<Longrightarrow> world_ok K D R w0 s \<Longrightarrow> world_ok K D R w0 t"
  by (erule loop_stepE) (auto simp: world_ok_def handle_next_def Start_snoc)

lemma start_watchers_ok:
  "channels_ok (start_watchers d u w)" "world_ok K D R w (start_watchers d u w)"
  by (simp_all add: start_watchers_eq channels_ok_def world_ok_def first_tick_def)

lemma loop_run_ok:
  "loop_run K D R s t \<Longrightarrow> channels_ok s \<and> world_ok K D R w0 s \<Longrightarrow> channels_ok t \<and> world_ok K D R w0 t"
  by (induction rule: loop_run.induct) (auto intro: loop_step_channels loop_step_world)

lemma loop_run_trans: "loop_run K D R t u \<Longrightarrow> loop_run K D R s t \<Longrightarrow> loop_run K D R s u"
  by (induction rule: loop_run.induct) (auto intro: loop_run.intros)

lemma loop_first: "loop_step K D R s t \<Longrightarrow> loop_run K D R t u \<Longrightarrow> loop_run K D R s u"
  by (rule loop_run_trans) (auto intro: loop_run.intros)

section \<open>Draining the channels\<close>

definition queued :: "'w nodes_loop \<Rightarrow> nat" where
  "queued s = length (nl_dels s) + length (nl_updates s) + length (nl_all s)"

lemma drain_step:
  assumes "\<not> nl_returned s" and "queued s \<noteq> 0"
  shows "\<exists>t. loop_step K D R s t \<and> \<not> nl_returned t \<and> queued t < queued s \<and> nl_sent t = nl_sent s"
proof -
  from assms(2) consider (del) n ch where "nl_dels s = n # ch" | (upd) n ch where "nl_updates s = n # ch"
    | (all) u ch where "nl_all s = u # ch"
    by (cases "nl_dels s"; cases "nl_updates s"; cases "nl_all s") (auto simp: queued_def)
  then show ?thesis
  proof cases
    case del
    from on_del [OF assms(1) del, of K D R] del assms(1) show ?thesis
      by (intro exI [of _ "handle_next K D R (ChDels n) (s\<lparr>nl_dels := ch\<rparr>)"]) (simp add: handle_next_def queued_def)
  next
    case upd
    from on_update [OF assms(1) upd, of K D R] upd assms(1) show ?thesis
      by (intro exI [of _ "handle_next K D R (ChUpdates n) (s\<lparr>nl_updates := ch\<rparr>)"]) (simp add: handle_next_def queued_def)
  next
    case all
    from on_tick [OF assms(1) all, of K D R] all assms(1) show ?thesis
      by (intro exI [of _ "handle_next K D R ChAll (s\<lparr>nl_all := ch\<rparr>)"]) (simp add: handle_next_def queued_def)
  qed
qed

lemma drain:
  "\<not> nl_returned s \<Longrightarrow> \<exists>t. loop_run K D R s t \<and> \<not> nl_returned t \<and> queued t = 0 \<and> nl_sent t = nl_sent s"
proof (induction "queued s" arbitrary: s rule: less_induct)
  case less
  show ?case
  proof (cases "queued s = 0")
    case True
    with less.prems show ?thesis by (blast intro: loop_refl)
  next
    case False
    from drain_step [OF less.prems False] obtain t where
      t: "loop_step K D R s t" "\<not> nl_returned t" "queued t < queued s" "nl_sent t = nl_sent s" by blast
    from less.hyps [OF t(3,2)] obtain u where
      "loop_run K D R t u" "\<not> nl_returned u" "queued u = 0" "nl_sent u = nl_sent t" by blast
    with t loop_first show ?thesis by (intro exI [of _ u]) auto
  qed
qed

lemma watchers_run_ok:
  assumes "loop_run K D R (start_watchers del_err upd_err w) s"
  shows "channels_ok s \<and> world_ok K D R w s"
  by (rule loop_run_ok [OF assms]) (rule conjI start_watchers_ok)+

text \<open>A run: a node is deleted, then the first tick is handled.\<close>

lemma sample_loop:
  "\<exists>s. loop_run K D R (start_watchers None None w) s \<and> nl_dels s = [''node1''] \<and> nl_handled s = [ChAll] \<and> \<not> nl_returned s"
proof -
  let ?s0 = "start_watchers None None w"
  let ?s1 = "?s0\<lparr>nl_dels := [''node1''], nl_sent := nl_sent ?s0 @ event_of ChDels (HasMeta ''node1'')\<rparr>"
  let ?s2 = "handle_next K D R ChAll (?s1\<lparr>nl_all := []\<rparr>)"
  have "loop_step K D R ?s0 ?s1" by (rule deleted) (simp_all add: start_watchers_eq watcher_defs)
  moreover have "loop_step K D R ?s1 ?s2" by (rule on_tick [of _ "()"]) (simp_all add: start_watchers_eq first_tick_def)
  ultimately have "loop_run K D R ?s0 ?s2" by (blast intro: loop_run.intros)
  then show ?thesis by (intro exI [of _ ?s2]) (simp add: handle_next_def start_watchers_eq)
qed

section \<open>Properties\<close>

text \<open>C28: In every run of the watchers and the loop, whatever the interleaving: the channels stay within
  their capacities; on each channel the events are handled in the order in which they were sent, none
  lost and none twice; and the world is what handling one event after the other makes of it.\<close>

theorem watchers_lose_no_event:
  assumes "loop_run K D R (start_watchers del_err upd_err w) s"
  shows "length (nl_dels s) \<le> 20 \<and> length (nl_updates s) \<le> 20 \<and> length (nl_all s) \<le> 1 \<and>
    filter is_del (nl_sent s) = filter is_del (nl_handled s) @ map ChDels (nl_dels s) \<and>
    filter is_update (nl_sent s) = filter is_update (nl_handled s) @ map ChUpdates (nl_updates s) \<and>
    filter (\<lambda>ev. ev = ChAll) (nl_sent s) = filter (\<lambda>ev. ev = ChAll) (nl_handled s) @ map (\<lambda>_. ChAll) (nl_all s) \<and>
    nl_world s = Start K D R (nl_handled s) w"
  using watchers_run_ok [OF assms] by (simp add: channels_ok_def world_ok_def)

theorem watchers_lose_no_event_witness:
  "\<exists>s. loop_run (sample_cluster [] [] (Some sample_cm)) (sample_dtf None) sample_rec (start_watchers None None 0) s \<and>
     nl_dels s = [''node1''] \<and> nl_handled s = [ChAll] \<and>
     nl_world s = Start (sample_cluster [] [] (Some sample_cm)) (sample_dtf None) sample_rec [ChAll] 0"
proof -
  obtain s where s: "loop_run (sample_cluster [] [] (Some sample_cm)) (sample_dtf None) sample_rec (start_watchers None None 0) s"
    "nl_dels s = [''node1'']" "nl_handled s = [ChAll]" "\<not> nl_returned s" using sample_loop [of "sample_cluster [] [] (Some sample_cm)" "sample_dtf None" sample_rec 0] by (elim exE conjE)
  from watchers_lose_no_event [OF s(1)] s show ?thesis by (intro exI [of _ s]) simp
qed

text \<open>C29: From every reachable state in which \<open>Start\<close> has not returned, the loop alone can handle all that
  was sent, the first full reconciliation among it: no interleaving gets it stuck with an event in a
  channel.\<close>

theorem sent_events_can_be_handled:
  assumes "loop_run K D R (start_watchers del_err upd_err w) s" and "\<not> nl_returned s"
  shows "\<exists>t. loop_run K D R s t \<and> nl_sent t = nl_sent s \<and> ChAll \<in> set (nl_handled t) \<and>
    filter is_del (nl_handled t) = filter is_del (nl_sent s) \<and>
    filter is_update (nl_handled t) = filter is_update (nl_sent s)"
proof -
  from drain [OF assms(2), of K D R] obtain t where
    t: "loop_run K D R s t" "queued t = 0" "nl_sent t = nl_sent s" by blast
  from loop_run_trans [OF t(1) assms(1)] have run: "loop_run K D R (start_watchers del_err upd_err w) t" .
  from watchers_run_ok [OF run] have ok: "channels_ok t" by simp
  have first: "loop_run K D R s0 u \<Longrightarrow> set (nl_sent s0) \<subseteq> set (nl_sent u)" for s0 u
    by (induction rule: loop_run.induct) (auto elim!: loop_stepE simp: handle_next_def)
  from first [OF run] have "ChAll \<in> set (nl_sent t)" by (simp add: start_watchers_eq)
  then have "ChAll \<in> set (filter (\<lambda>ev. ev = ChAll) (nl_sent t))" by simp
  with ok t(2) have "ChAll \<in> set (filter (\<lambda>ev. ev = ChAll) (nl_handled t))" by (simp only: channels_ok_def queued_def) simp
  with t ok show ?thesis by (intro exI [of _ t]) (simp add: channels_ok_def queued_def)
qed

theorem sent_events_can_be_handled_witness:
  "\<exists>s t. loop_run (sample_cluster [] [] (Some sample_cm)) (sample_dtf None) sample_rec (start_watchers None None 0) s \<and>
     nl_dels s = [''node1''] \<and>
     loop_run (sample_cluster [] [] (Some sample_cm)) (sample_dtf None) sample_rec s t \<and> ChAll \<in> set (nl_handled t)"
proof -
  obtain s where s: "loop_run (sample_cluster [] [] (Some sample_cm)) (sample_dtf None) sample_rec (start_watchers None None 0) s"
    "nl_dels s = [''node1'']" "nl_handled s = [ChAll]" "\<not> nl_returned s" using sample_loop [of "sample_cluster [] [] (Some sample_cm)" "sample_dtf None" sample_rec 0] by (elim exE conjE)
  from sent_events_can_be_handled [OF s(1,4)] s(1,2) show ?thesis by blast
qed

end
