(* ===== verification/Workloads.thy ===== *)
theory Workloads
  imports Kube
begin

text \<open>
  The workload objects that the OneAgent controller reads and writes (pods of a DaemonSet,
  the DaemonSet itself, images and their registries) and the calls of the cluster that
  only the controllers of the custom resources make.  The record \<open>oneagent_cluster\<close>
  extends \<open>cluster\<close>, so everything said of a cluster holds of it too.
\<close>

section \<open>Pod specifications\<close>

record EnvFromSecret =
  efs_Name :: string
  efs_Key :: string

record SecurityContext =
  sc_Privileged :: "bool option"
  sc_CapabilitiesDrop :: "string list"
  sc_CapabilitiesAdd :: "string list"

record Probe =
  pr_Command :: "string list"
  pr_InitialDelaySeconds :: int
  pr_PeriodSeconds :: int
  pr_TimeoutSeconds :: int

record VolumeMount =
  vm_Name :: string
  vm_MountPath :: string

datatype VolumeSource =
    HostPath string
  | ConfigMapItems string "(string \<times> string) list"
  | EmptyDir
  | SecretVolume string

record Volume =
  vol_Name :: string
  vol_Source :: VolumeSource

record Container =
  ctr_Name :: string
  ctr_Image :: string
  ctr_ImagePullPolicy :: string
  ctr_Command :: "string list"
  ctr_Args :: "string list"
  ctr_Env :: "EnvVar list"
  ctr_ReadinessProbe :: "Probe option"
  ctr_Resources :: ResourceRequirements
  ctr_SecurityContext :: "SecurityContext option"
  ctr_VolumeMounts :: "VolumeMount list"

text \<open>One requirement \<open>key In values\<close> of a node selector term.\<close>

type_synonym node_requirement = "string \<times> string list"

record PodSpec =
  ps_Containers :: "Container list"
  ps_HostNetwork :: bool
  ps_HostPID :: bool
  ps_HostIPC :: bool
  ps_NodeSelector :: "string \<rightharpoonup> string"
  ps_PriorityClassName :: string
  ps_ServiceAccountName :: string
  ps_Tolerations :: "string list"
  ps_DNSPolicy :: string
  ps_NodeAffinity :: "node_requirement list list"
  ps_Volumes :: "Volume list"
  ps_ImagePullSecrets :: "string list"

record DaemonSet =
  ds_Name :: string
  ds_Namespace :: string
  ds_Labels :: "string \<rightharpoonup> string"
  ds_Annotations :: "(string \<rightharpoonup> string) option"
  ds_Owner :: "string option"
  ds_Selector :: "string \<rightharpoonup> string"
  ds_TemplateLabels :: "string \<rightharpoonup> string"
  ds_TemplateAnnotations :: "string \<rightharpoonup> string"
  ds_TemplateSpec :: PodSpec
  ds_NumberReady :: int
  ds_CurrentNumberScheduled :: int

section \<open>Images\<close>

text \<open>\<open>DockerConfig\<close> (controllers/utils/docker\_config\_parser.go): user name and password by registry.\<close>

type_synonym DockerConfig = "string \<rightharpoonup> (string \<times> string)"

record ImageVersion =
  iv_Version :: string
  iv_Hash :: string

text \<open>\<open>types.SystemContext\<close>: the credentials, when there are any.\<close>

type_synonym SystemContext = "(string \<times> string) option"

text \<open>
  The container image library.  A parsed reference, an image source, a manifest and an image
  are handles, here texts; a reference comes with the name of its \<open>DockerReference()\<close>, None
  when that is nil.  A nil image or inspection is \<open>Inr None\<close>.
\<close>

record 'w image_lib =
  il_ParseImageName :: "string \<Rightarrow> go_error + (string \<times> string option)"
  il_NewImageSource :: "string \<Rightarrow> SystemContext \<Rightarrow> 'w \<Rightarrow> (go_error + string) \<times> 'w"
  il_GetManifest :: "string \<Rightarrow> 'w \<Rightarrow> (go_error + string) \<times> 'w"
  il_Digest :: "string \<Rightarrow> go_error + string"
  il_FromUnparsedImage :: "SystemContext \<Rightarrow> string \<Rightarrow> 'w \<Rightarrow> (go_error + string option) \<times> 'w"
  il_Inspect :: "string \<Rightarrow> 'w \<Rightarrow> (go_error + (string \<rightharpoonup> string) option) \<times> 'w"
  il_Close :: "string \<Rightarrow> 'w \<Rightarrow> 'w"

section \<open>The pull secret's content\<close>

record docker_auth =
  da_Username :: string
  da_Password :: string
  da_Auth :: string

record docker_codec =
  dj_Marshal :: "(string \<times> docker_auth) list \<Rightarrow> go_error + string"
  dj_Unmarshal :: "string \<Rightarrow> go_error + DockerConfig"

section \<open>The cluster, as the controllers of the custom resources see it\<close>

text \<open>
  \<open>k_update_oneagent\<close> and \<open>k_update_apm\<close> are \<open>Status().Update\<close>: on success the object is
  replaced by what the server answers.
\<close>

record ('v, 'w) oneagent_cluster = "('v, 'w) cluster" +
  k_get_daemonset :: "string \<Rightarrow> string \<Rightarrow> 'w \<Rightarrow> (go_error + DaemonSet) \<times> 'w"
  k_create_daemonset :: "DaemonSet \<Rightarrow> 'w \<Rightarrow> go_error option \<times> 'w"
  k_update_daemonset :: "DaemonSet \<Rightarrow> 'w \<Rightarrow> go_error option \<times> 'w"
  k_set_daemonset_owner :: "OneAgent \<Rightarrow> DaemonSet \<Rightarrow> go_error + DaemonSet"
  k_marshal_daemonset :: "DaemonSet \<Rightarrow> go_error + string"
  k_get_namespace :: "string \<Rightarrow> 'w \<Rightarrow> (go_error + Namespace) \<times> 'w"
  k_update_oneagent :: "OneAgent \<Rightarrow> 'w \<Rightarrow> (go_error + OneAgent) \<times> 'w"
  k_get_apm :: "string \<Rightarrow> string \<Rightarrow> 'w \<Rightarrow> (go_error + OneAgentAPM) \<times> 'w"
  k_update_apm :: "OneAgentAPM \<Rightarrow> 'w \<Rightarrow> (go_error + OneAgentAPM) \<times> 'w"
  k_images :: "'w image_lib"
  k_docker :: docker_codec

section \<open>A concrete cluster\<close>

text \<open>
  A cluster that has no DaemonSet yet, accepts every write, and whose image registry knows
  one version: \<open>K\<close> says the rest.
\<close>

definition sample_image_lib :: "string \<Rightarrow> 'w image_lib" where
  "sample_image_lib ver =
     \<lparr>il_ParseImageName = (\<lambda>n. Inr (n, Some (TrimPrefix n ''docker://''))),
      il_NewImageSource = (\<lambda>r c w. (Inr [], w)),
      il_GetManifest = (\<lambda>s w. (Inr [], w)),
      il_Digest = (\<lambda>m. Inr ''abc''),
      il_FromUnparsedImage = (\<lambda>c s w. (Inr (Some []), w)),
      il_Inspect = (\<lambda>i w. (Inr (Some [''com.dynatrace.build-version'' \<mapsto> ver]), w)),
      il_Close = (\<lambda>s w. w)\<rparr>"

text \<open>A docker configuration with one registry, written as three lines.\<close>

definition sample_docker_codec :: docker_codec where
  "sample_docker_codec =
     \<lparr>dj_Marshal = (\<lambda>as. case as of [(r, a)] \<Rightarrow>
          (if CHR 0x0A \<in> set r \<or> CHR 0x0A \<in> set (da_Username a) then Inl (ExtErr [])
           else Inr (r @ CHR 0x0A # da_Username a @ CHR 0x0A # da_Password a)) | _ \<Rightarrow> Inl (ExtErr [])),
      dj_Unmarshal = (\<lambda>j. case Split CHR 0x0A j of r # u # p # ps \<Rightarrow> Inr [r \<mapsto> (u, Join (p # ps) [CHR 0x0A])]
                        | _ \<Rightarrow> Inl (ExtErr []))\<rparr>"

definition sample_oneagent_cluster ::
  "('v, 'w) cluster \<Rightarrow> DaemonSet option \<Rightarrow> OneAgent option \<Rightarrow> string \<Rightarrow> ('v, 'w) oneagent_cluster" where
  "sample_oneagent_cluster K ds oa ver = cluster.extend (K\<lparr>k_get_oneagent := (\<lambda>ns n w.
       ((case oa of None \<Rightarrow> Inl KubeNotFound | Some x \<Rightarrow> Inr x), w))\<rparr>)
     (oneagent_cluster.fields
       (\<lambda>ns n w. ((case ds of None \<Rightarrow> Inl KubeNotFound | Some d \<Rightarrow> Inr d), w))
       (\<lambda>d w. (None, w)) (\<lambda>d w. (None, w)) (\<lambda>oa d. Inr d) (\<lambda>d. Inr (ds_Name d))
       (\<lambda>n w. (Inr \<lparr>ns_Name = n, ns_UID = ''cluster-id'', ns_Labels = None, ns_Annotations = None\<rparr>, w))
       (\<lambda>oa w. (Inr oa, w)) (\<lambda>ns n w. (Inl KubeNotFound, w)) (\<lambda>oa w. (Inr oa, w))
       (sample_image_lib ver) sample_docker_codec)"

lemma sample_oneagent_cluster_simps [simp]:
  "k_getenv (sample_oneagent_cluster K ds oa ver) = k_getenv K"
  "k_now (sample_oneagent_cluster K ds oa ver) = k_now K"
  "k_sleep (sample_oneagent_cluster K ds oa ver) = k_sleep K"
  "k_range (sample_oneagent_cluster K ds oa ver) = k_range K"
  "k_get_secret (sample_oneagent_cluster K ds oa ver) = k_get_secret K"
  "k_create_secret (sample_oneagent_cluster K ds oa ver) = k_create_secret K"
  "k_update_secret (sample_oneagent_cluster K ds oa ver) = k_update_secret K"
  "k_get_configmap (sample_oneagent_cluster K ds oa ver) = k_get_configmap K"
  "k_list_pods (sample_oneagent_cluster K ds oa ver) = k_list_pods K"
  "k_delete_pod (sample_oneagent_cluster K ds oa ver) = k_delete_pod K"
  "k_get_oneagent (sample_oneagent_cluster K ds oa ver) =
     (\<lambda>ns n w. ((case oa of None \<Rightarrow> Inl KubeNotFound | Some x \<Rightarrow> Inr x), w))"
  "k_get_daemonset (sample_oneagent_cluster K ds oa ver) =
     (\<lambda>ns n w. ((case ds of None \<Rightarrow> Inl KubeNotFound | Some d \<Rightarrow> Inr d), w))"
  "k_create_daemonset (sample_oneagent_cluster K ds oa ver) = (\<lambda>d w. (None, w))"
  "k_update_daemonset (sample_oneagent_cluster K ds oa ver) = (\<lambda>d w. (None, w))"
  "k_set_daemonset_owner (sample_oneagent_cluster K ds oa ver) = (\<lambda>oa d. Inr d)"
  "k_marshal_daemonset (sample_oneagent_cluster K ds oa ver) = (\<lambda>d. Inr (ds_Name d))"
  "k_get_namespace (sample_oneagent_cluster K ds oa ver) =
     (\<lambda>n w. (Inr \<lparr>ns_Name = n, ns_UID = ''cluster-id'', ns_Labels = None, ns_Annotations = None\<rparr>, w))"
  "k_update_oneagent (sample_oneagent_cluster K ds oa ver) = (\<lambda>oa w. (Inr oa, w))"
  "k_get_apm (sample_oneagent_cluster K ds oa ver) = (\<lambda>ns n w. (Inl KubeNotFound, w))"
  "k_update_apm (sample_oneagent_cluster K ds oa ver) = (\<lambda>oa w. (Inr oa, w))"
  "k_images (sample_oneagent_cluster K ds oa ver) = sample_image_lib ver"
  "k_docker (sample_oneagent_cluster K ds oa ver) = sample_docker_codec"
  by (simp_all add: sample_oneagent_cluster_def cluster.defs oneagent_cluster.defs)

end
