(* ===== verification/Agent_Version.thy ===== *)
theory Agent_Version
  imports Go_Std
begin

text \<open>
  Comparison of agent versions (\<open>isDesiredNewer\<close>, controllers/oneagent/oneagent\_update.go).
  A version is a dotted text "major.minor.revision.timestamp"; the code compares all
  components but the last as integers and the last one as text.  Here that comparison is
  shown to be the strict order of a type \<open>agent_version\<close>, an instance of \<open>linorder\<close>.
\<close>

section \<open>The code\<close>

text \<open>
  The loop of \<open>isDesiredNewer\<close> over the components of both versions: the arguments are
  \<open>aa[i:]\<close> and \<open>da[i:]\<close>.  None is the panic of \<open>da[i]\<close> out of range.
\<close>

fun isDesiredNewer_loop :: "string list \<Rightarrow> string list \<Rightarrow> bool option" where
  "isDesiredNewer_loop [] da = Some False"
| "isDesiredNewer_loop [a] da =
     (case da of [] \<Rightarrow> None
      | d # _ \<Rightarrow> (if a < d then Some True else if a > d then Some False else Some False))"
| "isDesiredNewer_loop (a # a' # aa) da =
     (case Atoi a of
        None \<Rightarrow> Some False
      | Some av \<Rightarrow>
          (case da of
             [] \<Rightarrow> None
           | d # ds \<Rightarrow>
               (case Atoi d of
                  None \<Rightarrow> Some False
                | Some dv \<Rightarrow>
                    (if av < dv then Some True
                     else if av > dv then Some False
                     else isDesiredNewer_loop (a' # aa) ds))))"

definition isDesiredNewer :: "string \<Rightarrow> string \<Rightarrow> bool option" where
  "isDesiredNewer actual desired =
     isDesiredNewer_loop (Split CHR ''.'' actual) (Split CHR ''.'' desired)"

section \<open>Versions as an ordered type\<close>

datatype agent_version = AgentVersion (ver_nums: "int list") (ver_last: string)

instantiation agent_version :: linorder
begin

definition less_agent_version :: "agent_version \<Rightarrow> agent_version \<Rightarrow> bool" where
  "less_agent_version v w \<longleftrightarrow>
     ver_nums v < ver_nums w \<or> ver_nums v = ver_nums w \<and> ver_last v < ver_last w"

definition less_eq_agent_version :: "agent_version \<Rightarrow> agent_version \<Rightarrow> bool" where
  "less_eq_agent_version v w \<longleftrightarrow> v < w \<or> v = w"

instance
proof
  fix u v w :: agent_version
  show "u < v \<longleftrightarrow> u \<le> v \<and> \<not> v \<le> u"
    by (auto simp: less_agent_version_def less_eq_agent_version_def)
  show "u \<le> u" by (simp add: less_eq_agent_version_def)
  show "u \<le> v \<Longrightarrow> v \<le> w \<Longrightarrow> u \<le> w"
    by (auto simp: less_agent_version_def less_eq_agent_version_def)
  show "u \<le> v \<Longrightarrow> v \<le> u \<Longrightarrow> u = v"
    by (auto simp: less_agent_version_def less_eq_agent_version_def)
  show "u \<le> v \<or> v \<le> u"
    by (auto simp: less_agent_version_def less_eq_agent_version_def
        intro: agent_version.expand dest: linorder_neqE)
qed

end

text \<open>The version that a text denotes: None when a component before the last is no integer.\<close>

fun parse_nums :: "string list \<Rightarrow> int list option" where
  "parse_nums [] = Some []"
| "parse_nums (c # cs) =
     (case Atoi c of None \<Rightarrow> None | Some i \<Rightarrow> map_option (\<lambda>is. i # is) (parse_nums cs))"

definition parse_version :: "string \<Rightarrow> agent_version option" where
  "parse_version s =
     (let cs = Split CHR ''.'' s
      in map_option (\<lambda>is. AgentVersion is (last cs)) (parse_nums (butlast cs)))"

text \<open>The text of a version, as \<open>"%d.%d.%d.%s"\<close> writes it.\<close>

definition show_version :: "agent_version \<Rightarrow> string" where
  "show_version v = Join (map Itoa (ver_nums v) @ [ver_last v]) ''.''"

definition proper_version :: "agent_version \<Rightarrow> bool" where
  "proper_version v \<longleftrightarrow>
     list_all (\<lambda>i. - (2 ^ 63) \<le> i \<and> i < 2 ^ 63) (ver_nums v) \<and> CHR ''.'' \<notin> set (ver_last v)"

lemma length_parse_nums: "parse_nums cs = Some is \<Longrightarrow> length is = length cs"
  by (induction cs arbitrary: "is") (auto split: option.splits)

lemma parse_nums_Itoa:
  "list_all (\<lambda>i. - (2 ^ 63) \<le> i \<and> i < 2 ^ 63) is \<Longrightarrow> parse_nums (map Itoa is) = Some is"
  by (induction "is") (auto simp: Atoi_Itoa)

lemma parse_show_version: "proper_version v \<Longrightarrow> parse_version (show_version v) = Some v"
proof -
  assume p: "proper_version v"
  have "Split CHR ''.'' (show_version v) = map Itoa (ver_nums v) @ [ver_last v]"
    unfolding show_version_def
    by (rule Split_Join) (use p in \<open>auto simp: proper_version_def\<close>)
  with p show ?thesis by (simp add: parse_version_def parse_nums_Itoa proper_version_def)
qed

section \<open>The comparison is the order\<close>

lemma isDesiredNewer_loop_iff:
  "parse_nums as = Some is \<Longrightarrow> parse_nums ds = Some js \<Longrightarrow> length as = length ds \<Longrightarrow>
   isDesiredNewer_loop (as @ [a]) (ds @ [d]) = Some (AgentVersion is a < AgentVersion js d)"
proof (induction as ds arbitrary: "is" js rule: list_induct2')
  case 1
  then show ?case by (auto simp: less_agent_version_def)
next
  case (4 x xs y ys)
  obtain i is' where i: "Atoi x = Some i" "parse_nums xs = Some is'" "is = i # is'"
    using 4(2) by (auto split: option.splits)
  obtain j js' where j: "Atoi y = Some j" "parse_nums ys = Some js'" "js = j # js'"
    using 4(3) by (auto split: option.splits)
  have IH: "isDesiredNewer_loop (xs @ [a]) (ys @ [d]) = Some (AgentVersion is' a < AgentVersion js' d)"
    using 4(1)[OF i(2) j(2)] 4(4) by simp
  obtain b bs where b: "xs @ [a] = b # bs" by (cases "xs @ [a]") auto
  have "isDesiredNewer_loop ((x # xs) @ [a]) ((y # ys) @ [d]) =
    (if i < j then Some True else if j < i then Some False
     else Some (AgentVersion is' a < AgentVersion js' d))"
    using i j IH b by simp
  then show ?case using i j by (auto simp: less_agent_version_def)
qed simp_all

lemma Split_last_butlast: "Split c s = butlast (Split c s) @ [last (Split c s)]"
  by simp

lemma isDesiredNewer_less:
  assumes "parse_version a = Some v" and "parse_version d = Some w"
    and "length (ver_nums v) = length (ver_nums w)"
  shows "isDesiredNewer a d = Some (v < w)"
proof -
  let ?as = "Split CHR ''.'' a" and ?ds = "Split CHR ''.'' d"
  from assms(1) obtain "is" where i: "parse_nums (butlast ?as) = Some is" "v = AgentVersion is (last ?as)"
    by (auto simp: parse_version_def Let_def)
  from assms(2) obtain js where j: "parse_nums (butlast ?ds) = Some js" "w = AgentVersion js (last ?ds)"
    by (auto simp: parse_version_def Let_def)
  have "length (butlast ?as) = length (butlast ?ds)"
    using assms(3) i j length_parse_nums by auto
  from isDesiredNewer_loop_iff [OF i(1) j(1) this, of "last ?as" "last ?ds"]
  show ?thesis using i j by (simp add: isDesiredNewer_def)
qed

section \<open>Every input\<close>

lemma isDesiredNewer_loop_safe:
  "length as \<le> length ds \<Longrightarrow> isDesiredNewer_loop as ds \<noteq> None"
  by (induction as ds rule: isDesiredNewer_loop.induct) (auto split: option.splits list.splits)

lemma isDesiredNewer_loop_refl: "isDesiredNewer_loop as as = Some False"
proof (induction as rule: induct_list012)
  case (3 x y zs)
  then show ?case by (auto split: option.splits)
qed simp_all

lemma isDesiredNewer_refl [simp]: "isDesiredNewer a a = Some False"
  by (simp add: isDesiredNewer_def isDesiredNewer_loop_refl)

lemma isDesiredNewer_loop_asym:
  "length as = length ds \<Longrightarrow> isDesiredNewer_loop as ds = Some True \<Longrightarrow>
   isDesiredNewer_loop ds as = Some False"
proof (induction as ds rule: isDesiredNewer_loop.induct)
  case (2 a da)
  then show ?case by (cases da) (auto split: if_splits)
next
  case (3 a a' aa da)
  then obtain d d' ds where da: "da = d # d' # ds"
    by (cases da; cases "tl da") auto
  with 3 show ?case by (auto split: option.splits if_splits)
qed simp


definition desired_ran_out :: "string list \<Rightarrow> string list \<Rightarrow> bool" where
  "desired_ran_out as ds \<longleftrightarrow>
     length ds < length as \<and> map Atoi (take (length ds) as) = map Atoi ds \<and> None \<notin> set (map Atoi ds) \<and>
     (Suc (length ds) = length as \<or> Atoi (as ! length ds) \<noteq> None)"

lemma isDesiredNewer_loop_panic: "isDesiredNewer_loop as ds = None \<longleftrightarrow> desired_ran_out as ds"
proof (induction as ds rule: isDesiredNewer_loop.induct)
  case (2 a da)
  then show ?case by (cases da) (auto simp: desired_ran_out_def)
next
  case (3 a a' aa da)
  show ?case
  proof (cases da)
    case Nil
    then show ?thesis by (auto simp: desired_ran_out_def split: option.splits)
  next
    case (Cons d ds)
    show ?thesis
    proof (cases "\<exists>i. Atoi a = Some i \<and> Atoi d = Some i")
      case True
      then obtain i where i: "Atoi a = Some i" "Atoi d = Some i" by blast
      have "isDesiredNewer_loop (a # a' # aa) da = isDesiredNewer_loop (a' # aa) ds"
        using i Cons by simp
      also have "\<dots> = None \<longleftrightarrow> desired_ran_out (a' # aa) ds"
        using 3 [OF i(1) Cons i(2)] by simp
      also have "\<dots> \<longleftrightarrow> desired_ran_out (a # a' # aa) da"
        using i Cons by (simp add: desired_ran_out_def)
      finally show ?thesis .
    next
      case False
      with Cons show ?thesis by (auto simp: desired_ran_out_def split: option.splits)
    qed
  qed
qed (simp add: desired_ran_out_def)

section \<open>Properties\<close>

text \<open>C18: On two versions with the same number of numeric components \<open>isDesiredNewer\<close> is the
  strict order of versions: the numbers from the left, then the last component as text.\<close>

theorem isDesiredNewer_is_version_order:
  assumes "parse_version actual = Some v" and "parse_version desired = Some w"
    and "length (ver_nums v) = length (ver_nums w)"
  shows "isDesiredNewer actual desired = Some (v < w)"
  using assms by (rule isDesiredNewer_less)

lemma sample_versions:
  "parse_version ''1.201.0.20190101-000000'' = Some (AgentVersion [1, 201, 0] ''20190101-000000'')"
  "parse_version ''1.202.0.20180101-000000'' = Some (AgentVersion [1, 202, 0] ''20180101-000000'')"
  by code_simp+

theorem isDesiredNewer_is_version_order_witness:
  "isDesiredNewer ''1.201.0.20190101-000000'' ''1.202.0.20180101-000000'' = Some True"
  using isDesiredNewer_is_version_order [OF sample_versions] by (simp add: less_agent_version_def)

text \<open>C19: The comparison panics exactly when the desired version runs out of components: it
  has fewer than the actual one, all of them numbers equal to those of the actual version,
  and the next component of the actual version is a number or the last one.\<close>

theorem isDesiredNewer_panics_iff:
  "isDesiredNewer actual desired = None \<longleftrightarrow>
     desired_ran_out (Split CHR ''.'' actual) (Split CHR ''.'' desired)"
  by (simp add: isDesiredNewer_def isDesiredNewer_loop_panic)

text \<open>A version is never newer than itself, and of two versions with the same number of
  components at most one is newer than the other, whatever texts their components are: an
  update never goes back and forth.\<close>

theorem isDesiredNewer_asymmetric:
  assumes "length (Split CHR ''.'' a) = length (Split CHR ''.'' d)"
  shows "isDesiredNewer a a = Some False \<and>
         (isDesiredNewer a d = Some True \<longrightarrow> isDesiredNewer d a = Some False)"
  using assms isDesiredNewer_loop_asym by (simp add: isDesiredNewer_def isDesiredNewer_loop_refl)

theorem isDesiredNewer_asymmetric_witness:
  "isDesiredNewer ''1.x.2'' ''2.x.1'' = Some True \<and> isDesiredNewer ''2.x.1'' ''1.x.2'' = Some False"
proof -
  have "length (Split CHR ''.'' ''1.x.2'') = length (Split CHR ''.'' ''2.x.1'')" by code_simp
  moreover have "isDesiredNewer ''1.x.2'' ''2.x.1'' = Some True" by code_simp
  ultimately show ?thesis using isDesiredNewer_asymmetric by blast
qed

text \<open>The last component is compared as text even when it is a number: of three-part
  versions revision 10 is not newer than revision 9, and revision 9 is newer than 10.\<close>

theorem three_part_revision_as_text:
  assumes "parse_nums (Split CHR ''.'' p) = Some is"
  shows "isDesiredNewer (p @ ''.9'') (p @ ''.10'') = Some False \<and>
         isDesiredNewer (p @ ''.10'') (p @ ''.9'') = Some True"
proof -
  have s: "Split CHR ''.'' (p @ CHR ''.'' # x) = Split CHR ''.'' p @ [x]" if "CHR ''.'' \<notin> set x" for x
    using that by (rule Split_append_sep)
  have "parse_version (p @ CHR ''.'' # x) = Some (AgentVersion is x)" if "CHR ''.'' \<notin> set x" for x
    using assms that by (simp add: parse_version_def s)
  then have "parse_version (p @ ''.9'') = Some (AgentVersion is ''9'')"
    "parse_version (p @ ''.10'') = Some (AgentVersion is ''10'')" by simp_all
  moreover have "AgentVersion is ''10'' < AgentVersion is ''9''"
    "\<not> AgentVersion is ''9'' < AgentVersion is ''10''"
    by (simp_all add: less_agent_version_def less_char_def)
  ultimately show ?thesis by (simp add: isDesiredNewer_less)
qed

theorem three_part_revision_as_text_witness:
  "isDesiredNewer ''1.200.9'' ''1.200.10'' = Some False"
proof -
  have "parse_nums (Split CHR ''.'' ''1.200'') = Some [1, 200]" by code_simp
  from three_part_revision_as_text [OF this] show ?thesis by simp
qed

end
