(* ===== verification/Pods.thy ===== *)
theory Pods
  imports Workloads Agent_Version
begin

text \<open>
  The pods of a OneAgent (controllers/oneagent: oneagent\_utils.go, oneagent\_update.go,
  error\_handler.go and the instance statuses of oneagent\_controller.go): their labels, the
  versions they run, the ones that are outdated, and their replacement one by one.
\<close>

section \<open>Labels and readiness\<close>

text \<open>\<open>mergeLabels\<close>: later maps win.\<close>

definition mergeLabels :: "(string \<rightharpoonup> string) list \<Rightarrow> (string \<rightharpoonup> string)" where
  "mergeLabels labels = foldl (\<lambda>res m. res ++ m) Map.empty labels"

definition buildLabels :: "string \<Rightarrow> (string \<rightharpoonup> string)" where
  "buildLabels name = [''dynatrace'' \<mapsto> ''oneagent'', ''oneagent'' \<mapsto> name]"

definition getPodReadyState :: "Pod \<Rightarrow> bool" where
  "getPodReadyState p = foldl (\<lambda>ready c. ready \<and> c) True (pod_ContainersReady p)"

definition validate :: "OneAgent \<Rightarrow> go_error option" where
  "validate cr =
     (let msg = (if sp_APIURL (cr_Spec cr) = [] then [''.spec.apiUrl is missing''] else [])
      in if msg \<noteq> [] then Some (ErrMsg (Join msg '', '')) else None)"

section \<open>The versions that the pods run\<close>

text \<open>
  \<open>handleAgentVersionForIPError\<close> for an error that is not nil: the error to return, and the
  instance status with the last known version when the argument was not nil.
\<close>

definition handleAgentVersionForIPError ::
  "go_error \<Rightarrow> OneAgent \<Rightarrow> Pod \<Rightarrow> OneAgentInstance option \<Rightarrow> go_error option \<times> OneAgentInstance option" where
  "handleAgentVersionForIPError err instance pod instanceStatus =
     (if is_server_error_code StatusTooManyRequests err then (Some err, instanceStatus)
      else case Option.bind (st_Instances (cr_Status instance)) (\<lambda>m. m (pod_NodeName pod)) of
             None \<Rightarrow> (None, instanceStatus)
           | Some i \<Rightarrow> (None, map_option (\<lambda>s. s\<lparr>inst_Version := inst_Version i\<rparr>) instanceStatus))"

text \<open>The loop of \<open>getInstanceStatuses\<close>; the map built so far is returned with an error.\<close>

fun instance_statuses ::
  "Pod list \<Rightarrow> 'w dt_client \<Rightarrow> OneAgent \<Rightarrow> (string \<rightharpoonup> OneAgentInstance) \<Rightarrow> 'w
     \<Rightarrow> (string \<rightharpoonup> OneAgentInstance) \<times> go_error option \<times> 'w" where
  "instance_statuses [] dtc instance acc w = (acc, None, w)"
| "instance_statuses (pod # pods) dtc instance acc w =
     (let st = \<lparr>inst_PodName = pod_Name pod, inst_Version = [], inst_IPAddress = pod_HostIP pod\<rparr>
      in case c_GetAgentVersionForIP dtc (pod_HostIP pod) w of
           (Inr ver, w1) \<Rightarrow>
             instance_statuses pods dtc instance
               (acc(pod_NodeName pod \<mapsto> st\<lparr>inst_Version := ver\<rparr>)) w1
         | (Inl err, w1) \<Rightarrow>
             (case handleAgentVersionForIPError err instance pod (Some st) of
                (Some e, _) \<Rightarrow> (acc, Some e, w1)
              | (None, st') \<Rightarrow>
                  instance_statuses pods dtc instance (acc(pod_NodeName pod \<mapsto> the st')) w1))"

definition getInstanceStatuses ::
  "Pod list \<Rightarrow> 'w dt_client \<Rightarrow> OneAgent \<Rightarrow> 'w \<Rightarrow> (string \<rightharpoonup> OneAgentInstance) \<times> go_error option \<times> 'w" where
  "getInstanceStatuses pods dtc instance w = instance_statuses pods dtc instance Map.empty w"

definition getPods ::
  "('v, 'w, 'z) cluster_scheme \<Rightarrow> OneAgent \<Rightarrow> 'w \<Rightarrow> Pod list \<times> go_error option \<times> 'w" where
  "getPods K instance w =
     (case k_list_pods K (cr_Namespace instance) (buildLabels (cr_Name instance)) w of
        (Inl e, w1) \<Rightarrow> ([], Some e, w1)
      | (Inr items, w1) \<Rightarrow> (items, None, w1))"

text \<open>An error of the listing is only logged.\<close>

definition reconcileInstanceStatuses ::
  "('v, 'w, 'z) cluster_scheme \<Rightarrow> OneAgent \<Rightarrow> 'w dt_client \<Rightarrow> 'w
     \<Rightarrow> bool \<times> go_error option \<times> OneAgent \<times> 'w" where
  "reconcileInstanceStatuses K instance dtc w =
     (let (pods, _, w1) = getPods K instance w;
          (instanceStatuses, err, w2) = getInstanceStatuses pods dtc instance w1
      in if err \<noteq> None \<and> instanceStatuses = Map.empty then (False, err, instance, w2)
         else if st_Instances (cr_Status instance) = None
                 \<or> st_Instances (cr_Status instance) \<noteq> Some instanceStatuses
         then (True, err, update_status (\<lambda>s. s\<lparr>st_Instances := Some instanceStatuses\<rparr>) instance, w2)
         else (False, err, instance, w2))"

section \<open>Outdated pods\<close>

text \<open>The loop of \<open>findOutdatedPodsInstaller\<close>; None is a panic of \<open>isDesiredNewer\<close>.\<close>

fun outdated_pods ::
  "Pod list \<Rightarrow> 'w dt_client \<Rightarrow> OneAgent \<Rightarrow> Pod list \<Rightarrow> 'w \<Rightarrow> (Pod list \<times> go_error option) option \<times> 'w" where
  "outdated_pods [] dtc instance doomedPods w = (Some (doomedPods, None), w)"
| "outdated_pods (pod # pods) dtc instance doomedPods w =
     (case c_GetAgentVersionForIP dtc (pod_HostIP pod) w of
        (Inl err, w1) \<Rightarrow>
          (case handleAgentVersionForIPError err instance pod None of
             (Some e, _) \<Rightarrow> (Some (doomedPods, Some e), w1)
           | (None, _) \<Rightarrow> outdated_pods pods dtc instance doomedPods w1)
      | (Inr ver, w1) \<Rightarrow>
          (case isDesiredNewer ver (st_Version (cr_Status instance)) of
             None \<Rightarrow> (None, w1)
           | Some newer \<Rightarrow>
               outdated_pods pods dtc instance (if newer then doomedPods @ [pod] else doomedPods) w1))"

definition findOutdatedPodsInstaller ::
  "Pod list \<Rightarrow> 'w dt_client \<Rightarrow> OneAgent \<Rightarrow> 'w \<Rightarrow> (Pod list \<times> go_error option) option \<times> 'w" where
  "findOutdatedPodsInstaller pods dtc instance w = outdated_pods pods dtc instance [] w"

definition findPods ::
  "('v, 'w, 'z) cluster_scheme \<Rightarrow> OneAgent \<Rightarrow> 'w \<Rightarrow> (go_error + Pod list) \<times> 'w" where
  "findPods K instance w = k_list_pods K (cr_Namespace instance) (buildLabels (cr_Name instance)) w"

section \<open>Waiting for a pod's replacement\<close>

definition splayTimeSeconds :: "16 word" where "splayTimeSeconds = 10"

text \<open>The pods of a listing that replace \<open>pod\<close>: other pods that run on its node.\<close>

definition replacements :: "Pod \<Rightarrow> Pod list \<Rightarrow> Pod list" where
  "replacements pod items =
     filter (\<lambda>p. \<not> (pod_NodeName p \<noteq> pod_NodeName pod \<or> pod_Phase p \<noteq> PodRunning \<or> pod_Name p = pod_Name pod)) items"

text \<open>
  One round of the loop of \<open>waitPodReadyState\<close>: sleep, list, judge.  Inl is the new value of
  \<open>status\<close>, when the loop goes on; Inr is \<open>break\<close>.
\<close>

definition wait_round ::
  "('v, 'w, 'z) cluster_scheme \<Rightarrow> Pod \<Rightarrow> (string \<rightharpoonup> string) \<Rightarrow> 'w \<Rightarrow> (go_error option + unit) \<times> 'w" where
  "wait_round K pod labels w =
     (case k_list_pods K (pod_Namespace pod) labels (k_sleep K (uint splayTimeSeconds * Second) w) of
        (Inl e, w2) \<Rightarrow> (Inl (Some e), w2)
      | (Inr items, w2) \<Rightarrow>
          (let foundPods = replacements pod items; n = length foundPods
           in if n = 0
              then (Inl (Some (ErrMsg (''waiting for pod to be recreated on node: '' @ pod_NodeName pod))), w2)
              else if n = 1 \<and> getPodReadyState (foundPods ! 0) then (Inr (), w2)
              else if n > 1
              then (Inl (Some (ErrMsg (''too many pods found: expected=1 actual='' @ Itoa (int n)))), w2)
              else (Inl None, w2)))"

text \<open>The loop: \<open>splay\<close> and \<open>waitSecs\<close> are \<open>uint16\<close>, so \<open>splay\<close> can wrap around.\<close>

partial_function (option) wait_loop ::
  "('v, 'w, 'z) cluster_scheme \<Rightarrow> Pod \<Rightarrow> (string \<rightharpoonup> string) \<Rightarrow> 16 word \<Rightarrow> 16 word \<Rightarrow> go_error option \<Rightarrow> 'w
     \<Rightarrow> (go_error option \<times> 'w) option" where
  "wait_loop K pod labels waitSecs splay status w =
     (if splay < waitSecs
      then (case wait_round K pod labels w of
              (Inl status', w') \<Rightarrow> wait_loop K pod labels waitSecs (splay + splayTimeSeconds) status' w'
            | (Inr _, w') \<Rightarrow> Some (None, w'))
      else Some (status, w))"

definition waitPodReadyState ::
  "('v, 'w, 'z) cluster_scheme \<Rightarrow> Pod \<Rightarrow> (string \<rightharpoonup> string) \<Rightarrow> 16 word \<Rightarrow> 'w \<Rightarrow> (go_error option \<times> 'w) option" where
  "waitPodReadyState K pod labels waitSecs w = wait_loop K pod labels waitSecs 0 None w"

text \<open>None: the wait for some pod never returns.\<close>

fun deletePods ::
  "('v, 'w, 'z) cluster_scheme \<Rightarrow> Pod list \<Rightarrow> (string \<rightharpoonup> string) \<Rightarrow> 16 word \<Rightarrow> 'w
     \<Rightarrow> (go_error option \<times> 'w) option" where
  "deletePods K [] labels waitSecs w = Some (None, w)"
| "deletePods K (pod # pods) labels waitSecs w =
     (case k_delete_pod K pod w of
        (Some err, w1) \<Rightarrow> Some (Some err, w1)
      | (None, w1) \<Rightarrow>
          (case waitPodReadyState K pod labels waitSecs w1 of
             None \<Rightarrow> None
           | Some (Some err, w2) \<Rightarrow> Some (Some err, w2)
           | Some (None, w2) \<Rightarrow> deletePods K pods labels waitSecs w2))"

section \<open>Updating the status, and the update of the pods\<close>

definition updateCR ::
  "('v, 'w, 'z) oneagent_cluster_scheme \<Rightarrow> OneAgent \<Rightarrow> 'w \<Rightarrow> go_error option \<times> OneAgent \<times> 'w" where
  "updateCR K instance w =
     (let (now, w1) = k_now K w;
          instance' = update_status (\<lambda>s. s\<lparr>st_UpdatedTimestamp := now\<rparr>) instance
      in case k_update_oneagent K instance' w1 of
           (Inl e, w2) \<Rightarrow> (Some e, instance', w2)
         | (Inr answer, w2) \<Rightarrow> (None, answer, w2))"

text \<open>
  \<open>reconcileVersionInstaller\<close>.  The call of \<open>isDesiredNewer\<close> before the log line compares the
  desired version with itself, as the field was just assigned: it is false and cannot panic.
\<close>

definition reconcileVersionInstaller ::
  "('v, 'w, 'z) oneagent_cluster_scheme \<Rightarrow> OneAgent \<Rightarrow> 'w dt_client \<Rightarrow> 'w
     \<Rightarrow> (bool \<times> go_error option \<times> OneAgent \<times> 'w) run" where
  "reconcileVersionInstaller K instance dtc w =
     (case c_GetLatestAgentVersion dtc ''unix'' ''default'' w of
        (Inl err, w1) \<Rightarrow> Returns (False, Some (Wrapped ''failed to get desired version'' err), instance, w1)
      | (Inr desired, w1) \<Rightarrow>
     (let change = (desired \<noteq> [] \<and> desired \<noteq> st_Version (cr_Status instance));
          instance1 = (if change then update_status (\<lambda>s. s\<lparr>st_Version := desired\<rparr>) instance else instance)
      in case findPods K instance1 w1 of
        (Inl err, w2) \<Rightarrow> Returns (change, Some err, instance1, w2)
      | (Inr podList, w2) \<Rightarrow>
     (case findOutdatedPodsInstaller podList dtc instance1 w2 of
        (None, w3) \<Rightarrow> Panics
      | (Some (_, Some err), w3) \<Rightarrow> Returns (change, Some err, instance1, w3)
      | (Some (podsToDelete, None), w3) \<Rightarrow>
     (let waitSecs = (case sp_WaitReadySeconds (cr_Spec instance1) of None \<Rightarrow> 300 | Some s \<Rightarrow> s);
          (changed, sts) = SetPhase Deploying (cr_Status instance1);
          (instance2, w4) =
            (if podsToDelete \<noteq> [] then
               (if changed then snd (updateCR K (instance1\<lparr>cr_Status := sts\<rparr>) w3)
                else (instance1\<lparr>cr_Status := sts\<rparr>, w3))
             else (instance1, w3))
      in case deletePods K podsToDelete (buildLabels (cr_Name instance2)) waitSecs w4 of
           None \<Rightarrow> Diverges
         | Some (Some err, w5) \<Rightarrow> Returns (change, Some err, instance2, w5)
         | Some (None, w5) \<Rightarrow> Returns (change, None, instance2, w5)))))"

definition reconcileVersion ::
  "('v, 'w, 'z) oneagent_cluster_scheme \<Rightarrow> OneAgent \<Rightarrow> 'w dt_client \<Rightarrow> 'w
     \<Rightarrow> (bool \<times> go_error option \<times> OneAgent \<times> 'w) run" where
  "reconcileVersion K instance dtc w =
     (if \<not> st_UseImmutableImage (cr_Status instance) then reconcileVersionInstaller K instance dtc w
      else Returns (False, None, instance, w))"

section \<open>The phase\<close>

definition determineOneAgentPhase ::
  "('v, 'w, 'z) oneagent_cluster_scheme \<Rightarrow> OneAgent \<Rightarrow> 'w \<Rightarrow> bool \<times> go_error option \<times> OneAgent \<times> 'w" where
  "determineOneAgentPhase K instance w =
     (case k_get_daemonset K (cr_Namespace instance) (cr_Name instance) w of
        (Inl err, w1) \<Rightarrow>
          (if IsNotFound err then (False, None, instance, w1)
           else (st_Phase (cr_Status instance) \<noteq> PhaseError, Some err,
                 update_status (\<lambda>s. s\<lparr>st_Phase := PhaseError\<rparr>) instance, w1))
      | (Inr dsActual, w1) \<Rightarrow>
          (let phase = (if ds_NumberReady dsActual = ds_CurrentNumberScheduled dsActual then Running else Deploying)
           in (st_Phase (cr_Status instance) \<noteq> phase, None,
               update_status (\<lambda>s. s\<lparr>st_Phase := phase\<rparr>) instance, w1)))"

end
