(* ===== verification/Pods_Props.thy ===== *)
theory Pods_Props
  imports Pods
begin

text \<open>
  What the update of the pods guarantees: the waiting loop against a reference with a
  counted number of rounds (its termination, its bound, its wrap-around), the one-by-one
  replacement, the choice of the outdated pods, and the instance statuses.
\<close>

section \<open>The waiting loop\<close>

text \<open>The reference: at most \<open>n\<close> rounds.\<close>

primrec poll_rounds ::
  "('v, 'w, 'z) cluster_scheme \<Rightarrow> Pod \<Rightarrow> (string \<rightharpoonup> string) \<Rightarrow> nat \<Rightarrow> go_error option \<Rightarrow> 'w
     \<Rightarrow> go_error option \<times> 'w" where
  "poll_rounds K pod labels 0 status w = (status, w)"
| "poll_rounds K pod labels (Suc n) status w =
     (case wait_round K pod labels w of
        (Inl status', w') \<Rightarrow> poll_rounds K pod labels n status' w'
      | (Inr _, w') \<Rightarrow> (None, w'))"

lemma wait_loop_exact:
  assumes "\<forall>k < n. splay + of_nat k * splayTimeSeconds < waitSecs"
    and "\<not> splay + of_nat n * splayTimeSeconds < waitSecs"
  shows "wait_loop K pod labels waitSecs splay status w = Some (poll_rounds K pod labels n status w)"
  using assms
proof (induction n arbitrary: splay status w)
  case 0
  then show ?case by (subst wait_loop.simps) simp
next
  case (Suc n)
  have lt: "splay < waitSecs" using Suc.prems(1) by (metis mult_zero_left add.right_neutral of_nat_0 zero_less_Suc)
  have "\<forall>k < n. splay + splayTimeSeconds + of_nat k * splayTimeSeconds < waitSecs"
  proof (intro allI impI)
    fix k assume "k < n"
    then have "splay + of_nat (Suc k) * splayTimeSeconds < waitSecs" using Suc.prems(1) by blast
    then show "splay + splayTimeSeconds + of_nat k * splayTimeSeconds < waitSecs"
      by (simp add: algebra_simps)
  qed
  moreover have "\<not> splay + splayTimeSeconds + of_nat n * splayTimeSeconds < waitSecs"
    using Suc.prems(2) by (simp add: algebra_simps)
  ultimately show ?case
    using lt by (subst wait_loop.simps) (auto simp: Suc.IH split: prod.splits sum.splits)
qed

lemma wait_loop_within:
  assumes "\<not> splay + of_nat m * splayTimeSeconds < waitSecs"
  shows "\<exists>n \<le> m. \<not> splay + of_nat n * splayTimeSeconds < waitSecs \<and>
    wait_loop K pod labels waitSecs splay status w = Some (poll_rounds K pod labels n status w)"
proof -
  let ?P = "\<lambda>k. \<not> splay + of_nat k * splayTimeSeconds < waitSecs"
  have l: "(LEAST k. ?P k) \<le> m" using assms by (rule Least_le)
  have g: "?P (LEAST k. ?P k)" using assms by (rule LeastI)
  have b: "\<forall>k < (LEAST k. ?P k). \<not> ?P k" using not_less_Least [of _ ?P] by blast
  then have b': "\<forall>k < (LEAST k. ?P k). splay + of_nat k * splayTimeSeconds < waitSecs" by simp
  show ?thesis
    by (intro exI [of _ "LEAST k. ?P k"] conjI l g) (rule wait_loop_exact [OF b' g])
qed

lemma splay_below: "k \<le> 6553 \<Longrightarrow> unat (of_nat k * splayTimeSeconds) = 10 * k"
  by (simp add: splayTimeSeconds_def unat_word_ariths unat_of_nat)

text \<open>13107 rounds bring the wrapped counter to 65534, its largest value.\<close>

lemma splay_largest: "of_nat 13107 * splayTimeSeconds = 65534"
  by (simp add: splayTimeSeconds_def)

lemma rounds_needed:
  assumes "waitSecs \<noteq> 65535"
  shows "\<not> (0 :: 16 word) + of_nat 13107 * splayTimeSeconds < waitSecs"
proof -
  have "unat waitSecs < 65536" using unsigned_less [of waitSecs, where ?'a = nat] by simp
  moreover have "unat waitSecs \<noteq> 65535"
    using assms by (simp add: word_unat_eq_iff)
  ultimately have "unat waitSecs \<le> 65534" by linarith
  then show ?thesis unfolding splay_largest by (simp add: word_less_nat_alt)
qed

lemma waitPodReadyState_poll:
  assumes "waitSecs \<noteq> 65535"
  shows "\<exists>n \<le> 13107. (unat waitSecs \<le> 65530 \<longrightarrow> n = (unat waitSecs + 9) div 10) \<and>
    (n = 0 \<longrightarrow> waitSecs = 0) \<and>
    waitPodReadyState K pod labels waitSecs w = Some (poll_rounds K pod labels n None w)"
proof (cases "unat waitSecs \<le> 65530")
  case True
  let ?n = "(unat waitSecs + 9) div 10"
  have n: "?n \<le> 6553" using True by linarith
  have "\<forall>k < ?n. (0 :: 16 word) + of_nat k * splayTimeSeconds < waitSecs"
    using n by (auto simp: word_less_nat_alt splay_below)
  moreover have "\<not> (0 :: 16 word) + of_nat ?n * splayTimeSeconds < waitSecs"
    using n by (simp add: word_less_nat_alt splay_below)
  ultimately have "waitPodReadyState K pod labels waitSecs w = Some (poll_rounds K pod labels ?n None w)"
    unfolding waitPodReadyState_def by (rule wait_loop_exact)
  moreover have "?n = 0 \<longrightarrow> waitSecs = 0"
  proof
    assume "?n = 0"
    then have "unat waitSecs = 0" by linarith
    then show "waitSecs = 0" by (simp add: unat_eq_0)
  qed
  ultimately show ?thesis using n by (intro exI [of _ ?n]) auto
next
  case False
  from wait_loop_within [OF rounds_needed [OF assms], of K pod labels None w]
  obtain n where "n \<le> 13107" and z: "\<not> (0 :: 16 word) + of_nat n * splayTimeSeconds < waitSecs" and
    n: "wait_loop K pod labels waitSecs 0 None w = Some (poll_rounds K pod labels n None w)" by blast
  moreover have "n = 0 \<longrightarrow> waitSecs = 0" using z by (auto simp: word_gt_0)
  ultimately show ?thesis using False by (intro exI [of _ n]) (simp add: waitPodReadyState_def)
qed

section \<open>The other lemmas\<close>

text \<open>With 65535 seconds the counter is always below the limit: it is even.\<close>

lemma wait_loop_diverges_aux:
  fixes K :: "('v, 'w, 'z) cluster_scheme"
  assumes "wait_loop K pod labels waitSecs splay status w = Some y"
  shows "(\<forall>w. \<exists>s w'. wait_round K pod labels w = (Inl s, w')) \<longrightarrow> waitSecs = 65535 \<longrightarrow> odd (unat splay)"
proof (rule wait_loop.raw_induct [OF _ assms, where
      P = "\<lambda>K pod labels waitSecs splay status w y.
        (\<forall>w. \<exists>s w'. wait_round K pod labels w = (Inl s, w')) \<longrightarrow> waitSecs = 65535 \<longrightarrow> odd (unat splay)"])
  fix loop and K :: "('v, 'w, 'z) cluster_scheme" and pod labels waitSecs splay status w y
  assume IH: "\<And>(K :: ('v, 'w, 'z) cluster_scheme) pod labels waitSecs splay status w y.
      loop K pod labels waitSecs splay status w = Some y \<Longrightarrow>
      (\<forall>w. \<exists>s w'. wait_round K pod labels w = (Inl s, w')) \<longrightarrow> waitSecs = 65535 \<longrightarrow> odd (unat splay)"
    and step: "(if splay < waitSecs
      then case wait_round K pod labels w of
             (Inl status', w') \<Rightarrow> loop K pod labels waitSecs (splay + splayTimeSeconds) status' w'
           | (Inr x, w') \<Rightarrow> Some (None, w')
      else Some (status, w)) = Some y"
  show "(\<forall>w. \<exists>s w'. wait_round K pod labels w = (Inl s, w')) \<longrightarrow> waitSecs = 65535 \<longrightarrow> odd (unat splay)"
  proof (intro impI notI)
    assume inl: "\<forall>w. \<exists>s w'. wait_round K pod labels w = (Inl s, w')"
      and W: "waitSecs = 65535" and ev: "even (unat splay)"
    have "unat splay \<noteq> 65535" using ev by presburger
    moreover have "unat splay < 65536" using unsigned_less [of splay, where ?'a = nat] by simp
    ultimately have "splay < waitSecs" using W by (simp add: word_less_nat_alt)
    moreover obtain s w' where "wait_round K pod labels w = (Inl s, w')" using inl by blast
    ultimately have "loop K pod labels waitSecs (splay + splayTimeSeconds) s w' = Some y"
      using step by simp
    moreover have "even (unat (splay + splayTimeSeconds))"
      using ev by (simp add: splayTimeSeconds_def unat_word_ariths dvd_mod_iff)
    ultimately show False using IH inl W by blast
  qed
qed

lemma wait_loop_diverges:
  assumes "\<forall>w. \<exists>s w'. wait_round K pod labels w = (Inl s, w')"
  shows "waitPodReadyState K pod labels 65535 w = None"
  using wait_loop_diverges_aux [of K pod labels 65535 0 None w] assms unfolding waitPodReadyState_def
  by (cases "wait_loop K pod labels 65535 0 None w") auto

section \<open>What a replacement does, as a history\<close>

text \<open>
  What the cluster answered: the pods it deleted and the listings it gave.  \<open>history\<close> is a part of the
  world that only these calls extend.
\<close>

datatype pod_event =
    Deleted Pod
  | Listed string "string \<rightharpoonup> string" "Pod list"

definition history_laws :: "('v, 'w, 'z) cluster_scheme \<Rightarrow> ('w \<Rightarrow> pod_event list) \<Rightarrow> bool" where
  "history_laws K history \<longleftrightarrow>
     (\<forall>p w. history (snd (k_delete_pod K p w)) =
        history w @ (if fst (k_delete_pod K p w) = None then [Deleted p] else [])) \<and>
     (\<forall>ns labels w. history (snd (k_list_pods K ns labels w)) =
        history w @ (case fst (k_list_pods K ns labels w) of Inl _ \<Rightarrow> [] | Inr items \<Rightarrow> [Listed ns labels items])) \<and>
     (\<forall>d w. history (k_sleep K d w) = history w)"

lemma history_lawsD:
  assumes "history_laws K history"
  shows "k_delete_pod K p w = (e, w') \<Longrightarrow> history w' = history w @ (if e = None then [Deleted p] else [])"
    and "k_list_pods K ns labels w = (r, w') \<Longrightarrow>
      history w' = history w @ (case r of Inl _ \<Rightarrow> [] | Inr items \<Rightarrow> [Listed ns labels items])"
    and "history (k_sleep K d w) = history w"
  using assms unfolding history_laws_def by (metis fst_conv snd_conv)+

text \<open>A listing, and one that shows exactly one running replacement of the pod on its node.\<close>

definition is_listing :: "pod_event \<Rightarrow> bool" where
  "is_listing e \<longleftrightarrow> (case e of Deleted _ \<Rightarrow> False | Listed _ _ _ \<Rightarrow> True)"

definition shows_replacement :: "(string \<rightharpoonup> string) \<Rightarrow> Pod \<Rightarrow> pod_event \<Rightarrow> bool" where
  "shows_replacement labels p e \<longleftrightarrow>
     (\<exists>items. e = Listed (pod_Namespace p) labels items \<and>
        length (filter (\<lambda>q. pod_Phase q = PodRunning \<and> pod_NodeName q = pod_NodeName p \<and> pod_Name q \<noteq> pod_Name p) items) = 1)"

text \<open>
  The histories of a replacement one by one, with the success of the whole: a deletion of the next pod
  comes right after a listing that shows the replacement of the one before, and a success after one that
  shows that of the last; a failure leaves the rest alone.
\<close>

inductive one_by_one :: "(string \<rightharpoonup> string) \<Rightarrow> Pod list \<Rightarrow> bool \<Rightarrow> pod_event list \<Rightarrow> bool" for labels where
  all_done: "one_by_one labels [] True []"
| not_deleted: "one_by_one labels (p # ps) False []"
| not_replaced: "list_all is_listing seen \<Longrightarrow> one_by_one labels (p # ps) False (Deleted p # seen)"
| replaced: "list_all is_listing seen \<Longrightarrow> shows_replacement labels p e \<Longrightarrow> one_by_one labels ps ok h \<Longrightarrow>
    one_by_one labels (p # ps) ok (Deleted p # seen @ e # h)"

text \<open>One round lists at most once, and ends without a complaint only if it saw the replacement.\<close>

lemma wait_round_history:
  assumes laws: "history_laws K history" and r: "wait_round K pod labels w = (r, w')"
  shows "\<exists>seen. history w' = history w @ seen \<and> list_all is_listing seen \<and>
    (r = Inl None \<or> r = Inr () \<longrightarrow> (\<exists>e. seen = [e] \<and> shows_replacement labels pod e))"
proof -
  let ?w0 = "k_sleep K (uint splayTimeSeconds * Second) w"
  obtain l w1 where l: "k_list_pods K (pod_Namespace pod) labels ?w0 = (l, w1)" by fastforce
  from r l have w1: "w' = w1" by (auto simp: wait_round_def Let_def split: sum.splits if_splits)
  note h = history_lawsD(2) [OF laws l] history_lawsD(3) [OF laws, of "uint splayTimeSeconds * Second" w]
  have good: "length (replacements pod items) = 1" if "l = Inr items" "r = Inl None \<or> r = Inr ()" for items
  proof (rule ccontr)
    assume n: "length (replacements pod items) \<noteq> 1"
    then consider "length (replacements pod items) = 0" | "length (replacements pod items) > 1" by linarith
    then show False by cases (use r l that n in \<open>auto simp: wait_round_def Let_def split: if_splits\<close>)
  qed
  show ?thesis
  proof (cases l)
    case (Inl e)
    with r l have "r = Inl (Some e)" by (simp add: wait_round_def)
    with Inl h w1 show ?thesis by simp
  next
    case (Inr items)
    with h w1 good [OF Inr] show ?thesis
      by (auto simp: is_listing_def shows_replacement_def replacements_def conj_commute)
  qed
qed

lemma wait_loop_history:
  fixes K :: "('v, 'w, 'z) cluster_scheme"
  assumes "wait_loop K pod labels waitSecs splay status w = Some y"
  shows "history_laws K history \<longrightarrow> (\<exists>seen. history (snd y) = history w @ seen \<and> list_all is_listing seen \<and>
    (fst y = None \<longrightarrow> seen = [] \<and> status = None \<and> \<not> splay < waitSecs \<or>
       (\<exists>s e. seen = s @ [e] \<and> shows_replacement labels pod e)))"
proof (rule wait_loop.raw_induct [OF _ assms, where
      P = "\<lambda>K pod labels waitSecs splay status w y. history_laws K history \<longrightarrow>
        (\<exists>seen. history (snd y) = history w @ seen \<and> list_all is_listing seen \<and>
           (fst y = None \<longrightarrow> seen = [] \<and> status = None \<and> \<not> splay < waitSecs \<or>
              (\<exists>s e. seen = s @ [e] \<and> shows_replacement labels pod e)))"])
  fix loop and K :: "('v, 'w, 'z) cluster_scheme" and pod labels waitSecs splay status w y
  assume IH: "\<And>(K :: ('v, 'w, 'z) cluster_scheme) pod labels waitSecs splay status w y.
      loop K pod labels waitSecs splay status w = Some y \<Longrightarrow> history_laws K history \<longrightarrow>
      (\<exists>seen. history (snd y) = history w @ seen \<and> list_all is_listing seen \<and>
         (fst y = None \<longrightarrow> seen = [] \<and> status = None \<and> \<not> splay < waitSecs \<or>
            (\<exists>s e. seen = s @ [e] \<and> shows_replacement labels pod e)))"
    and step: "(if splay < waitSecs
      then case wait_round K pod labels w of
             (Inl status', w') \<Rightarrow> loop K pod labels waitSecs (splay + splayTimeSeconds) status' w'
           | (Inr x, w') \<Rightarrow> Some (None, w')
      else Some (status, w)) = Some y"
  show "history_laws K history \<longrightarrow> (\<exists>seen. history (snd y) = history w @ seen \<and> list_all is_listing seen \<and>
         (fst y = None \<longrightarrow> seen = [] \<and> status = None \<and> \<not> splay < waitSecs \<or>
            (\<exists>s e. seen = s @ [e] \<and> shows_replacement labels pod e)))"
  proof (cases "splay < waitSecs")
    case False
    with step show ?thesis by auto
  next
    case True
    show ?thesis
    proof
      assume laws: "history_laws K history"
      obtain r w1 where r: "wait_round K pod labels w = (r, w1)" by fastforce
      from wait_round_history [OF laws r] obtain seen where seen: "history w1 = history w @ seen" "list_all is_listing seen"
        "r = Inl None \<or> r = Inr () \<longrightarrow> (\<exists>e. seen = [e] \<and> shows_replacement labels pod e)" by blast
      show "\<exists>seen. history (snd y) = history w @ seen \<and> list_all is_listing seen \<and>
         (fst y = None \<longrightarrow> seen = [] \<and> status = None \<and> \<not> splay < waitSecs \<or>
            (\<exists>s e. seen = s @ [e] \<and> shows_replacement labels pod e))"
      proof (cases r)
        case (Inr u)
        with True step r have "y = (None, w1)" by simp
        with Inr seen show ?thesis by (intro exI [of _ seen]) auto
      next
        case (Inl st)
        with True step r have "loop K pod labels waitSecs (splay + splayTimeSeconds) st w1 = Some y" by simp
        from IH [OF this, THEN mp, OF laws] obtain rest where rest: "history (snd y) = history w1 @ rest" "list_all is_listing rest"
          "fst y = None \<longrightarrow> rest = [] \<and> st = None \<or> (\<exists>s e. rest = s @ [e] \<and> shows_replacement labels pod e)"
          by (elim exE conjE) (rule that, assumption+, blast)
        show ?thesis
        proof (rule exI [of _ "seen @ rest"], intro conjI impI disjI2)
          show "history (snd y) = history w @ seen @ rest" using seen(1) rest(1) by simp
          show "list_all is_listing (seen @ rest)" using seen(2) rest(2) by simp
          assume "fst y = None"
          with rest(3) consider "rest = []" "st = None" | s e where "rest = s @ [e]" "shows_replacement labels pod e" by blast
          then show "\<exists>s e. seen @ rest = s @ [e] \<and> shows_replacement labels pod e"
            by cases (use Inl seen(3) in \<open>auto simp: append_eq_append_conv2\<close>)
        qed
      qed
    qed
  qed
qed

lemma deletePods_history:
  assumes laws: "history_laws K history" and "W \<noteq> 0"
  shows "deletePods K pods labels W w = Some (r, w') \<Longrightarrow>
    \<exists>h. history w' = history w @ h \<and> one_by_one labels pods (r = None) h"
proof (induction pods arbitrary: w)
  case Nil
  then show ?case by (auto intro: all_done)
next
  case (Cons p ps)
  obtain e w1 where d: "k_delete_pod K p w = (e, w1)" by fastforce
  note deleted = history_lawsD(1) [OF laws d]
  show ?case
  proof (cases e)
    case (Some err)
    with Cons.prems d deleted show ?thesis by (auto intro: not_deleted)
  next
    case None
    with Cons.prems d obtain st w2 where wt: "waitPodReadyState K p labels W w1 = Some (st, w2)"
      by (auto split: option.splits)
    from \<open>W \<noteq> 0\<close> have "0 < W" by (simp add: word_neq_0_conv)
    with wait_loop_history [OF wt [unfolded waitPodReadyState_def], of history] laws
    obtain seen where seen: "history w2 = history w1 @ seen" "list_all is_listing seen"
      "st = None \<longrightarrow> (\<exists>s e. seen = s @ [e] \<and> shows_replacement labels p e)" by auto
    have h2: "history w2 = history w @ Deleted p # seen" using seen(1) deleted None by simp
    show ?thesis
    proof (cases st)
      case (Some err)
      with Cons.prems d None wt have "r = Some err" "w' = w2" by simp_all
      with h2 seen(2) show ?thesis by (auto intro: not_replaced)
    next
      case None': None
      with seen(3) obtain s ev where s: "seen = s @ [ev]" "shows_replacement labels p ev" by blast
      from Cons.prems d None wt None' have "deletePods K ps labels W w2 = Some (r, w')" by simp
      from Cons.IH [OF this] obtain h where h: "history w' = history w2 @ h" "one_by_one labels ps (r = None) h" by blast
      from s seen(2) h h2 show ?thesis by (auto intro: replaced)
    qed
  qed
qed

text \<open>
  What the Dynatrace client reports of an address does not depend on when it is asked: the
  case of a client whose host cache is filled.
\<close>

definition reports :: "'w dt_client \<Rightarrow> (string \<Rightarrow> go_error + string) \<Rightarrow> bool" where
  "reports dtc ver \<longleftrightarrow> (\<forall>ip w. fst (c_GetAgentVersionForIP dtc ip w) = ver ip)"

lemma reportsD: "reports dtc ver \<Longrightarrow> \<exists>w'. c_GetAgentVersionForIP dtc ip w = (ver ip, w')"
  unfolding reports_def by (metis prod.collapse)

definition rate_limited :: "(string \<Rightarrow> go_error + string) \<Rightarrow> Pod \<Rightarrow> bool" where
  "rate_limited ver p \<longleftrightarrow> (\<exists>e. ver (pod_HostIP p) = Inl e \<and> is_server_error_code StatusTooManyRequests e)"

definition is_outdated :: "(string \<Rightarrow> go_error + string) \<Rightarrow> string \<Rightarrow> Pod \<Rightarrow> bool option" where
  "is_outdated ver desired p =
     (case ver (pod_HostIP p) of Inl _ \<Rightarrow> Some False | Inr v \<Rightarrow> isDesiredNewer v desired)"

lemma outdated_pods_stable:
  assumes "reports dtc ver" and "\<forall>p \<in> set pods. \<not> rate_limited ver p"
    and "\<forall>p \<in> set pods. is_outdated ver (st_Version (cr_Status instance)) p \<noteq> None"
  shows "fst (outdated_pods pods dtc instance acc w) =
    Some (acc @ filter (\<lambda>p. is_outdated ver (st_Version (cr_Status instance)) p = Some True) pods, None)"
  using assms(2,3)
proof (induction pods arbitrary: acc w)
  case (Cons p ps)
  obtain w' where w': "c_GetAgentVersionForIP dtc (pod_HostIP p) w = (ver (pod_HostIP p), w')"
    using reportsD [OF assms(1)] by blast
  show ?case
  proof (cases "ver (pod_HostIP p)")
    case (Inl e)
    then have "fst (handleAgentVersionForIPError e instance p None) = None"
      using Cons.prems(1) by (auto simp: handleAgentVersionForIPError_def rate_limited_def split: option.splits)
    with Inl w' Cons show ?thesis
      by (cases "handleAgentVersionForIPError e instance p None") (simp add: is_outdated_def)
  next
    case (Inr v)
    then obtain b where "isDesiredNewer v (st_Version (cr_Status instance)) = Some b"
      using Cons.prems(2) by (auto simp: is_outdated_def)
    with Inr w' Cons show ?thesis by (simp add: is_outdated_def)
  qed
qed simp

text \<open>The instance status of a pod: the reported version, else the last known one.\<close>

definition instance_of :: "(string \<Rightarrow> go_error + string) \<Rightarrow> OneAgent \<Rightarrow> Pod \<Rightarrow> OneAgentInstance" where
  "instance_of ver instance p =
     \<lparr>inst_PodName = pod_Name p,
      inst_Version = (case ver (pod_HostIP p) of
         Inr v \<Rightarrow> v
       | Inl _ \<Rightarrow> (case Option.bind (st_Instances (cr_Status instance)) (\<lambda>m. m (pod_NodeName p)) of
                    None \<Rightarrow> [] | Some i \<Rightarrow> inst_Version i)),
      inst_IPAddress = pod_HostIP p\<rparr>"

lemma instance_statuses_stable:
  assumes "reports dtc ver" and "\<forall>p \<in> set pods. \<not> rate_limited ver p"
  shows "\<exists>w'. instance_statuses pods dtc instance acc w =
    (foldl (\<lambda>m p. m(pod_NodeName p \<mapsto> instance_of ver instance p)) acc pods, None, w')"
  using assms(2)
proof (induction pods arbitrary: acc w)
  case (Cons p ps)
  obtain w' where w': "c_GetAgentVersionForIP dtc (pod_HostIP p) w = (ver (pod_HostIP p), w')"
    using reportsD [OF assms(1)] by blast
  let ?st = "\<lparr>inst_PodName = pod_Name p, inst_Version = [], inst_IPAddress = pod_HostIP p\<rparr>"
  have IH: "\<exists>w''. instance_statuses ps dtc instance acc' w' =
      (foldl (\<lambda>m p. m(pod_NodeName p \<mapsto> instance_of ver instance p)) acc' ps, None, w'')" for acc'
    by (rule Cons.IH) (use Cons.prems in simp)
  show ?case
  proof (cases "ver (pod_HostIP p)")
    case (Inl e)
    then have "handleAgentVersionForIPError e instance p (Some ?st) =
        (None, Some (instance_of ver instance p))"
      using Cons.prems
      by (auto simp: handleAgentVersionForIPError_def rate_limited_def instance_of_def split: option.splits)
    with Inl w' IH show ?thesis by (simp del: fun_upd_apply)
  next
    case (Inr v)
    then have "?st\<lparr>inst_Version := v\<rparr> = instance_of ver instance p" by (simp add: instance_of_def)
    with Inr w' IH show ?thesis by (simp del: fun_upd_apply)
  qed
qed simp

lemma foldl_upd_distinct:
  "distinct (map f xs) \<Longrightarrow> x \<in> set xs \<Longrightarrow> foldl (\<lambda>m x. m(f x \<mapsto> g x)) m xs (f x) = Some (g x)"
proof (induction xs arbitrary: m)
  case (Cons a xs)
  show ?case
  proof (cases "x = a")
    case True
    with Cons.prems foldl_fun_upd_notin [of "f a" f xs g "m(f a \<mapsto> g a)"] show ?thesis
      by (simp del: fun_upd_apply) simp
  next
    case False
    with Cons.prems have "x \<in> set xs" "distinct (map f xs)" by auto
    with Cons.IH [of "m(f a \<mapsto> g a)"] show ?thesis by (simp del: fun_upd_apply)
  qed
qed simp

lemma dom_foldl_upd: "dom (foldl (\<lambda>m x. m(f x \<mapsto> g x)) m xs) = dom m \<union> f ` set xs"
  by (induction xs arbitrary: m) auto

lemma dom_empty_iff: "m = Map.empty \<longleftrightarrow> dom m = {}"
  by auto

section \<open>Concrete inputs\<close>

definition sample_pod :: "string \<Rightarrow> bool \<Rightarrow> Pod" where
  "sample_pod name ready =
     \<lparr>pod_Name = name, pod_Namespace = ''dynatrace'', pod_Labels = Map.empty, pod_NodeName = ''node1'',
      pod_HostIP = ''1.2.3.4'', pod_Phase = PodRunning, pod_ContainersReady = [ready], pod_Controller = None\<rparr>"

text \<open>A cluster whose listings of pods always have the pods \<open>ps\<close>.\<close>

definition pods_cluster :: "Pod list \<Rightarrow> (unit, time) cluster" where
  "pods_cluster ps = (sample_cluster [] [] None)\<lparr>k_list_pods := (\<lambda>ns l w. (Inr ps, w))\<rparr>"

lemma pods_cluster_simps [simp]:
  "k_list_pods (pods_cluster ps) = (\<lambda>ns l w. (Inr ps, w))"
  "k_sleep (pods_cluster ps) = (\<lambda>d w. w + d)"
  "k_now (pods_cluster ps) = (\<lambda>w. (w, w))"
  "k_delete_pod (pods_cluster ps) = (\<lambda>p w. (None, w))"
  by (simp_all add: pods_cluster_def)

lemmas pod_samples = sample_pod_def replacements_def getPodReadyState_def

text \<open>A cluster that keeps its history: every pod comes back as the ready pod \<open>new\<close>, but none can be deleted twice.\<close>

definition history_cluster :: "(unit, pod_event list) cluster" where
  "history_cluster = (idle_cluster None)
     \<lparr>k_list_pods := (\<lambda>ns l w. (Inr [sample_pod ''new'' True], w @ [Listed ns l [sample_pod ''new'' True]])),
      k_sleep := (\<lambda>d w. w),
      k_delete_pod := (\<lambda>p w. if Deleted p \<in> set w then (Some KubeNotFound, w) else (None, w @ [Deleted p]))\<rparr>"

lemma history_cluster_simps [simp]:
  "k_list_pods history_cluster = (\<lambda>ns l w. (Inr [sample_pod ''new'' True], w @ [Listed ns l [sample_pod ''new'' True]]))"
  "k_sleep history_cluster = (\<lambda>d w. w)"
  "k_delete_pod history_cluster = (\<lambda>p w. if Deleted p \<in> set w then (Some KubeNotFound, w) else (None, w @ [Deleted p]))"
  by (simp_all add: history_cluster_def)

lemma history_cluster_laws: "history_laws history_cluster (\<lambda>w. w)"
  by (auto simp: history_laws_def)

lemma history_wait:
  "n \<noteq> ''new'' \<Longrightarrow> waitPodReadyState history_cluster (sample_pod n r) labels 65535 w =
     Some (None, w @ [Listed ''dynatrace'' labels [sample_pod ''new'' True]])"
  unfolding waitPodReadyState_def
  by (subst wait_loop.simps) (auto simp: wait_round_def pod_samples splayTimeSeconds_def)

text \<open>The second deletion of a fails, even with the longest waiting time.\<close>

lemma sample_deletePods:
  "deletePods history_cluster [sample_pod ''a'' True, sample_pod ''b'' False, sample_pod ''a'' True] labels 65535 [] =
     Some (Some KubeNotFound,
       [Deleted (sample_pod ''a'' True), Listed ''dynatrace'' labels [sample_pod ''new'' True],
        Deleted (sample_pod ''b'' False), Listed ''dynatrace'' labels [sample_pod ''new'' True]])"
  by (simp add: history_wait) (simp add: sample_pod_def)

section \<open>Properties\<close>

text \<open>C11: Unless it is told to wait 65535 seconds, \<open>waitPodReadyState\<close> returns, after at most
  13107 rounds; up to 65530 seconds it does exactly what \<open>(waitSecs + 9) div 10\<close> rounds of
  sleeping ten seconds and listing the pods do.\<close>

theorem waitPodReadyState_returns:
  assumes "waitSecs \<noteq> 65535"
  shows "\<exists>n \<le> 13107. waitPodReadyState K pod labels waitSecs w = Some (poll_rounds K pod labels n None w) \<and>
    (unat waitSecs \<le> 65530 \<longrightarrow> n = (unat waitSecs + 9) div 10)"
  using waitPodReadyState_poll [OF assms, of K pod labels w] by blast

theorem waitPodReadyState_returns_witness:
  "\<exists>n. waitPodReadyState (pods_cluster []) (sample_pod ''p'' True) Map.empty 25 0 =
     Some (poll_rounds (pods_cluster []) (sample_pod ''p'' True) Map.empty n None 0) \<and> n = 3"
proof -
  have "(25 :: 16 word) \<noteq> 65535" by simp
  from waitPodReadyState_returns [OF this, of "pods_cluster []" "sample_pod ''p'' True" Map.empty 0]
  obtain n where "waitPodReadyState (pods_cluster []) (sample_pod ''p'' True) Map.empty 25 0 =
      Some (poll_rounds (pods_cluster []) (sample_pod ''p'' True) Map.empty n None 0)"
    "unat (25 :: 16 word) \<le> 65530 \<longrightarrow> n = (unat (25 :: 16 word) + 9) div 10" by blast
  then show ?thesis by (intro exI [of _ n] conjI) simp_all
qed

text \<open>C38: With 65535 seconds the 16-bit counter wraps around below the limit for ever: as long as
  no listing shows the one ready replacement, the wait never returns.\<close>

theorem waitPodReadyState_wraps_around:
  assumes "\<forall>w. \<exists>s w'. wait_round K pod labels w = (Inl s, w')"
  shows "waitPodReadyState K pod labels 65535 w = None"
  using assms by (rule wait_loop_diverges)

theorem waitPodReadyState_wraps_around_witness:
  "waitPodReadyState (pods_cluster []) (sample_pod ''p'' True) Map.empty 65535 0 = None"
  by (rule waitPodReadyState_wraps_around) (simp add: wait_round_def pod_samples)

text \<open>C39: The end of the waiting time is no error when the node has exactly one running
  replacement that is not ready: although the timeout is documented as an error, the wait
  then returns nil.\<close>

theorem unready_pod_at_timeout_is_success:
  assumes "waitSecs \<noteq> 65535"
    and "\<forall>w. \<exists>items p w'. k_list_pods K (pod_Namespace pod) labels w = (Inr items, w') \<and>
               replacements pod items = [p] \<and> \<not> getPodReadyState p"
  shows "\<exists>w'. waitPodReadyState K pod labels waitSecs w = Some (None, w')"
proof -
  have r: "\<exists>w'. wait_round K pod labels w = (Inl None, w')" for w
    using assms(2) [rule_format, of "k_sleep K (uint splayTimeSeconds * Second) w"]
    by (auto simp: wait_round_def)
  have "\<exists>w'. poll_rounds K pod labels n None w = (None, w')" for n
  proof (induction n arbitrary: w)
    case (Suc n)
    from r obtain w1 where "wait_round K pod labels w = (Inl None, w1)" by blast
    with Suc.IH show ?case by simp
  qed simp
  then show ?thesis using waitPodReadyState_poll [OF assms(1), of K pod labels w] by auto
qed

theorem unready_pod_at_timeout_is_success_witness:
  "\<exists>w'. waitPodReadyState (pods_cluster [sample_pod ''new'' False]) (sample_pod ''old'' True) Map.empty 300 0
     = Some (None, w')"
  by (rule unready_pod_at_timeout_is_success) (simp_all add: pod_samples)

text \<open>C16: Pods are replaced one by one.  Whenever \<open>deletePods\<close> returns, successfully or not and for every
  positive waiting time, what it did to the cluster is a history of that kind: it deleted pods in the
  order of the list, each one once; right before the next deletion, and before a success, a listing had
  shown exactly one running replacement of the pod before on its node; after an error no further pod
  was deleted.  (With a waiting time of zero the code does not look for replacements at all.)\<close>

theorem deletePods_one_by_one:
  assumes "history_laws K history" and "waitSecs \<noteq> 0" and "deletePods K pods labels waitSecs w = Some (r, w')"
  shows "\<exists>h. history w' = history w @ h \<and> one_by_one labels pods (r = None) h"
  using deletePods_history [OF assms] .

text \<open>The third deletion fails, after the replacements of the first two pods were seen.\<close>

theorem deletePods_one_by_one_witness:
  "one_by_one Map.empty [sample_pod ''a'' True, sample_pod ''b'' False, sample_pod ''a'' True] False
     [Deleted (sample_pod ''a'' True), Listed ''dynatrace'' Map.empty [sample_pod ''new'' True],
      Deleted (sample_pod ''b'' False), Listed ''dynatrace'' Map.empty [sample_pod ''new'' True]]"
  using deletePods_one_by_one [OF history_cluster_laws _ sample_deletePods [of Map.empty]] by simp

text \<open>C17: The pods chosen for replacement are exactly the outdated ones, in the order of the
  listing: those whose reported version is older, in the order of versions, than the version
  in the status.  A pod whose version is unknown is left alone.\<close>

theorem outdated_pods_are_the_older_ones:
  assumes "reports dtc ver" and "\<forall>p \<in> set pods. \<not> rate_limited ver p"
    and "parse_version (st_Version (cr_Status instance)) = Some desired"
    and "\<forall>p \<in> set pods. \<forall>v. ver (pod_HostIP p) = Inr v \<longrightarrow>
           (\<exists>av. parse_version v = Some av \<and> length (ver_nums av) = length (ver_nums desired))"
  shows "fst (findOutdatedPodsInstaller pods dtc instance w) =
    Some (filter (\<lambda>p. \<exists>v av. ver (pod_HostIP p) = Inr v \<and> parse_version v = Some av \<and> av < desired) pods, None)"
proof -
  let ?d = "st_Version (cr_Status instance)"
  have o: "is_outdated ver ?d p =
      Some (\<exists>v av. ver (pod_HostIP p) = Inr v \<and> parse_version v = Some av \<and> av < desired)" if "p \<in> set pods" for p
  proof (cases "ver (pod_HostIP p)")
    case (Inr v)
    with assms(4) that obtain av where "parse_version v = Some av" "length (ver_nums av) = length (ver_nums desired)"
      by blast
    with Inr isDesiredNewer_less [OF this(1) assms(3) this(2)] show ?thesis by (simp add: is_outdated_def)
  qed (simp add: is_outdated_def)
  then have "\<forall>p \<in> set pods. is_outdated ver ?d p \<noteq> None" by simp
  from outdated_pods_stable [OF assms(1,2) this, of "[]" w] o show ?thesis
    unfolding findOutdatedPodsInstaller_def by (auto intro!: filter_cong)
qed

text \<open>A client that reports version 1.201 for every address.\<close>

lemma sample_reports: "reports (sample_dt_client None) (\<lambda>ip. Inr ''1.201.0.20190101-000000'')"
  by (simp add: reports_def sample_dt_client_def)

definition sample_desired :: OneAgent where
  "sample_desired = (empty_oneagent ''oneagent'' ''dynatrace'')
     \<lparr>cr_Status := empty_status\<lparr>st_Version := ''1.202.0.20180101-000000''\<rparr>\<rparr>"

theorem outdated_pods_are_the_older_ones_witness:
  "fst (findOutdatedPodsInstaller [sample_pod ''a'' True, sample_pod ''b'' True] (sample_dt_client None) sample_desired 0) =
     Some ([sample_pod ''a'' True, sample_pod ''b'' True], None)"
proof -
  have d: "parse_version (st_Version (cr_Status sample_desired)) = Some (AgentVersion [1, 202, 0] ''20180101-000000'')"
    by (simp add: sample_desired_def sample_versions)
  have "fst (findOutdatedPodsInstaller [sample_pod ''a'' True, sample_pod ''b'' True] (sample_dt_client None) sample_desired 0) =
    Some (filter (\<lambda>p. \<exists>v av. Inr ''1.201.0.20190101-000000'' = (Inr v :: go_error + string) \<and>
        parse_version v = Some av \<and> av < AgentVersion [1, 202, 0] ''20180101-000000'')
      [sample_pod ''a'' True, sample_pod ''b'' True], None)"
    by (rule outdated_pods_are_the_older_ones [OF sample_reports _ d]) (simp_all add: rate_limited_def sample_versions)
  then show ?thesis by (simp add: sample_versions less_agent_version_def)
qed

text \<open>When every pod already runs the latest version, an update neither deletes a pod nor
  touches the phase: it only records the version, and says whether that is a change.\<close>

theorem current_pods_are_left_alone:
  assumes "c_GetLatestAgentVersion dtc ''unix'' ''default'' w = (Inr d, w1)" and "d \<noteq> []"
    and "k_list_pods K (cr_Namespace oa) (buildLabels (cr_Name oa)) w1 = (Inr pods, w2)"
    and "reports dtc ver" and "\<forall>p \<in> set pods. ver (pod_HostIP p) = Inr d"
  shows "\<exists>w3. reconcileVersionInstaller K oa dtc w =
    Returns (d \<noteq> st_Version (cr_Status oa), None, update_status (\<lambda>s. s\<lparr>st_Version := d\<rparr>) oa, w3)"
proof -
  let ?oa = "update_status (\<lambda>s. s\<lparr>st_Version := d\<rparr>) oa"
  have "filter (\<lambda>p. is_outdated ver d p = Some True) pods = []"
    using assms(5) by (auto simp: filter_empty_conv is_outdated_def)
  moreover have "\<forall>p \<in> set pods. \<not> rate_limited ver p" "\<forall>p \<in> set pods. is_outdated ver d p \<noteq> None"
    using assms(5) by (auto simp: rate_limited_def is_outdated_def)
  ultimately have "fst (findOutdatedPodsInstaller pods dtc ?oa w2) = Some ([], None)"
    using outdated_pods_stable [OF assms(4), of pods ?oa "[]" w2] by (simp add: findOutdatedPodsInstaller_def)
  then obtain w3 where "findOutdatedPodsInstaller pods dtc ?oa w2 = (Some ([], None), w3)"
    by (metis prod.collapse)
  with assms(1-3) show ?thesis
  proof (cases "d = st_Version (cr_Status oa)")
    case True
    then have "?oa = oa" by simp
    with True \<open>findOutdatedPodsInstaller pods dtc ?oa w2 = (Some ([], None), w3)\<close> assms(1-3) show ?thesis
      by (simp add: reconcileVersionInstaller_def findPods_def SetPhase_def)
  qed (simp add: reconcileVersionInstaller_def findPods_def SetPhase_def)
qed

theorem current_pods_are_left_alone_witness:
  "\<exists>w3. reconcileVersionInstaller
     (sample_oneagent_cluster (pods_cluster [sample_pod ''a'' True]) None None [])
     sample_desired ((sample_dt_client None)\<lparr>c_GetAgentVersionForIP :=
       (\<lambda>ip w. (Inr ''1.202.0.20190101-000000'', w))\<rparr>) 0 =
     Returns (True, None, update_status (\<lambda>s. s\<lparr>st_Version := ''1.202.0.20190101-000000''\<rparr>) sample_desired, w3)"
proof -
  let ?dtc = "(sample_dt_client None)\<lparr>c_GetAgentVersionForIP := (\<lambda>ip w. (Inr ''1.202.0.20190101-000000'', w))\<rparr>
    :: time dt_client"
  let ?K = "sample_oneagent_cluster (pods_cluster [sample_pod ''a'' True]) None None []"
  have 1: "c_GetLatestAgentVersion ?dtc ''unix'' ''default'' 0 = (Inr ''1.202.0.20190101-000000'', 0)"
    by (simp add: sample_dt_client_def)
  have 2: "k_list_pods ?K (cr_Namespace sample_desired) (buildLabels (cr_Name sample_desired)) 0 =
    (Inr [sample_pod ''a'' True], 0)" by simp
  have 3: "reports ?dtc (\<lambda>ip. Inr ''1.202.0.20190101-000000'')" by (simp add: reports_def)
  have 4: "''1.202.0.20190101-000000'' \<noteq> st_Version (cr_Status sample_desired)" by (simp add: sample_desired_def)
  from current_pods_are_left_alone [OF 1 _ 2 3] 4 show ?thesis by simp
qed

text \<open>The instance statuses describe the pods: after a successful listing, with one pod on
  each node and no request limit reached, the status has exactly one entry for each pod, under its
  node, with its name, its address and its version (the last known one when the server does
  not know it); nothing else of the OneAgent changes, and the flag says whether it changed.\<close>

theorem instance_statuses_describe_pods:
  assumes "reports dtc ver"
    and "k_list_pods K (cr_Namespace oa) (buildLabels (cr_Name oa)) w = (Inr pods, w1)"
    and "\<forall>p \<in> set pods. \<not> rate_limited ver p" and "distinct (map pod_NodeName pods)"
  shows "\<exists>m w2. dom m = pod_NodeName ` set pods \<and>
    (\<forall>p \<in> set pods. m (pod_NodeName p) = Some (instance_of ver oa p)) \<and>
    reconcileInstanceStatuses K oa dtc w =
      (st_Instances (cr_Status oa) \<noteq> Some m, None, update_status (\<lambda>s. s\<lparr>st_Instances := Some m\<rparr>) oa, w2)"
proof -
  define m where "m = foldl (\<lambda>m p. m(pod_NodeName p \<mapsto> instance_of ver oa p)) Map.empty pods"
  from instance_statuses_stable [OF assms(1,3), of oa Map.empty w1]
  obtain w2 where "getInstanceStatuses pods dtc oa w1 = (m, None, w2)"
    unfolding getInstanceStatuses_def m_def by blast
  then have "reconcileInstanceStatuses K oa dtc w =
      (st_Instances (cr_Status oa) \<noteq> Some m, None, update_status (\<lambda>s. s\<lparr>st_Instances := Some m\<rparr>) oa, w2)"
    using assms(2) by (cases "st_Instances (cr_Status oa) = Some m")
      (simp_all add: reconcileInstanceStatuses_def getPods_def)
  moreover have "dom m = pod_NodeName ` set pods" unfolding m_def dom_foldl_upd by simp
  moreover have "\<forall>p \<in> set pods. m (pod_NodeName p) = Some (instance_of ver oa p)"
    unfolding m_def using foldl_upd_distinct [OF assms(4)] by blast
  ultimately show ?thesis by blast
qed

theorem instance_statuses_describe_pods_witness:
  "\<exists>m w2. m ''node1'' = Some \<lparr>inst_PodName = ''a'', inst_Version = ''1.201.0.20190101-000000'', inst_IPAddress = ''1.2.3.4''\<rparr> \<and>
     reconcileInstanceStatuses (pods_cluster [sample_pod ''a'' True]) sample_desired (sample_dt_client None) 0 =
       (True, None, update_status (\<lambda>s. s\<lparr>st_Instances := Some m\<rparr>) sample_desired, w2)"
proof -
  have l: "k_list_pods (pods_cluster [sample_pod ''a'' True]) (cr_Namespace sample_desired)
      (buildLabels (cr_Name sample_desired)) 0 = (Inr [sample_pod ''a'' True], 0)" by simp
  have "\<forall>p \<in> set [sample_pod ''a'' True]. \<not> rate_limited (\<lambda>ip. Inr ''1.201.0.20190101-000000'') p"
    "distinct (map pod_NodeName [sample_pod ''a'' True])" by (simp_all add: rate_limited_def)
  from instance_statuses_describe_pods [OF sample_reports l this]
  obtain m w2 where "\<forall>p \<in> set [sample_pod ''a'' True]. m (pod_NodeName p) =
      Some (instance_of (\<lambda>ip. Inr ''1.201.0.20190101-000000'') sample_desired p)" and
    r: "reconcileInstanceStatuses (pods_cluster [sample_pod ''a'' True]) sample_desired (sample_dt_client None) 0 =
       (st_Instances (cr_Status sample_desired) \<noteq> Some m, None,
        update_status (\<lambda>s. s\<lparr>st_Instances := Some m\<rparr>) sample_desired, w2)" by blast
  then have "m ''node1'' = Some \<lparr>inst_PodName = ''a'', inst_Version = ''1.201.0.20190101-000000'', inst_IPAddress = ''1.2.3.4''\<rparr>"
    by (simp add: instance_of_def sample_pod_def)
  with r show ?thesis
    by (intro exI [of _ m] exI [of _ w2]) (simp add: sample_desired_def empty_resources)
qed

text \<open>A failed listing of the pods erases the instance statuses: the error is only logged, the
  empty list of pods is taken as the cluster's state, and the call reports a change and no
  error.\<close>

theorem failed_listing_erases_instances:
  assumes "k_list_pods K (cr_Namespace oa) (buildLabels (cr_Name oa)) w = (Inl e, w1)"
    and "st_Instances (cr_Status oa) = Some m" and "m \<noteq> Map.empty"
  shows "reconcileInstanceStatuses K oa dtc w =
    (True, None, update_status (\<lambda>s. s\<lparr>st_Instances := Some Map.empty\<rparr>) oa, w1)"
  using assms by (auto simp: reconcileInstanceStatuses_def getPods_def getInstanceStatuses_def)

theorem failed_listing_erases_instances_witness:
  "\<exists>oa'. reconcileInstanceStatuses
     ((pods_cluster [])\<lparr>k_list_pods := (\<lambda>ns l w. (Inl (ExtErr ''timeout''), w))\<rparr>)
     ((empty_oneagent ''oneagent'' ''dynatrace'')\<lparr>cr_Status := empty_status\<lparr>st_Instances :=
        Some [''node1'' \<mapsto> \<lparr>inst_PodName = ''p'', inst_Version = ''1.2'', inst_IPAddress = ''1.2.3.4''\<rparr>]\<rparr>\<rparr>)
     (sample_dt_client None) 0 = (True, None, oa', 0) \<and> st_Instances (cr_Status oa') = Some Map.empty"
proof -
  let ?K = "(pods_cluster [])\<lparr>k_list_pods := (\<lambda>ns l w. (Inl (ExtErr ''timeout''), w))\<rparr>"
  let ?m = "[''node1'' \<mapsto> \<lparr>inst_PodName = ''p'', inst_Version = ''1.2'', inst_IPAddress = ''1.2.3.4''\<rparr>]"
  let ?oa = "(empty_oneagent ''oneagent'' ''dynatrace'')\<lparr>cr_Status := empty_status\<lparr>st_Instances := Some ?m\<rparr>\<rparr>"
  have l: "k_list_pods ?K (cr_Namespace ?oa) (buildLabels (cr_Name ?oa)) 0 = (Inl (ExtErr ''timeout''), 0)" by simp
  have "st_Instances (cr_Status ?oa) = Some ?m" "?m \<noteq> Map.empty" by simp_all
  from failed_listing_erases_instances [OF l this] show ?thesis by simp
qed

end
