(* ===== verification/Base64.thy ===== *)
theory Base64
  imports Go_Std
begin

text \<open>
  \<open>base64.StdEncoding\<close> of the Go library (RFC 4648 with padding), as far as the operator uses
  it: \<open>EncodeToString\<close>, and the decoder that a reader of the pull secret applies, for the
  round trip.
\<close>

definition b64_alphabet :: string where
  "b64_alphabet = ''ABCDEFGHIJKLMNOPQRSTUVWXYZabcdefghijklmnopqrstuvwxyz0123456789+/''"

definition b64_char :: "nat \<Rightarrow> char" where
  "b64_char n = b64_alphabet ! (n mod 64)"

definition byte :: "char \<Rightarrow> nat" where "byte c = of_char c"

fun b64_encode :: "string \<Rightarrow> string" where
  "b64_encode [] = []"
| "b64_encode [a] = [b64_char (byte a div 4), b64_char (byte a mod 4 * 16), CHR ''='', CHR ''='']"
| "b64_encode [a, b] =
     [b64_char (byte a div 4), b64_char (byte a mod 4 * 16 + byte b div 16),
      b64_char (byte b mod 16 * 4), CHR ''='']"
| "b64_encode (a # b # c # s) =
     b64_char (byte a div 4) # b64_char (byte a mod 4 * 16 + byte b div 16) #
     b64_char (byte b mod 16 * 4 + byte c div 64) # b64_char (byte c mod 64) # b64_encode s"

text \<open>The position of a character in the alphabet.\<close>

fun index_of :: "char \<Rightarrow> string \<Rightarrow> nat option" where
  "index_of c [] = None"
| "index_of c (x # xs) = (if c = x then Some 0 else map_option Suc (index_of c xs))"

definition b64_val :: "char \<Rightarrow> nat option" where "b64_val c = index_of c b64_alphabet"

fun b64_decode :: "string \<Rightarrow> string option" where
  "b64_decode [] = Some []"
| "b64_decode (p # q # r # t # s) =
     (case (b64_val p, b64_val q, b64_val r, b64_val t) of
        (Some i, Some j, Some k, Some l) \<Rightarrow>
          map_option (\<lambda>x. char_of (i * 4 + j div 16) # char_of (j mod 16 * 16 + k div 4) #
                          char_of (k mod 4 * 64 + l) # x) (b64_decode s)
      | (Some i, Some j, Some k, None) \<Rightarrow>
          (if t = CHR ''='' \<and> s = [] then Some [char_of (i * 4 + j div 16), char_of (j mod 16 * 16 + k div 4)]
           else None)
      | (Some i, Some j, None, None) \<Rightarrow>
          (if r = CHR ''='' \<and> t = CHR ''='' \<and> s = [] then Some [char_of (i * 4 + j div 16)] else None)
      | _ \<Rightarrow> None)"
| "b64_decode _ = None"

lemma index_of_nth: "distinct xs \<Longrightarrow> n < length xs \<Longrightarrow> index_of (xs ! n) xs = Some n"
proof (induction xs arbitrary: n)
  case (Cons x xs)
  then show ?case by (cases n) auto
qed simp

lemma alphabet: "distinct b64_alphabet" "length b64_alphabet = 64"
  by code_simp+

lemma b64_val_char: "n < 64 \<Longrightarrow> b64_val (b64_char n) = Some n"
  by (simp add: b64_val_def b64_char_def alphabet index_of_nth)

lemma b64_val_pad [simp]: "b64_val CHR ''='' = None"
  by code_simp

lemma byte_less [simp]: "byte c < 256"
  by (simp add: byte_def)

lemma char_of_byte [simp]: "char_of (byte c) = c"
  by (simp add: byte_def)

lemma high_bits [simp]:
  "byte b div 16 div 16 = 0" "byte b div 16 mod 16 = byte b div 16"
  "byte c div 64 div 4 = 0" "byte c div 64 mod 4 = byte c div 64"
  using byte_less [of b] byte_less [of c] by (simp_all add: div_less mod_less less_mult_imp_div_less)

lemma b64_round_trip: "b64_decode (b64_encode s) = Some s"
proof (induction s rule: b64_encode.induct)
  case (2 a)
  have "byte a div 4 < 64" "byte a mod 4 * 16 < 64" using byte_less [of a] by linarith+
  then show ?case by (simp add: b64_val_char)
next
  case (3 a b)
  have "byte a div 4 < 64" "byte a mod 4 * 16 + byte b div 16 < 64" "byte b mod 16 * 4 < 64"
    using byte_less [of a] byte_less [of b] by linarith+
  then show ?case by (simp add: b64_val_char)
next
  case (4 a b c s)
  have "byte a div 4 < 64" "byte a mod 4 * 16 + byte b div 16 < 64"
    "byte b mod 16 * 4 + byte c div 64 < 64" "byte c mod 64 < 64"
    using byte_less [of a] byte_less [of b] byte_less [of c] by linarith+
  then show ?case using 4 by (simp add: b64_val_char)
qed simp

end
