(* ===== verification/Utils.thy ===== *)
theory Utils
  imports Workloads Base64
begin

text \<open>
  The helpers that the controllers share (controllers/utils): names and tokens, the
  construction of a Dynatrace client from a custom resource, secrets, images and the
  credentials of their registry.
\<close>

definition DynatracePaasToken :: string where "DynatracePaasToken = ''paasToken''"
definition DynatraceApiToken :: string where "DynatraceApiToken = ''apiToken''"

section \<open>Names, tokens and fields\<close>

definition GetTokensName :: "('a, 'b) BaseOneAgent \<Rightarrow> string" where
  "GetTokensName obj = (let tkns = sp_Tokens (cr_Spec obj) in if tkns \<noteq> [] then tkns else cr_Name obj)"

text \<open>\<open>secret.Data[key]\<close> with its \<open>ok\<close>: None for a missing key or a nil map.\<close>

definition secret_field :: "Secret \<Rightarrow> string \<Rightarrow> string option" where
  "secret_field secret key = Option.bind (sec_Data secret) (\<lambda>m. m key)"

definition extractToken :: "Secret \<Rightarrow> string \<Rightarrow> go_error + string" where
  "extractToken secret key =
     (case secret_field secret key of
        None \<Rightarrow> Inl (ErrMsg (''missing token '' @ key))
      | Some value \<Rightarrow> Inr (TrimSpace value))"

definition GetField :: "(string \<rightharpoonup> string) option \<Rightarrow> string \<Rightarrow> string \<Rightarrow> string" where
  "GetField values key defaultValue =
     (case values of
        None \<Rightarrow> defaultValue
      | Some m \<Rightarrow> (if map_get m key \<noteq> [] then map_get m key else defaultValue))"

definition SetUseImmutableImageStatus :: "('a, 'b) BaseOneAgent \<Rightarrow> bool \<times> ('a, 'b) BaseOneAgent" where
  "SetUseImmutableImageStatus instance =
     (if sp_UseImmutableImage (cr_Spec instance) = st_UseImmutableImage (cr_Status instance) then (False, instance)
      else (True, update_status (\<lambda>s. s\<lparr>st_UseImmutableImage := sp_UseImmutableImage (cr_Spec instance)\<rparr>) instance))"

section \<open>Building the Dynatrace client\<close>

text \<open>A secret that was not found stays the empty struct.\<close>

definition no_secret :: Secret where
  "no_secret = \<lparr>sec_Name = [], sec_Namespace = [], sec_Type = [], sec_Data = None\<rparr>"

text \<open>The option for the proxy.\<close>

definition proxy_options ::
  "(string, 'w, 'z) cluster_scheme \<Rightarrow> string \<Rightarrow> OneAgentProxy option \<Rightarrow> 'w
     \<Rightarrow> (go_error + client_option list) \<times> 'w" where
  "proxy_options K ns proxy w =
     (case proxy of
        None \<Rightarrow> (Inr [], w)
      | Some p \<Rightarrow>
          (if prx_ValueFrom p \<noteq> []
           then (case k_get_secret K ns (prx_ValueFrom p) w of
                   (Inl e, w1) \<Rightarrow> (Inl (Wrapped ''failed to get proxy secret'' e), w1)
                 | (Inr proxySecret, w1) \<Rightarrow>
                     (case extractToken proxySecret ''proxy'' of
                        Inl e \<Rightarrow> (Inl (Wrapped ''failed to extract proxy secret field'' e), w1)
                      | Inr proxyURL \<Rightarrow> (Inr [OptProxy proxyURL], w1)))
           else if prx_Value p \<noteq> [] then (Inr [OptProxy (prx_Value p)], w)
           else (Inr [], w)))"

text \<open>The option for the trusted certificates.\<close>

definition certs_options ::
  "(string, 'w, 'z) cluster_scheme \<Rightarrow> string \<Rightarrow> string \<Rightarrow> 'w \<Rightarrow> (go_error + client_option list) \<times> 'w" where
  "certs_options K ns trustedCAs w =
     (if trustedCAs = [] then (Inr [], w)
      else case k_get_configmap K ns trustedCAs w of
             (Inl e, w1) \<Rightarrow> (Inl (Wrapped ''failed to get certificate configmap'' e), w1)
           | (Inr certs, w1) \<Rightarrow>
               (let data = map_get (case cm_Data certs of None \<Rightarrow> Map.empty | Some m \<Rightarrow> m) ''certs''
                in if data = []
                   then (Inl (ErrMsg ''failed to extract certificate configmap field: missing field certs''), w1)
                   else (Inr [OptCerts data], w1)))"

definition wanted_token :: "Secret \<Rightarrow> bool \<Rightarrow> string \<Rightarrow> go_error + string" where
  "wanted_token secret has key =
     (if \<not> has then Inr []
      else case extractToken secret key of Inl e \<Rightarrow> Inl (Wrapped [] e) | Inr t \<Rightarrow> Inr t)"

definition BuildDynatraceClient ::
  "(string, 'w, 'z) cluster_scheme \<Rightarrow> ('a, 'b) BaseOneAgent \<Rightarrow> bool \<Rightarrow> bool \<Rightarrow> 'w
     \<Rightarrow> (go_error + dynatraceClient) \<times> 'w" where
  "BuildDynatraceClient K instance hasAPIToken hasPaaSToken w =
     (let ns = cr_Namespace instance; spec = cr_Spec instance;
          (got, w1) = k_get_secret K ns (GetTokensName instance) w
      in case (case got of Inr s \<Rightarrow> Inr s | Inl e \<Rightarrow> if IsNotFound e then Inr no_secret else Inl (Wrapped [] e)) of
        Inl e \<Rightarrow> (Inl e, w1)
      | Inr secret \<Rightarrow>
     (case proxy_options K ns (sp_Proxy spec) w1 of
        (Inl e, w2) \<Rightarrow> (Inl e, w2)
      | (Inr proxy, w2) \<Rightarrow>
     (case certs_options K ns (sp_TrustedCAs spec) w2 of
        (Inl e, w3) \<Rightarrow> (Inl e, w3)
      | (Inr certs, w3) \<Rightarrow>
     (let opts = (if sp_SkipCertCheck spec then [OptSkipCertificateValidation True] else []) @ proxy @ certs @
                 (if sp_NetworkZone spec \<noteq> [] then [OptNetworkZone (sp_NetworkZone spec)] else [])
      in case wanted_token secret hasAPIToken DynatraceApiToken of
        Inl e \<Rightarrow> (Inl e, w3)
      | Inr apiToken \<Rightarrow>
     (case wanted_token secret hasPaaSToken DynatracePaasToken of
        Inl e \<Rightarrow> (Inl e, w3)
      | Inr paasToken \<Rightarrow> (NewClient (sp_APIURL spec) apiToken paasToken opts, w3))))))"

section \<open>Secrets\<close>

definition CreateOrUpdateSecretIfNotExists ::
  "('v, 'w, 'z) cluster_scheme \<Rightarrow> string \<Rightarrow> string \<Rightarrow> (string \<rightharpoonup> string) option \<Rightarrow> string \<Rightarrow> 'w
     \<Rightarrow> go_error option \<times> 'w" where
  "CreateOrUpdateSecretIfNotExists K secretName targetNS data secretType w =
     (case k_get_secret K targetNS secretName w of
        (Inl err, w1) \<Rightarrow>
          (if IsNotFound err
           then (case k_create_secret K \<lparr>sec_Name = secretName, sec_Namespace = targetNS,
                        sec_Type = secretType, sec_Data = data\<rparr> w1 of
                   (Some e, w2) \<Rightarrow> (Some (Wrapped (''failed to create secret '' @ secretName) e), w2)
                 | (None, w2) \<Rightarrow> (None, w2))
           else (Some (Wrapped (''failed to query for secret '' @ secretName) err), w1))
      | (Inr cfg, w1) \<Rightarrow>
          (if data \<noteq> sec_Data cfg
           then (case k_update_secret K (cfg\<lparr>sec_Data := data\<rparr>) w1 of
                   (Some e, w2) \<Rightarrow> (Some (Wrapped (''failed to update secret '' @ secretName) e), w2)
                 | (None, w2) \<Rightarrow> (None, w2))
           else (None, w1)))"

section \<open>Images\<close>

definition GetImageRegistryFromAPIURL :: "string \<Rightarrow> string" where
  "GetImageRegistryFromAPIURL apiURL = TrimSuffix (TrimPrefix apiURL ''https://'') ''/api''"

definition BuildOneAgentImage :: "string \<Rightarrow> string \<Rightarrow> string" where
  "BuildOneAgentImage apiURL agentVersion =
     (let image = GetImageRegistryFromAPIURL apiURL @ ''/linux/oneagent''
      in if agentVersion \<noteq> [] then image @ '':'' @ agentVersion else image)"

definition BuildOneAgentAPMImage :: "string \<Rightarrow> string \<Rightarrow> string \<Rightarrow> string \<Rightarrow> string" where
  "BuildOneAgentAPMImage apiURL flavor technologies agentVersion =
     (let image = GetImageRegistryFromAPIURL apiURL @ ''/linux/codemodule'' @
                  (if flavor \<noteq> ''default'' then ''-musl'' else []);
          tags = (if technologies \<noteq> ''all'' then Split CHR '','' technologies else []) @
                 (if agentVersion \<noteq> [] then [agentVersion] else [])
      in if tags \<noteq> [] then image @ '':'' @ Join tags ''-'' else image)"

section \<open>The registry's credentials\<close>

definition GeneratePullSecretData ::
  "(string, 'w, 'z) oneagent_cluster_scheme \<Rightarrow> 'w transport \<Rightarrow> codec \<Rightarrow> ('a, 'b) BaseOneAgent \<Rightarrow> Secret \<Rightarrow> 'w
     \<Rightarrow> (go_error + (string \<rightharpoonup> string)) \<times> 'w" where
  "GeneratePullSecretData K H J oa tkns w =
     (case BuildDynatraceClient K oa False True w of
        (Inl e, w1) \<Rightarrow> (Inl (Wrapped [] e), w1)
      | (Inr dtc, w1) \<Rightarrow>
     (case GetConnectionInfo H J (dtc, w1) of
        (Inl e, _, w2) \<Rightarrow> (Inl (Wrapped [] e), w2)
      | (Inr ci, _, w2) \<Rightarrow>
     (let r = GetImageRegistryFromAPIURL (sp_APIURL (cr_Spec oa));
          token = (case secret_field tkns DynatracePaasToken of None \<Rightarrow> [] | Some t \<Rightarrow> t);
          auth = \<lparr>da_Username = ci_TenantUUID ci, da_Password = token,
                  da_Auth = b64_encode (ci_TenantUUID ci @ '':'' @ token)\<rparr>
      in case dj_Marshal (k_docker K) [(r, auth)] of
           Inl e \<Rightarrow> (Inl (Wrapped [] e), w2)
         | Inr j \<Rightarrow> (Inr [''.dockerconfigjson'' \<mapsto> j], w2))))"

definition NewDockerConfig :: "docker_codec \<Rightarrow> Secret \<Rightarrow> go_error + DockerConfig" where
  "NewDockerConfig C secret =
     (case secret_field secret ''.dockerconfigjson'' of
        None \<Rightarrow> Inl (ErrMsg ''could not find any docker config in image pull secret'')
      | Some config \<Rightarrow> dj_Unmarshal C config)"

text \<open>
  \<open>MakeSystemContext\<close>: the loop tries the registry and then its https form, so the later one
  wins.  The arguments are None when they are nil.
\<close>

definition MakeSystemContext :: "string option \<Rightarrow> DockerConfig option \<Rightarrow> SystemContext" where
  "MakeSystemContext dockerReference dockerConfig =
     (case (dockerReference, dockerConfig) of
        (Some name, Some cfg) \<Rightarrow>
          (let registry = hd (Split CHR ''/'' name)
           in foldl (\<lambda>ctx r. case cfg r of Some creds \<Rightarrow> Some creds | None \<Rightarrow> ctx) None
                [registry, ''https://'' @ registry])
      | _ \<Rightarrow> None)"

definition VersionLabel :: string where "VersionLabel = ''com.dynatrace.build-version''"

definition GetImageVersion ::
  "'w image_lib \<Rightarrow> string \<Rightarrow> DockerConfig option \<Rightarrow> 'w \<Rightarrow> (go_error + ImageVersion) \<times> 'w" where
  "GetImageVersion L imageName dockerConfig w =
     (let transportImageName = ''docker://'' @ imageName
      in case il_ParseImageName L transportImageName of
        Inl e \<Rightarrow> (Inl e, w)
      | Inr (imageReference, dockerReference) \<Rightarrow>
     (let systemContext = MakeSystemContext dockerReference dockerConfig
      in case il_NewImageSource L imageReference systemContext w of
        (Inl e, w1) \<Rightarrow> (Inl e, w1)
      | (Inr imageSource, w1) \<Rightarrow>
     (let (res, w2) =
        (case il_GetManifest L imageSource w1 of
           (Inl e, w2) \<Rightarrow> (Inl e, w2)
         | (Inr imageManifest, w2) \<Rightarrow>
             (case il_Digest L imageManifest of
                Inl e \<Rightarrow> (Inl e, w2)
              | Inr digest \<Rightarrow>
                  (case il_FromUnparsedImage L systemContext imageSource w2 of
                     (Inl e, w3) \<Rightarrow> (Inl e, w3)
                   | (Inr None, w3) \<Rightarrow> (Inl (ErrMsg (''could not find image: '' @ transportImageName)), w3)
                   | (Inr (Some img), w3) \<Rightarrow>
                       (case il_Inspect L img w3 of
                          (Inl e, w4) \<Rightarrow> (Inl e, w4)
                        | (Inr None, w4) \<Rightarrow> (Inl (ErrMsg (''could not inspect image: '' @ transportImageName)), w4)
                        | (Inr (Some labels), w4) \<Rightarrow>
                            (Inr \<lparr>iv_Version = map_get labels VersionLabel, iv_Hash = digest\<rparr>, w4)))))
      in (res, il_Close L imageSource w2))))"

end
