(* ===== verification/Utils_Props.thy ===== *)
theory Utils_Props
  imports Utils
begin

text \<open>
  What the shared helpers guarantee: the client is built from the resource's spec and secret,
  and the credentials of the generated pull secret are the ones that the image version probe
  finds again.
\<close>

section \<open>The client\<close>

lemma proxy_options_kinds:
  "proxy_options K ns p w = (Inr opts, w') \<Longrightarrow> \<forall>opt \<in> set opts. \<exists>x. opt = OptProxy x"
  by (auto simp: proxy_options_def split: option.splits if_splits prod.splits sum.splits)

lemma certs_options_kinds:
  "certs_options K ns t w = (Inr opts, w') \<Longrightarrow> \<forall>opt \<in> set opts. \<exists>x. opt = OptCerts x"
  by (auto simp: certs_options_def Let_def split: option.splits if_splits prod.splits sum.splits)

text \<open>Options other than the network zone leave the fields of the model alone.\<close>

lemma apply_other_options:
  "\<forall>opt \<in> set opts. \<forall>z. opt \<noteq> OptNetworkZone z \<Longrightarrow> foldl (\<lambda>c opt. apply_option opt c) c opts = c"
proof (induction opts arbitrary: c)
  case (Cons opt opts)
  then have "apply_option opt c = c" by (cases opt) auto
  with Cons show ?case by simp
qed simp

lemma wanted_token_Inr:
  "wanted_token secret has key = Inr t \<longleftrightarrow>
     (if has then (\<exists>v. secret_field secret key = Some v \<and> t = TrimSpace v) else t = [])"
  by (auto simp: wanted_token_def extractToken_def split: option.splits)

lemma NewClient_Inr:
  "NewClient url a p opts = Inr c \<Longrightarrow> c = foldl (\<lambda>c opt. apply_option opt c)
     \<lparr>dc_url = TrimSuffix url ''/'', dc_apiToken = a, dc_paasToken = p, dc_networkZone = [],
      dc_hostCache = Map.empty, dc_now = zero_time\<rparr> opts"
  by (simp add: NewClient_def TrimSuffix_def split: if_splits)

section \<open>Properties\<close>

text \<open>A Dynatrace client that could be built talks to the API URL of the spec (without a final
  slash), in the spec's network zone, with an empty host cache; the tokens asked for are those
  of the resource's secret, without surrounding spaces, and the others are empty.\<close>

theorem client_is_built_from_spec:
  assumes "BuildDynatraceClient K oa hasAPI hasPaaS w = (Inr c, w')"
  shows "dc_url c = TrimSuffix (sp_APIURL (cr_Spec oa)) ''/'' \<and> dc_networkZone c = sp_NetworkZone (cr_Spec oa) \<and>
    dc_hostCache c = Map.empty \<and>
    (\<exists>secret. (fst (k_get_secret K (cr_Namespace oa) (GetTokensName oa) w) = Inr secret \<or>
               fst (k_get_secret K (cr_Namespace oa) (GetTokensName oa) w) = Inl KubeNotFound \<and> secret = no_secret) \<and>
       (if hasAPI then \<exists>v. secret_field secret ''apiToken'' = Some v \<and> dc_apiToken c = TrimSpace v
        else dc_apiToken c = []) \<and>
       (if hasPaaS then \<exists>v. secret_field secret ''paasToken'' = Some v \<and> dc_paasToken c = TrimSpace v
        else dc_paasToken c = []))"
proof -
  let ?spec = "cr_Spec oa" and ?ns = "cr_Namespace oa"
  obtain got w1 where g: "k_get_secret K ?ns (GetTokensName oa) w = (got, w1)" by fastforce
  define found where "found = (case got of Inr s \<Rightarrow> Inr s | Inl e \<Rightarrow> if IsNotFound e then Inr no_secret else Inl (Wrapped [] e))"
  from assms g obtain secret where s: "found = Inr secret"
    by (cases found) (auto simp: BuildDynatraceClient_def found_def [symmetric])
  have got: "got = Inr secret \<or> got = Inl KubeNotFound \<and> secret = no_secret"
    using s by (auto simp: found_def IsNotFound_iff split: sum.splits if_splits)
  obtain proxy w2 where p: "proxy_options K ?ns (sp_Proxy ?spec) w1 = (Inr proxy, w2)"
    using assms g s by (cases "proxy_options K ?ns (sp_Proxy ?spec) w1"; cases "fst (proxy_options K ?ns (sp_Proxy ?spec) w1)")
      (simp_all add: BuildDynatraceClient_def found_def [symmetric])
  obtain certs w3 where ce: "certs_options K ?ns (sp_TrustedCAs ?spec) w2 = (Inr certs, w3)"
    using assms g s p by (cases "certs_options K ?ns (sp_TrustedCAs ?spec) w2"; cases "fst (certs_options K ?ns (sp_TrustedCAs ?spec) w2)")
      (simp_all add: BuildDynatraceClient_def found_def [symmetric])
  obtain api where a: "wanted_token secret hasAPI DynatraceApiToken = Inr api"
    using assms g s p ce by (cases "wanted_token secret hasAPI DynatraceApiToken")
      (simp_all add: BuildDynatraceClient_def found_def [symmetric])
  obtain paas where pa: "wanted_token secret hasPaaS DynatracePaasToken = Inr paas"
    using assms g s p ce a by (cases "wanted_token secret hasPaaS DynatracePaasToken")
      (simp_all add: BuildDynatraceClient_def found_def [symmetric])
  let ?others = "(if sp_SkipCertCheck ?spec then [OptSkipCertificateValidation True] else []) @ proxy @ certs"
  let ?zone = "if sp_NetworkZone ?spec \<noteq> [] then [OptNetworkZone (sp_NetworkZone ?spec)] else []"
  have n: "NewClient (sp_APIURL ?spec) api paas (?others @ ?zone) = Inr c"
    using assms g s p ce a pa by (simp add: BuildDynatraceClient_def found_def [symmetric] Let_def split del: if_split)
  have others: "\<forall>opt \<in> set ?others. \<forall>z. opt \<noteq> OptNetworkZone z"
    using proxy_options_kinds [OF p] certs_options_kinds [OF ce] by auto
  let ?c0 = "\<lparr>dc_url = TrimSuffix (sp_APIURL ?spec) ''/'', dc_apiToken = api, dc_paasToken = paas,
    dc_networkZone = [], dc_hostCache = Map.empty, dc_now = zero_time\<rparr>"
  have "c = foldl (\<lambda>c opt. apply_option opt c) ?c0 ?zone"
    using NewClient_Inr [OF n] by (subst (asm) foldl_append) (simp only: apply_other_options [OF others])
  then have "dc_url c = TrimSuffix (sp_APIURL ?spec) ''/'' \<and> dc_networkZone c = sp_NetworkZone ?spec \<and>
      dc_hostCache c = Map.empty \<and> dc_apiToken c = api \<and> dc_paasToken c = paas"
    by simp
  then show ?thesis
    using a pa got g
    by (intro conjI exI [of _ secret]) (auto simp: wanted_token_Inr DynatraceApiToken_def DynatracePaasToken_def)
qed

text \<open>A cluster that has at most one secret and answers that everything else is not there.\<close>

definition build_cluster :: "Secret option \<Rightarrow> (string, nat) cluster" where
  "build_cluster = idle_cluster"

definition saas_oneagent :: OneAgent where
  "saas_oneagent = (empty_oneagent ''oneagent'' ''dynatrace'')
     \<lparr>cr_Spec := empty_spec\<lparr>sp_APIURL := ''https://abc.live.dynatrace.com/api'', sp_NetworkZone := ''z1''\<rparr>\<rparr>"

definition paas_secret :: Secret where
  "paas_secret = \<lparr>sec_Name = ''oneagent'', sec_Namespace = ''dynatrace'', sec_Type = ''Opaque'',
     sec_Data = Some [''paasToken'' \<mapsto> '' tok'']\<rparr>"

lemmas utils_samples = build_cluster_def idle_cluster_def saas_oneagent_def paas_secret_def empty_resources

lemmas utils_defs = BuildDynatraceClient_def GetTokensName_def proxy_options_def certs_options_def
  wanted_token_def extractToken_def secret_field_def DynatracePaasToken_def DynatraceApiToken_def
  TrimSpace_def is_space_def NewClient_def HasSuffix_def HasPrefix_def Let_def

lemma sample_BuildDynatraceClient:
  "BuildDynatraceClient (build_cluster (Some paas_secret)) saas_oneagent False True 0 =
     (Inr \<lparr>dc_url = ''https://abc.live.dynatrace.com/api'', dc_apiToken = [], dc_paasToken = ''tok'',
           dc_networkZone = ''z1'', dc_hostCache = Map.empty, dc_now = zero_time\<rparr>, 0)"
  by (simp add: utils_defs utils_samples)

theorem client_is_built_from_spec_witness:
  "\<exists>c. BuildDynatraceClient (build_cluster (Some paas_secret)) saas_oneagent False True 0 = (Inr c, 0) \<and>
     dc_networkZone c = ''z1'' \<and> dc_apiToken c = []"
proof -
  from client_is_built_from_spec [OF sample_BuildDynatraceClient] have
    "sp_NetworkZone (cr_Spec saas_oneagent) = ''z1''" by simp
  with client_is_built_from_spec [OF sample_BuildDynatraceClient] sample_BuildDynatraceClient show ?thesis by simp
qed

section \<open>The credentials of the registry\<close>

text \<open>
  What \<open>encoding/json\<close> documents: reading back a marshalled docker configuration gives the
  user names and the passwords that were written.
\<close>

definition docker_json_law :: "docker_codec \<Rightarrow> bool" where
  "docker_json_law C \<longleftrightarrow> (\<forall>r a j. dj_Marshal C [(r, a)] = Inr j \<longrightarrow>
     dj_Unmarshal C j = Inr [r \<mapsto> (da_Username a, da_Password a)])"

text \<open>The name of the image reference that the probe parses out of the OneAgent image.\<close>

definition image_name :: "string \<Rightarrow> string" where
  "image_name apiURL = GetImageRegistryFromAPIURL apiURL @ ''/linux/oneagent''"

lemma GeneratePullSecretData_Inr:
  assumes "GeneratePullSecretData K H J oa tkns w = (Inr data, w')" and "docker_json_law (k_docker K)"
    and "sec_Data ps = Some data"
  shows "\<exists>ci s w1 w2. GetConnectionInfo H J (s, w1) = (Inr ci, w2) \<and>
    NewDockerConfig (k_docker K) ps = Inr [GetImageRegistryFromAPIURL (sp_APIURL (cr_Spec oa)) \<mapsto>
      (ci_TenantUUID ci, case secret_field tkns ''paasToken'' of None \<Rightarrow> [] | Some t \<Rightarrow> t)]"
proof -
  obtain d w1 where d: "BuildDynatraceClient K oa False True w = (d, w1)" by fastforce
  with assms(1) obtain dtc where dtc: "d = Inr dtc"
    by (cases d) (simp_all add: GeneratePullSecretData_def)
  obtain c s w2 where c: "GetConnectionInfo H J (dtc, w1) = (c, s, w2)" by (metis prod_cases3)
  with assms(1) d dtc obtain ci where ci: "c = Inr ci"
    by (cases c) (simp_all add: GeneratePullSecretData_def)
  let ?r = "GetImageRegistryFromAPIURL (sp_APIURL (cr_Spec oa))"
  let ?t = "case secret_field tkns ''paasToken'' of None \<Rightarrow> [] | Some t \<Rightarrow> t"
  let ?a = "\<lparr>da_Username = ci_TenantUUID ci, da_Password = ?t, da_Auth = b64_encode (ci_TenantUUID ci @ '':'' @ ?t)\<rparr>"
  from assms(1) d dtc c ci obtain j where j: "dj_Marshal (k_docker K) [(?r, ?a)] = Inr j" "data = [''.dockerconfigjson'' \<mapsto> j]"
    by (cases "dj_Marshal (k_docker K) [(?r, ?a)]")
      (auto simp: GeneratePullSecretData_def DynatracePaasToken_def Let_def)
  with assms(2) have "dj_Unmarshal (k_docker K) j = Inr [?r \<mapsto> (ci_TenantUUID ci, ?t)]"
    unfolding docker_json_law_def by fastforce
  then have "NewDockerConfig (k_docker K) ps = Inr [?r \<mapsto> (ci_TenantUUID ci, ?t)]"
    using j(2) assms(3) by (simp add: NewDockerConfig_def secret_field_def)
  with c ci show ?thesis by blast
qed

lemma hd_Split_no_sep: "CHR ''/'' \<notin> set r \<Longrightarrow> hd (Split CHR ''/'' (r @ CHR ''/'' # s)) = r"
  by (simp add: Split_append)

lemma MakeSystemContext_single:
  "MakeSystemContext (Some name) (Some [r \<mapsto> cred]) =
     (let reg = hd (Split CHR ''/'' name) in if r = reg \<or> r = ''https://'' @ reg then Some cred else None)"
  by (auto simp: MakeSystemContext_def Let_def)

text \<open>Concrete inputs: the clusters and resources of a SaaS and of a managed environment.\<close>

definition pull_cluster :: "Secret \<Rightarrow> (string, nat) oneagent_cluster" where
  "pull_cluster s = sample_oneagent_cluster (build_cluster (Some s)) None None []"

lemma pull_cluster_docker [simp]: "k_docker (pull_cluster s) = sample_docker_codec"
  by (simp add: pull_cluster_def)

definition managed_oneagent :: OneAgent where
  "managed_oneagent = (empty_oneagent ''oneagent'' ''dynatrace'')
     \<lparr>cr_Spec := empty_spec\<lparr>sp_APIURL := ''https://dt.org/e/abc/api''\<rparr>\<rparr>"

lemma docker_json_law_sample: "docker_json_law sample_docker_codec"
  unfolding docker_json_law_def
proof (intro allI impI)
  fix r a j
  assume j: "dj_Marshal sample_docker_codec [(r, a)] = Inr j"
  then have n: "CHR 0x0A \<notin> set r" "CHR 0x0A \<notin> set (da_Username a)"
    "j = r @ CHR 0x0A # da_Username a @ CHR 0x0A # da_Password a"
    by (auto simp: sample_docker_codec_def split: if_splits)
  then have s: "Split CHR 0x0A j = r # da_Username a # Split CHR 0x0A (da_Password a)"
    by (simp add: Split_append)
  obtain p ps where p: "Split CHR 0x0A (da_Password a) = p # ps"
    by (cases "Split CHR 0x0A (da_Password a)") auto
  then have "Join (p # ps) [CHR 0x0A] = da_Password a" using Join_Split [of "CHR 0x0A" "da_Password a"] by simp
  with s p show "dj_Unmarshal sample_docker_codec j = Inr [r \<mapsto> (da_Username a, da_Password a)]"
    by (simp add: sample_docker_codec_def)
qed

lemma pull_cluster_law: "docker_json_law (k_docker (pull_cluster s))"
  by (simp add: pull_cluster_def docker_json_law_sample)

lemma saas_registry: "GetImageRegistryFromAPIURL (sp_APIURL (cr_Spec saas_oneagent)) = ''abc.live.dynatrace.com''"
  "sp_APIURL (cr_Spec saas_oneagent) = ''https://abc.live.dynatrace.com/api''"
  by (simp_all add: saas_oneagent_def GetImageRegistryFromAPIURL_def TrimPrefix_def TrimSuffix_def
      HasPrefix_def HasSuffix_def)

lemma sample_connection:
  "\<exists>ci s. GetConnectionInfo (sample_transport 200) sample_codec (c, 0) = (Inr ci, s, 1) \<and> ci_TenantUUID ci = ''tenant''"
  if "dc_paasToken c \<noteq> []"
  using that by (simp add: GetConnectionInfo_def get_data_def makeRequest_def dt_samples getServerResponseData_def
      StatusOK_def readResponseForConnectionInfo_def parseEndpoint_def splitHostPort_def last_index_def
      is_digit_def HasPrefix_def HasSuffix_def ParseUint32_def parse_digits_def)

lemma sample_GeneratePullSecretData:
  "\<exists>data. GeneratePullSecretData (pull_cluster paas_secret) (sample_transport 200) sample_codec saas_oneagent paas_secret 0
    = (Inr data, 1)"
proof -
  have b: "BuildDynatraceClient (pull_cluster paas_secret) saas_oneagent False True 0 =
     (Inr \<lparr>dc_url = ''https://abc.live.dynatrace.com/api'', dc_apiToken = [], dc_paasToken = ''tok'',
           dc_networkZone = ''z1'', dc_hostCache = Map.empty, dc_now = zero_time\<rparr>, 0)"
    unfolding pull_cluster_def by (simp add: utils_defs utils_samples)
  show ?thesis
    using sample_connection [of "\<lparr>dc_url = ''https://abc.live.dynatrace.com/api'', dc_apiToken = [], dc_paasToken = ''tok'',
           dc_networkZone = ''z1'', dc_hostCache = Map.empty, dc_now = zero_time\<rparr>"]
    by (auto simp: GeneratePullSecretData_def b saas_registry(1) sample_docker_codec_def)
qed

lemma sample_GeneratePullSecretData_managed:
  "\<exists>data. GeneratePullSecretData (pull_cluster paas_secret) (sample_transport 200) sample_codec managed_oneagent paas_secret 0
    = (Inr data, 1)"
proof -
  have b: "BuildDynatraceClient (pull_cluster paas_secret) managed_oneagent False True 0 =
     (Inr \<lparr>dc_url = ''https://dt.org/e/abc/api'', dc_apiToken = [], dc_paasToken = ''tok'',
           dc_networkZone = [], dc_hostCache = Map.empty, dc_now = zero_time\<rparr>, 0)"
    unfolding pull_cluster_def by (simp add: utils_defs utils_samples managed_oneagent_def)
  have r: "GetImageRegistryFromAPIURL (sp_APIURL (cr_Spec managed_oneagent)) = ''dt.org/e/abc''"
    by (simp add: managed_oneagent_def GetImageRegistryFromAPIURL_def TrimPrefix_def TrimSuffix_def
        HasPrefix_def HasSuffix_def)
  show ?thesis
    using sample_connection [of "\<lparr>dc_url = ''https://dt.org/e/abc/api'', dc_apiToken = [], dc_paasToken = ''tok'',
           dc_networkZone = [], dc_hostCache = Map.empty, dc_now = zero_time\<rparr>"]
    by (auto simp: GeneratePullSecretData_def b r sample_docker_codec_def)
qed

text \<open>C36: The credentials that the operator writes into the pull secret of a SaaS environment are
  the ones that it finds again when it looks the image's version up: reading the secret back
  and asking for the context of the OneAgent image gives the tenant and the PaaS token.\<close>

theorem pull_secret_credentials_are_found:
  assumes "GeneratePullSecretData K H J oa tkns w = (Inr data, w')" and "docker_json_law (k_docker K)"
    and "sec_Data ps = Some data"
    and "CHR ''/'' \<notin> set (GetImageRegistryFromAPIURL (sp_APIURL (cr_Spec oa)))"
  shows "\<exists>ci s w1 w2 cfg. GetConnectionInfo H J (s, w1) = (Inr ci, w2) \<and> NewDockerConfig (k_docker K) ps = Inr cfg \<and>
    MakeSystemContext (Some (image_name (sp_APIURL (cr_Spec oa)))) (Some cfg) =
      Some (ci_TenantUUID ci, case secret_field tkns ''paasToken'' of None \<Rightarrow> [] | Some t \<Rightarrow> t)"
proof -
  from GeneratePullSecretData_Inr [OF assms(1-3)] obtain ci s w1 w2 where
    "GetConnectionInfo H J (s, w1) = (Inr ci, w2)" and
    c: "NewDockerConfig (k_docker K) ps = Inr [GetImageRegistryFromAPIURL (sp_APIURL (cr_Spec oa)) \<mapsto>
      (ci_TenantUUID ci, case secret_field tkns ''paasToken'' of None \<Rightarrow> [] | Some t \<Rightarrow> t)]" by blast
  moreover have "hd (Split CHR ''/'' (image_name (sp_APIURL (cr_Spec oa)))) =
      GetImageRegistryFromAPIURL (sp_APIURL (cr_Spec oa))"
    using hd_Split_no_sep [OF assms(4), of "''linux/oneagent''"] by (simp add: image_name_def)
  then have "MakeSystemContext (Some (image_name (sp_APIURL (cr_Spec oa))))
      (Some [GetImageRegistryFromAPIURL (sp_APIURL (cr_Spec oa)) \<mapsto>
        (ci_TenantUUID ci, case secret_field tkns ''paasToken'' of None \<Rightarrow> [] | Some t \<Rightarrow> t)]) =
      Some (ci_TenantUUID ci, case secret_field tkns ''paasToken'' of None \<Rightarrow> [] | Some t \<Rightarrow> t)"
    unfolding MakeSystemContext_single by simp
  ultimately show ?thesis by blast
qed

theorem pull_secret_credentials_are_found_witness:
  "\<exists>data cfg. GeneratePullSecretData (pull_cluster paas_secret) (sample_transport 200) sample_codec saas_oneagent paas_secret 0
       = (Inr data, 1) \<and>
     NewDockerConfig sample_docker_codec (paas_secret\<lparr>sec_Data := Some data\<rparr>) = Inr cfg \<and>
     (\<exists>user. MakeSystemContext (Some ''abc.live.dynatrace.com/linux/oneagent'') (Some cfg) = Some (user, '' tok''))"
proof -
  obtain data where d: "GeneratePullSecretData (pull_cluster paas_secret) (sample_transport 200) sample_codec
      saas_oneagent paas_secret 0 = (Inr data, 1)"
    using sample_GeneratePullSecretData by blast
  have n: "CHR ''/'' \<notin> set (GetImageRegistryFromAPIURL (sp_APIURL (cr_Spec saas_oneagent)))"
    unfolding saas_registry(1) by simp
  from pull_secret_credentials_are_found [OF d pull_cluster_law, of "paas_secret\<lparr>sec_Data := Some data\<rparr>"] n
  obtain ci cfg where "NewDockerConfig sample_docker_codec (paas_secret\<lparr>sec_Data := Some data\<rparr>) = Inr cfg"
    "MakeSystemContext (Some (image_name (sp_APIURL (cr_Spec saas_oneagent)))) (Some cfg) =
      Some (ci_TenantUUID (ci :: ConnectionInfo), case secret_field paas_secret ''paasToken'' of None \<Rightarrow> [] | Some t \<Rightarrow> t)"
    by auto
  with d show ?thesis by (auto simp: image_name_def saas_registry(1) secret_field_def paas_secret_def)
qed

text \<open>In a managed environment, whose API URL has a path, the same look-up finds no
  credentials: the secret's key is the registry with the path, but the look-up asks for the
  host alone.\<close>

theorem managed_credentials_are_not_found:
  assumes "GeneratePullSecretData K H J oa tkns w = (Inr data, w')" and "docker_json_law (k_docker K)"
    and "sec_Data ps = Some data"
    and "sp_APIURL (cr_Spec oa) = ''https://'' @ host @ ''/e/'' @ env @ ''/api''" and "CHR ''/'' \<notin> set host"
  shows "\<exists>cfg. NewDockerConfig (k_docker K) ps = Inr cfg \<and>
    MakeSystemContext (Some (image_name (sp_APIURL (cr_Spec oa)))) (Some cfg) = None"
proof -
  have r: "GetImageRegistryFromAPIURL (sp_APIURL (cr_Spec oa)) = host @ ''/e/'' @ env"
    unfolding assms(4) GetImageRegistryFromAPIURL_def TrimPrefix_append
    using TrimSuffix_append [of "host @ ''/e/'' @ env" "''/api''"] by simp
  from GeneratePullSecretData_Inr [OF assms(1-3)] obtain ci :: ConnectionInfo where
    c: "NewDockerConfig (k_docker K) ps = Inr [host @ ''/e/'' @ env \<mapsto>
      (ci_TenantUUID ci, case secret_field tkns ''paasToken'' of None \<Rightarrow> [] | Some t \<Rightarrow> t)]"
    unfolding r by blast
  have h: "hd (Split CHR ''/'' (image_name (sp_APIURL (cr_Spec oa)))) = host"
    using hd_Split_no_sep [OF assms(5)] by (simp add: image_name_def r)
  have "host @ ''/e/'' @ env \<noteq> ''https://'' @ host"
  proof
    assume e: "host @ ''/e/'' @ env = ''https://'' @ host"
    then have "hd (Split CHR ''/'' (host @ CHR ''/'' # ''e/'' @ env)) = hd (Split CHR ''/'' (''https:'' @ CHR ''/'' # CHR ''/'' # host))"
      by simp
    then have "host = ''https:''" using assms(5) hd_Split_no_sep [of host] hd_Split_no_sep [of "''https:''"] by simp
    with e show False by simp
  qed
  then have "MakeSystemContext (Some (image_name (sp_APIURL (cr_Spec oa)))) (Some [host @ ''/e/'' @ env \<mapsto>
      (ci_TenantUUID ci, case secret_field tkns ''paasToken'' of None \<Rightarrow> [] | Some t \<Rightarrow> t)]) = None"
    unfolding MakeSystemContext_single h by simp
  with c show ?thesis by blast
qed

theorem managed_credentials_are_not_found_witness:
  "\<exists>data cfg. GeneratePullSecretData (pull_cluster paas_secret) (sample_transport 200) sample_codec managed_oneagent paas_secret 0
       = (Inr data, 1) \<and>
     NewDockerConfig sample_docker_codec (paas_secret\<lparr>sec_Data := Some data\<rparr>) = Inr cfg \<and>
     MakeSystemContext (Some (image_name ''https://dt.org/e/abc/api'')) (Some cfg) = None"
proof -
  obtain data where d: "GeneratePullSecretData (pull_cluster paas_secret) (sample_transport 200) sample_codec
      managed_oneagent paas_secret 0 = (Inr data, 1)"
    using sample_GeneratePullSecretData_managed by blast
  have u: "sp_APIURL (cr_Spec managed_oneagent) = ''https://'' @ ''dt.org'' @ ''/e/'' @ ''abc'' @ ''/api''"
    by (simp add: managed_oneagent_def)
  have "\<exists>cfg. NewDockerConfig (k_docker (pull_cluster paas_secret)) (paas_secret\<lparr>sec_Data := Some data\<rparr>) = Inr cfg \<and>
      MakeSystemContext (Some (image_name (sp_APIURL (cr_Spec managed_oneagent)))) (Some cfg) = None"
    by (rule managed_credentials_are_not_found [OF d pull_cluster_law _ u]) simp_all
  with d show ?thesis by (auto simp: managed_oneagent_def)
qed

end
