(* ===== verification/Views.thy ===== *)
theory Views
  imports Prelude
begin

text \<open>
  What the calls on the world do to a part of it that one looks at: \<open>v\<close> maps a world to a view.  A
  call keeps the view, reads a value of it, or, when it succeeds, changes it.  Nothing is said of
  failed writes, nor of when a call fails.
\<close>

definition keeps :: "('w \<Rightarrow> 's) \<Rightarrow> ('w \<Rightarrow> 'a \<times> 'w) \<Rightarrow> bool" where
  "keeps v f \<longleftrightarrow> (\<forall>w. v (snd (f w)) = v w)"

text \<open>A read tells what is there, or that nothing is by an error that is \<open>missing\<close>; other errors tell nothing.\<close>

definition reads ::
  "('w \<Rightarrow> 's) \<Rightarrow> (go_error \<Rightarrow> bool) \<Rightarrow> ('w \<Rightarrow> (go_error + 'a) \<times> 'w) \<Rightarrow> ('s \<Rightarrow> 'a option) \<Rightarrow> bool" where
  "reads v missing f x \<longleftrightarrow>
     (\<forall>w. v (snd (f w)) = v w \<and>
        (case fst (f w) of Inr a \<Rightarrow> x (v w) = Some a | Inl e \<Rightarrow> missing e \<longrightarrow> x (v w) = None))"

definition writes :: "('w \<Rightarrow> 's) \<Rightarrow> ('w \<Rightarrow> go_error option \<times> 'w) \<Rightarrow> ('s \<Rightarrow> 's) \<Rightarrow> bool" where
  "writes v f u \<longleftrightarrow> (\<forall>w. fst (f w) = None \<longrightarrow> v (snd (f w)) = u (v w))"

text \<open>A write that is known only for some views, as an update that finds the object it is for.\<close>

definition writes_at ::
  "('w \<Rightarrow> 's) \<Rightarrow> ('w \<Rightarrow> go_error option \<times> 'w) \<Rightarrow> ('s \<Rightarrow> bool) \<Rightarrow> ('s \<Rightarrow> 's) \<Rightarrow> bool" where
  "writes_at v f P u \<longleftrightarrow> (\<forall>w. P (v w) \<longrightarrow> fst (f w) = None \<longrightarrow> v (snd (f w)) = u (v w))"

lemma writes_atD: "writes_at v f P u \<Longrightarrow> f w = (None, w') \<Longrightarrow> P (v w) \<Longrightarrow> v w' = u (v w)"
  by (auto simp: writes_at_def dest!: spec [of _ w])

lemma readsD:
  "reads v missing f x \<Longrightarrow> f w = (r, w') \<Longrightarrow>
     v w' = v w \<and> (\<forall>a. r = Inr a \<longrightarrow> x (v w) = Some a) \<and> (\<forall>e. r = Inl e \<longrightarrow> missing e \<longrightarrow> x (v w) = None)"
  by (auto simp: reads_def dest!: spec [of _ w])

lemma writesD: "writes v f u \<Longrightarrow> f w = (None, w') \<Longrightarrow> v w' = u (v w)"
  by (auto simp: writes_def dest!: spec [of _ w])

lemma keepsD: "keeps v f \<Longrightarrow> f w = (r, w') \<Longrightarrow> v w' = v w"
  by (auto simp: keeps_def dest!: spec [of _ w])

end
