(* ===== verification/Token_Reconciler.thy ===== *)
theory Token_Reconciler
  imports Utils Throttle
begin

text \<open>
  The Dynatrace client reconciler (controllers/utils/dynatrace\_client\_reconciler.go): it
  checks the tokens in the secret of a custom resource, asks Dynatrace about their scopes at
  most every five minutes, records the findings as conditions of the status, and returns the
  client.  \<open>D\<close> is \<open>r.DynatraceClientFunc\<close> (\<open>BuildDynatraceClient\<close> when that is nil).
\<close>

section \<open>Conditions\<close>

text \<open>
  \<open>meta.FindStatusCondition\<close> and \<open>meta.SetStatusCondition\<close> of apimachinery (the latter may read
  the clock), and the text of an error.
\<close>

record 'w cond_lib =
  cl_Find :: "Condition list \<Rightarrow> string \<Rightarrow> Condition option"
  cl_Set :: "Condition list \<Rightarrow> Condition \<Rightarrow> 'w \<Rightarrow> Condition list \<times> 'w"
  cl_ErrText :: "go_error \<Rightarrow> string"

text \<open>Same status, reason and message.\<close>

definition same_finding :: "Condition \<Rightarrow> Condition \<Rightarrow> bool" where
  "same_finding c d \<longleftrightarrow> cond_Reason c = cond_Reason d \<and> cond_Message c = cond_Message d \<and> cond_Status c = cond_Status d"

definition setCondition ::
  "'w cond_lib \<Rightarrow> Condition list \<Rightarrow> Condition \<Rightarrow> 'w \<Rightarrow> bool \<times> Condition list \<times> 'w" where
  "setCondition L conditions condition w =
     (if (case cl_Find L conditions (cond_Type condition) of None \<Rightarrow> False | Some c \<Rightarrow> same_finding c condition)
      then (False, conditions, w)
      else let (conditions', w1) = cl_Set L conditions condition w in (True, conditions', w1))"

text \<open>A condition as the code builds it: \<open>LastTransitionTime\<close> is left zero.\<close>

definition mk_condition :: "string \<Rightarrow> ConditionStatus \<Rightarrow> string \<Rightarrow> string \<Rightarrow> Condition" where
  "mk_condition ty sts reason msg =
     \<lparr>cond_Type = ty, cond_Status = sts, cond_Reason = reason, cond_Message = msg, cond_LastTransitionTime = zero_time\<rparr>"

section \<open>Tokens\<close>

text \<open>\<open>Timestamp **metav1.Time\<close> points at one of two fields of the status.\<close>

datatype probe_field = PaaSProbe | APIProbe

record tokenConfig =
  tk_Type :: string
  tk_Key :: string
  tk_Value :: string
  tk_Scope :: string
  tk_Timestamp :: probe_field

fun get_probe :: "probe_field \<Rightarrow> 'b BaseOneAgentStatus_scheme \<Rightarrow> time option" where
  "get_probe PaaSProbe s = st_LastPaaSTokenProbeTimestamp s"
| "get_probe APIProbe s = st_LastAPITokenProbeTimestamp s"

fun set_probe :: "probe_field \<Rightarrow> time \<Rightarrow> 'b BaseOneAgentStatus_scheme \<Rightarrow> 'b BaseOneAgentStatus_scheme" where
  "set_probe PaaSProbe t s = s\<lparr>st_LastPaaSTokenProbeTimestamp := Some t\<rparr>"
| "set_probe APIProbe t s = s\<lparr>st_LastAPITokenProbeTimestamp := Some t\<rparr>"

definition TokenScopeInstallerDownload :: string where "TokenScopeInstallerDownload = ''InstallerDownload''"
definition TokenScopeDataExport :: string where "TokenScopeDataExport = ''DataExport''"

record client_reconciler =
  dr_Now :: time
  dr_UpdatePaaSToken :: bool
  dr_UpdateAPIToken :: bool

definition paas_config :: tokenConfig where
  "paas_config = \<lparr>tk_Type = PaaSTokenConditionType, tk_Key = DynatracePaasToken, tk_Value = [],
     tk_Scope = TokenScopeInstallerDownload, tk_Timestamp = PaaSProbe\<rparr>"

definition api_config :: tokenConfig where
  "api_config = \<lparr>tk_Type = APITokenConditionType, tk_Key = DynatraceApiToken, tk_Value = [],
     tk_Scope = TokenScopeDataExport, tk_Timestamp = APIProbe\<rparr>"

definition token_configs :: "client_reconciler \<Rightarrow> tokenConfig list" where
  "token_configs r =
     (if dr_UpdatePaaSToken r then [paas_config] else []) @ (if dr_UpdateAPIToken r then [api_config] else [])"

section \<open>The steps of Reconcile\<close>

definition migrate_conditions :: "time \<Rightarrow> Condition list \<Rightarrow> bool \<times> Condition list" where
  "migrate_conditions now cs =
     (list_ex (\<lambda>c. IsZero (cond_LastTransitionTime c)) cs,
      map (\<lambda>c. if IsZero (cond_LastTransitionTime c) then c\<lparr>cond_LastTransitionTime := now\<rparr> else c) cs)"

text \<open>The same finding for every token: \<open>updateCR = setCondition(...) || updateCR\<close> in a loop.\<close>

fun fail_all ::
  "'w cond_lib \<Rightarrow> string \<Rightarrow> string \<Rightarrow> tokenConfig list \<Rightarrow> bool \<Rightarrow> Condition list \<Rightarrow> 'w \<Rightarrow> bool \<times> Condition list \<times> 'w" where
  "fail_all L reason msg [] upd cs w = (upd, cs, w)"
| "fail_all L reason msg (t # ts) upd cs w =
     (let (u, cs1, w1) = setCondition L cs (mk_condition (tk_Type t) ConditionFalse reason msg) w
      in fail_all L reason msg ts (u \<or> upd) cs1 w1)"

text \<open>The loop that reads the values: a missing or empty one makes the tokens invalid.\<close>

fun read_tokens ::
  "'w cond_lib \<Rightarrow> Secret \<Rightarrow> string \<Rightarrow> tokenConfig list \<Rightarrow> bool \<Rightarrow> Condition list \<Rightarrow> 'w
     \<Rightarrow> bool \<times> tokenConfig list \<times> bool \<times> Condition list \<times> 'w" where
  "read_tokens L secret secretKey [] upd cs w = (True, [], upd, cs, w)"
| "read_tokens L secret secretKey (t # ts) upd cs w =
     (let v = (case secret_field secret (tk_Key t) of None \<Rightarrow> [] | Some v \<Rightarrow> v);
          (u, cs1, w1) =
            (if v = []
             then setCondition L cs (mk_condition (tk_Type t) ConditionFalse ReasonTokenMissing
                    (''Token '' @ tk_Key t @ '' on secret '' @ secretKey @ '' missing'')) w
             else (False, cs, w));
          (valid, ts', upd', cs', w') = read_tokens L secret secretKey ts (u \<or> upd) cs1 w1
      in (v \<noteq> [] \<and> valid, t\<lparr>tk_Value := v\<rparr> # ts', upd', cs', w'))"

text \<open>When a token is due for a probe.\<close>

definition probe_due :: "time option \<Rightarrow> time \<Rightarrow> bool" where
  "probe_due probed now = (case probed of None \<Rightarrow> True | Some t \<Rightarrow> \<not> now < t + 5 * Minute)"

text \<open>The result of a probe: the condition to set, and the environment when it is learned.\<close>

definition probe_token ::
  "'w cond_lib \<Rightarrow> 'w dt_client \<Rightarrow> string \<Rightarrow> tokenConfig \<Rightarrow> 'w \<Rightarrow> Condition \<times> string option \<times> 'w" where
  "probe_token L dtc secretKey t w =
     (case c_GetTokenScopes dtc (tk_Value t) w of
        (Inl err, w1) \<Rightarrow>
          (if is_server_error_code StatusUnauthorized err
           then (mk_condition (tk_Type t) ConditionFalse ReasonTokenUnauthorized
                   (''Token on secret '' @ secretKey @ '' unauthorized''), None, w1)
           else (mk_condition (tk_Type t) ConditionFalse ReasonTokenError
                   (''error when querying token on secret '' @ secretKey @ '': '' @ cl_ErrText L err), None, w1))
      | (Inr ss, w1) \<Rightarrow>
          (if \<not> TokenScopes_Contains ss (tk_Scope t)
           then (mk_condition (tk_Type t) ConditionFalse ReasonTokenScopeMissing
                   (''Token on secret '' @ secretKey @ '' missing scope '' @ tk_Scope t), None, w1)
           else let ready = mk_condition (tk_Type t) ConditionTrue ReasonTokenReady ''Ready''
                in if tk_Key t = DynatracePaasToken
                   then (case c_GetConnectionInfo dtc w1 of
                           (Inl err, w2) \<Rightarrow>
                             (mk_condition (tk_Type t) ConditionFalse ReasonTokenError
                                (''error when connection info with token on secret '' @ secretKey @ '': '' @ cl_ErrText L err),
                              None, w2)
                         | (Inr ci, w2) \<Rightarrow> (ready, Some (ci_TenantUUID ci), w2))
                   else (ready, None, w1)))"

definition check_token ::
  "'w cond_lib \<Rightarrow> 'w dt_client \<Rightarrow> string \<Rightarrow> time \<Rightarrow> tokenConfig \<Rightarrow> bool \<Rightarrow> 'b BaseOneAgentStatus_scheme \<Rightarrow> 'w
     \<Rightarrow> bool \<times> 'b BaseOneAgentStatus_scheme \<times> 'w" where
  "check_token L dtc secretKey now t upd sts w =
     (if TrimSpace (tk_Value t) \<noteq> tk_Value t
      then let (u, cs, w1) = setCondition L (st_Conditions sts)
                 (mk_condition (tk_Type t) ConditionFalse ReasonTokenUnauthorized
                    (''Token on secret '' @ secretKey @ '' has leading and/or trailing spaces'')) w
           in (u \<or> upd, sts\<lparr>st_Conditions := cs\<rparr>, w1)
      else if \<not> probe_due (get_probe (tk_Timestamp t) sts) now then (upd, sts, w)
      else let sts1 = set_probe (tk_Timestamp t) now sts;
               (c, env, w1) = probe_token L dtc secretKey t w;
               sts2 = (case env of None \<Rightarrow> sts1 | Some e \<Rightarrow> sts1\<lparr>st_EnvironmentID := e\<rparr>);
               (_, cs, w2) = setCondition L (st_Conditions sts2) c w1
           in (True, sts2\<lparr>st_Conditions := cs\<rparr>, w2))"

fun check_tokens ::
  "'w cond_lib \<Rightarrow> 'w dt_client \<Rightarrow> string \<Rightarrow> time \<Rightarrow> tokenConfig list \<Rightarrow> bool \<Rightarrow> 'b BaseOneAgentStatus_scheme \<Rightarrow> 'w
     \<Rightarrow> bool \<times> 'b BaseOneAgentStatus_scheme \<times> 'w" where
  "check_tokens L dtc secretKey now [] upd sts w = (upd, sts, w)"
| "check_tokens L dtc secretKey now (t # ts) upd sts w =
     (let (upd1, sts1, w1) = check_token L dtc secretKey now t upd sts w
      in check_tokens L dtc secretKey now ts upd1 sts1 w1)"

section \<open>Reconcile\<close>

definition secret_not_found_message :: "string \<Rightarrow> string" where
  "secret_not_found_message secretKey = ''Secret '' @ [CHR 0x27] @ secretKey @ [CHR 0x27] @ '' not found''"

definition no_client_message :: "'w cond_lib \<Rightarrow> go_error \<Rightarrow> string" where
  "no_client_message L err = ''Failed to create Dynatrace API Client: '' @ cl_ErrText L err"

text \<open>The client or the error, \<open>updateCR\<close>, and the resource with its new status.\<close>

definition Reconcile_tokens ::
  "('v, 'w, 'z) cluster_scheme \<Rightarrow> 'w cond_lib \<Rightarrow> ('a, 'b, 'w) DynatraceClientFunc \<Rightarrow> client_reconciler
     \<Rightarrow> ('a, 'b) BaseOneAgent \<Rightarrow> 'w \<Rightarrow> (go_error + 'w dt_client) \<times> bool \<times> ('a, 'b) BaseOneAgent \<times> 'w" where
  "Reconcile_tokens K L D r instance w =
     (let (now, w0) = (if IsZero (dr_Now r) then k_now K w else (dr_Now r, w));
          ns = cr_Namespace instance; secretName = GetTokensName instance;
          tokens = token_configs r;
          (upd0, cs0) = migrate_conditions now (st_Conditions (cr_Status instance));
          sts0 = (cr_Status instance)\<lparr>st_Conditions := cs0\<rparr>;
          secretKey = ns @ '':'' @ secretName
      in case k_get_secret K ns secretName w0 of
        (Inl err, w1) \<Rightarrow>
          (if IsNotFound err
           then let message = secret_not_found_message secretKey;
                    (upd, cs, w2) = fail_all L ReasonTokenSecretNotFound message tokens upd0 cs0 w1
                in (Inl (ErrMsg message), upd, instance\<lparr>cr_Status := sts0\<lparr>st_Conditions := cs\<rparr>\<rparr>, w2)
           else (Inl err, upd0, instance\<lparr>cr_Status := sts0\<rparr>, w1))
      | (Inr secret, w1) \<Rightarrow>
     (let (valid, tokens', upd1, cs1, w2) = read_tokens L secret secretKey tokens upd0 cs0 w1;
          sts1 = sts0\<lparr>st_Conditions := cs1\<rparr>; instance1 = instance\<lparr>cr_Status := sts1\<rparr>
      in if \<not> valid then (Inl (ErrMsg ''issues found with tokens, see status''), upd1, instance1, w2)
         else case D instance1 (dr_UpdateAPIToken r) (dr_UpdatePaaSToken r) w2 of
           (Inl err, w3) \<Rightarrow>
             (let (upd2, cs2, w4) = fail_all L ReasonTokenError
                    (no_client_message L err) tokens' upd1 cs1 w3
              in (Inl err, upd2, instance1\<lparr>cr_Status := sts1\<lparr>st_Conditions := cs2\<rparr>\<rparr>, w4))
         | (Inr dtc, w3) \<Rightarrow>
             (let (upd2, sts2, w4) = check_tokens L dtc secretKey now tokens' upd1 sts1 w3
              in (Inr dtc, upd2, instance1\<lparr>cr_Status := sts2\<rparr>, w4))))"

end
