(* ===== verification/Token_Props.thy ===== *)
theory Token_Props
  imports Views Token_Reconciler
begin

text \<open>
  What the Dynatrace client reconciler guarantees: the flag it returns covers every change of
  the status, a token is called ready only on evidence, a missing secret is reported for every
  token, and tokens are probed at most every five minutes (the contract \<open>throttle\<close>).
\<close>

section \<open>The flag\<close>

lemma setCondition_False: "setCondition L cs c w = (False, cs', w') \<Longrightarrow> cs' = cs"
  by (auto simp: setCondition_def Let_def split: if_splits prod.splits)

lemma migrate_False: "migrate_conditions now cs = (False, cs') \<Longrightarrow> cs' = cs"
  unfolding migrate_conditions_def by (auto simp: list_ex_iff intro: map_idI)

lemma fail_all_False: "fail_all L reason msg ts upd cs w = (False, cs', w') \<Longrightarrow> \<not> upd \<and> cs' = cs"
proof (induction ts arbitrary: upd cs w)
  case (Cons t ts)
  obtain u cs1 w1 where s: "setCondition L cs (mk_condition (tk_Type t) ConditionFalse reason msg) w = (u, cs1, w1)"
    by (metis prod_cases3)
  with Cons.prems have "fail_all L reason msg ts (u \<or> upd) cs1 w1 = (False, cs', w')" by simp
  from Cons.IH [OF this] s show ?case using setCondition_False by fastforce
qed simp

lemma read_tokens_False:
  "read_tokens L secret key ts upd cs w = (valid, ts', False, cs', w') \<Longrightarrow> \<not> upd \<and> cs' = cs"
proof (induction ts arbitrary: upd cs w valid ts')
  case (Cons t ts)
  let ?v = "case secret_field secret (tk_Key t) of None \<Rightarrow> [] | Some v \<Rightarrow> v"
  obtain u cs1 w1 where s: "(if ?v = [] then setCondition L cs (mk_condition (tk_Type t) ConditionFalse ReasonTokenMissing
      (''Token '' @ tk_Key t @ '' on secret '' @ key @ '' missing'')) w else (False, cs, w)) = (u, cs1, w1)"
    by (metis prod_cases3)
  obtain v2 t2 u2 c2 w2 where r: "read_tokens L secret key ts (u \<or> upd) cs1 w1 = (v2, t2, u2, c2, w2)"
    by (metis prod_cases5)
  with s Cons.prems have "u2 = False" "c2 = cs'" "w2 = w'" by (auto simp: Let_def)
  with r have "read_tokens L secret key ts (u \<or> upd) cs1 w1 = (v2, t2, False, cs', w')" by simp
  from Cons.IH [OF this] have "\<not> (u \<or> upd)" "cs' = cs1" by simp_all
  with s show ?case using setCondition_False by (fastforce split: if_splits)
qed simp

lemma check_token_False:
  "check_token L dtc key now t upd sts w = (False, sts', w') \<Longrightarrow> \<not> upd \<and> sts' = sts"
  by (auto simp: check_token_def Let_def split: if_splits prod.splits dest!: setCondition_False)

lemma check_tokens_False:
  "check_tokens L dtc key now ts upd sts w = (False, sts', w') \<Longrightarrow> \<not> upd \<and> sts' = sts"
proof (induction ts arbitrary: upd sts w)
  case (Cons t ts)
  obtain u s1 w1 where s: "check_token L dtc key now t upd sts w = (u, s1, w1)" by (metis prod_cases3)
  with Cons.prems have "check_tokens L dtc key now ts u s1 w1 = (False, sts', w')" by simp
  from Cons.IH [OF this] s check_token_False show ?case by fastforce
qed simp

section \<open>The laws of the conditions\<close>

text \<open>
  What the documentation of \<open>SetStatusCondition\<close> and \<open>FindStatusCondition\<close> says: the former sets
  the condition of its type, adding it when it is missing, and leaves the others; the latter finds the
  first of its type.
\<close>

definition cond_law :: "'w cond_lib \<Rightarrow> bool" where
  "cond_law L \<longleftrightarrow> cl_Find L = (\<lambda>cs ty. List.find (\<lambda>c. cond_Type c = ty) cs) \<and>
     (\<forall>cs c w. (\<exists>c'. cl_Find L (fst (cl_Set L cs c w)) (cond_Type c) = Some c' \<and> same_finding c' c) \<and>
               (\<forall>ty. ty \<noteq> cond_Type c \<longrightarrow> cl_Find L (fst (cl_Set L cs c w)) ty = cl_Find L cs ty))"

text \<open>Filling in the times of the conditions does not change their status.\<close>

lemma migrate_status:
  assumes "cond_law L" and "migrate_conditions now cs = (u, cs')"
  shows "map_option cond_Status (cl_Find L cs' ty) = map_option cond_Status (cl_Find L cs ty)"
proof -
  have "map_option cond_Status (List.find (\<lambda>c. cond_Type c = ty)
      (map (\<lambda>c. if IsZero (cond_LastTransitionTime c) then c\<lparr>cond_LastTransitionTime := now\<rparr> else c) cs)) =
    map_option cond_Status (List.find (\<lambda>c. cond_Type c = ty) cs)" by (induction cs) auto
  with assms show ?thesis by (auto simp: cond_law_def migrate_conditions_def)
qed

lemma setCondition_find:
  assumes "cond_law L" and "setCondition L cs c w = (u, cs', w')"
  shows "\<exists>c'. cl_Find L cs' (cond_Type c) = Some c' \<and> same_finding c' c"
    and "ty \<noteq> cond_Type c \<Longrightarrow> cl_Find L cs' ty = cl_Find L cs ty"
proof -
  obtain cs1 w1 where s: "cl_Set L cs c w = (cs1, w1)" by fastforce
  with assms(1) have l: "\<exists>c'. cl_Find L cs1 (cond_Type c) = Some c' \<and> same_finding c' c"
    "ty \<noteq> cond_Type c \<Longrightarrow> cl_Find L cs1 ty = cl_Find L cs ty"
    unfolding cond_law_def by (metis fst_conv)+
  show "\<exists>c'. cl_Find L cs' (cond_Type c) = Some c' \<and> same_finding c' c"
    using assms(2) s l(1) by (auto simp: setCondition_def split: if_splits option.splits)
  show "ty \<noteq> cond_Type c \<Longrightarrow> cl_Find L cs' ty = cl_Find L cs ty"
    using assms(2) s l(2) by (auto simp: setCondition_def split: if_splits option.splits)
qed

lemma mk_condition_sel [simp]:
  "cond_Type (mk_condition ty s r m) = ty" "cond_Status (mk_condition ty s r m) = s"
  "cond_Reason (mk_condition ty s r m) = r" "cond_Message (mk_condition ty s r m) = m"
  by (simp_all add: mk_condition_def)

lemma fail_all_find:
  assumes "cond_law L"
  shows "fail_all L reason msg ts upd cs w = (u, cs', w') \<Longrightarrow>
    (\<forall>t \<in> set ts. \<exists>c. cl_Find L cs' (tk_Type t) = Some c \<and> cond_Status c = ConditionFalse \<and>
                      cond_Reason c = reason \<and> cond_Message c = msg) \<and>
    (\<forall>ty. ty \<notin> tk_Type ` set ts \<longrightarrow> cl_Find L cs' ty = cl_Find L cs ty)"
proof (induction ts arbitrary: upd cs w)
  case (Cons t ts)
  let ?c = "mk_condition (tk_Type t) ConditionFalse reason msg"
  obtain u1 cs1 w1 where s: "setCondition L cs ?c w = (u1, cs1, w1)" by (metis prod_cases3)
  with Cons have IH: "(\<forall>t \<in> set ts. \<exists>c. cl_Find L cs' (tk_Type t) = Some c \<and> cond_Status c = ConditionFalse \<and>
      cond_Reason c = reason \<and> cond_Message c = msg) \<and>
    (\<forall>ty. ty \<notin> tk_Type ` set ts \<longrightarrow> cl_Find L cs' ty = cl_Find L cs1 ty)" by simp
  from setCondition_find(1) [OF assms s] obtain c' where
    c': "cl_Find L cs1 (tk_Type t) = Some c'" "same_finding c' ?c" by auto
  have "\<exists>c. cl_Find L cs' (tk_Type t) = Some c \<and> cond_Status c = ConditionFalse \<and>
      cond_Reason c = reason \<and> cond_Message c = msg"
  proof (cases "tk_Type t \<in> tk_Type ` set ts")
    case True
    then obtain t' where "t' \<in> set ts" "tk_Type t' = tk_Type t" by force
    with IH show ?thesis by metis
  next
    case False
    with IH c' show ?thesis by (simp add: same_finding_def)
  qed
  moreover have "cl_Find L cs' ty = cl_Find L cs ty" if "ty \<notin> tk_Type ` set (t # ts)" for ty
    using that IH setCondition_find(2) [OF assms s, of ty] by simp
  ultimately show ?case using IH by simp
qed simp

section \<open>Evidence\<close>

lemma TokenScopes_Contains_iff: "TokenScopes_Contains ss scope \<longleftrightarrow> scope \<in> set ss"
  by (induction ss) auto

text \<open>
  What Dynatrace was asked: \<open>answers\<close> is the part of the world that notes the answered requests for the
  scopes of a token, with the token and the scopes.  No other call of the reconciler extends it.
\<close>

definition notes_answers :: "('w \<Rightarrow> (string \<times> string list) list) \<Rightarrow> 'w dt_client \<Rightarrow> bool" where
  "notes_answers answers dtc \<longleftrightarrow> keeps answers (c_GetConnectionInfo dtc) \<and>
     (\<forall>t w. answers (snd (c_GetTokenScopes dtc t w)) =
        answers w @ (case fst (c_GetTokenScopes dtc t w) of Inl _ \<Rightarrow> [] | Inr ss \<Rightarrow> [(t, ss)]))"

definition answer_laws ::
  "('v, 'w, 'z) cluster_scheme \<Rightarrow> 'w cond_lib \<Rightarrow> ('a, 'b, 'w) DynatraceClientFunc
     \<Rightarrow> ('w \<Rightarrow> (string \<times> string list) list) \<Rightarrow> bool" where
  "answer_laws K L D answers \<longleftrightarrow>
     keeps answers (k_now K) \<and> (\<forall>ns n. keeps answers (k_get_secret K ns n)) \<and> (\<forall>cs c. keeps answers (cl_Set L cs c)) \<and>
     (\<forall>oa a p. keeps answers (D oa a p)) \<and>
     (\<forall>oa a p w dtc. fst (D oa a p w) = Inr dtc \<longrightarrow> notes_answers answers dtc)"

lemma answer_lawsD:
  assumes "answer_laws K L D answers"
  shows "keeps answers (k_now K)" and "keeps answers (k_get_secret K ns n)" and "keeps answers (cl_Set L cs c)"
    and "keeps answers (D oa a p)" and "D oa a p w = (Inr dtc, w') \<Longrightarrow> notes_answers answers dtc"
  using assms unfolding answer_laws_def by (metis fst_conv)+

text \<open>An answer that confirms the token, which is there without surrounding spaces.\<close>

definition has_evidence :: "(string \<times> string list) list \<Rightarrow> tokenConfig \<Rightarrow> bool" where
  "has_evidence new t \<longleftrightarrow> tk_Value t \<noteq> [] \<and> TrimSpace (tk_Value t) = tk_Value t \<and>
     (\<exists>ss. (tk_Value t, ss) \<in> set new \<and> tk_Scope t \<in> set ss)"

lemma setCondition_keeps:
  assumes "\<And>cs c. keeps v (cl_Set L cs c)" and "setCondition L cs c w = (u, cs', w')"
  shows "v w' = v w"
  using assms(2) by (auto simp: setCondition_def Let_def split: if_splits prod.splits dest!: keepsD [OF assms(1)])

lemma read_tokens_keeps:
  assumes "\<And>cs c. keeps v (cl_Set L cs c)"
  shows "read_tokens L secret key ts upd cs w = (valid, ts', u, cs', w') \<Longrightarrow> v w' = v w"
proof (induction ts arbitrary: upd cs w valid ts' u cs' w')
  case (Cons t ts)
  let ?v = "case secret_field secret (tk_Key t) of None \<Rightarrow> [] | Some v \<Rightarrow> v"
  obtain u1 cs1 w1 where s: "(if ?v = [] then setCondition L cs (mk_condition (tk_Type t) ConditionFalse ReasonTokenMissing
      (''Token '' @ tk_Key t @ '' on secret '' @ key @ '' missing'')) w else (False, cs, w)) = (u1, cs1, w1)"
    by (metis prod_cases3)
  obtain v2 t2 u2 c2 w2 where r: "read_tokens L secret key ts (u1 \<or> upd) cs1 w1 = (v2, t2, u2, c2, w2)"
    by (metis prod_cases5)
  from s have "v w1 = v w" by (cases "?v = []") (auto dest: setCondition_keeps [OF assms])
  with Cons.IH [OF r] s r Cons.prems show ?case by (auto simp: Let_def)
qed simp

lemma probe_token_answers:
  assumes "notes_answers answers dtc" and "probe_token L dtc key t w = (c, env, w')"
  shows "\<exists>new. answers w' = answers w @ new \<and>
    (cond_Status c = ConditionTrue \<longrightarrow> (\<exists>ss. (tk_Value t, ss) \<in> set new \<and> tk_Scope t \<in> set ss))"
proof -
  obtain r w1 where r: "c_GetTokenScopes dtc (tk_Value t) w = (r, w1)" by fastforce
  have a: "answers w1 = answers w @ (case r of Inl _ \<Rightarrow> [] | Inr ss \<Rightarrow> [(tk_Value t, ss)])"
    using assms(1) r unfolding notes_answers_def by (metis fst_conv snd_conv)
  have k: "keeps answers (c_GetConnectionInfo dtc)" using assms(1) by (simp add: notes_answers_def)
  from assms(2) r have "answers w' = answers w1"
    by (auto simp: probe_token_def Let_def split: prod.splits sum.splits if_splits dest!: keepsD [OF k])
  moreover have "\<exists>ss. r = Inr ss \<and> tk_Scope t \<in> set ss" if "cond_Status c = ConditionTrue"
    using assms(2) r that
    by (auto simp: probe_token_def Let_def TokenScopes_Contains_iff mk_condition_def split: prod.splits sum.splits if_splits)
  ultimately show ?thesis using a
    by (intro exI [of _ "case r of Inl _ \<Rightarrow> [] | Inr ss \<Rightarrow> [(tk_Value t, ss)]"]) auto
qed

lemma probe_token_cond: "probe_token L dtc key t w = (c, env, w') \<Longrightarrow> cond_Type c = tk_Type t"
  by (auto simp: probe_token_def Let_def split: prod.splits sum.splits if_splits)

lemma conds_set_probe [simp]: "st_Conditions (set_probe p now s) = st_Conditions s"
  by (cases p) auto

lemma conds_env [simp]:
  "st_Conditions (case env of None \<Rightarrow> s | Some e \<Rightarrow> s\<lparr>st_EnvironmentID := e\<rparr>) = st_Conditions s"
  by (cases env) auto

text \<open>The three ways of \<open>check_token\<close>.\<close>

lemma check_token_cases:
  assumes "check_token L dtc key now t upd sts w = (u, sts', w')"
  obtains (spaces) m u' cs where "TrimSpace (tk_Value t) \<noteq> tk_Value t" "sts' = sts\<lparr>st_Conditions := cs\<rparr>"
      "setCondition L (st_Conditions sts) (mk_condition (tk_Type t) ConditionFalse ReasonTokenUnauthorized m) w = (u', cs, w')"
    | (early) "TrimSpace (tk_Value t) = tk_Value t" "\<not> probe_due (get_probe (tk_Timestamp t) sts) now"
      "sts' = sts" "u = upd" "w' = w"
    | (probed) c env w1 u' cs where "TrimSpace (tk_Value t) = tk_Value t"
      "probe_due (get_probe (tk_Timestamp t) sts) now" "probe_token L dtc key t w = (c, env, w1)"
      "setCondition L (st_Conditions sts) c w1 = (u', cs, w')" "u"
      "sts' = (case env of None \<Rightarrow> set_probe (tk_Timestamp t) now sts
               | Some e \<Rightarrow> (set_probe (tk_Timestamp t) now sts)\<lparr>st_EnvironmentID := e\<rparr>)\<lparr>st_Conditions := cs\<rparr>"
  using assms unfolding check_token_def Let_def by (auto split: if_splits prod.splits)

text \<open>The conditions after a check, with the answers that came in: a condition that is true was so
  before, or there is evidence among the answers.\<close>

definition ready :: "'w cond_lib \<Rightarrow> Condition list \<Rightarrow> string \<Rightarrow> bool" where
  "ready L cs ty \<longleftrightarrow> map_option cond_Status (cl_Find L cs ty) = Some ConditionTrue"

lemma setCondition_ready:
  assumes "cond_law L" and "setCondition L cs c w = (u, cs', w')"
  shows "ready L cs' ty \<longleftrightarrow> (if ty = cond_Type c then cond_Status c = ConditionTrue else ready L cs ty)"
  using setCondition_find(1) [OF assms] setCondition_find(2) [OF assms, of ty]
  by (auto simp: ready_def same_finding_def)

lemma check_token_ready:
  assumes laws: "cond_law L" "notes_answers answers dtc" "\<And>cs c. keeps answers (cl_Set L cs c)" and "tk_Value t \<noteq> []"
    and "check_token L dtc key now t upd sts w = (u, sts', w')"
  shows "\<exists>new. answers w' = answers w @ new \<and>
    (\<forall>ty. ready L (st_Conditions sts') ty \<longrightarrow> ready L (st_Conditions sts) ty \<or> ty = tk_Type t \<and> has_evidence new t)"
  using assms(5)
proof (cases rule: check_token_cases)
  case (spaces m u' cs)
  with setCondition_keeps [OF laws(3) spaces(3)] setCondition_ready [OF laws(1) spaces(3)] show ?thesis by auto
next
  case early
  then show ?thesis by simp
next
  case (probed c1 env w1 u' cs)
  from probed(6) have cs: "st_Conditions sts' = cs" by simp
  from probe_token_answers [OF laws(2) probed(3)] obtain new where new: "answers w1 = answers w @ new"
    "cond_Status c1 = ConditionTrue \<longrightarrow> (\<exists>ss. (tk_Value t, ss) \<in> set new \<and> tk_Scope t \<in> set ss)" by blast
  with setCondition_keeps [OF laws(3) probed(4)] setCondition_ready [OF laws(1) probed(4)] probe_token_cond [OF probed(3)]
    probed(1) assms(4) cs show ?thesis
    by (intro exI [of _ new]) (auto simp: has_evidence_def split: if_splits)
qed

lemma has_evidence_mono: "has_evidence new t \<Longrightarrow> set new \<subseteq> set new' \<Longrightarrow> has_evidence new' t"
  by (auto simp: has_evidence_def)

lemma check_tokens_ready:
  assumes laws: "cond_law L" "notes_answers answers dtc" "\<And>cs c. keeps answers (cl_Set L cs c)"
  shows "check_tokens L dtc key now ts upd sts w = (u, sts', w') \<Longrightarrow> \<forall>t \<in> set ts. tk_Value t \<noteq> [] \<Longrightarrow>
    \<exists>new. answers w' = answers w @ new \<and> (\<forall>ty. ready L (st_Conditions sts') ty \<longrightarrow>
      ready L (st_Conditions sts) ty \<or> (\<exists>t \<in> set ts. ty = tk_Type t \<and> has_evidence new t))"
proof (induction ts arbitrary: upd sts w)
  case (Cons t ts)
  obtain u1 s1 w1 where s: "check_token L dtc key now t upd sts w = (u1, s1, w1)" by (metis prod_cases3)
  from Cons.prems have "tk_Value t \<noteq> []" by simp
  from check_token_ready [OF laws this s] obtain new1 where new1: "answers w1 = answers w @ new1"
    "\<forall>ty. ready L (st_Conditions s1) ty \<longrightarrow> ready L (st_Conditions sts) ty \<or> ty = tk_Type t \<and> has_evidence new1 t" by blast
  from s Cons.prems(1) have "check_tokens L dtc key now ts u1 s1 w1 = (u, sts', w')" by simp
  from Cons.IH [OF this] Cons.prems(2) obtain new2 where new2: "answers w' = answers w1 @ new2"
    "\<forall>ty. ready L (st_Conditions sts') ty \<longrightarrow>
      ready L (st_Conditions s1) ty \<or> (\<exists>t \<in> set ts. ty = tk_Type t \<and> has_evidence new2 t)" by auto
  have "ready L (st_Conditions sts) ty \<or> (\<exists>t' \<in> set (t # ts). ty = tk_Type t' \<and> has_evidence (new1 @ new2) t')"
    if "ready L (st_Conditions sts') ty" for ty
    using that new1(2) new2(2) has_evidence_mono [of new1 _ "new1 @ new2"] has_evidence_mono [of new2 _ "new1 @ new2"]
    by (simp, blast)
  with new1(1) new2(1) show ?case by (intro exI [of _ "new1 @ new2"]) simp
qed simp

lemma fail_all_ready:
  assumes "cond_law L" and "fail_all L reason msg ts upd cs w = (u, cs', w')" and "ready L cs' ty"
  shows "ready L cs ty"
  using fail_all_find [OF assms(1,2)] assms(3) by (cases "ty \<in> tk_Type ` set ts") (auto simp: ready_def)

text \<open>The token with the value that the secret has.\<close>

definition with_value :: "Secret \<Rightarrow> tokenConfig \<Rightarrow> tokenConfig" where
  "with_value secret t = t\<lparr>tk_Value := (case secret_field secret (tk_Key t) of None \<Rightarrow> [] | Some v \<Rightarrow> v)\<rparr>"

lemma read_tokens_result:
  "read_tokens L secret key ts upd cs w = (valid, ts', u, cs', w') \<Longrightarrow>
   ts' = map (with_value secret) ts \<and> (valid \<longleftrightarrow> (\<forall>t \<in> set ts'. tk_Value t \<noteq> []))"
proof (induction ts arbitrary: upd cs w valid ts' u cs' w')
  case (Cons t ts)
  then show ?case
    by (fastforce simp: Let_def with_value_def split: prod.splits)
qed simp

lemma read_tokens_ready:
  assumes "cond_law L"
  shows "read_tokens L secret key ts upd cs w = (valid, ts', u, cs', w') \<Longrightarrow> ready L cs' ty \<Longrightarrow> ready L cs ty"
proof (induction ts arbitrary: upd cs w valid ts')
  case (Cons t ts)
  let ?v = "case secret_field secret (tk_Key t) of None \<Rightarrow> [] | Some v \<Rightarrow> v"
  let ?c = "mk_condition (tk_Type t) ConditionFalse ReasonTokenMissing
      (''Token '' @ tk_Key t @ '' on secret '' @ key @ '' missing'')"
  obtain u1 cs1 w1 where s: "(if ?v = [] then setCondition L cs ?c w else (False, cs, w)) = (u1, cs1, w1)"
    by (metis prod_cases3)
  obtain v2 t2 u2 c2 w2 where r: "read_tokens L secret key ts (u1 \<or> upd) cs1 w1 = (v2, t2, u2, c2, w2)"
    by (metis prod_cases5)
  with s Cons.prems(1) have "u2 = u" "c2 = cs'" "w2 = w'" by (auto simp: Let_def)
  with Cons.IH r Cons.prems(2) have f: "ready L cs1 ty" by blast
  show ?case
  proof (cases "?v = []")
    case True
    with s have s': "setCondition L cs ?c w = (u1, cs1, w1)" by simp
    from f setCondition_ready [OF assms s', of ty] show ?thesis by (simp split: if_splits)
  qed (use s f in simp)
qed simp

section \<open>Probes of one token\<close>

text \<open>
  A token's check, repeated at the instants \<open>ts\<close> as the reconciliations come: the instants at
  which the probe's time stamp was set, which is when Dynatrace is asked.
\<close>

fun probe_log ::
  "'w cond_lib \<Rightarrow> 'w dt_client \<Rightarrow> string \<Rightarrow> tokenConfig \<Rightarrow> time list \<Rightarrow> 'b BaseOneAgentStatus_scheme \<Rightarrow> 'w \<Rightarrow> time list" where
  "probe_log L dtc key t [] sts w = []"
| "probe_log L dtc key t (now # ts) sts w =
     (let (upd, sts', w') = check_token L dtc key now t False sts w
      in if get_probe (tk_Timestamp t) sts' \<noteq> get_probe (tk_Timestamp t) sts
         then now # probe_log L dtc key t ts sts' w'
         else probe_log L dtc key t ts sts' w')"

interpretation token: throttle probe_due "\<lambda>_ t. Some t" "5 * Minute"
  by unfold_locales (auto simp: probe_due_def Minute_def Second_def)

lemma get_probe_conds [simp]: "get_probe p (s\<lparr>st_Conditions := cs\<rparr>) = get_probe p s"
  by (cases p) auto

lemma get_set_probe: "get_probe p (set_probe p now s) = Some now"
  by (cases p) auto

lemma get_probe_env [simp]: "get_probe p (s\<lparr>st_EnvironmentID := e\<rparr>) = get_probe p s"
  by (cases p) auto

lemma check_token_probe:
  assumes "check_token L dtc key now t upd sts w = (u, sts', w')" and "TrimSpace (tk_Value t) = tk_Value t"
  shows "get_probe (tk_Timestamp t) sts' =
    (if probe_due (get_probe (tk_Timestamp t) sts) now then Some now else get_probe (tk_Timestamp t) sts)"
  using assms(1) by (cases rule: check_token_cases) (use assms(2) in \<open>auto simp: get_set_probe split: option.splits\<close>)

lemma due_changes: "probe_due s now \<Longrightarrow> s \<noteq> Some now"
  using token.not_due_within [of now now] by auto

lemma probe_log_probes:
  assumes "TrimSpace (tk_Value t) = tk_Value t"
  shows "probe_log L dtc key t ts sts w = probes probe_due (\<lambda>_ t. Some t) (get_probe (tk_Timestamp t) sts) ts"
proof (induction ts arbitrary: sts w)
  case (Cons now ts)
  obtain u sts' w' where c: "check_token L dtc key now t False sts w = (u, sts', w')" by (metis prod_cases3)
  note p = check_token_probe [OF c assms]
  show ?case
  proof (cases "probe_due (get_probe (tk_Timestamp t) sts) now")
    case True
    with due_changes [OF True] Cons.IH c p show ?thesis by simp
  next
    case False
    with Cons.IH c p show ?thesis by simp
  qed
qed simp

lemma probe_log_spaces:
  "TrimSpace (tk_Value t) \<noteq> tk_Value t \<Longrightarrow> probe_log L dtc key t ts sts w = []"
proof (induction ts arbitrary: sts w)
  case (Cons now ts)
  obtain u sts' w' where c: "check_token L dtc key now t False sts w = (u, sts', w')" by (metis prod_cases3)
  then have "get_probe (tk_Timestamp t) sts' = get_probe (tk_Timestamp t) sts"
    by (cases rule: check_token_cases) (use Cons.prems in auto)
  with Cons c show ?case by simp
qed simp

section \<open>Concrete inputs\<close>

definition sample_cond_lib :: "'w cond_lib" where
  "sample_cond_lib =
     \<lparr>cl_Find = (\<lambda>cs ty. List.find (\<lambda>c. cond_Type c = ty) cs),
      cl_Set = (\<lambda>cs c w. (filter (\<lambda>d. cond_Type d \<noteq> cond_Type c) cs @ [c], w)),
      cl_ErrText = (\<lambda>e. ''error'')\<rparr>"

lemma find_append: "List.find P (xs @ ys) = (case List.find P xs of None \<Rightarrow> List.find P ys | Some x \<Rightarrow> Some x)"
  by (induction xs) auto

lemma find_filter_other: "ty \<noteq> ty' \<Longrightarrow>
  List.find (\<lambda>c. cond_Type c = ty) (filter (\<lambda>d. cond_Type d \<noteq> ty') cs) = List.find (\<lambda>c. cond_Type c = ty) cs"
  by (induction cs) auto

lemma find_filter_same: "List.find (\<lambda>c. cond_Type c = ty) (filter (\<lambda>d. cond_Type d \<noteq> ty) cs) = None"
  by (induction cs) auto

lemma cond_law_sample: "cond_law sample_cond_lib"
  unfolding cond_law_def sample_cond_lib_def
  by (auto simp: find_append find_filter_same find_filter_other same_finding_def split: option.splits)

definition sample_secret :: Secret where
  "sample_secret = \<lparr>sec_Name = ''oneagent'', sec_Namespace = ''dynatrace'', sec_Type = ''Opaque'',
     sec_Data = Some [''paasToken'' \<mapsto> ''paas'', ''apiToken'' \<mapsto> ''api'']\<rparr>"

definition secret_cluster :: "Secret option \<Rightarrow> (string, time) cluster" where
  "secret_cluster s = (sample_cluster [] [] None)\<lparr>k_get_secret :=
     (\<lambda>ns n w. ((case s of None \<Rightarrow> Inl KubeNotFound | Some x \<Rightarrow> Inr x), w))\<rparr>"

lemma secret_cluster_simps [simp]:
  "k_get_secret (secret_cluster s) = (\<lambda>ns n w. ((case s of None \<Rightarrow> Inl KubeNotFound | Some x \<Rightarrow> Inr x), w))"
  "k_now (secret_cluster s) = (\<lambda>w. (w, w))"
  "k_create_secret (secret_cluster s) = (\<lambda>x w. (None, w))"
  "k_update_secret (secret_cluster s) = (\<lambda>x w. (None, w))"
  "k_get_configmap (secret_cluster s) = (\<lambda>ns n w. (Inl KubeNotFound, w))"
  "k_list_pods (secret_cluster s) = (\<lambda>ns l w. (Inr [], w))"
  "k_getenv (secret_cluster s) = (\<lambda>_. [])"
  by (simp_all add: secret_cluster_def)

definition scoped_client :: "'w dt_client" where
  "scoped_client = (sample_dt_client None)\<lparr>c_GetTokenScopes :=
     (\<lambda>t w. (Inr [''InstallerDownload'', ''DataExport''], w))\<rparr>"

definition sample_reconciler :: client_reconciler where
  "sample_reconciler = \<lparr>dr_Now = zero_time, dr_UpdatePaaSToken = True, dr_UpdateAPIToken = True\<rparr>"

lemmas token_samples = sample_cond_lib_def sample_secret_def scoped_client_def sample_reconciler_def
  sample_dt_client_def empty_resources

lemmas token_defs = Reconcile_tokens_def token_configs_def paas_config_def api_config_def GetTokensName_def
  migrate_conditions_def secret_field_def check_token_def probe_token_def probe_due_def setCondition_def
  DynatracePaasToken_def DynatraceApiToken_def PaaSTokenConditionType_def APITokenConditionType_def
  TokenScopeInstallerDownload_def TokenScopeDataExport_def same_finding_def mk_condition_def
  TrimSpace_def is_space_def IsZero_def

section \<open>The ways of Reconcile\<close>

text \<open>The resource with other conditions.\<close>

abbreviation with_conds :: "Condition list \<Rightarrow> ('a, 'b) BaseOneAgent \<Rightarrow> ('a, 'b) BaseOneAgent" where
  "with_conds cs oa \<equiv> oa\<lparr>cr_Status := (cr_Status oa)\<lparr>st_Conditions := cs\<rparr>\<rparr>"

abbreviation secret_key :: "('a, 'b) BaseOneAgent \<Rightarrow> string" where
  "secret_key oa \<equiv> cr_Namespace oa @ CHR '':'' # GetTokensName oa"

lemma Reconcile_tokens_cases:
  assumes "Reconcile_tokens K L D r oa w = (res, upd, oa', w')"
  obtains (unread) now w0 u0 cs0 w1 err e cs where
      "migrate_conditions now (st_Conditions (cr_Status oa)) = (u0, cs0)"
      "k_get_secret K (cr_Namespace oa) (GetTokensName oa) w0 = (Inl err, w1)" "res = Inl e"
      "cs = cs0 \<and> upd = u0 \<or> (\<exists>reason msg. fail_all L reason msg (token_configs r) u0 cs0 w1 = (upd, cs, w'))"
      "oa' = with_conds cs oa"
    | (unusable) now w0 u0 cs0 w1 secret valid ts' u1 cs1 w2 w3 e cs where
      "migrate_conditions now (st_Conditions (cr_Status oa)) = (u0, cs0)"
      "k_get_secret K (cr_Namespace oa) (GetTokensName oa) w0 = (Inr secret, w1)"
      "read_tokens L secret (secret_key oa) (token_configs r) u0 cs0 w1 = (valid, ts', u1, cs1, w2)" "res = Inl e"
      "cs = cs1 \<and> upd = u1 \<or> (\<exists>reason msg. fail_all L reason msg ts' u1 cs1 w3 = (upd, cs, w'))"
      "oa' = with_conds cs oa"
    | (checked) now w0 u0 cs0 w1 secret ts' u1 cs1 w2 w3 dtc sts where
      "migrate_conditions now (st_Conditions (cr_Status oa)) = (u0, cs0)"
      "k_get_secret K (cr_Namespace oa) (GetTokensName oa) w0 = (Inr secret, w1)"
      "read_tokens L secret (secret_key oa) (token_configs r) u0 cs0 w1 = (True, ts', u1, cs1, w2)" "res = Inr dtc"
      "check_tokens L dtc (secret_key oa) now ts' u1 (cr_Status (with_conds cs1 oa)) w3 = (upd, sts, w')"
      "oa' = oa\<lparr>cr_Status := sts\<rparr>" "D (with_conds cs1 oa) (dr_UpdateAPIToken r) (dr_UpdatePaaSToken r) w2 = (Inr dtc, w3)"
      "w0 = (if IsZero (dr_Now r) then snd (k_now K w) else w)"
proof -
  obtain now w0 where n: "(if IsZero (dr_Now r) then k_now K w else (dr_Now r, w)) = (now, w0)" by fastforce
  then have w0: "w0 = (if IsZero (dr_Now r) then snd (k_now K w) else w)" by (auto split: if_splits)
  obtain u0 cs0 where m: "migrate_conditions now (st_Conditions (cr_Status oa)) = (u0, cs0)" by fastforce
  obtain got w1 where s: "k_get_secret K (cr_Namespace oa) (GetTokensName oa) w0 = (got, w1)" by fastforce
  note eval = assms [unfolded Reconcile_tokens_def n m s, simplified]
  show thesis
  proof (cases got)
    case (Inl err)
    let ?msg = "secret_not_found_message (secret_key oa)"
    obtain u cs w2 where f: "fail_all L ReasonTokenSecretNotFound ?msg (token_configs r) u0 cs0 w1 = (u, cs, w2)"
      by (metis prod_cases3)
    show thesis
    proof (cases "IsNotFound err")
      case True
      with eval Inl f have "res = Inl (ErrMsg ?msg)" "upd = u" "oa' = with_conds cs oa" "w' = w2"
        by (simp_all add: m s)
      with f show thesis by (intro unread [OF m s [unfolded Inl]]) auto
    next
      case False
      with eval Inl have "res = Inl err" "upd = u0" "oa' = with_conds cs0 oa" "w' = w1"
        by (simp_all add: m s)
      then show thesis by (intro unread [OF m s [unfolded Inl]]) auto
    qed
  next
    case (Inr secret)
    obtain valid ts' u1 cs1 w2 where
      rt: "read_tokens L secret (secret_key oa) (token_configs r) u0 cs0 w1 = (valid, ts', u1, cs1, w2)"
      by (metis prod_cases5)
    note got = s [unfolded Inr]
    show thesis
    proof (cases valid)
      case False
      with eval Inr rt have "res = Inl (ErrMsg ''issues found with tokens, see status'')" "upd = u1"
        "oa' = with_conds cs1 oa" by (simp_all add: m s)
      then show thesis by (intro unusable [OF m got rt]) auto
    next
      case True
      obtain d w3 where d: "D (with_conds cs1 oa) (dr_UpdateAPIToken r) (dr_UpdatePaaSToken r) w2 = (d, w3)" by fastforce
      show thesis
      proof (cases d)
        case (Inl err)
        obtain u cs w4 where f: "fail_all L ReasonTokenError (no_client_message L err) ts' u1 cs1 w3 = (u, cs, w4)"
          by (metis prod_cases3)
        with eval Inr rt True d Inl have "res = Inl err" "upd = u" "oa' = with_conds cs oa" "w' = w4"
          by (simp_all add: m s)
        with f show thesis by (intro unusable [OF m got rt]) auto
      next
        case (Inr dtc)
        obtain u sts w4 where
          c: "check_tokens L dtc (secret_key oa) now ts' u1 (cr_Status (with_conds cs1 oa)) w3 = (u, sts, w4)"
          by (metis prod_cases3)
        with eval \<open>got = Inr secret\<close> rt True d Inr have
          "res = Inr dtc" "upd = u" "oa' = oa\<lparr>cr_Status := sts\<rparr>" "w' = w4"
          by (simp_all add: m s)
        with c rt True d Inr w0 show thesis by (intro checked [OF m got]) auto
      qed
    qed
  qed
qed

text \<open>The flag covers every change of the resource, and only the status is changed.\<close>

lemma Reconcile_tokens_untouched:
  assumes "Reconcile_tokens K L D r oa w = (res, False, oa', w')"
  shows "oa' = oa"
  using assms
proof (cases rule: Reconcile_tokens_cases)
  case (unread now w0 u0 cs0 w1 err e cs)
  then have "\<not> u0 \<and> cs = cs0" by (auto dest: fail_all_False)
  with unread(1,5) show ?thesis by (auto dest: migrate_False)
next
  case (unusable now w0 u0 cs0 w1 secret valid ts' u1 cs1 w2 w3 e cs)
  then have u1: "\<not> u1 \<and> cs = cs1" by (auto dest: fail_all_False)
  with unusable(3) have "\<not> u0 \<and> cs1 = cs0" by (auto dest: read_tokens_False)
  with unusable(1,6) u1 show ?thesis by (auto dest: migrate_False)
next
  case (checked now w0 u0 cs0 w1 secret ts' u1 cs1 w2 w3 dtc sts)
  from check_tokens_False [OF checked(5)] have u1: "\<not> u1" "sts = cr_Status (with_conds cs1 oa)" by simp_all
  with checked(3) have "\<not> u0 \<and> cs1 = cs0" by (auto dest: read_tokens_False)
  with checked(1,6) u1 show ?thesis by (auto dest: migrate_False)
qed

lemma set_probe_keeps [simp]: "st_UseImmutableImage (set_probe p now s) = st_UseImmutableImage s"
  by (cases p) auto

lemma check_tokens_keeps:
  "check_tokens L dtc key now ts upd sts w = (u, sts', w') \<Longrightarrow> st_UseImmutableImage sts' = st_UseImmutableImage sts"
proof (induction ts arbitrary: upd sts w)
  case (Cons t ts)
  obtain u1 s1 w1 where s: "check_token L dtc key now t upd sts w = (u1, s1, w1)" by (metis prod_cases3)
  then have "st_UseImmutableImage s1 = st_UseImmutableImage sts"
    by (cases rule: check_token_cases) (auto split: option.splits)
  with Cons s show ?case by auto
qed simp

lemma Reconcile_tokens_keeps:
  assumes "Reconcile_tokens K L D r oa w = (res, upd, oa', w')"
  shows "cr_Spec oa' = cr_Spec oa" "cr_Name oa' = cr_Name oa" "cr_Namespace oa' = cr_Namespace oa"
    "st_UseImmutableImage (cr_Status oa') = st_UseImmutableImage (cr_Status oa)"
  using assms by (cases rule: Reconcile_tokens_cases; auto dest: check_tokens_keeps)+

section \<open>Properties\<close>

text \<open>A missing secret is reported for every token that the reconciler looks after, with a
  false condition, and the reconciliation fails without building a client.\<close>

theorem missing_secret_is_reported:
  assumes "cond_law L" and "\<not> IsZero (dr_Now r)"
    and "k_get_secret K (cr_Namespace oa) (GetTokensName oa) w = (Inl KubeNotFound, w1)"
  shows "\<exists>e upd oa' w'. Reconcile_tokens K L D r oa w = (Inl e, upd, oa', w') \<and>
    (\<forall>t \<in> set (token_configs r). \<exists>c. cl_Find L (st_Conditions (cr_Status oa')) (tk_Type t) = Some c \<and>
        cond_Status c = ConditionFalse \<and> cond_Reason c = ReasonTokenSecretNotFound)"
proof -
  obtain u0 cs0 where m: "migrate_conditions (dr_Now r) (st_Conditions (cr_Status oa)) = (u0, cs0)" by fastforce
  let ?m = "secret_not_found_message (secret_key oa)"
  obtain upd cs w2 where f: "fail_all L ReasonTokenSecretNotFound ?m (token_configs r) u0 cs0 w1 = (upd, cs, w2)"
    by (metis prod_cases3)
  let ?oa = "oa\<lparr>cr_Status := (cr_Status oa)\<lparr>st_Conditions := cs0\<rparr>\<lparr>st_Conditions := cs\<rparr>\<rparr>"
  have "Reconcile_tokens K L D r oa w = (Inl (ErrMsg ?m), upd, ?oa, w2)"
    using assms(2,3) m f by (simp add: Reconcile_tokens_def)
  moreover from fail_all_find [OF assms(1) f] have
    "\<forall>t \<in> set (token_configs r). \<exists>c. cl_Find L (st_Conditions (cr_Status ?oa)) (tk_Type t) = Some c \<and>
        cond_Status c = ConditionFalse \<and> cond_Reason c = ReasonTokenSecretNotFound" by auto
  ultimately show ?thesis by blast
qed

theorem missing_secret_is_reported_witness:
  "\<exists>e upd oa' w' c. Reconcile_tokens (secret_cluster None) sample_cond_lib (\<lambda>oa a p w. (Inr scoped_client, w))
      (sample_reconciler\<lparr>dr_Now := 0\<rparr>) (empty_oneagent ''oneagent'' ''dynatrace'') 0 = (Inl e, upd, oa', w') \<and>
     cl_Find (sample_cond_lib :: time cond_lib) (st_Conditions (cr_Status oa')) ''APIToken'' = Some c \<and> cond_Status c = ConditionFalse"
proof -
  let ?r = "sample_reconciler\<lparr>dr_Now := 0\<rparr>" and ?oa = "empty_oneagent ''oneagent'' ''dynatrace''"
  have z: "\<not> IsZero (dr_Now ?r)" by (simp add: IsZero_def zero_time_def)
  have s: "k_get_secret (secret_cluster None) (cr_Namespace ?oa) (GetTokensName ?oa) 0 = (Inl KubeNotFound, 0)" by simp
  from missing_secret_is_reported [OF cond_law_sample z s, of "\<lambda>oa a p w. (Inr scoped_client, w)"]
  obtain e upd oa' w' where r: "Reconcile_tokens (secret_cluster None) sample_cond_lib
      (\<lambda>oa a p w. (Inr scoped_client, w)) ?r ?oa 0 = (Inl e, upd, oa', w')" and
    t: "\<forall>t \<in> set (token_configs ?r). \<exists>c. cl_Find (sample_cond_lib :: time cond_lib) (st_Conditions (cr_Status oa')) (tk_Type t) = Some c \<and>
        cond_Status c = ConditionFalse \<and> cond_Reason c = ReasonTokenSecretNotFound" by blast
  have "api_config \<in> set (token_configs ?r)" by (simp add: token_configs_def sample_reconciler_def)
  with t r show ?thesis by (auto simp: api_config_def APITokenConditionType_def)
qed

text \<open>C23: A token is called ready only on evidence.  When a reconciliation leaves a token's condition
  true that was not true before, whatever conditions the resource had, then the secret that this run
  read has the token under its key, without surrounding spaces, and among the answers that Dynatrace
  gave to this run is one about that token that has the scope it needs.\<close>

theorem ready_only_on_evidence:
  assumes "cond_law L" and "answer_laws K L D answers" and "Reconcile_tokens K L D r oa w = (res, upd, oa', w')"
    and "ready L (st_Conditions (cr_Status oa')) ty" and "\<not> ready L (st_Conditions (cr_Status oa)) ty"
  shows "\<exists>dtc secret w1 key scope token ss new. res = Inr dtc \<and>
    k_get_secret K (cr_Namespace oa) (GetTokensName oa) (if IsZero (dr_Now r) then snd (k_now K w) else w) = (Inr secret, w1) \<and>
    (ty, key, scope) \<in> {(''PaaSToken'', ''paasToken'', ''InstallerDownload''), (''APIToken'', ''apiToken'', ''DataExport'')} \<and>
    secret_field secret key = Some token \<and> token \<noteq> [] \<and> TrimSpace token = token \<and>
    answers w' = answers w @ new \<and> (token, ss) \<in> set new \<and> scope \<in> set ss"
  using assms(3)
proof (cases rule: Reconcile_tokens_cases)
  case (unread now w0 u0 cs0 w1 err e cs)
  from migrate_status [OF assms(1) unread(1), of ty] assms(5) have "\<not> ready L cs0 ty" by (simp add: ready_def)
  with unread(4,5) assms(4) fail_all_ready [OF assms(1)] show ?thesis by auto
next
  case (unusable now w0 u0 cs0 w1 secret valid ts' u1 cs1 w2 w3 e cs)
  from migrate_status [OF assms(1) unusable(1), of ty] assms(5) have "\<not> ready L cs0 ty" by (simp add: ready_def)
  with read_tokens_ready [OF assms(1) unusable(3)] have "\<not> ready L cs1 ty" by blast
  with unusable(5,6) assms(4) fail_all_ready [OF assms(1)] show ?thesis by auto
next
  case (checked now w0 u0 cs0 w1 secret ts' u1 cs1 w2 w3 dtc sts)
  note laws = answer_lawsD [OF assms(2)]
  from migrate_status [OF assms(1) checked(1), of ty] assms(5) have "\<not> ready L cs0 ty" by (simp add: ready_def)
  with read_tokens_ready [OF assms(1) checked(3)] have before: "\<not> ready L cs1 ty" by blast
  have "answers w0 = answers w" using checked(8) laws(1) by (auto simp: keeps_def)
  with keepsD [OF laws(2) checked(2)] read_tokens_keeps [OF laws(3) checked(3)] keepsD [OF laws(4) checked(7)]
  have same: "answers w3 = answers w" by simp
  from read_tokens_result [OF checked(3)] have ts': "ts' = map (with_value secret) (token_configs r)"
    "\<forall>t \<in> set ts'. tk_Value t \<noteq> []" by simp_all
  from check_tokens_ready [OF assms(1) laws(5) [OF checked(7)] laws(3) checked(5) ts'(2)] obtain new where
    new: "answers w' = answers w3 @ new" "\<forall>ty. ready L (st_Conditions sts) ty \<longrightarrow>
      ready L (st_Conditions (cr_Status (with_conds cs1 oa))) ty \<or> (\<exists>t \<in> set ts'. ty = tk_Type t \<and> has_evidence new t)"
    by (elim exE conjE)
  with before assms(4) checked(6) ts'(1) obtain t where t: "t \<in> set (token_configs r)" "ty = tk_Type t"
    "has_evidence new (with_value secret t)" by (auto simp: with_value_def)
  from t(1) have config: "(tk_Type t, tk_Key t, tk_Scope t) \<in>
      {(''PaaSToken'', ''paasToken'', ''InstallerDownload''), (''APIToken'', ''apiToken'', ''DataExport'')}"
    by (auto simp: token_configs_def paas_config_def api_config_def PaaSTokenConditionType_def APITokenConditionType_def
        DynatracePaasToken_def DynatraceApiToken_def TokenScopeInstallerDownload_def TokenScopeDataExport_def split: if_splits)
  from t(3) obtain token ss where ev: "secret_field secret (tk_Key t) = Some token" "token \<noteq> []" "TrimSpace token = token"
    "(token, ss) \<in> set new" "tk_Scope t \<in> set ss"
    by (auto simp: has_evidence_def with_value_def split: option.splits)
  from checked(2,4,8) config t(2) ev new(1) same show ?thesis
    by (intro exI [of _ dtc] exI [of _ secret] exI [of _ w1] exI [of _ "tk_Key t"] exI [of _ "tk_Scope t"] exI [of _ token]
        exI [of _ ss] exI [of _ new]) simp
qed

text \<open>A client that notes what it was asked; the world is these notes.\<close>

definition noting_client :: "(string \<times> string list) list dt_client" where
  "noting_client = (sample_dt_client None)\<lparr>c_GetTokenScopes :=
     (\<lambda>t w. (Inr [''InstallerDownload'', ''DataExport''], w @ [(t, [''InstallerDownload'', ''DataExport''])]))\<rparr>"

definition noting_cluster :: "(unit, (string \<times> string list) list) cluster" where
  "noting_cluster = idle_cluster (Some sample_secret)"

lemma noting_laws:
  "answer_laws noting_cluster sample_cond_lib (\<lambda>oa a p w. (Inr noting_client, w)) (\<lambda>w. w)"
  by (simp add: answer_laws_def notes_answers_def keeps_def noting_cluster_def idle_cluster_def sample_cond_lib_def noting_client_def
      sample_dt_client_def)

text \<open>A resource with a false condition from before transition times were kept; the secret is good by now.\<close>

definition old_oneagent :: OneAgent where
  "old_oneagent = with_conds [mk_condition ''PaaSToken'' ConditionFalse ReasonTokenMissing ''gone'']
     (empty_oneagent ''oneagent'' ''dynatrace'')"

lemma old_Reconcile_tokens:
  "\<exists>oa' w'. Reconcile_tokens noting_cluster sample_cond_lib
      (\<lambda>oa a p w. (Inr noting_client, w)) sample_reconciler old_oneagent [] = (Inr noting_client, True, oa', w') \<and>
      ready (sample_cond_lib :: (string \<times> string list) list cond_lib) (st_Conditions (cr_Status oa')) ''PaaSToken''"
  by (simp add: token_defs token_samples noting_cluster_def idle_cluster_def noting_client_def old_oneagent_def ready_def zero_time_def)

theorem ready_only_on_evidence_witness:
  "\<exists>oa' w' ss. Reconcile_tokens noting_cluster sample_cond_lib
      (\<lambda>oa a p w. (Inr noting_client, w)) sample_reconciler old_oneagent [] = (Inr noting_client, True, oa', w') \<and>
     (''paas'', ss) \<in> set w' \<and> ''InstallerDownload'' \<in> set ss"
proof -
  obtain oa' w' where run: "Reconcile_tokens noting_cluster sample_cond_lib
      (\<lambda>oa a p w. (Inr noting_client, w)) sample_reconciler old_oneagent [] = (Inr noting_client, True, oa', w')"
    and now: "ready (sample_cond_lib :: (string \<times> string list) list cond_lib) (st_Conditions (cr_Status oa')) ''PaaSToken''"
    using old_Reconcile_tokens by (elim exE conjE)
  have before: "\<not> ready (sample_cond_lib :: (string \<times> string list) list cond_lib) (st_Conditions (cr_Status old_oneagent)) ''PaaSToken''"
    by (simp add: ready_def sample_cond_lib_def old_oneagent_def)
  from ready_only_on_evidence [OF cond_law_sample noting_laws run now before]
  have "\<exists>token ss. secret_field sample_secret ''paasToken'' = Some token \<and> (token, ss) \<in> set w' \<and> ''InstallerDownload'' \<in> set ss"
    by (auto simp: noting_cluster_def idle_cluster_def)
  then have "\<exists>ss. (''paas'', ss) \<in> set w' \<and> ''InstallerDownload'' \<in> set ss"
    by (auto simp: secret_field_def sample_secret_def)
  then obtain ss where "(''paas'', ss) \<in> set w'" "''InstallerDownload'' \<in> set ss" by (elim exE conjE)
  with run show ?thesis by (intro exI conjI)
qed

text \<open>Dynatrace is asked about a token at most once in five minutes, however often the
  resource is reconciled and whatever the answers are.\<close>

theorem probes_five_minutes_apart:
  "sorted_wrt (\<lambda>t u. t + 5 * Minute \<le> u) (probe_log L dtc key t ts sts w)"
proof (cases "TrimSpace (tk_Value t) = tk_Value t")
  case True
  then show ?thesis by (simp add: probe_log_probes token.probes_apart)
qed (simp add: probe_log_spaces)

end
