(* ===== verification/Daemonset.thy ===== *)
theory Daemonset
  imports Pods Utils
begin

text \<open>
  The DaemonSet that the operator wants for a OneAgent (controllers/oneagent/
  oneagent\_daemonset.go): its pod specification, environment, volumes and arguments, and the
  hash of the whole by which a change is noticed.  \<open>env\<close> is \<open>os.Getenv\<close>, \<open>version\<close> the
  operator's version, \<open>marshal\<close> is \<open>json.Marshal\<close> on DaemonSets.
\<close>

definition annotationImageVersion :: string where
  "annotationImageVersion = ''internal.oneagent.dynatrace.com/image-version''"
definition annotationTemplateHash :: string where
  "annotationTemplateHash = ''internal.oneagent.dynatrace.com/template-hash''"
definition oneagentDockerImage :: string where
  "oneagentDockerImage = ''docker.io/dynatrace/oneagent:latest''"
definition oneagentRedhatImage :: string where
  "oneagentRedhatImage = ''registry.connect.redhat.com/dynatrace/oneagent:latest''"

text \<open>\<open>kubesystem.NewKubeSystem().IsDeployedOnOpenshift\<close>\<close>

definition IsDeployedOnOpenshift :: "(string \<Rightarrow> string) \<Rightarrow> bool" where
  "IsDeployedOnOpenshift env = (env ''DEPLOYED_ON_OPENSHIFT'' = ''true'')"

section \<open>Environment variables\<close>

text \<open>A reserved variable: its name and its default.\<close>

type_synonym reservedEnvVar = "string \<times> EnvVar"

definition env_value :: "string \<Rightarrow> string \<Rightarrow> reservedEnvVar" where
  "env_value name v = (name, \<lparr>ev_Name = name, ev_Value = v, ev_ValueFrom = None\<rparr>)"

definition env_from :: "string \<Rightarrow> EnvVarSource \<Rightarrow> reservedEnvVar" where
  "env_from name src = (name, \<lparr>ev_Name = name, ev_Value = [], ev_ValueFrom = Some src\<rparr>)"

definition FormatBool :: "bool \<Rightarrow> string" where
  "FormatBool b = (if b then ''true'' else ''false'')"

definition has_proxy :: "OneAgent \<Rightarrow> bool" where
  "has_proxy instance =
     (case sp_Proxy (cr_Spec instance) of None \<Rightarrow> False | Some p \<Rightarrow> prx_Value p \<noteq> [] \<or> prx_ValueFrom p \<noteq> [])"

definition reserved_vars :: "OneAgent \<Rightarrow> string \<Rightarrow> reservedEnvVar list" where
  "reserved_vars instance clusterID =
     [env_from ''DT_K8S_NODE_NAME'' (FieldRef ''spec.nodeName''), env_value ''DT_K8S_CLUSTER_ID'' clusterID] @
     (if sp_WebhookInjection (cr_Spec instance)
      then [env_value ''ONEAGENT_DISABLE_CONTAINER_INJECTION'' ''true''] else []) @
     (if \<not> st_UseImmutableImage (cr_Status instance)
      then [env_from ''ONEAGENT_INSTALLER_TOKEN'' (SecretKeyRef (GetTokensName instance) DynatracePaasToken),
            env_value ''ONEAGENT_INSTALLER_SCRIPT_URL''
              (sp_APIURL (cr_Spec instance) @
               ''/v1/deployment/installer/agent/unix/default/latest?Api-Token=$(ONEAGENT_INSTALLER_TOKEN)&arch=x86&flavor=default''),
            env_value ''ONEAGENT_INSTALLER_SKIP_CERT_CHECK'' (FormatBool (sp_SkipCertCheck (cr_Spec instance)))]
      else []) @
     (if has_proxy instance
      then (let p = the (sp_Proxy (cr_Spec instance))
            in if prx_ValueFrom p \<noteq> [] then [env_from ''https_proxy'' (SecretKeyRef (prx_ValueFrom p) ''proxy'')]
               else [env_value ''https_proxy'' (prx_Value p)])
      else [])"

text \<open>
  The split of the user's variables: a reserved name goes to that variable's \<open>Value\<close> (the last
  one wins), any other is kept.
\<close>

fun split_env :: "string list \<Rightarrow> EnvVar list \<Rightarrow> (string \<rightharpoonup> EnvVar) \<Rightarrow> EnvVar list \<Rightarrow> (string \<rightharpoonup> EnvVar) \<times> EnvVar list" where
  "split_env reserved [] vals remaining = (vals, remaining)"
| "split_env reserved (ev # evs) vals remaining =
     (if ev_Name ev \<in> set reserved then split_env reserved evs (vals(ev_Name ev \<mapsto> ev)) remaining
      else split_env reserved evs vals (remaining @ [ev]))"

definition prepareEnvVars :: "OneAgent \<Rightarrow> string \<Rightarrow> EnvVar list" where
  "prepareEnvVars instance clusterID =
     (let reserved = reserved_vars instance clusterID;
          (vals, remaining) = split_env (map fst reserved) (sp_Env (cr_Spec instance)) Map.empty []
      in map (\<lambda>(name, default). case vals name of Some ev \<Rightarrow> ev | None \<Rightarrow> default) reserved @ remaining)"

section \<open>Volumes\<close>

definition prepareVolumes :: "OneAgent \<Rightarrow> Volume list" where
  "prepareVolumes instance =
     [\<lparr>vol_Name = ''host-root'', vol_Source = HostPath ''/''\<rparr>] @
     (if sp_TrustedCAs (cr_Spec instance) \<noteq> []
      then [\<lparr>vol_Name = ''certs'',
             vol_Source = ConfigMapItems (sp_TrustedCAs (cr_Spec instance)) [(''certs'', ''certs.pem'')]\<rparr>]
      else [])"

definition prepareVolumeMounts :: "OneAgent \<Rightarrow> VolumeMount list" where
  "prepareVolumeMounts instance =
     [\<lparr>vm_Name = ''host-root'', vm_MountPath = ''/mnt/root''\<rparr>] @
     (if sp_TrustedCAs (cr_Spec instance) \<noteq> []
      then [\<lparr>vm_Name = ''certs'', vm_MountPath = ''/mnt/dynatrace/certs''\<rparr>] else [])"

section \<open>The pod specification\<close>

definition service_account :: "OneAgent \<Rightarrow> bool \<Rightarrow> string" where
  "service_account instance unprivileged =
     (if sp_ServiceAccountName (cr_Spec instance) \<noteq> [] then sp_ServiceAccountName (cr_Spec instance)
      else if unprivileged then ''dynatrace-oneagent-unprivileged'' else ''dynatrace-oneagent'')"

text \<open>
  A CPU request of 100m is added when the spec has none.  The struct is copied but its maps are
  shared: a missing map of requests is replaced in the copy only, and one that is there and has no
  CPU is written in place, so the resource itself has the request from then on.
\<close>

definition pod_resources :: "OneAgent \<Rightarrow> ResourceRequirements \<times> OneAgent" where
  "pod_resources instance =
     (let resources = sp_Resources (cr_Spec instance)
      in case rr_Requests resources of
           None \<Rightarrow> (resources\<lparr>rr_Requests := Some [''cpu'' \<mapsto> ''100m'']\<rparr>, instance)
         | Some requests \<Rightarrow>
             (if requests ''cpu'' = None
              then (let written = resources\<lparr>rr_Requests := Some (requests(''cpu'' \<mapsto> ''100m''))\<rparr>
                    in (written, instance\<lparr>cr_Spec := (cr_Spec instance)\<lparr>sp_Resources := written\<rparr>\<rparr>))
              else (resources, instance)))"

definition pod_args :: "OneAgent \<Rightarrow> string \<Rightarrow> string list" where
  "pod_args instance version =
     sp_Args (cr_Spec instance) @
     (if has_proxy instance then [''--set-proxy=$(https_proxy)''] else []) @
     (if sp_NetworkZone (cr_Spec instance) \<noteq> []
      then [''--set-network-zone='' @ sp_NetworkZone (cr_Spec instance)] else []) @
     (if sp_WebhookInjection (cr_Spec instance) then [''--set-host-id-source=k8s-node-name''] else []) @
     [''--set-host-property=OperatorVersion='' @ version]"

definition security_context :: "bool \<Rightarrow> SecurityContext" where
  "security_context unprivileged =
     (if unprivileged
      then \<lparr>sc_Privileged = None, sc_CapabilitiesDrop = [''ALL''],
            sc_CapabilitiesAdd = [''CHOWN'', ''DAC_OVERRIDE'', ''DAC_READ_SEARCH'', ''FOWNER'', ''FSETID'', ''KILL'',
              ''NET_ADMIN'', ''NET_RAW'', ''SETFCAP'', ''SETGID'', ''SETUID'', ''SYS_ADMIN'', ''SYS_CHROOT'',
              ''SYS_PTRACE'', ''SYS_RESOURCE'']\<rparr>
      else \<lparr>sc_Privileged = Some True, sc_CapabilitiesDrop = [], sc_CapabilitiesAdd = []\<rparr>)"

definition node_affinity :: "node_requirement list list" where
  "node_affinity =
     [[(''beta.kubernetes.io/arch'', [''amd64'', ''arm64'']), (''beta.kubernetes.io/os'', [''linux''])],
      [(''kubernetes.io/arch'', [''amd64'', ''arm64'']), (''kubernetes.io/os'', [''linux''])]]"

text \<open>\<open>p.Containers[0].Image = img\<close>\<close>

definition set_image :: "string \<Rightarrow> PodSpec \<Rightarrow> PodSpec" where
  "set_image img p = p\<lparr>ps_Containers := (ps_Containers p)[0 := (ps_Containers p ! 0)\<lparr>ctr_Image := img\<rparr>]\<rparr>"

definition preparePodSpecInstaller :: "(string \<Rightarrow> string) \<Rightarrow> OneAgent \<Rightarrow> PodSpec \<Rightarrow> PodSpec" where
  "preparePodSpecInstaller env instance p =
     set_image (if sp_Image (cr_Spec instance) \<noteq> [] then sp_Image (cr_Spec instance)
                else if IsDeployedOnOpenshift env then oneagentRedhatImage
                else oneagentDockerImage) p"

definition pull_secret_name :: "OneAgent \<Rightarrow> string" where
  "pull_secret_name instance =
     (if sp_CustomPullSecret (cr_Spec instance) \<noteq> [] then sp_CustomPullSecret (cr_Spec instance)
      else cr_Name instance @ ''-pull-secret'')"

definition preparePodSpecImmutableImage :: "OneAgent \<Rightarrow> PodSpec \<Rightarrow> PodSpec" where
  "preparePodSpecImmutableImage instance p =
     (let p1 = p\<lparr>ps_ImagePullSecrets := ps_ImagePullSecrets p @ [pull_secret_name instance]\<rparr>
      in if sp_Image (cr_Spec instance) \<noteq> [] then set_image (sp_Image (cr_Spec instance)) p1
         else set_image (BuildOneAgentImage (sp_APIURL (cr_Spec instance)) (sp_AgentVersion (cr_Spec instance))) p1)"

text \<open>The pod specification, and the resource as \<open>pod_resources\<close> leaves it.\<close>

definition newPodSpecForCR ::
  "(string \<Rightarrow> string) \<Rightarrow> string \<Rightarrow> OneAgent \<Rightarrow> string \<Rightarrow> bool \<Rightarrow> PodSpec \<times> OneAgent" where
  "newPodSpecForCR env version instance clusterID unprivileged =
     (let sa = service_account instance unprivileged;
          (resources, instance) = pod_resources instance;
          spec = cr_Spec instance;
          container = \<lparr>ctr_Name = ''dynatrace-oneagent'', ctr_Image = [], ctr_ImagePullPolicy = ''Always'',
            ctr_Command = [], ctr_Args = pod_args instance version, ctr_Env = prepareEnvVars instance clusterID,
            ctr_ReadinessProbe = Some \<lparr>
              pr_Command = [''/bin/sh'', ''-c'', ''grep -q oneagentwatchdo /proc/[0-9]*/stat''],
              pr_InitialDelaySeconds = 30, pr_PeriodSeconds = 30, pr_TimeoutSeconds = 1\<rparr>,
            ctr_Resources = resources,
            ctr_SecurityContext = Some (security_context unprivileged),
            ctr_VolumeMounts = prepareVolumeMounts instance\<rparr>;
          p = \<lparr>ps_Containers = [container], ps_HostNetwork = True, ps_HostPID = True, ps_HostIPC = True,
            ps_NodeSelector = sp_NodeSelector spec, ps_PriorityClassName = sp_PriorityClassName spec,
            ps_ServiceAccountName = sa,
            ps_Tolerations = sp_Tolerations spec, ps_DNSPolicy = sp_DNSPolicy spec,
            ps_NodeAffinity = node_affinity, ps_Volumes = prepareVolumes instance, ps_ImagePullSecrets = []\<rparr>
      in (if st_UseImmutableImage (cr_Status instance) then preparePodSpecImmutableImage instance p
          else preparePodSpecInstaller env instance p, instance))"

section \<open>The DaemonSet and its hash\<close>

definition generateDaemonSetHash :: "(DaemonSet \<Rightarrow> go_error + string) \<Rightarrow> DaemonSet \<Rightarrow> go_error + string" where
  "generateDaemonSetHash marshal ds =
     (case marshal ds of Inl e \<Rightarrow> Inl e | Inr data \<Rightarrow> Inr (Itoa (uint (fnv32 data))))"

definition getTemplateHash :: "DaemonSet \<Rightarrow> string" where
  "getTemplateHash a =
     (case ds_Annotations a of None \<Rightarrow> [] | Some annotations \<Rightarrow> map_get annotations annotationTemplateHash)"

definition hasDaemonSetChanged :: "DaemonSet \<Rightarrow> DaemonSet \<Rightarrow> bool" where
  "hasDaemonSetChanged a b = (getTemplateHash a \<noteq> getTemplateHash b)"

text \<open>\<open>newDaemonSetForCR\<close> before the hash; the resource is the one that the rest of the run goes on with.\<close>

definition unhashed_daemonset ::
  "(string \<Rightarrow> string) \<Rightarrow> string \<Rightarrow> OneAgent \<Rightarrow> string \<Rightarrow> DaemonSet \<times> OneAgent" where
  "unhashed_daemonset env version instance clusterID =
     (let unprivileged = (case sp_UseUnprivilegedMode (cr_Spec instance) of None \<Rightarrow> False | Some b \<Rightarrow> b);
          (podSpec, instance) = newPodSpecForCR env version instance clusterID unprivileged;
          selectorLabels = buildLabels (cr_Name instance);
          mergedLabels = mergeLabels [sp_Labels (cr_Spec instance), selectorLabels]
      in (\<lparr>ds_Name = cr_Name instance, ds_Namespace = cr_Namespace instance, ds_Labels = mergedLabels,
          ds_Annotations = Some Map.empty, ds_Owner = None, ds_Selector = selectorLabels,
          ds_TemplateLabels = mergedLabels,
          ds_TemplateAnnotations =
            (if unprivileged
             then [''container.apparmor.security.beta.kubernetes.io/dynatrace-oneagent'' \<mapsto> ''unconfined'']
             else [annotationImageVersion \<mapsto> st_ImageVersion (cr_Status instance)]),
          ds_TemplateSpec = podSpec,
          ds_NumberReady = 0, ds_CurrentNumberScheduled = 0\<rparr>, instance))"

definition newDaemonSetForCR ::
  "(DaemonSet \<Rightarrow> go_error + string) \<Rightarrow> (string \<Rightarrow> string) \<Rightarrow> string \<Rightarrow> OneAgent \<Rightarrow> string
     \<Rightarrow> (go_error + DaemonSet) \<times> OneAgent" where
  "newDaemonSetForCR marshal env version instance clusterID =
     (let (ds, instance) = unhashed_daemonset env version instance clusterID
      in case generateDaemonSetHash marshal ds of
           Inl e \<Rightarrow> (Inl e, instance)
         | Inr dsHash \<Rightarrow> (Inr (ds\<lparr>ds_Annotations := Some [annotationTemplateHash \<mapsto> dsHash]\<rparr>), instance))"

end
