(* ===== verification/Daemonset_Props.thy ===== *)
theory Daemonset_Props
  imports Daemonset
begin

text \<open>
  What holds of the wanted DaemonSet: its selector finds its own pods, the container's
  environment is the reserved variables (with the user's values) followed by the user's other
  ones, which image it runs, and which changes of the custom resource its hash can see.
\<close>

section \<open>The environment\<close>

text \<open>The value that the user gives to a name: the last one in the list.\<close>

definition user_value :: "EnvVar list \<Rightarrow> string \<Rightarrow> EnvVar option" where
  "user_value evs name = List.find (\<lambda>ev. ev_Name ev = name) (rev evs)"

lemma find_append_option: "List.find P (xs @ ys) = (case List.find P xs of None \<Rightarrow> List.find P ys | Some x \<Rightarrow> Some x)"
  by (induction xs) auto

lemma user_value_Cons:
  "user_value (ev # evs) name =
     (case user_value evs name of Some v \<Rightarrow> Some v | None \<Rightarrow> if ev_Name ev = name then Some ev else None)"
  by (simp add: user_value_def find_append_option split: option.splits)

lemma split_env_spec:
  "split_env reserved evs vals rem =
     ((\<lambda>name. if name \<in> set reserved then (case user_value evs name of Some v \<Rightarrow> Some v | None \<Rightarrow> vals name)
              else vals name),
      rem @ filter (\<lambda>ev. ev_Name ev \<notin> set reserved) evs)"
proof (induction evs arbitrary: vals rem)
  case Nil
  then show ?case by (auto simp: user_value_def)
next
  case (Cons ev evs)
  then show ?case by (auto simp: user_value_Cons fun_eq_iff split: option.splits)
qed

lemma user_value_name: "user_value evs name = Some ev \<Longrightarrow> ev_Name ev = name"
  by (auto simp: user_value_def find_Some_iff)

lemma reserved_default_name: "(name, d) \<in> set (reserved_vars oa cid) \<Longrightarrow> ev_Name d = name"
  by (auto simp: reserved_vars_def env_value_def env_from_def Let_def split: if_splits)

lemma reserved_names:
  "map fst (reserved_vars oa cid) =
     [''DT_K8S_NODE_NAME'', ''DT_K8S_CLUSTER_ID''] @
     (if sp_WebhookInjection (cr_Spec oa) then [''ONEAGENT_DISABLE_CONTAINER_INJECTION''] else []) @
     (if \<not> st_UseImmutableImage (cr_Status oa)
      then [''ONEAGENT_INSTALLER_TOKEN'', ''ONEAGENT_INSTALLER_SCRIPT_URL'', ''ONEAGENT_INSTALLER_SKIP_CERT_CHECK'']
      else []) @
     (if has_proxy oa then [''https_proxy''] else [])"
  by (simp add: reserved_vars_def env_value_def env_from_def Let_def)

lemma distinct_reserved: "distinct (map fst (reserved_vars oa cid))"
  unfolding reserved_names
  by (cases "sp_WebhookInjection (cr_Spec oa)"; cases "st_UseImmutableImage (cr_Status oa)"; cases "has_proxy oa")
    simp_all

definition reserved_entry :: "OneAgent \<Rightarrow> reservedEnvVar \<Rightarrow> EnvVar" where
  "reserved_entry oa r = (case user_value (sp_Env (cr_Spec oa)) (fst r) of Some ev \<Rightarrow> ev | None \<Rightarrow> snd r)"

lemma prepareEnvVars_eq:
  "prepareEnvVars oa cid = map (reserved_entry oa) (reserved_vars oa cid) @
     filter (\<lambda>ev. ev_Name ev \<notin> fst ` set (reserved_vars oa cid)) (sp_Env (cr_Spec oa))"
  by (auto simp: prepareEnvVars_def split_env_spec reserved_entry_def Let_def split_def split: option.splits)

section \<open>Properties\<close>

text \<open>The environment of the agent's container starts with the reserved variables, each exactly
  once, with the last value that the user gave it or else its default; the user's other
  variables follow unchanged and in order.\<close>

theorem environment_of_the_container:
  "prepareEnvVars oa cid = map (reserved_entry oa) (reserved_vars oa cid) @
     filter (\<lambda>ev. ev_Name ev \<notin> fst ` set (reserved_vars oa cid)) (sp_Env (cr_Spec oa)) \<and>
   distinct (map ev_Name (map (reserved_entry oa) (reserved_vars oa cid))) \<and>
   map ev_Name (map (reserved_entry oa) (reserved_vars oa cid)) = map fst (reserved_vars oa cid)"
proof -
  have n: "map ev_Name (map (reserved_entry oa) (reserved_vars oa cid)) = map fst (reserved_vars oa cid)"
    using reserved_default_name by (force simp: reserved_entry_def dest: user_value_name split: option.splits)
  show ?thesis unfolding n using prepareEnvVars_eq distinct_reserved by blast
qed

section \<open>What the builder writes into the resource\<close>

text \<open>The resource after a DaemonSet was built for it: its own map of requests, when it has one, has a CPU request.\<close>

definition with_cpu_request :: "OneAgent \<Rightarrow> OneAgent" where
  "with_cpu_request oa =
     (case rr_Requests (sp_Resources (cr_Spec oa)) of
        None \<Rightarrow> oa
      | Some m \<Rightarrow> oa\<lparr>cr_Spec := (cr_Spec oa)\<lparr>sp_Resources := (sp_Resources (cr_Spec oa))
          \<lparr>rr_Requests := Some ([''cpu'' \<mapsto> ''100m''] ++ m)\<rparr>\<rparr>\<rparr>)"

lemma default_cpu: "[''cpu'' \<mapsto> v] ++ m = (if m ''cpu'' = None then m(''cpu'' \<mapsto> v) else m)"
  by (auto simp: map_add_def fun_eq_iff split: option.splits)

lemma pod_resources_snd [simp]: "snd (pod_resources oa) = with_cpu_request oa"
  by (cases oa; cases "cr_Spec oa"; cases "sp_Resources (cr_Spec oa)")
    (auto simp: pod_resources_def with_cpu_request_def default_cpu Let_def split: option.splits)

lemma with_cpu_request_sel [simp]:
  "cr_Name (with_cpu_request oa) = cr_Name oa" "cr_Namespace (with_cpu_request oa) = cr_Namespace oa"
  "cr_Status (with_cpu_request oa) = cr_Status oa"
  by (simp_all add: with_cpu_request_def split: option.splits)

lemma with_cpu_request_spec [simp]:
  "sp_APIURL (cr_Spec (with_cpu_request oa)) = sp_APIURL (cr_Spec oa)"
  "sp_Tokens (cr_Spec (with_cpu_request oa)) = sp_Tokens (cr_Spec oa)"
  "sp_SkipCertCheck (cr_Spec (with_cpu_request oa)) = sp_SkipCertCheck (cr_Spec oa)"
  "sp_EnableIstio (cr_Spec (with_cpu_request oa)) = sp_EnableIstio (cr_Spec oa)"
  "sp_Proxy (cr_Spec (with_cpu_request oa)) = sp_Proxy (cr_Spec oa)"
  "sp_TrustedCAs (cr_Spec (with_cpu_request oa)) = sp_TrustedCAs (cr_Spec oa)"
  "sp_NetworkZone (cr_Spec (with_cpu_request oa)) = sp_NetworkZone (cr_Spec oa)"
  "sp_UseImmutableImage (cr_Spec (with_cpu_request oa)) = sp_UseImmutableImage (cr_Spec oa)"
  "sp_NodeSelector (cr_Spec (with_cpu_request oa)) = sp_NodeSelector (cr_Spec oa)"
  "sp_Tolerations (cr_Spec (with_cpu_request oa)) = sp_Tolerations (cr_Spec oa)"
  "sp_WaitReadySeconds (cr_Spec (with_cpu_request oa)) = sp_WaitReadySeconds (cr_Spec oa)"
  "sp_Image (cr_Spec (with_cpu_request oa)) = sp_Image (cr_Spec oa)"
  "sp_AgentVersion (cr_Spec (with_cpu_request oa)) = sp_AgentVersion (cr_Spec oa)"
  "sp_CustomPullSecret (cr_Spec (with_cpu_request oa)) = sp_CustomPullSecret (cr_Spec oa)"
  "sp_WebhookInjection (cr_Spec (with_cpu_request oa)) = sp_WebhookInjection (cr_Spec oa)"
  "sp_Args (cr_Spec (with_cpu_request oa)) = sp_Args (cr_Spec oa)"
  "sp_Env (cr_Spec (with_cpu_request oa)) = sp_Env (cr_Spec oa)"
  "sp_PriorityClassName (cr_Spec (with_cpu_request oa)) = sp_PriorityClassName (cr_Spec oa)"
  "sp_DisableAgentUpdate (cr_Spec (with_cpu_request oa)) = sp_DisableAgentUpdate (cr_Spec oa)"
  "sp_DNSPolicy (cr_Spec (with_cpu_request oa)) = sp_DNSPolicy (cr_Spec oa)"
  "sp_ServiceAccountName (cr_Spec (with_cpu_request oa)) = sp_ServiceAccountName (cr_Spec oa)"
  "sp_Labels (cr_Spec (with_cpu_request oa)) = sp_Labels (cr_Spec oa)"
  "sp_UseUnprivilegedMode (cr_Spec (with_cpu_request oa)) = sp_UseUnprivilegedMode (cr_Spec oa)"
  by (simp_all add: with_cpu_request_def split: option.splits)

lemma with_cpu_request_idem [simp]: "with_cpu_request (with_cpu_request oa) = with_cpu_request oa"
  by (auto simp: with_cpu_request_def split: option.splits)

lemma with_cpu_request_status [simp]:
  "with_cpu_request (oa\<lparr>cr_Status := s\<rparr>) = (with_cpu_request oa)\<lparr>cr_Status := s\<rparr>"
  by (simp add: with_cpu_request_def split: option.splits)

lemma pod_resources_again [simp]: "fst (pod_resources (with_cpu_request oa)) = fst (pod_resources oa)"
  by (auto simp: pod_resources_def with_cpu_request_def default_cpu Let_def split: option.splits)

text \<open>The container's requests: those of the resource and a CPU request of 100m where it has none.\<close>

lemma pod_resources_fst:
  "fst (pod_resources oa) = (sp_Resources (cr_Spec oa))\<lparr>rr_Requests :=
     Some ([''cpu'' \<mapsto> ''100m''] ++ (case rr_Requests (sp_Resources (cr_Spec oa)) of None \<Rightarrow> Map.empty | Some m \<Rightarrow> m))\<rparr>"
  by (cases "sp_Resources (cr_Spec oa)") (auto simp: pod_resources_def default_cpu Let_def split: option.splits)

lemma pod_resources_pair: "pod_resources oa = (fst (pod_resources oa), with_cpu_request oa)"
  by (metis pod_resources_snd prod.collapse)

lemma newPodSpecForCR_snd [simp]: "snd (newPodSpecForCR env v oa cid b) = with_cpu_request oa"
  by (simp add: newPodSpecForCR_def Let_def split_beta)

lemma unhashed_daemonset_snd [simp]: "snd (unhashed_daemonset env v oa cid) = with_cpu_request oa"
  by (simp add: unhashed_daemonset_def Let_def split_beta)

lemma newDaemonSetForCR_snd [simp]: "snd (newDaemonSetForCR marshal env v oa cid) = with_cpu_request oa"
  by (simp add: newDaemonSetForCR_def Let_def split_beta split: sum.splits)

text \<open>A resource that has requests but none for the CPU is changed by building its DaemonSet.\<close>

lemma builder_writes_cpu_request:
  assumes "rr_Requests (sp_Resources (cr_Spec oa)) = Some m" and "m ''cpu'' = None"
  shows "rr_Requests (sp_Resources (cr_Spec (snd (newDaemonSetForCR marshal env v oa cid)))) = Some (m(''cpu'' \<mapsto> ''100m''))"
  using assms by (simp add: with_cpu_request_def default_cpu)

section \<open>The DaemonSet\<close>

text \<open>The DaemonSet's selector always matches its own pods, whatever labels the user adds: the
  template has every label of the selector, and these are the labels by which the operator
  lists the pods.\<close>

theorem selector_matches_template:
  assumes "fst (newDaemonSetForCR marshal env version oa cid) = Inr ds"
  shows "ds_Selector ds \<subseteq>\<^sub>m ds_TemplateLabels ds \<and> ds_Selector ds = buildLabels (cr_Name oa) \<and>
    ds_Name ds = cr_Name oa \<and> ds_Namespace ds = cr_Namespace oa"
  using assms
  by (auto simp: newDaemonSetForCR_def unhashed_daemonset_def Let_def split_beta mergeLabels_def map_le_add_right split: sum.splits)

theorem selector_matches_template_witness:
  "\<exists>ds. fst (newDaemonSetForCR (\<lambda>d. Inr (ds_Name d)) (\<lambda>_. []) ''v1'' (empty_oneagent ''oneagent'' ''dynatrace'') ''id'') = Inr ds \<and>
     ds_Selector ds \<subseteq>\<^sub>m ds_TemplateLabels ds"
proof -
  obtain ds where ds: "fst (newDaemonSetForCR (\<lambda>d. Inr (ds_Name d)) (\<lambda>_. []) ''v1'' (empty_oneagent ''oneagent'' ''dynatrace'') ''id'') = Inr ds"
    by (simp add: newDaemonSetForCR_def generateDaemonSetHash_def split_beta)
  with selector_matches_template [OF this] show ?thesis by blast
qed

text \<open>Which image the agent's container runs: the image of the spec when there is one; else the
  environment's registry for immutable images; else the public image, Red Hat's on OpenShift.
  An immutable image always comes with a pull secret, the other one never.\<close>

theorem image_of_the_container:
  assumes "fst (newDaemonSetForCR marshal env version oa cid) = Inr ds"
  shows "map ctr_Image (ps_Containers (ds_TemplateSpec ds)) =
      [if sp_Image (cr_Spec oa) \<noteq> [] then sp_Image (cr_Spec oa)
       else if st_UseImmutableImage (cr_Status oa)
       then BuildOneAgentImage (sp_APIURL (cr_Spec oa)) (sp_AgentVersion (cr_Spec oa))
       else if env ''DEPLOYED_ON_OPENSHIFT'' = ''true'' then oneagentRedhatImage else oneagentDockerImage] \<and>
    ps_ImagePullSecrets (ds_TemplateSpec ds) =
      (if st_UseImmutableImage (cr_Status oa) then [pull_secret_name oa] else [])"
  using assms
  by (auto simp: newDaemonSetForCR_def unhashed_daemonset_def newPodSpecForCR_def preparePodSpecImmutableImage_def
      preparePodSpecInstaller_def IsDeployedOnOpenshift_def set_image_def Let_def split_beta pull_secret_name_def
      split: sum.splits)

theorem image_of_the_container_witness:
  "\<exists>ds. fst (newDaemonSetForCR (\<lambda>d. Inr (ds_Name d)) (\<lambda>_. ''true'') ''v1'' (empty_oneagent ''oneagent'' ''dynatrace'') ''id'') = Inr ds \<and>
     map ctr_Image (ps_Containers (ds_TemplateSpec ds)) = [oneagentRedhatImage]"
proof -
  obtain ds where ds: "fst (newDaemonSetForCR (\<lambda>d. Inr (ds_Name d)) (\<lambda>_. ''true'') ''v1'' (empty_oneagent ''oneagent'' ''dynatrace'') ''id'') = Inr ds"
    by (simp add: newDaemonSetForCR_def generateDaemonSetHash_def split_beta)
  with image_of_the_container [OF this] show ?thesis by (simp add: empty_resources)
qed

text \<open>Of the status, the pod specification reads only the switch to immutable images.\<close>

lemma newPodSpecForCR_cong:
  assumes "cr_Spec oa' = cr_Spec oa" "cr_Name oa' = cr_Name oa" "cr_Namespace oa' = cr_Namespace oa"
    and "st_UseImmutableImage (cr_Status oa') = st_UseImmutableImage (cr_Status oa)"
  shows "fst (newPodSpecForCR env v oa' cid b) = fst (newPodSpecForCR env v oa cid b)"
proof -
  have res: "fst (pod_resources oa') = fst (pod_resources oa)" and
    spec: "cr_Spec (with_cpu_request oa') = cr_Spec (with_cpu_request oa)"
    using assms(1) by (simp_all add: pod_resources_fst with_cpu_request_def split: option.splits)
  have name: "cr_Name (with_cpu_request oa') = cr_Name (with_cpu_request oa)"
    "cr_Namespace (with_cpu_request oa') = cr_Namespace (with_cpu_request oa)"
    "st_UseImmutableImage (cr_Status (with_cpu_request oa')) = st_UseImmutableImage (cr_Status (with_cpu_request oa))"
    using assms by simp_all
  let ?a = "with_cpu_request oa'" let ?b = "with_cpu_request oa"
  have env: "prepareEnvVars ?a cid = prepareEnvVars ?b cid"
    by (simp only: prepareEnvVars_def reserved_vars_def has_proxy_def GetTokensName_def spec name)
  have vol: "prepareVolumes ?a = prepareVolumes ?b" "prepareVolumeMounts ?a = prepareVolumeMounts ?b"
    by (simp_all only: prepareVolumes_def prepareVolumeMounts_def spec)
  have parts: "service_account oa' b = service_account oa b" "pod_args ?a v = pod_args ?b v" for b
    by (simp_all only: service_account_def pod_args_def has_proxy_def spec assms(1))
  have img: "preparePodSpecInstaller env ?a p = preparePodSpecInstaller env ?b p"
    "preparePodSpecImmutableImage ?a p = preparePodSpecImmutableImage ?b p" for p
    by (simp_all only: preparePodSpecInstaller_def preparePodSpecImmutableImage_def pull_secret_name_def spec name)
  obtain r where r: "pod_resources oa = (r, ?b)" by (metis pod_resources_pair)
  with res have r': "pod_resources oa' = (r, ?a)" by (metis fst_conv pod_resources_pair)
  show ?thesis
    by (simp only: newPodSpecForCR_def r r' Let_def prod.case fst_conv env vol parts img spec name)
qed

lemma unhashed_daemonset_cong:
  assumes "cr_Spec oa' = cr_Spec oa" "cr_Name oa' = cr_Name oa" "cr_Namespace oa' = cr_Namespace oa"
    and "st_UseImmutableImage (cr_Status oa') = st_UseImmutableImage (cr_Status oa)"
    and "st_ImageVersion (cr_Status oa') = st_ImageVersion (cr_Status oa)"
  shows "fst (unhashed_daemonset env v oa' cid) = fst (unhashed_daemonset env v oa cid)"
  using assms by (simp add: unhashed_daemonset_def Let_def split_beta newPodSpecForCR_cong [OF assms(1-4)])

text \<open>The write does not show in the next DaemonSet: it is the one of the resource before the write.\<close>

lemma newPodSpecForCR_again [simp]:
  "fst (newPodSpecForCR env v (with_cpu_request oa) cid b) = fst (newPodSpecForCR env v oa cid b)"
proof -
  have "service_account (with_cpu_request oa) b = service_account oa b" by (simp add: service_account_def)
  moreover obtain r where r: "pod_resources oa = (r, with_cpu_request oa)" by (metis pod_resources_pair)
  moreover have "pod_resources (with_cpu_request oa) = (r, with_cpu_request oa)"
    using r by (metis fst_conv pod_resources_again pod_resources_pair with_cpu_request_idem)
  ultimately show ?thesis
    by (simp only: newPodSpecForCR_def Let_def prod.case fst_conv)
qed

lemma unhashed_daemonset_again [simp]:
  "fst (unhashed_daemonset env v (with_cpu_request oa) cid) = fst (unhashed_daemonset env v oa cid)"
  by (simp add: unhashed_daemonset_def Let_def split_beta)

text \<open>In unprivileged mode a new image version is not rolled out: the annotation that carries it
  is overwritten, so the wanted DaemonSet and its hash do not depend on the version.\<close>

theorem unprivileged_ignores_image_version:
  assumes "sp_UseUnprivilegedMode (cr_Spec oa) = Some True"
  shows "fst (newDaemonSetForCR marshal env version (update_status (\<lambda>s. s\<lparr>st_ImageVersion := v\<rparr>) oa) cid) =
    fst (newDaemonSetForCR marshal env version oa cid)"
proof -
  have "fst (newPodSpecForCR env version (update_status (\<lambda>s. s\<lparr>st_ImageVersion := v\<rparr>) oa) cid True) =
      fst (newPodSpecForCR env version oa cid True)" by (rule newPodSpecForCR_cong) simp_all
  then show ?thesis using assms
    by (simp add: newDaemonSetForCR_def unhashed_daemonset_def Let_def split_beta split: sum.splits)
qed

theorem unprivileged_ignores_image_version_witness:
  "fst (newDaemonSetForCR (\<lambda>d. Inr (ds_Name d)) (\<lambda>_. []) ''v1''
     ((empty_oneagent ''o'' ''n'')\<lparr>cr_Spec := empty_spec\<lparr>sp_UseUnprivilegedMode := Some True\<rparr>,
        cr_Status := empty_status\<lparr>st_ImageVersion := ''1.2''\<rparr>\<rparr>) ''id'') =
   fst (newDaemonSetForCR (\<lambda>d. Inr (ds_Name d)) (\<lambda>_. []) ''v1''
     ((empty_oneagent ''o'' ''n'')\<lparr>cr_Spec := empty_spec\<lparr>sp_UseUnprivilegedMode := Some True\<rparr>\<rparr>) ''id'')"
proof -
  let ?oa = "(empty_oneagent ''o'' ''n'')\<lparr>cr_Spec := empty_spec\<lparr>sp_UseUnprivilegedMode := Some True\<rparr>\<rparr>"
  have "sp_UseUnprivilegedMode (cr_Spec ?oa) = Some True" by simp
  from unprivileged_ignores_image_version [OF this, of "\<lambda>d. Inr (ds_Name d)" "\<lambda>_. []" "''v1''" "''1.2''" "''id''"]
  show ?thesis by (simp add: empty_oneagent_def)
qed

end
