(* ===== verification/Istio.thy ===== *)
theory Istio
  imports Kube
begin

text \<open>
  The Istio controller (controllers/istio): for every communication endpoint it keeps a
  ServiceEntry and, for host names, a VirtualService, named by a hash of the endpoint and
  labelled by the resource and the role; objects of endpoints that are gone are removed.
  The Istio client, the discovery client, \<open>net.ParseIP\<close> and the hash are the record \<open>C\<close>.
\<close>

section \<open>Objects\<close>

record istio_port =
  ip_Name :: string
  ip_Number :: "32 word"
  ip_Protocol :: string

datatype resolution = ResolutionNONE | ResolutionDNS

record ServiceEntry =
  se_Name :: string
  se_Namespace :: string
  se_Labels :: "string \<rightharpoonup> string"
  se_Owner :: "string option"
  se_Hosts :: "string list"
  se_Addresses :: "string list"
  se_Ports :: "istio_port list"
  se_MeshExternal :: bool
  se_Resolution :: resolution

text \<open>A route: the SNI hosts to match (none for HTTP), the port, and the destination.\<close>

record istio_route =
  ir_SniHosts :: "string list"
  ir_MatchPort :: "32 word"
  ir_DestHost :: string
  ir_DestPort :: "32 word"

record VirtualService =
  vs_Name :: string
  vs_Namespace :: string
  vs_Labels :: "string \<rightharpoonup> string"
  vs_Owner :: "string option"
  vs_Hosts :: "string list"
  vs_Tls :: "istio_route list"
  vs_Http :: "istio_route list"

section \<open>The clients\<close>

datatype istio_kind = KindServiceEntry | KindVirtualService

text \<open>
  \<open>ic_Query\<close> is the untyped client of \<open>kubernetesObjectProbe\<close>: a List for the empty name, else
  a Get.  Objects that are listed are their names.
\<close>

record 'w istio_client =
  ic_ServerGroups :: "'w \<Rightarrow> (go_error + string list) \<times> 'w"
  ic_NewClient :: "'w \<Rightarrow> go_error option \<times> 'w"
  ic_Query :: "istio_kind \<Rightarrow> string \<Rightarrow> string \<Rightarrow> 'w \<Rightarrow> go_error option \<times> 'w"
  ic_List :: "istio_kind \<Rightarrow> string \<Rightarrow> (string \<rightharpoonup> string) \<Rightarrow> 'w \<Rightarrow> (go_error + string list) \<times> 'w"
  ic_Delete :: "istio_kind \<Rightarrow> string \<Rightarrow> string \<Rightarrow> 'w \<Rightarrow> go_error option \<times> 'w"
  ic_OwnServiceEntry :: "string \<Rightarrow> ServiceEntry \<Rightarrow> go_error + ServiceEntry"
  ic_OwnVirtualService :: "string \<Rightarrow> VirtualService \<Rightarrow> go_error + VirtualService"
  ic_CreateServiceEntry :: "string \<Rightarrow> ServiceEntry \<Rightarrow> 'w \<Rightarrow> (go_error + ServiceEntry option) \<times> 'w"
  ic_CreateVirtualService :: "string \<Rightarrow> VirtualService \<Rightarrow> 'w \<Rightarrow> (go_error + VirtualService option) \<times> 'w"
  ic_IsIP :: "string \<Rightarrow> bool"
  ic_Sha256Hex :: "string \<Rightarrow> string"
  ic_Getenv :: "string \<Rightarrow> string"

section \<open>helper.go\<close>

definition istioGVRName :: string where "istioGVRName = ''networking.istio.io''"

definition CheckIstioEnabled :: "'w istio_client \<Rightarrow> 'w \<Rightarrow> (go_error + bool) \<times> 'w" where
  "CheckIstioEnabled C w =
     (case ic_ServerGroups C w of
        (Inl e, w1) \<Rightarrow> (Inl e, w1)
      | (Inr groups, w1) \<Rightarrow> (Inr (list_ex (\<lambda>g. g = istioGVRName) groups), w1))"

definition endpoint_text :: "string \<Rightarrow> string \<Rightarrow> string \<Rightarrow> 32 word \<Rightarrow> string" where
  "endpoint_text name protocol host port = name @ ''-'' @ protocol @ ''-'' @ host @ ''-'' @ Itoa (uint port)"

definition buildNameForEndpoint :: "'w istio_client \<Rightarrow> string \<Rightarrow> string \<Rightarrow> string \<Rightarrow> 32 word \<Rightarrow> string" where
  "buildNameForEndpoint C name protocol host port = ic_Sha256Hex C (endpoint_text name protocol host port)"

definition buildIstioLabels :: "string \<Rightarrow> string \<Rightarrow> (string \<rightharpoonup> string)" where
  "buildIstioLabels name role =
     [''dynatrace'' \<mapsto> ''oneagent'', ''oneagent'' \<mapsto> name, ''dynatrace-istio-role'' \<mapsto> role]"

text \<open>\<open>buildObjectMeta\<close> takes the namespace from the environment.\<close>

definition buildObjectMeta :: "'w istio_client \<Rightarrow> string \<Rightarrow> string \<times> string" where
  "buildObjectMeta C name = (name, ic_Getenv C ''POD_NAMESPACE'')"

definition buildServiceEntryFQDN :: "'w istio_client \<Rightarrow> string \<Rightarrow> string \<Rightarrow> string \<Rightarrow> 32 word \<Rightarrow> ServiceEntry" where
  "buildServiceEntryFQDN C name host protocol port =
     \<lparr>se_Name = fst (buildObjectMeta C name), se_Namespace = snd (buildObjectMeta C name),
      se_Labels = Map.empty, se_Owner = None, se_Hosts = [host], se_Addresses = [],
      se_Ports = [\<lparr>ip_Name = protocol @ ''-'' @ Itoa (uint port), ip_Number = port, ip_Protocol = ToUpper protocol\<rparr>],
      se_MeshExternal = True, se_Resolution = ResolutionDNS\<rparr>"

definition buildServiceEntryIP :: "'w istio_client \<Rightarrow> string \<Rightarrow> string \<Rightarrow> 32 word \<Rightarrow> ServiceEntry" where
  "buildServiceEntryIP C name host port =
     \<lparr>se_Name = fst (buildObjectMeta C name), se_Namespace = snd (buildObjectMeta C name),
      se_Labels = Map.empty, se_Owner = None, se_Hosts = [''ignored.subdomain''], se_Addresses = [host @ ''/32''],
      se_Ports = [\<lparr>ip_Name = ''TCP-'' @ Itoa (uint port), ip_Number = port, ip_Protocol = ''TCP''\<rparr>],
      se_MeshExternal = True, se_Resolution = ResolutionNONE\<rparr>"

definition buildServiceEntry :: "'w istio_client \<Rightarrow> string \<Rightarrow> string \<Rightarrow> string \<Rightarrow> 32 word \<Rightarrow> ServiceEntry" where
  "buildServiceEntry C name host protocol port =
     (if ic_IsIP C host then buildServiceEntryIP C name host port
      else buildServiceEntryFQDN C name host protocol port)"

definition buildVirtualServiceTLSRoute :: "string \<Rightarrow> 32 word \<Rightarrow> istio_route list" where
  "buildVirtualServiceTLSRoute host port =
     [\<lparr>ir_SniHosts = [host], ir_MatchPort = port, ir_DestHost = host, ir_DestPort = port\<rparr>]"

definition buildVirtualServiceHttpRoute :: "32 word \<Rightarrow> string \<Rightarrow> istio_route list" where
  "buildVirtualServiceHttpRoute port host =
     [\<lparr>ir_SniHosts = [], ir_MatchPort = port, ir_DestHost = host, ir_DestPort = port\<rparr>]"

text \<open>\<open>buildVirtualServiceSpec\<close>: the TLS and the HTTP routes.\<close>

definition buildVirtualServiceSpec :: "string \<Rightarrow> string \<Rightarrow> 32 word \<Rightarrow> istio_route list \<times> istio_route list" where
  "buildVirtualServiceSpec host protocol port =
     (if protocol = ''https'' then (buildVirtualServiceTLSRoute host port, [])
      else if protocol = ''http'' then ([], buildVirtualServiceHttpRoute port host)
      else ([], []))"

definition buildVirtualService ::
  "'w istio_client \<Rightarrow> string \<Rightarrow> string \<Rightarrow> string \<Rightarrow> 32 word \<Rightarrow> VirtualService option" where
  "buildVirtualService C name host protocol port =
     (if ic_IsIP C host then None
      else Some \<lparr>vs_Name = fst (buildObjectMeta C name), vs_Namespace = snd (buildObjectMeta C name),
                 vs_Labels = Map.empty, vs_Owner = None, vs_Hosts = [host],
                 vs_Tls = fst (buildVirtualServiceSpec host protocol port),
                 vs_Http = snd (buildVirtualServiceSpec host protocol port)\<rparr>)"

datatype probeResult = probeObjectFound | probeObjectNotFound | probeTypeFound | probeTypeNotFound | probeUnknown

fun IsNoMatchError :: "go_error \<Rightarrow> bool" where
  "IsNoMatchError KubeNoMatch = True"
| "IsNoMatchError _ = False"

definition mapErrorToObjectProbeResult :: "go_error option \<Rightarrow> probeResult \<times> go_error option" where
  "mapErrorToObjectProbeResult err =
     (case err of
        None \<Rightarrow> (probeObjectFound, None)
      | Some e \<Rightarrow> (if IsNotFound e then probeObjectNotFound
                   else if IsNoMatchError e then probeTypeNotFound else probeUnknown, Some e))"

section \<open>controller.go\<close>

definition kubernetesObjectProbe ::
  "'w istio_client \<Rightarrow> istio_kind \<Rightarrow> string \<Rightarrow> string \<Rightarrow> 'w \<Rightarrow> (probeResult \<times> go_error option) \<times> 'w" where
  "kubernetesObjectProbe C gvk namespace name w =
     (case ic_NewClient C w of
        (Some e, w1) \<Rightarrow> ((probeUnknown, Some e), w1)
      | (None, w1) \<Rightarrow> (let (err, w2) = ic_Query C gvk namespace name w1 in (mapErrorToObjectProbeResult err, w2)))"

definition verifyIstioCrdAvailability :: "'w istio_client \<Rightarrow> string \<Rightarrow> 'w \<Rightarrow> probeResult \<times> 'w" where
  "verifyIstioCrdAvailability C namespace w =
     (let ((probe1, _), w1) = kubernetesObjectProbe C KindServiceEntry namespace [] w
      in if probe1 = probeTypeNotFound then (probe1, w1)
         else let ((probe2, _), w2) = kubernetesObjectProbe C KindVirtualService namespace [] w1
              in if probe2 = probeTypeNotFound then (probe2, w2) else (probeTypeFound, w2))"

definition createIstioConfigurationForServiceEntry ::
  "'w istio_client \<Rightarrow> ('a, 'b) BaseOneAgent \<Rightarrow> ServiceEntry \<Rightarrow> string \<Rightarrow> 'w \<Rightarrow> go_error option \<times> 'w" where
  "createIstioConfigurationForServiceEntry C oneagent serviceEntry role w =
     (case ic_OwnServiceEntry C (cr_Name oneagent)
             (serviceEntry\<lparr>se_Labels := buildIstioLabels (cr_Name oneagent) role\<rparr>) of
        Inl e \<Rightarrow> (Some e, w)
      | Inr owned \<Rightarrow>
          (case ic_CreateServiceEntry C (cr_Namespace oneagent) owned w of
             (Inl e, w1) \<Rightarrow> (Some e, w1)
           | (Inr None, w1) \<Rightarrow> (Some (ErrMsg ''could not create service entry''), w1)
           | (Inr (Some _), w1) \<Rightarrow> (None, w1)))"

definition createIstioConfigurationForVirtualService ::
  "'w istio_client \<Rightarrow> ('a, 'b) BaseOneAgent \<Rightarrow> VirtualService \<Rightarrow> string \<Rightarrow> 'w \<Rightarrow> go_error option \<times> 'w" where
  "createIstioConfigurationForVirtualService C oneagent virtualService role w =
     (case ic_OwnVirtualService C (cr_Name oneagent)
             (virtualService\<lparr>vs_Labels := buildIstioLabels (cr_Name oneagent) role\<rparr>) of
        Inl e \<Rightarrow> (Some e, w)
      | Inr owned \<Rightarrow>
          (case ic_CreateVirtualService C (cr_Namespace oneagent) owned w of
             (Inl e, w1) \<Rightarrow> (Some e, w1)
           | (Inr None, w1) \<Rightarrow> (Some (ErrMsg ''could not create virtual service''), w1)
           | (Inr (Some _), w1) \<Rightarrow> (None, w1)))"

text \<open>A probe with an unknown result returns its error, which is not nil.\<close>

definition handleIstioConfigurationForServiceEntry ::
  "'w istio_client \<Rightarrow> ('a, 'b) BaseOneAgent \<Rightarrow> string \<Rightarrow> CommunicationHost \<Rightarrow> string \<Rightarrow> 'w
     \<Rightarrow> bool \<times> go_error option \<times> 'w" where
  "handleIstioConfigurationForServiceEntry C instance name ch role w =
     (let ((probe, err), w1) = kubernetesObjectProbe C KindServiceEntry (cr_Namespace instance) name w
      in if probe = probeObjectFound then (False, None, w1)
         else if probe = probeUnknown then (False, err, w1)
         else case createIstioConfigurationForServiceEntry C instance
                     (buildServiceEntry C name (ch_Host ch) (ch_Protocol ch) (ch_Port ch)) role w1 of
                (Some e, w2) \<Rightarrow> (False, Some e, w2)
              | (None, w2) \<Rightarrow> (True, None, w2))"

definition handleIstioConfigurationForVirtualService ::
  "'w istio_client \<Rightarrow> ('a, 'b) BaseOneAgent \<Rightarrow> string \<Rightarrow> CommunicationHost \<Rightarrow> string \<Rightarrow> 'w
     \<Rightarrow> bool \<times> go_error option \<times> 'w" where
  "handleIstioConfigurationForVirtualService C instance name ch role w =
     (let ((probe, err), w1) = kubernetesObjectProbe C KindVirtualService (cr_Namespace instance) name w
      in if probe = probeObjectFound then (False, None, w1)
         else if probe = probeUnknown then (False, err, w1)
         else case buildVirtualService C name (ch_Host ch) (ch_Protocol ch) (ch_Port ch) of
                None \<Rightarrow> (False, None, w1)
              | Some virtualService \<Rightarrow>
                  (case createIstioConfigurationForVirtualService C instance virtualService role w1 of
                     (Some e, w2) \<Rightarrow> (False, Some e, w2)
                   | (None, w2) \<Rightarrow> (True, None, w2)))"

text \<open>The loop of \<open>reconcileIstioCreateConfigurations\<close>.\<close>

fun create_configurations ::
  "'w istio_client \<Rightarrow> ('a, 'b) BaseOneAgent \<Rightarrow> CommunicationHost list \<Rightarrow> string \<Rightarrow> bool \<Rightarrow> 'w
     \<Rightarrow> (go_error + bool) \<times> 'w" where
  "create_configurations C instance [] role upd w = (Inr upd, w)"
| "create_configurations C instance (ch # chs) role upd w =
     (let name = buildNameForEndpoint C (cr_Name instance) (ch_Protocol ch) (ch_Host ch) (ch_Port ch)
      in case handleIstioConfigurationForServiceEntry C instance name ch role w of
           (_, Some e, w1) \<Rightarrow> (Inl e, w1)
         | (createdSE, None, w1) \<Rightarrow>
             (case handleIstioConfigurationForVirtualService C instance name ch role w1 of
                (_, Some e, w2) \<Rightarrow> (Inl e, w2)
              | (createdVS, None, w2) \<Rightarrow>
                  create_configurations C instance chs role (upd \<or> createdSE \<or> createdVS) w2))"

definition reconcileIstioCreateConfigurations ::
  "'w istio_client \<Rightarrow> ('a, 'b) BaseOneAgent \<Rightarrow> CommunicationHost list \<Rightarrow> string \<Rightarrow> 'w \<Rightarrow> (go_error + bool) \<times> 'w" where
  "reconcileIstioCreateConfigurations C instance chs role w =
     (let (crdProbe, w1) = verifyIstioCrdAvailability C (cr_Namespace instance) w
      in if crdProbe \<noteq> probeTypeFound then (Inr False, w1)
         else create_configurations C instance chs role False w1)"

text \<open>The loop over the listed objects: an error of a deletion is only logged.\<close>

fun delete_unseen ::
  "'w istio_client \<Rightarrow> istio_kind \<Rightarrow> string \<Rightarrow> string set \<Rightarrow> string list \<Rightarrow> bool \<Rightarrow> 'w \<Rightarrow> bool \<times> 'w" where
  "delete_unseen C kind namespace seen [] del w = (del, w)"
| "delete_unseen C kind namespace seen (n # ns) del w =
     (if n \<in> seen then delete_unseen C kind namespace seen ns del w
      else case ic_Delete C kind namespace n w of
             (Some _, w1) \<Rightarrow> delete_unseen C kind namespace seen ns del w1
           | (None, w1) \<Rightarrow> delete_unseen C kind namespace seen ns True w1)"

text \<open>
  \<open>removeIstioConfigurationForServiceEntry\<close> and \<open>removeIstioConfigurationForVirtualService\<close>: the
  same code for the two kinds.
\<close>

definition removeIstioConfiguration ::
  "'w istio_client \<Rightarrow> istio_kind \<Rightarrow> (string \<rightharpoonup> string) \<Rightarrow> string set \<Rightarrow> string \<Rightarrow> 'w \<Rightarrow> (go_error + bool) \<times> 'w" where
  "removeIstioConfiguration C kind labels seen namespace w =
     (case ic_List C kind namespace labels w of
        (Inl e, w1) \<Rightarrow> (Inl e, w1)
      | (Inr items, w1) \<Rightarrow>
          (let (del, w2) = delete_unseen C kind namespace seen items False w1 in (Inr del, w2)))"

definition endpoint_names :: "'w istio_client \<Rightarrow> string \<Rightarrow> CommunicationHost list \<Rightarrow> string set" where
  "endpoint_names C name chs =
     set (map (\<lambda>ch. buildNameForEndpoint C name (ch_Protocol ch) (ch_Host ch) (ch_Port ch)) chs)"

definition reconcileIstioRemoveConfigurations ::
  "'w istio_client \<Rightarrow> ('a, 'b) BaseOneAgent \<Rightarrow> CommunicationHost list \<Rightarrow> string \<Rightarrow> 'w \<Rightarrow> (go_error + bool) \<times> 'w" where
  "reconcileIstioRemoveConfigurations C instance chs role w =
     (let labels = buildIstioLabels (cr_Name instance) role;
          seen = endpoint_names C (cr_Name instance) chs
      in case removeIstioConfiguration C KindVirtualService labels seen (cr_Namespace instance) w of
           (Inl e, w1) \<Rightarrow> (Inl e, w1)
         | (Inr vsUpd, w1) \<Rightarrow>
             (case removeIstioConfiguration C KindServiceEntry labels seen (cr_Namespace instance) w1 of
                (Inl e, w2) \<Rightarrow> (Inl e, w2)
              | (Inr seUpd, w2) \<Rightarrow> (Inr (vsUpd \<or> seUpd), w2)))"

definition reconcileIstioConfigurations ::
  "'w istio_client \<Rightarrow> ('a, 'b) BaseOneAgent \<Rightarrow> CommunicationHost list \<Rightarrow> string \<Rightarrow> 'w \<Rightarrow> (go_error + bool) \<times> 'w" where
  "reconcileIstioConfigurations C instance chs role w =
     (case reconcileIstioCreateConfigurations C instance chs role w of
        (Inl e, w1) \<Rightarrow> (Inl e, w1)
      | (Inr added, w1) \<Rightarrow>
          (case reconcileIstioRemoveConfigurations C instance chs role w1 of
             (Inl e, w2) \<Rightarrow> (Inl e, w2)
           | (Inr removed, w2) \<Rightarrow> (Inr (added \<or> removed), w2)))"

definition ReconcileIstio ::
  "'w istio_client \<Rightarrow> ('a, 'b) BaseOneAgent \<Rightarrow> 'w dt_client \<Rightarrow> 'w \<Rightarrow> (go_error + bool) \<times> 'w" where
  "ReconcileIstio C instance dtc w =
     (case CheckIstioEnabled C w of
        (Inl e, w1) \<Rightarrow> (Inl (Wrapped ''istio: failed to verify Istio availability'' e), w1)
      | (Inr False, w1) \<Rightarrow> (Inr False, w1)
      | (Inr True, w1) \<Rightarrow>
     (case c_GetCommunicationHostForClient dtc w1 of
        (Inl e, w2) \<Rightarrow> (Inl (Wrapped ''istio: failed to get host for Dynatrace API URL'' e), w2)
      | (Inr apiHost, w2) \<Rightarrow>
     (case reconcileIstioConfigurations C instance [apiHost] ''api-url'' w2 of
        (Inl e, w3) \<Rightarrow> (Inl (Wrapped ''istio: error reconciling config for Dynatrace API URL'' e), w3)
      | (Inr True, w3) \<Rightarrow> (Inr True, w3)
      | (Inr False, w3) \<Rightarrow>
     (case c_GetConnectionInfo dtc w3 of
        (Inl e, w4) \<Rightarrow> (Inl (Wrapped ''istio: failed to get Dynatrace communication endpoints'' e), w4)
      | (Inr ci, w4) \<Rightarrow>
     (case reconcileIstioConfigurations C instance (ci_CommunicationHosts ci) ''communication-endpoint'' w4 of
        (Inl e, w5) \<Rightarrow> (Inl (Wrapped ''istio: error reconciling config for Dynatrace communication endpoints'' e), w5)
      | (Inr upd, w5) \<Rightarrow> (Inr upd, w5))))))"

text \<open>
  \<open>r.istioController.ReconcileIstio\<close> of the reconcilers.  None is the nil that \<open>NewController\<close>
  answers when the client cannot be made: the method dereferences its receiver at once
  (\<open>c.config\<close>), so the call panics.
\<close>

definition call_ReconcileIstio ::
  "'w istio_client option \<Rightarrow> ('a, 'b) BaseOneAgent \<Rightarrow> 'w dt_client \<Rightarrow> 'w \<Rightarrow> ((go_error + bool) \<times> 'w) run" where
  "call_ReconcileIstio controller instance dtc w =
     (case controller of None \<Rightarrow> Panics | Some C \<Rightarrow> Returns (ReconcileIstio C instance dtc w))"

section \<open>A concrete client\<close>

text \<open>Istio is not installed: the group is not among those of the server.\<close>

definition quiet_istio :: "'w istio_client" where
  "quiet_istio =
     \<lparr>ic_ServerGroups = (\<lambda>w. (Inr [], w)), ic_NewClient = (\<lambda>w. (None, w)), ic_Query = (\<lambda>k ns n w. (None, w)),
      ic_List = (\<lambda>k ns ls w. (Inr [], w)), ic_Delete = (\<lambda>k ns n w. (None, w)),
      ic_OwnServiceEntry = (\<lambda>ow se. Inr se), ic_OwnVirtualService = (\<lambda>ow vs. Inr vs),
      ic_CreateServiceEntry = (\<lambda>ns se w. (Inr (Some se), w)),
      ic_CreateVirtualService = (\<lambda>ns vs w. (Inr (Some vs), w)),
      ic_IsIP = (\<lambda>h. False), ic_Sha256Hex = (\<lambda>s. s), ic_Getenv = (\<lambda>v. [])\<rparr>"

end
