(* ===== verification/Istio_Props.thy ===== *)
theory Istio_Props
  imports Istio "HOL-Library.AList"
begin

text \<open>
  What the Istio controller achieves on a cluster that answers: after one reconciliation of a
  role its objects are those of the endpoints, and a second one changes nothing.  The laws of
  the cluster are stated on a view \<open>V\<close> of the world: the labels of the objects of a namespace,
  by kind and name.
\<close>

type_synonym istio_view = "istio_kind \<Rightarrow> string \<rightharpoonup> (string \<rightharpoonup> string)"

text \<open>
  The documented behaviour of the API server for one namespace, without other writers: a Get
  finds what is there, a List the objects with the labels, Delete removes an object, Create
  adds one that is not there and whose namespace is the request's.  The query for a kind (a List)
  may fail, but not with the answer that the kind is not installed.  Setting the owner keeps name, namespace and labels.
\<close>

definition keeps_view :: "('w \<Rightarrow> istio_view) \<Rightarrow> string \<Rightarrow> 'w istio_client \<Rightarrow> bool" where
  "keeps_view V ns C \<longleftrightarrow>
     (\<forall>w. \<exists>w'. ic_NewClient C w = (None, w') \<and> V w' = V w) \<and>
     (\<forall>k w. \<exists>e w'. ic_Query C k ns [] w = (e, w') \<and> V w' = V w \<and> \<not> (case e of None \<Rightarrow> False | Some x \<Rightarrow> IsNoMatchError x)) \<and>
     (\<forall>k n w. n \<noteq> [] \<longrightarrow>
        (\<exists>w'. ic_Query C k ns n w = (if V w k n \<noteq> None then None else Some KubeNotFound, w') \<and> V w' = V w)) \<and>
     (\<forall>k ls w. \<exists>items w'. ic_List C k ns ls w = (Inr items, w') \<and> V w' = V w \<and> distinct items \<and>
                     set items = {n. \<exists>l. V w k n = Some l \<and> ls \<subseteq>\<^sub>m l})"

definition keeps_meta :: "'w istio_client \<Rightarrow> bool" where
  "keeps_meta C \<longleftrightarrow>
     (\<forall>ow se. \<exists>se'. ic_OwnServiceEntry C ow se = Inr se' \<and> se_Name se' = se_Name se \<and>
        se_Namespace se' = se_Namespace se \<and> se_Labels se' = se_Labels se) \<and>
     (\<forall>ow vs. \<exists>vs'. ic_OwnVirtualService C ow vs = Inr vs' \<and> vs_Name vs' = vs_Name vs \<and>
        vs_Namespace vs' = vs_Namespace vs \<and> vs_Labels vs' = vs_Labels vs)"

definition writes_view :: "('w \<Rightarrow> istio_view) \<Rightarrow> string \<Rightarrow> 'w istio_client \<Rightarrow> bool" where
  "writes_view V ns C \<longleftrightarrow>
     (\<forall>k n w. V w k n \<noteq> None \<longrightarrow>
        (\<exists>w'. ic_Delete C k ns n w = (None, w') \<and> V w' = (V w)(k := (V w k)(n := None)))) \<and>
     (\<forall>se w. se_Namespace se = ns \<and> V w KindServiceEntry (se_Name se) = None \<longrightarrow>
        (\<exists>se' w'. ic_CreateServiceEntry C ns se w = (Inr (Some se'), w') \<and>
           V w' = (V w)(KindServiceEntry := (V w KindServiceEntry)(se_Name se \<mapsto> se_Labels se)))) \<and>
     (\<forall>vs w. vs_Namespace vs = ns \<and> V w KindVirtualService (vs_Name vs) = None \<longrightarrow>
        (\<exists>vs' w'. ic_CreateVirtualService C ns vs w = (Inr (Some vs'), w') \<and>
           V w' = (V w)(KindVirtualService := (V w KindVirtualService)(vs_Name vs \<mapsto> vs_Labels vs))))"

definition istio_law :: "('w \<Rightarrow> istio_view) \<Rightarrow> string \<Rightarrow> 'w istio_client \<Rightarrow> bool" where
  "istio_law V ns C \<longleftrightarrow> keeps_view V ns C \<and> keeps_meta C \<and> writes_view V ns C"

lemmas istio_law_parts = istio_law_def [THEN iffD1]
lemmas law_reads = istio_law_parts [THEN conjunct1, THEN keeps_view_def [THEN iffD1]]
lemmas law_meta = istio_law_parts [THEN conjunct2, THEN conjunct1, THEN keeps_meta_def [THEN iffD1]]
lemmas law_writes = istio_law_parts [THEN conjunct2, THEN conjunct2, THEN writes_view_def [THEN iffD1]]
lemmas law_NewClient = law_reads [THEN conjunct1, rule_format]
lemmas law_Kind = law_reads [THEN conjunct2, THEN conjunct1, rule_format]
lemmas law_Query = law_reads [THEN conjunct2, THEN conjunct2, THEN conjunct1, rule_format]
lemmas law_List = law_reads [THEN conjunct2, THEN conjunct2, THEN conjunct2, rule_format]
lemmas law_OwnServiceEntry = law_meta [THEN conjunct1, rule_format]
lemmas law_OwnVirtualService = law_meta [THEN conjunct2, rule_format]
lemmas law_Delete = law_writes [THEN conjunct1, rule_format]
lemmas law_CreateServiceEntry = law_writes [THEN conjunct2, THEN conjunct1, rule_format]
lemmas law_CreateVirtualService = law_writes [THEN conjunct2, THEN conjunct2, rule_format]

section \<open>The names of endpoints\<close>

lemma digits_no_dash: "CHR ''-'' \<notin> set (nat_digits n)"
  using nat_digits_props [of n] by (auto simp: list_all_iff is_digit_def)

lemma Itoa_word_no_dash: "CHR ''-'' \<notin> set (Itoa (uint (p :: 32 word)))"
  by (simp add: Itoa_def digits_no_dash not_less)

lemma append_sep_eq:
  "a @ c # b = a' @ c # b' \<Longrightarrow> c \<notin> set a \<Longrightarrow> c \<notin> set a' \<Longrightarrow> a = a' \<and> b = b'"
  by (induction a arbitrary: a') (case_tac a'; auto)+

lemma append_sep_eq_right:
  assumes "a @ c # b = a' @ c # b'" and "c \<notin> set b" and "c \<notin> set b'"
  shows "a = a' \<and> b = b'"
proof -
  have "rev b @ c # rev a = rev b' @ c # rev a'"
    using arg_cong [OF assms(1), of rev] by simp
  from append_sep_eq [OF this] assms(2,3) show ?thesis by simp
qed

lemma Itoa_word_inj: "Itoa (uint (p :: 32 word)) = Itoa (uint q) \<Longrightarrow> p = q"
proof -
  assume "Itoa (uint p) = Itoa (uint q)"
  then have "nat_digits (nat (uint p)) = nat_digits (nat (uint q))" by (simp add: Itoa_def not_less)
  then have "digits_val 0 (nat_digits (nat (uint p))) = digits_val 0 (nat_digits (nat (uint q)))" by simp
  then have "nat (uint p) = nat (uint q)" using nat_digits_props by simp
  then show "p = q" by (simp add: word_unat_eq_iff)
qed

lemma endpoint_text_inj:
  assumes "endpoint_text name p h port = endpoint_text name p' h' port'"
    and "CHR ''-'' \<notin> set p" and "CHR ''-'' \<notin> set p'"
  shows "p = p' \<and> h = h' \<and> port = port'"
proof -
  have e: "p @ CHR ''-'' # h @ CHR ''-'' # Itoa (uint port) = p' @ CHR ''-'' # h' @ CHR ''-'' # Itoa (uint port')"
    using assms(1) by (simp add: endpoint_text_def)
  from append_sep_eq [OF e assms(2,3)] have "p = p'"
    and r: "h @ CHR ''-'' # Itoa (uint port) = h' @ CHR ''-'' # Itoa (uint port')" by simp_all
  with append_sep_eq_right [OF r] Itoa_word_no_dash Itoa_word_inj show ?thesis by blast
qed

section \<open>Steps on the view\<close>

lemma probe_view:
  assumes "istio_law V ns C" and "n \<noteq> []"
  shows "\<exists>e w'. kubernetesObjectProbe C k ns n w =
     ((if V w k n \<noteq> None then probeObjectFound else probeObjectNotFound, e), w') \<and> V w' = V w"
proof -
  obtain w1 where n: "ic_NewClient C w = (None, w1)" "V w1 = V w"
    using law_NewClient [OF assms(1), of w] by (elim exE conjE)
  obtain w2 where q: "ic_Query C k ns n w1 = (if V w1 k n \<noteq> None then None else Some KubeNotFound, w2)" "V w2 = V w1"
    using law_Query [OF assms, of k w1] by (elim exE conjE)
  show ?thesis using n q by (simp add: kubernetesObjectProbe_def mapErrorToObjectProbeResult_def)
qed

lemma kind_view:
  assumes "istio_law V ns C"
  shows "\<exists>p e w'. kubernetesObjectProbe C k ns [] w = ((p, e), w') \<and> p \<noteq> probeTypeNotFound \<and> V w' = V w"
proof -
  obtain w1 where n: "ic_NewClient C w = (None, w1)" "V w1 = V w"
    using law_NewClient [OF assms, of w] by (elim exE conjE)
  obtain e w2 where q: "ic_Query C k ns [] w1 = (e, w2)" "V w2 = V w1"
    "\<not> (case e of None \<Rightarrow> False | Some x \<Rightarrow> IsNoMatchError x)"
    using law_Kind [OF assms, of k w1] by (elim exE conjE)
  show ?thesis using n q
    by (auto simp: kubernetesObjectProbe_def mapErrorToObjectProbeResult_def split: option.splits)
qed

lemma crd_view:
  assumes "istio_law V ns C"
  shows "\<exists>w'. verifyIstioCrdAvailability C ns w = (probeTypeFound, w') \<and> V w' = V w"
proof -
  obtain p1 e1 w1 where p1: "kubernetesObjectProbe C KindServiceEntry ns [] w = ((p1, e1), w1)"
    "p1 \<noteq> probeTypeNotFound" "V w1 = V w"
    using kind_view [OF assms, of KindServiceEntry w] by (elim exE conjE)
  obtain p2 e2 w2 where p2: "kubernetesObjectProbe C KindVirtualService ns [] w1 = ((p2, e2), w2)"
    "p2 \<noteq> probeTypeNotFound" "V w2 = V w1"
    using kind_view [OF assms, of KindVirtualService w1] by (elim exE conjE)
  show ?thesis using p1 p2 by (simp add: verifyIstioCrdAvailability_def)
qed

text \<open>Adding the objects named by \<open>S\<close> that are missing.\<close>

definition fill :: "(string \<rightharpoonup> string) \<Rightarrow> (istio_kind \<Rightarrow> string set) \<Rightarrow> istio_view \<Rightarrow> istio_view" where
  "fill ls S v = (\<lambda>k n. if v k n = None \<and> n \<in> S k then Some ls else v k n)"

lemma fill_fill: "fill ls T (fill ls S v) = fill ls (\<lambda>k. S k \<union> T k) v"
  by (intro ext) (simp add: fill_def)

lemma fill_empty [simp]: "fill ls (\<lambda>k. {}) v = v"
  by (simp add: fill_def)

lemma fill_eq_self: "fill ls S v = v \<longleftrightarrow> (\<forall>k. \<forall>n\<in>S k. v k n \<noteq> None)"
  by (auto simp: fill_def fun_eq_iff)

text \<open>The names of one endpoint, and of several: virtual services are for host names only.\<close>

definition endpoint_objects :: "'w istio_client \<Rightarrow> string \<Rightarrow> CommunicationHost \<Rightarrow> istio_kind \<Rightarrow> string set" where
  "endpoint_objects C owner ch k =
     (if k = KindVirtualService \<and> ic_IsIP C (ch_Host ch) then {}
      else {buildNameForEndpoint C owner (ch_Protocol ch) (ch_Host ch) (ch_Port ch)})"

definition wanted_objects :: "'w istio_client \<Rightarrow> string \<Rightarrow> CommunicationHost list \<Rightarrow> istio_kind \<Rightarrow> string set" where
  "wanted_objects C owner chs k = (\<Union>ch\<in>set chs. endpoint_objects C owner ch k)"

lemma handleServiceEntry_view:
  assumes "istio_law V (cr_Namespace oa) C" and "ic_Getenv C ''POD_NAMESPACE'' = cr_Namespace oa" and "name \<noteq> []"
  shows "\<exists>w'. handleIstioConfigurationForServiceEntry C oa name ch role w =
      (V w KindServiceEntry name = None, None, w') \<and>
    V w' = fill (buildIstioLabels (cr_Name oa) role) (\<lambda>k. if k = KindServiceEntry then {name} else {}) (V w)"
proof -
  let ?ls = "buildIstioLabels (cr_Name oa) role"
  let ?se = "buildServiceEntry C name (ch_Host ch) (ch_Protocol ch) (ch_Port ch)\<lparr>se_Labels := ?ls\<rparr>"
  obtain e w1 where p: "kubernetesObjectProbe C KindServiceEntry (cr_Namespace oa) name w =
     ((if V w KindServiceEntry name \<noteq> None then probeObjectFound else probeObjectNotFound, e), w1)" "V w1 = V w"
    using probe_view [OF assms(1,3), of KindServiceEntry w] by (elim exE conjE)
  show ?thesis
  proof (cases "V w KindServiceEntry name")
    case (Some l)
    have "fill ?ls (\<lambda>k. if k = KindServiceEntry then {name} else {}) (V w) = V w"
      using Some by (simp add: fill_eq_self)
    with p Some show ?thesis by (simp add: handleIstioConfigurationForServiceEntry_def)
  next
    case None
    have m: "se_Name ?se = name" "se_Namespace ?se = cr_Namespace oa"
      by (simp_all add: buildServiceEntry_def buildServiceEntryIP_def buildServiceEntryFQDN_def buildObjectMeta_def assms(2))
    obtain se' where own: "ic_OwnServiceEntry C (cr_Name oa) ?se = Inr se'" and n: "se_Name se' = se_Name ?se"
      and ns: "se_Namespace se' = se_Namespace ?se" and l: "se_Labels se' = se_Labels ?se"
      using law_OwnServiceEntry [OF assms(1), of "cr_Name oa" ?se] by (elim exE conjE)
    have pre: "se_Namespace se' = cr_Namespace oa \<and> V w1 KindServiceEntry (se_Name se') = None"
      using n ns m p(2) None by simp
    obtain r w2 where c: "ic_CreateServiceEntry C (cr_Namespace oa) se' w1 = (Inr (Some r), w2)"
      and v: "V w2 = (V w1)(KindServiceEntry := (V w1 KindServiceEntry)(se_Name se' \<mapsto> se_Labels se'))"
      using law_CreateServiceEntry [OF assms(1) pre] by (elim exE conjE)
    have "V w2 = fill ?ls (\<lambda>k. if k = KindServiceEntry then {name} else {}) (V w)"
      using v n l m p(2) None by (intro ext) (simp add: fill_def)
    with p own c None show ?thesis
      by (simp add: handleIstioConfigurationForServiceEntry_def createIstioConfigurationForServiceEntry_def)
  qed
qed

lemma handleVirtualService_view:
  assumes "istio_law V (cr_Namespace oa) C" and "ic_Getenv C ''POD_NAMESPACE'' = cr_Namespace oa" and "name \<noteq> []"
  shows "\<exists>w'. handleIstioConfigurationForVirtualService C oa name ch role w =
      (\<not> ic_IsIP C (ch_Host ch) \<and> V w KindVirtualService name = None, None, w') \<and>
    V w' = fill (buildIstioLabels (cr_Name oa) role)
             (\<lambda>k. if k = KindVirtualService \<and> \<not> ic_IsIP C (ch_Host ch) then {name} else {}) (V w)"
proof -
  let ?ls = "buildIstioLabels (cr_Name oa) role"
  obtain e w1 where p: "kubernetesObjectProbe C KindVirtualService (cr_Namespace oa) name w =
     ((if V w KindVirtualService name \<noteq> None then probeObjectFound else probeObjectNotFound, e), w1)" "V w1 = V w"
    using probe_view [OF assms(1,3), of KindVirtualService w] by (elim exE conjE)
  show ?thesis
  proof (cases "ic_IsIP C (ch_Host ch) \<or> V w KindVirtualService name \<noteq> None")
    case True
    then have "fill ?ls (\<lambda>k. if k = KindVirtualService \<and> \<not> ic_IsIP C (ch_Host ch) then {name} else {}) (V w) = V w"
      by (auto simp: fill_eq_self)
    with p True show ?thesis
      by (auto simp: handleIstioConfigurationForVirtualService_def buildVirtualService_def)
  next
    case False
    obtain vs where vs: "buildVirtualService C name (ch_Host ch) (ch_Protocol ch) (ch_Port ch) = Some vs"
      "vs_Name vs = name" "vs_Namespace vs = cr_Namespace oa"
      using False by (simp add: buildVirtualService_def buildObjectMeta_def assms(2))
    let ?vs = "vs\<lparr>vs_Labels := ?ls\<rparr>"
    obtain vs' where own: "ic_OwnVirtualService C (cr_Name oa) ?vs = Inr vs'" and n: "vs_Name vs' = vs_Name ?vs"
      and ns: "vs_Namespace vs' = vs_Namespace ?vs" and l: "vs_Labels vs' = vs_Labels ?vs"
      using law_OwnVirtualService [OF assms(1), of "cr_Name oa" ?vs] by (elim exE conjE)
    have pre: "vs_Namespace vs' = cr_Namespace oa \<and> V w1 KindVirtualService (vs_Name vs') = None"
      using n ns vs p(2) False by simp
    obtain r w2 where c: "ic_CreateVirtualService C (cr_Namespace oa) vs' w1 = (Inr (Some r), w2)"
      and v: "V w2 = (V w1)(KindVirtualService := (V w1 KindVirtualService)(vs_Name vs' \<mapsto> vs_Labels vs'))"
      using law_CreateVirtualService [OF assms(1) pre] by (elim exE conjE)
    have "V w2 = fill ?ls (\<lambda>k. if k = KindVirtualService \<and> \<not> ic_IsIP C (ch_Host ch) then {name} else {}) (V w)"
      using v n l vs p(2) False by (intro ext) (simp add: fill_def)
    with p own c vs(1) False show ?thesis
      by (simp add: handleIstioConfigurationForVirtualService_def createIstioConfigurationForVirtualService_def)
  qed
qed

section \<open>The loops\<close>

lemma missing_split:
  "(\<exists>k. \<exists>n\<in>X k. M k n) \<or> (\<exists>k. \<exists>n\<in>W k. M k n \<and> n \<notin> X k) \<longleftrightarrow> (\<exists>k. \<exists>n\<in>X k \<union> W k. M k n)"
  by blast

lemma create_configurations_view:
  assumes "istio_law V (cr_Namespace oa) C" and "ic_Getenv C ''POD_NAMESPACE'' = cr_Namespace oa"
    and "\<And>t. ic_Sha256Hex C t \<noteq> []"
  shows "\<exists>w'. create_configurations C oa chs role upd w =
      (Inr (upd \<or> (\<exists>k. \<exists>n\<in>wanted_objects C (cr_Name oa) chs k. V w k n = None)), w') \<and>
    V w' = fill (buildIstioLabels (cr_Name oa) role) (wanted_objects C (cr_Name oa) chs) (V w)"
proof (induction chs arbitrary: upd w)
  case Nil
  then show ?case by (simp add: wanted_objects_def fill_eq_self)
next
  case (Cons ch chs)
  let ?ls = "buildIstioLabels (cr_Name oa) role"
  let ?n = "buildNameForEndpoint C (cr_Name oa) (ch_Protocol ch) (ch_Host ch) (ch_Port ch)"
  let ?SE = "\<lambda>k. if k = KindServiceEntry then {?n} else {}"
  let ?VS = "\<lambda>k. if k = KindVirtualService \<and> \<not> ic_IsIP C (ch_Host ch) then {?n} else {}"
  have ne: "?n \<noteq> []" by (simp add: buildNameForEndpoint_def assms(3))
  obtain w1 where h1: "handleIstioConfigurationForServiceEntry C oa ?n ch role w = (V w KindServiceEntry ?n = None, None, w1)"
    and v1: "V w1 = fill ?ls ?SE (V w)"
    using handleServiceEntry_view [OF assms(1,2) ne, of ch role w] by (elim exE conjE)
  obtain w2 where h2: "handleIstioConfigurationForVirtualService C oa ?n ch role w1 =
      (\<not> ic_IsIP C (ch_Host ch) \<and> V w1 KindVirtualService ?n = None, None, w2)"
    and v2: "V w2 = fill ?ls ?VS (V w1)"
    using handleVirtualService_view [OF assms(1,2) ne, of ch role w1] by (elim exE conjE)
  let ?created = "upd \<or> V w KindServiceEntry ?n = None \<or> \<not> ic_IsIP C (ch_Host ch) \<and> V w1 KindVirtualService ?n = None"
  obtain w3 where h3: "create_configurations C oa chs role ?created w2 =
      (Inr (?created \<or> (\<exists>k. \<exists>n\<in>wanted_objects C (cr_Name oa) chs k. V w2 k n = None)), w3)"
    and v3: "V w3 = fill ?ls (wanted_objects C (cr_Name oa) chs) (V w2)"
    using Cons.IH [of ?created w2] by (elim exE conjE)
  have split: "wanted_objects C (cr_Name oa) (ch # chs) = (\<lambda>k. (?SE k \<union> ?VS k) \<union> wanted_objects C (cr_Name oa) chs k)"
    by (intro ext) (auto simp: wanted_objects_def endpoint_objects_def intro: istio_kind.exhaust split: if_splits)
  have v12: "V w2 = fill ?ls (\<lambda>k. ?SE k \<union> ?VS k) (V w)" unfolding v2 v1 fill_fill ..
  have v: "V w3 = fill ?ls (wanted_objects C (cr_Name oa) (ch # chs)) (V w)"
    unfolding v3 v12 fill_fill split ..
  have u1: "V w1 KindVirtualService ?n = V w KindVirtualService ?n" by (simp add: v1 fill_def)
  have u2: "V w2 k n = None \<longleftrightarrow> V w k n = None \<and> n \<notin> ?SE k \<union> ?VS k" for k n
    unfolding v12 by (auto simp: fill_def)
  have part: "(\<exists>k. \<exists>n\<in>?SE k \<union> ?VS k. V w k n = None) \<longleftrightarrow>
      V w KindServiceEntry ?n = None \<or> \<not> ic_IsIP C (ch_Host ch) \<and> V w KindVirtualService ?n = None"
    by (auto split: if_splits)
  have upd: "?created \<or> (\<exists>k. \<exists>n\<in>wanted_objects C (cr_Name oa) chs k. V w2 k n = None) \<longleftrightarrow>
      upd \<or> (\<exists>k. \<exists>n\<in>wanted_objects C (cr_Name oa) (ch # chs) k. V w k n = None)"
    using missing_split [of "\<lambda>k. ?SE k \<union> ?VS k" "\<lambda>k n. V w k n = None" "wanted_objects C (cr_Name oa) chs"]
    unfolding split u2 u1 part by blast
  show ?case using h1 h2 h3 v upd by (simp add: Let_def del: upd)
qed

lemma delete_unseen_view:
  assumes "istio_law V ns C"
  shows "distinct items \<Longrightarrow> (\<And>n. n \<in> set items \<Longrightarrow> V w k n \<noteq> None) \<Longrightarrow>
     \<exists>w'. delete_unseen C k ns seen items del w = (del \<or> \<not> set items \<subseteq> seen, w') \<and>
       V w' = (V w)(k := V w k |` (- (set items - seen)))"
proof (induction items arbitrary: del w)
  case Nil
  then show ?case by simp
next
  case (Cons n items)
  show ?case
  proof (cases "n \<in> seen")
    case True
    from True have "- (set (n # items) - seen) = - (set items - seen)" by auto
    with Cons True show ?thesis by simp
  next
    case False
    have "V w k n \<noteq> None" using Cons.prems by simp
    then obtain w1 where d: "ic_Delete C k ns n w = (None, w1)" and v1: "V w1 = (V w)(k := (V w k)(n := None))"
      using law_Delete [OF assms] by blast
    have "V w1 k m \<noteq> None" if "m \<in> set items" for m
      using Cons.prems that by (auto simp: v1)
    moreover have "distinct items" using Cons.prems by simp
    ultimately obtain w2 where r: "delete_unseen C k ns seen items True w1 = (True \<or> \<not> set items \<subseteq> seen, w2)"
      and v2: "V w2 = (V w1)(k := V w1 k |` (- (set items - seen)))"
      using Cons.IH [of w1 True] by blast
    have "V w2 = (V w)(k := V w k |` (- (set (n # items) - seen)))"
      using False by (auto simp: v1 v2 fun_eq_iff restrict_map_def)
    with d r False show ?thesis by (simp add: fun_upd_def)
  qed
qed

text \<open>The objects with the labels \<open>ls\<close> that are not in \<open>seen\<close>.\<close>

definition stale :: "(string \<rightharpoonup> string) \<Rightarrow> string set \<Rightarrow> (string \<rightharpoonup> (string \<rightharpoonup> string)) \<Rightarrow> string set" where
  "stale ls seen m = {n. n \<notin> seen \<and> (\<exists>l. m n = Some l \<and> ls \<subseteq>\<^sub>m l)}"

lemma remove_view:
  assumes "istio_law V ns C"
  shows "\<exists>w'. removeIstioConfiguration C k ls seen ns w = (Inr (stale ls seen (V w k) \<noteq> {}), w') \<and>
     V w' = (V w)(k := V w k |` (- stale ls seen (V w k)))"
proof -
  obtain items w1 where l: "ic_List C k ns ls w = (Inr items, w1)" "V w1 = V w" "distinct items"
    and i: "set items = {n. \<exists>l. V w k n = Some l \<and> ls \<subseteq>\<^sub>m l}"
    using law_List [OF assms, of k ls w] by (elim exE conjE)
  have s: "set items - seen = stale ls seen (V w k)" unfolding i stale_def by auto
  then have e: "(\<not> set items \<subseteq> seen) = (stale ls seen (V w k) \<noteq> {})" by auto
  have "\<And>n. n \<in> set items \<Longrightarrow> V w1 k n \<noteq> None" unfolding i l(2) by auto
  from delete_unseen_view [OF assms l(3), of w1 k seen False, OF this] s e l(1,2)
  show ?thesis by (auto simp: removeIstioConfiguration_def)
qed

text \<open>The state the reconciliation of one role leads to.\<close>

definition istio_goal :: "(string \<rightharpoonup> string) \<Rightarrow> string set \<Rightarrow> (istio_kind \<Rightarrow> string set) \<Rightarrow> istio_view \<Rightarrow> istio_view" where
  "istio_goal ls seen wanted v = (\<lambda>k n.
     if n \<in> stale ls seen (v k) then None
     else if v k n = None \<and> n \<in> wanted k then Some ls else v k n)"

lemma wanted_subset_seen: "wanted_objects C owner chs k \<subseteq> endpoint_names C owner chs"
  by (auto simp: wanted_objects_def endpoint_objects_def endpoint_names_def split: if_splits)

lemma stale_fill: "(\<And>k. S k \<subseteq> seen) \<Longrightarrow> stale ls seen (fill ls' S v k) = stale ls seen (v k)"
  by (auto simp: stale_def fill_def split: if_splits)

lemma goal_eq:
  assumes "\<And>k. S k \<subseteq> seen"
  shows "istio_goal ls seen S v = (\<lambda>k. fill ls S v k |` (- stale ls seen (v k)))"
  by (intro ext) (simp add: istio_goal_def fill_def restrict_map_def)

lemma goal_changes:
  assumes "\<And>k. S k \<subseteq> seen"
  shows "istio_goal ls seen S v \<noteq> v \<longleftrightarrow> (\<exists>k. \<exists>n\<in>S k. v k n = None) \<or> (\<exists>k. stale ls seen (v k) \<noteq> {})"
proof -
  have d: "istio_goal ls seen S v k n \<noteq> v k n \<longleftrightarrow> n \<in> stale ls seen (v k) \<or> (n \<in> S k \<and> v k n = None)" for k n
    by (auto simp: istio_goal_def stale_def)
  have "istio_goal ls seen S v \<noteq> v \<longleftrightarrow> (\<exists>k n. istio_goal ls seen S v k n \<noteq> v k n)"
    by (simp add: fun_eq_iff)
  then show ?thesis unfolding d by blast
qed

lemma goal_idem:
  assumes "\<And>k. S k \<subseteq> seen"
  shows "istio_goal ls seen S (istio_goal ls seen S v) = istio_goal ls seen S v"
proof -
  have "\<not> (istio_goal ls seen S (istio_goal ls seen S v) \<noteq> istio_goal ls seen S v)"
    unfolding goal_changes [OF assms]
    using assms by (auto simp: istio_goal_def stale_def split: if_splits)
  then show ?thesis by simp
qed

lemma reconcile_view:
  assumes "istio_law V (cr_Namespace oa) C" and "ic_Getenv C ''POD_NAMESPACE'' = cr_Namespace oa"
    and "\<And>t. ic_Sha256Hex C t \<noteq> []"
    and goal_def: "goal = istio_goal (buildIstioLabels (cr_Name oa) role) (endpoint_names C (cr_Name oa) chs)
                     (wanted_objects C (cr_Name oa) chs)"
  shows "\<exists>w'. reconcileIstioConfigurations C oa chs role w = (Inr (goal (V w) \<noteq> V w), w') \<and> V w' = goal (V w)"
proof -
  let ?ls = "buildIstioLabels (cr_Name oa) role"
  let ?seen = "endpoint_names C (cr_Name oa) chs"
  let ?S = "wanted_objects C (cr_Name oa) chs"
  have sub: "\<And>k. ?S k \<subseteq> ?seen" by (rule wanted_subset_seen)
  obtain w1 where p: "verifyIstioCrdAvailability C (cr_Namespace oa) w = (probeTypeFound, w1)" and v1: "V w1 = V w"
    using crd_view [OF assms(1), of w] by (elim exE conjE)
  obtain w2 where c: "create_configurations C oa chs role False w1 =
      (Inr (False \<or> (\<exists>k. \<exists>n\<in>?S k. V w1 k n = None)), w2)" and v2: "V w2 = fill ?ls ?S (V w1)"
    using create_configurations_view [OF assms(1-3), of chs role False w1] by (elim exE conjE)
  obtain w3 where r1: "removeIstioConfiguration C KindVirtualService ?ls ?seen (cr_Namespace oa) w2 =
      (Inr (stale ?ls ?seen (V w2 KindVirtualService) \<noteq> {}), w3)"
    and v3: "V w3 = (V w2)(KindVirtualService := V w2 KindVirtualService |` (- stale ?ls ?seen (V w2 KindVirtualService)))"
    using remove_view [OF assms(1), of KindVirtualService ?ls ?seen w2] by (elim exE conjE)
  obtain w4 where r2: "removeIstioConfiguration C KindServiceEntry ?ls ?seen (cr_Namespace oa) w3 =
      (Inr (stale ?ls ?seen (V w3 KindServiceEntry) \<noteq> {}), w4)"
    and v4: "V w4 = (V w3)(KindServiceEntry := V w3 KindServiceEntry |` (- stale ?ls ?seen (V w3 KindServiceEntry)))"
    using remove_view [OF assms(1), of KindServiceEntry ?ls ?seen w3] by (elim exE conjE)
  have st: "stale ?ls ?seen (V w2 k) = stale ?ls ?seen (V w k)" for k
    unfolding v2 v1 by (rule stale_fill [OF sub])
  have se: "V w3 KindServiceEntry = V w2 KindServiceEntry" by (simp add: v3)
  have "V w4 = (\<lambda>k. V w2 k |` (- stale ?ls ?seen (V w k)))"
  proof
    fix k show "V w4 k = V w2 k |` (- stale ?ls ?seen (V w k))"
      by (cases k) (simp_all add: v4 v3 st se)
  qed
  then have v: "V w4 = goal (V w)" unfolding v2 v1 goal_def goal_eq [OF sub] .
  have ex: "(\<exists>k. stale ?ls ?seen (V w k) \<noteq> {}) \<longleftrightarrow>
      stale ?ls ?seen (V w KindVirtualService) \<noteq> {} \<or> stale ?ls ?seen (V w KindServiceEntry) \<noteq> {}"
    by (metis (full_types) istio_kind.exhaust)
  have u: "goal (V w) \<noteq> V w \<longleftrightarrow> (\<exists>k. \<exists>n\<in>?S k. V w1 k n = None) \<or>
      stale ?ls ?seen (V w2 KindVirtualService) \<noteq> {} \<or> stale ?ls ?seen (V w3 KindServiceEntry) \<noteq> {}"
    unfolding goal_def goal_changes [OF sub] st se v1 ex ..
  have rc: "reconcileIstioCreateConfigurations C oa chs role w = (Inr (\<exists>k. \<exists>n\<in>?S k. V w1 k n = None), w2)"
    using p c by (simp add: reconcileIstioCreateConfigurations_def)
  have rr: "reconcileIstioRemoveConfigurations C oa chs role w2 =
      (Inr (stale ?ls ?seen (V w2 KindVirtualService) \<noteq> {} \<or> stale ?ls ?seen (V w3 KindServiceEntry) \<noteq> {}), w4)"
    using r1 r2 by (simp add: reconcileIstioRemoveConfigurations_def Let_def)
  have both: "reconcileIstioConfigurations C oa chs role w = (Inr (a \<or> b), w4)"
    if "reconcileIstioCreateConfigurations C oa chs role w = (Inr a, w2)"
      and "reconcileIstioRemoveConfigurations C oa chs role w2 = (Inr b, w4)" for a b
    using that by (simp add: reconcileIstioConfigurations_def)
  show ?thesis unfolding u using both [OF rc rr] v by (intro exI conjI)
qed

section \<open>A concrete client\<close>

text \<open>
  The world is the objects of one namespace, by kind, as association lists; hosts made of digits
  and dots are IP addresses, and names are not hashed but kept.
\<close>

type_synonym istio_store = "istio_kind \<Rightarrow> (string \<times> (string \<rightharpoonup> string)) list"

definition store_view :: "istio_store \<Rightarrow> istio_view" where
  "store_view s k = map_of (s k)"

definition store_client :: "string \<Rightarrow> istio_store istio_client" where
  "store_client ns =
     \<lparr>ic_ServerGroups = (\<lambda>w. (Inr [istioGVRName], w)),
      ic_NewClient = (\<lambda>w. (None, w)),
      ic_Query = (\<lambda>k ns' n w. (if n = [] \<or> map_of (w k) n \<noteq> None then None else Some KubeNotFound, w)),
      ic_List = (\<lambda>k ns' ls w.
         (Inr (filter (\<lambda>n. \<exists>l. map_of (w k) n = Some l \<and> ls \<subseteq>\<^sub>m l) (remdups (map fst (w k)))), w)),
      ic_Delete = (\<lambda>k ns' n w. (None, w(k := AList.delete n (w k)))),
      ic_OwnServiceEntry = (\<lambda>ow se. Inr (se\<lparr>se_Owner := Some ow\<rparr>)),
      ic_OwnVirtualService = (\<lambda>ow vs. Inr (vs\<lparr>vs_Owner := Some ow\<rparr>)),
      ic_CreateServiceEntry = (\<lambda>ns' se w. (Inr (Some se),
         w(KindServiceEntry := (se_Name se, se_Labels se) # w KindServiceEntry))),
      ic_CreateVirtualService = (\<lambda>ns' vs w. (Inr (Some vs),
         w(KindVirtualService := (vs_Name vs, vs_Labels vs) # w KindVirtualService))),
      ic_IsIP = list_all (\<lambda>c. is_digit c \<or> c = CHR ''.''),
      ic_Sha256Hex = (\<lambda>s. CHR ''h'' # s),
      ic_Getenv = (\<lambda>v. ns)\<rparr>"

lemma store_view_upd: "store_view (w(k := xs)) = (store_view w)(k := map_of xs)"
  by (rule ext) (simp add: store_view_def)

lemma store_client_law: "istio_law store_view ns (store_client ns)"
proof -
  have "keeps_view store_view ns (store_client ns)"
    by (auto simp: keeps_view_def store_client_def store_view_def map_of_eq_None_iff
        dest: map_of_SomeD intro: rev_image_eqI)
  moreover have "keeps_meta (store_client ns)"
    by (simp add: keeps_meta_def store_client_def)
  moreover have "writes_view store_view ns (store_client ns)"
    by (simp add: writes_view_def store_client_def store_view_upd AList.delete_conv') (simp add: store_view_def)
  ultimately show ?thesis by (simp add: istio_law_def)
qed

lemma store_client_reads [simp]:
  "ic_Getenv (store_client ns) v = ns" "ic_Sha256Hex (store_client ns) t \<noteq> []"
  by (simp_all add: store_client_def)

section \<open>Properties\<close>

text \<open>C3: On a cluster that answers and that nobody else writes, one reconciliation of a role leads
  to the state in which every endpoint has its ServiceEntry and, for a host name, its VirtualService
  with the labels of the resource and the role, and no other object with these labels is left;
  objects without them are not touched.  It reports an update exactly if it changed something, and
  a second reconciliation changes nothing and reports none.\<close>

theorem istio_converges:
  assumes "istio_law V (cr_Namespace oa) C" and "ic_Getenv C ''POD_NAMESPACE'' = cr_Namespace oa"
    and "\<And>t. ic_Sha256Hex C t \<noteq> []"
  shows "\<exists>w1 w2. reconcileIstioConfigurations C oa chs role w = (Inr (V w1 \<noteq> V w), w1) \<and>
    V w1 = istio_goal (buildIstioLabels (cr_Name oa) role) (endpoint_names C (cr_Name oa) chs)
             (wanted_objects C (cr_Name oa) chs) (V w) \<and>
    reconcileIstioConfigurations C oa chs role w1 = (Inr False, w2) \<and> V w2 = V w1"
proof -
  let ?goal = "istio_goal (buildIstioLabels (cr_Name oa) role) (endpoint_names C (cr_Name oa) chs)
             (wanted_objects C (cr_Name oa) chs)"
  obtain w1 where r1: "reconcileIstioConfigurations C oa chs role w = (Inr (?goal (V w) \<noteq> V w), w1)" "V w1 = ?goal (V w)"
    using reconcile_view [OF assms refl, of chs role w] by (elim exE conjE)
  obtain w2 where r2: "reconcileIstioConfigurations C oa chs role w1 = (Inr (?goal (V w1) \<noteq> V w1), w2)" "V w2 = ?goal (V w1)"
    using reconcile_view [OF assms refl, of chs role w1] by (elim exE conjE)
  have "?goal (V w1) = V w1" unfolding r1(2) by (rule goal_idem [OF wanted_subset_seen])
  with r1 r2 show ?thesis by (intro exI [of _ w1] exI [of _ w2]) simp
qed

lemma istio_converges_witness:
  "\<exists>w1 w2. reconcileIstioConfigurations (store_client ''dynatrace'') (empty_oneagent ''oa'' ''dynatrace'')
      [\<lparr>ch_Protocol = ''https'', ch_Host = ''a.com'', ch_Port = 443\<rparr>] ''api-url''
      (\<lambda>k. [(''old'', buildIstioLabels ''oa'' ''api-url'')]) = (Inr True, w1) \<and>
    store_view w1 KindServiceEntry ''old'' = None \<and>
    store_view w1 KindVirtualService ''hoa-https-a.com-443'' = Some (buildIstioLabels ''oa'' ''api-url'') \<and>
    reconcileIstioConfigurations (store_client ''dynatrace'') (empty_oneagent ''oa'' ''dynatrace'')
      [\<lparr>ch_Protocol = ''https'', ch_Host = ''a.com'', ch_Port = 443\<rparr>] ''api-url'' w1 = (Inr False, w2)"
proof -
  let ?C = "store_client ''dynatrace''"
  let ?oa = "empty_oneagent ''oa'' ''dynatrace''"
  let ?chs = "[\<lparr>ch_Protocol = ''https'', ch_Host = ''a.com'', ch_Port = 443\<rparr>]"
  let ?w = "\<lambda>k :: istio_kind. [(''old'', buildIstioLabels ''oa'' ''api-url'')]"
  let ?goal = "istio_goal (buildIstioLabels ''oa'' ''api-url'') (endpoint_names ?C ''oa'' ?chs) (wanted_objects ?C ''oa'' ?chs)"
  have oa: "cr_Name ?oa = ''oa''" "cr_Namespace ?oa = ''dynatrace''" by (simp_all add: empty_oneagent_def)
  have law: "istio_law store_view (cr_Namespace ?oa) ?C" unfolding oa by (rule store_client_law)
  obtain w1 w2 where r: "reconcileIstioConfigurations ?C ?oa ?chs ''api-url'' ?w = (Inr (store_view w1 \<noteq> store_view ?w), w1)"
    and v: "store_view w1 = ?goal (store_view ?w)"
    and r2: "reconcileIstioConfigurations ?C ?oa ?chs ''api-url'' w1 = (Inr False, w2)"
    using istio_converges [OF law, of ?chs "''api-url''" ?w] unfolding oa by auto
  have digits: "nat_digits 443 = ''443''" by code_simp
  have n: "buildNameForEndpoint ?C ''oa'' ''https'' ''a.com'' 443 = ''hoa-https-a.com-443''"
    by (simp add: buildNameForEndpoint_def endpoint_text_def store_client_def Itoa_def digits)
  have ip: "\<not> ic_IsIP ?C ''a.com''" by (simp add: store_client_def is_digit_def)
  have old: "store_view w1 KindServiceEntry ''old'' = None"
    unfolding v by (simp add: istio_goal_def stale_def store_view_def endpoint_names_def n)
  have new: "store_view w1 KindVirtualService ''hoa-https-a.com-443'' = Some (buildIstioLabels ''oa'' ''api-url'')"
    unfolding v by (simp add: istio_goal_def stale_def store_view_def wanted_objects_def endpoint_objects_def n ip)
  have "store_view ?w KindServiceEntry ''old'' \<noteq> None" by (simp add: store_view_def)
  then have "store_view w1 \<noteq> store_view ?w" using old by metis
  with r r2 old new show ?thesis by auto
qed

text \<open>Two endpoints of a resource whose protocols have no dash have the same text only if they
  are the same: their objects do not share a name unless the hash collides.\<close>

theorem endpoint_texts_differ:
  fixes a b :: CommunicationHost
  assumes "endpoint_text name (ch_Protocol a) (ch_Host a) (ch_Port a) =
           endpoint_text name (ch_Protocol b) (ch_Host b) (ch_Port b)"
    and "CHR ''-'' \<notin> set (ch_Protocol a)" and "CHR ''-'' \<notin> set (ch_Protocol b)"
  shows "a = b"
  using endpoint_text_inj [OF assms] by (cases a; cases b) simp

lemma endpoint_texts_differ_witness:
  "\<lparr>ch_Protocol = ''https'', ch_Host = ''a-b.com'', ch_Port = 443\<rparr> =
     \<lparr>ch_Protocol = ''https'', ch_Host = ''a-b.com'', ch_Port = (443 :: 32 word)\<rparr>"
  by (rule endpoint_texts_differ [of "''oa''"]) simp_all

end
