(* ===== verification/Oneagent_Controller.thy ===== *)
theory Oneagent_Controller
  imports Daemonset Token_Reconciler Istio
begin

text \<open>
  The reconciler of OneAgent resources (controllers/oneagent/oneagent\_controller.go): tokens,
  Istio, the image version, the pull secret, the DaemonSet's rollout, the pods' versions and the
  phase, in that order, then the write of the status and the delay until the next run.
  The record \<open>oneagent_env\<close> holds what the reconciler is constructed with; \<open>oe_istio\<close> is None when
  \<open>istio.NewController\<close> answered nil.
\<close>

record 'w oneagent_env =
  oe_cluster :: "(string, 'w) oneagent_cluster"
  oe_cond :: "'w cond_lib"
  oe_dtc :: "OneAgent \<Rightarrow> bool \<Rightarrow> bool \<Rightarrow> 'w \<Rightarrow> (go_error + 'w dt_client) \<times> 'w"
  oe_istio :: "'w istio_client option"
  oe_transport :: "'w transport"
  oe_codec :: codec
  oe_version :: string

section \<open>The record of one reconciliation\<close>

record reconciliation =
  rec_instance :: OneAgent
  rec_err :: "go_error option"
  rec_update :: bool
  rec_requeueAfter :: int

definition rec_Error :: "go_error option \<Rightarrow> reconciliation \<Rightarrow> bool \<times> reconciliation" where
  "rec_Error err rec = (if err = None then (False, rec) else (True, rec\<lparr>rec_err := err\<rparr>))"

definition rec_Update :: "bool \<Rightarrow> int \<Rightarrow> reconciliation \<Rightarrow> bool \<times> reconciliation" where
  "rec_Update upd d rec =
     (if \<not> upd then (False, rec) else (True, rec\<lparr>rec_update := True, rec_requeueAfter := d\<rparr>))"

definition defaultUpdateInterval :: int where "defaultUpdateInterval = 15 * Minute"
definition imageProbeInterval :: int where "imageProbeInterval = 15 * Minute"

section \<open>The rollout of the DaemonSet\<close>

text \<open>
  The steps of the rollout give the resource back even when they fail: the DaemonSet's builder
  writes into it.
\<close>

text \<open>The versions that \<open>reconcileRollout\<close> writes into a status that has none.\<close>

definition initial_version :: "'w dt_client \<Rightarrow> OneAgent \<Rightarrow> 'w \<Rightarrow> (go_error + string) \<times> 'w" where
  "initial_version dtc instance w =
     (if st_UseImmutableImage (cr_Status instance) \<and> sp_Image (cr_Spec instance) = []
         \<and> sp_AgentVersion (cr_Spec instance) \<noteq> []
      then (Inr (sp_AgentVersion (cr_Spec instance)), w)
      else case c_GetLatestAgentVersion dtc ''unix'' ''default'' w of
             (Inl err, w1) \<Rightarrow> (Inl (Wrapped ''failed to get desired version'' err), w1)
           | (Inr latest, w1) \<Rightarrow> (Inr latest, w1))"

text \<open>Create the DaemonSet, or update it when its template hash is another one.\<close>

definition apply_daemonset ::
  "('v, 'w, 'z) oneagent_cluster_scheme \<Rightarrow> DaemonSet \<Rightarrow> 'w \<Rightarrow> go_error option \<times> 'w" where
  "apply_daemonset K dsDesired w =
     (case k_get_daemonset K (ds_Namespace dsDesired) (ds_Name dsDesired) w of
        (Inl err, w1) \<Rightarrow> (if IsNotFound err then k_create_daemonset K dsDesired w1 else (Some err, w1))
      | (Inr dsActual, w1) \<Rightarrow>
          (if hasDaemonSetChanged dsDesired dsActual then k_update_daemonset K dsDesired w1 else (None, w1)))"

definition reconcileRollout ::
  "('v, 'w, 'z) oneagent_cluster_scheme \<Rightarrow> string \<Rightarrow> OneAgent \<Rightarrow> 'w dt_client \<Rightarrow> 'w
     \<Rightarrow> (go_error + bool) \<times> OneAgent \<times> 'w" where
  "reconcileRollout K version instance dtc w =
     (case k_get_namespace K ''kube-system'' w of
        (Inl err, w1) \<Rightarrow> (Inl (Wrapped ''failed to query for cluster ID'' err), instance, w1)
      | (Inr kubeSystemNS, w1) \<Rightarrow>
     (case newDaemonSetForCR (k_marshal_daemonset K) (k_getenv K) version instance (ns_UID kubeSystemNS) of
        (Inl err, instance) \<Rightarrow> (Inl err, instance, w1)
      | (Inr ds, instance) \<Rightarrow>
     (case k_set_daemonset_owner K instance ds of
        Inl err \<Rightarrow> (Inl err, instance, w1)
      | Inr dsDesired \<Rightarrow>
     (case apply_daemonset K dsDesired w1 of
        (Some err, w2) \<Rightarrow> (Inl err, instance, w2)
      | (None, w2) \<Rightarrow>
     (case (if st_Version (cr_Status instance) = [] then
              (case initial_version dtc instance w2 of
                 (Inl err, w3) \<Rightarrow> (Inl err, w3)
               | (Inr v, w3) \<Rightarrow>
                   (Inr (True, update_status (\<lambda>s. snd (SetPhase Deploying (s\<lparr>st_Version := v\<rparr>))) instance), w3))
            else (Inr (False, instance), w2)) of
        (Inl err, w3) \<Rightarrow> (Inl err, instance, w3)
      | (Inr (updated, instance1), w3) \<Rightarrow>
          (if st_Tokens (cr_Status instance1) \<noteq> GetTokensName instance1
           then (Inr True, update_status (\<lambda>s. s\<lparr>st_Tokens := GetTokensName instance1\<rparr>) instance1, w3)
           else (Inr updated, instance1, w3)))))))"

section \<open>The version of the image\<close>

text \<open>When the image is due for a probe; the instant is the one the code reads.\<close>

definition image_probe_due :: "OneAgentStatus \<Rightarrow> time \<Rightarrow> bool" where
  "image_probe_due s now =
     (case st_LastImageVersionProbeTimestamp s of None \<Rightarrow> True | Some t \<Rightarrow> \<not> now < t + imageProbeInterval)"

text \<open>The image version that is found: it is taken only when it is the first or a newer one.\<close>

definition note_image_version :: "ImageVersion \<Rightarrow> OneAgent \<Rightarrow> OneAgent option" where
  "note_image_version ver instance =
     (let oldVersion = st_ImageVersion (cr_Status instance);
          instance' = update_status (\<lambda>s. s\<lparr>st_ImageHash := iv_Hash ver, st_ImageVersion := iv_Version ver\<rparr>) instance
      in if iv_Version ver = oldVersion then Some instance
         else if oldVersion = [] then Some instance'
         else case isDesiredNewer oldVersion (iv_Version ver) of
                None \<Rightarrow> None
              | Some newer \<Rightarrow> Some (if newer then instance' else instance))"

definition reconcileImageVersion ::
  "('v, 'w, 'z) oneagent_cluster_scheme \<Rightarrow> OneAgent \<Rightarrow> 'w \<Rightarrow> (bool \<times> go_error option \<times> OneAgent \<times> 'w) run" where
  "reconcileImageVersion K instance w =
     (if \<not> st_UseImmutableImage (cr_Status instance) \<or> sp_DisableAgentUpdate (cr_Spec instance)
      then Returns (False, None, instance, w)
      else let (now, w1) = k_now K w
      in if \<not> image_probe_due (cr_Status instance) now then Returns (False, None, instance, w1)
      else let img = (if sp_Image (cr_Spec instance) = []
                      then BuildOneAgentImage (sp_APIURL (cr_Spec instance)) (sp_AgentVersion (cr_Spec instance))
                      else sp_Image (cr_Spec instance));
               instance1 = update_status (\<lambda>s. s\<lparr>st_LastImageVersionProbeTimestamp := Some now\<rparr>) instance
      in case k_get_secret K (cr_Namespace instance) (pull_secret_name instance) w1 of
        (Inl err, w2) \<Rightarrow> Returns (True, Some err, instance1, w2)
      | (Inr ps, w2) \<Rightarrow>
     (case NewDockerConfig (k_docker K) ps of
        Inl err \<Rightarrow> Returns (True, Some err, instance1, w2)
      | Inr dockerCfg \<Rightarrow>
     (case GetImageVersion (k_images K) img (Some dockerCfg) w2 of
        (Inl err, w3) \<Rightarrow> Returns (True, Some err, instance1, w3)
      | (Inr ver, w3) \<Rightarrow>
     (case note_image_version ver instance1 of
        None \<Rightarrow> Panics
      | Some instance2 \<Rightarrow> Returns (True, None, instance2, w3)))))"

definition reconcilePullSecret ::
  "(string, 'w, 'z) oneagent_cluster_scheme \<Rightarrow> 'w transport \<Rightarrow> codec \<Rightarrow> OneAgent \<Rightarrow> 'w \<Rightarrow> go_error option \<times> 'w" where
  "reconcilePullSecret K H J instance w =
     (case k_get_secret K (cr_Namespace instance) (GetTokensName instance) w of
        (Inl err, w1) \<Rightarrow> (Some (Wrapped ''failed to query tokens'' err), w1)
      | (Inr tkns, w1) \<Rightarrow>
     (case GeneratePullSecretData K H J instance tkns w1 of
        (Inl err, w2) \<Rightarrow> (Some (Wrapped ''failed to generate pull secret data'' err), w2)
      | (Inr pullSecretData, w2) \<Rightarrow>
     (case CreateOrUpdateSecretIfNotExists K (cr_Name instance @ ''-pull-secret'') (cr_Namespace instance)
             (Some pullSecretData) ''kubernetes.io/dockerconfigjson'' w2 of
        (Some err, w3) \<Rightarrow> (Some (Wrapped ''failed to create or update secret'' err), w3)
      | (None, w3) \<Rightarrow> (None, w3))))"

section \<open>The steps of reconcileImpl, last one first\<close>

text \<open>\<open>time.Duration(x) * time.Minute\<close> wraps around at 64 bits.\<close>

definition minutes :: "int \<Rightarrow> int" where
  "minutes x = sint (word_of_int (x * Minute) :: 64 word)"

definition update_interval :: "(string \<Rightarrow> string) \<Rightarrow> int" where
  "update_interval env =
     (let val = env ''ONEAGENT_OPERATOR_UPDATE_INTERVAL''
      in if val = [] then defaultUpdateInterval
         else case Atoi val of None \<Rightarrow> defaultUpdateInterval | Some x \<Rightarrow> minutes x)"

definition update_due :: "int \<Rightarrow> OneAgentStatus \<Rightarrow> time \<Rightarrow> bool" where
  "update_due interval s now =
     (case st_LastUpdateProbeTimestamp s of None \<Rightarrow> True | Some t \<Rightarrow> t + interval < now)"

text \<open>The phase, when nothing else changed.\<close>

definition impl_phase :: "'w oneagent_env \<Rightarrow> reconciliation \<Rightarrow> 'w \<Rightarrow> (reconciliation \<times> 'w) run" where
  "impl_phase E rec w =
     (let (upd, err, instance', w1) = determineOneAgentPhase (oe_cluster E) (rec_instance rec) w;
          (failed, rec1) = rec_Error err (rec\<lparr>rec_instance := instance'\<rparr>)
      in Returns (if failed then rec1 else snd (rec_Update upd (5 * Minute) rec1), w1))"

text \<open>The replacement of outdated pods.\<close>

definition impl_version ::
  "'w oneagent_env \<Rightarrow> 'w dt_client \<Rightarrow> reconciliation \<Rightarrow> 'w \<Rightarrow> (reconciliation \<times> 'w) run" where
  "impl_version E dtc rec w =
     (if sp_DisableAgentUpdate (cr_Spec (rec_instance rec)) then Returns (rec, w)
      else case reconcileVersion (oe_cluster E) (rec_instance rec) dtc w of
        Panics \<Rightarrow> Panics
      | Diverges \<Rightarrow> Diverges
      | Returns (upd, err, instance', w1) \<Rightarrow>
          (let (failed, rec1) = rec_Error err (rec\<lparr>rec_instance := instance'\<rparr>);
               (updated, rec2) = rec_Update upd (5 * Minute) rec1
           in if failed then Returns (rec1, w1) else if updated then Returns (rec2, w1) else impl_phase E rec2 w1))"

text \<open>The statuses of the instances and the versions, once an interval.\<close>

definition impl_probe ::
  "'w oneagent_env \<Rightarrow> 'w dt_client \<Rightarrow> reconciliation \<Rightarrow> 'w \<Rightarrow> (reconciliation \<times> 'w) run" where
  "impl_probe E dtc rec w =
     (let K = oe_cluster E; (now, w1) = k_now K w
      in if \<not> update_due (update_interval (k_getenv K)) (cr_Status (rec_instance rec)) now then impl_phase E rec w1
         else let rec1 = snd (rec_Update True (5 * Minute) (rec\<lparr>rec_instance :=
                    update_status (\<lambda>s. s\<lparr>st_LastUpdateProbeTimestamp := Some now\<rparr>) (rec_instance rec)\<rparr>));
                  (upd, err, instance', w2) = reconcileInstanceStatuses K (rec_instance rec1) dtc w1;
                  (failed, rec2) = rec_Error err (rec1\<lparr>rec_instance := instance'\<rparr>);
                  (updated, rec3) = rec_Update upd (5 * Minute) rec2
              in if failed then Returns (rec2, w2) else if updated then Returns (rec3, w2) else impl_version E dtc rec3 w2)"

definition impl_rollout ::
  "'w oneagent_env \<Rightarrow> 'w dt_client \<Rightarrow> reconciliation \<Rightarrow> 'w \<Rightarrow> (reconciliation \<times> 'w) run" where
  "impl_rollout E dtc rec w =
     (case reconcileRollout (oe_cluster E) (oe_version E) (rec_instance rec) dtc w of
        (Inl err, instance', w1) \<Rightarrow> Returns (snd (rec_Error (Some err) (rec\<lparr>rec_instance := instance'\<rparr>)), w1)
      | (Inr upd, instance', w1) \<Rightarrow>
          (let (updated, rec1) = rec_Update upd (5 * Minute) (rec\<lparr>rec_instance := instance'\<rparr>)
           in if updated then Returns (rec1, w1) else impl_probe E dtc rec1 w1))"

text \<open>The image version and the pull secret; an error of the former does not stop the run.\<close>

definition impl_image ::
  "'w oneagent_env \<Rightarrow> 'w dt_client \<Rightarrow> reconciliation \<Rightarrow> 'w \<Rightarrow> (reconciliation \<times> 'w) run" where
  "impl_image E dtc rec w =
     (let (changed, instance1) = SetUseImmutableImageStatus (rec_instance rec);
          rec1 = snd (rec_Update changed (5 * Minute) (rec\<lparr>rec_instance := instance1\<rparr>))
      in case reconcileImageVersion (oe_cluster E) (rec_instance rec1) w of
        Panics \<Rightarrow> Panics
      | Diverges \<Rightarrow> Diverges
      | Returns (upd, err, instance2, w1) \<Rightarrow>
          (let rec2 = snd (rec_Error err (snd (rec_Update upd (5 * Minute) (rec1\<lparr>rec_instance := instance2\<rparr>))))
           in if st_UseImmutableImage (cr_Status instance2) \<and> sp_Image (cr_Spec instance2) = []
              then (case reconcilePullSecret (oe_cluster E) (oe_transport E) (oe_codec E) instance2 w1 of
                      (Some e, w2) \<Rightarrow> Returns (snd (rec_Error (Some e) rec2), w2)
                    | (None, w2) \<Rightarrow> impl_rollout E dtc rec2 w2)
              else impl_rollout E dtc rec2 w1))"

text \<open>Istio: its errors are only logged, an update ends the run; a nil controller panics.\<close>

definition impl_istio ::
  "'w oneagent_env \<Rightarrow> 'w dt_client \<Rightarrow> reconciliation \<Rightarrow> 'w \<Rightarrow> (reconciliation \<times> 'w) run" where
  "impl_istio E dtc rec w =
     (if sp_EnableIstio (cr_Spec (rec_instance rec))
      then (case call_ReconcileIstio (oe_istio E) (rec_instance rec) dtc w of
              Panics \<Rightarrow> Panics
            | Diverges \<Rightarrow> Diverges
            | Returns (Inl _, w1) \<Rightarrow> impl_image E dtc rec w1
            | Returns (Inr True, w1) \<Rightarrow> Returns (rec\<lparr>rec_requeueAfter := 30 * Second\<rparr>, w1)
            | Returns (Inr False, w1) \<Rightarrow> impl_image E dtc rec w1)
      else impl_image E dtc rec w)"

text \<open>\<open>r.dtcReconciler\<close> as \<open>NewOneAgentReconciler\<close> makes it.\<close>

definition oneagent_reconciler :: client_reconciler where
  "oneagent_reconciler = \<lparr>dr_Now = zero_time, dr_UpdatePaaSToken = True, dr_UpdateAPIToken = True\<rparr>"

definition reconcileImpl :: "'w oneagent_env \<Rightarrow> reconciliation \<Rightarrow> 'w \<Rightarrow> (reconciliation \<times> 'w) run" where
  "reconcileImpl E rec w =
     (let (invalid, rec0) = rec_Error (validate (rec_instance rec)) rec
      in if invalid then Returns (rec0, w)
         else let (res, upd, instance1, w1) =
                    Reconcile_tokens (oe_cluster E) (oe_cond E) (oe_dtc E) oneagent_reconciler (rec_instance rec0) w;
                  rec1 = snd (rec_Update upd (5 * Minute) (rec0\<lparr>rec_instance := instance1\<rparr>))
              in case res of
                   Inl err \<Rightarrow> Returns (snd (rec_Error (Some err) rec1), w1)
                 | Inr dtc \<Rightarrow> impl_istio E dtc rec1 w1)"

section \<open>Reconcile\<close>

text \<open>\<open>reconcile.Result\<close> is its \<open>RequeueAfter\<close>; the error is returned beside it.\<close>

definition finish_error :: "'w oneagent_env \<Rightarrow> reconciliation \<Rightarrow> go_error \<Rightarrow> 'w \<Rightarrow> (int \<times> go_error option) \<times> 'w" where
  "finish_error E rec err w =
     (let (changed, sts) = SetPhaseOnError (Some err) (cr_Status (rec_instance rec));
          instance' = (if rec_update rec then rec_instance rec else (rec_instance rec)\<lparr>cr_Status := sts\<rparr>);
          (errClient, w1) =
            (if rec_update rec \<or> changed
             then (let (e, _, w1) = updateCR (oe_cluster E) instance' w in (e, w1)) else (None, w))
      in case errClient of
           Some e \<Rightarrow> ((0, Some (Wrapped (''failed to update CR after failure, original, '' @
                        cl_ErrText (oe_cond E) err @ '', then'') e)), w1)
         | None \<Rightarrow> (if is_server_error_code StatusTooManyRequests err then ((1 * Minute, None), w1)
                    else ((0, Some err), w1)))"

definition finish :: "'w oneagent_env \<Rightarrow> reconciliation \<Rightarrow> 'w \<Rightarrow> (int \<times> go_error option) \<times> 'w" where
  "finish E rec w =
     (case rec_err rec of
        Some err \<Rightarrow> finish_error E rec err w
      | None \<Rightarrow>
          (let (errClient, w1) =
             (if rec_update rec then (let (e, _, w1) = updateCR (oe_cluster E) (rec_instance rec) w in (e, w1))
              else (None, w))
           in case errClient of Some e \<Rightarrow> ((0, Some e), w1) | None \<Rightarrow> ((rec_requeueAfter rec, None), w1)))"

definition Reconcile ::
  "'w oneagent_env \<Rightarrow> string \<Rightarrow> string \<Rightarrow> 'w \<Rightarrow> ((int \<times> go_error option) \<times> 'w) run" where
  "Reconcile E namespace name w =
     (case k_get_oneagent (oe_cluster E) namespace name w of
        (Inl err, w1) \<Rightarrow> Returns (if IsNotFound err then (0, None) else (0, Some err), w1)
      | (Inr instance, w1) \<Rightarrow>
          (case reconcileImpl E \<lparr>rec_instance = instance, rec_err = None, rec_update = False,
                  rec_requeueAfter = 30 * Minute\<rparr> w1 of
             Panics \<Rightarrow> Panics
           | Diverges \<Rightarrow> Diverges
           | Returns (rec, w2) \<Rightarrow> Returns (finish E rec w2)))"

end
