(* ===== verification/Oneagent_Props.thy ===== *)
theory Oneagent_Props
  imports Oneagent_Controller Token_Props Daemonset_Props Pods_Props Utils_Props
begin

text \<open>
  What the reconciler of OneAgents keeps: no change of the status is forgotten, the delay until the
  next run tells what happened, a run without agent updates always comes back, the rollout is
  idempotent, and the image version only advances.
\<close>

section \<open>What is done once an interval\<close>

interpretation image: throttle image_probe_due "\<lambda>s t. s\<lparr>st_LastImageVersionProbeTimestamp := Some t\<rparr>" imageProbeInterval
  by unfold_locales (auto simp: image_probe_due_def imageProbeInterval_def)

interpretation instances: throttle "update_due defaultUpdateInterval" "\<lambda>s t. s\<lparr>st_LastUpdateProbeTimestamp := Some t\<rparr>"
    defaultUpdateInterval
  by unfold_locales (auto simp: update_due_def defaultUpdateInterval_def)

text \<open>Within a quarter of an hour of a probe no registry is asked, and nothing changes.\<close>

lemma image_probe_waits:
  assumes "k_now K w = (now, w1)" and "now < t + imageProbeInterval"
    and "cr_Status oa = s\<lparr>st_LastImageVersionProbeTimestamp := Some t\<rparr>"
  shows "reconcileImageVersion K oa w \<in> {Returns (False, None, oa, w), Returns (False, None, oa, w1)}"
  using image.not_due_within [OF assms(2), of s] assms(1,3) by (auto simp: reconcileImageVersion_def Let_def)

section \<open>The steps keep track of changes\<close>

text \<open>
  \<open>tracked rec rec'\<close>: from \<open>rec\<close> to \<open>rec'\<close> flags and errors stay, the delay changes only to that of
  an update, and a changed instance is flagged or comes with an error, but for the CPU request that
  the DaemonSet's builder writes into it.
\<close>

definition tracked :: "reconciliation \<Rightarrow> reconciliation \<Rightarrow> bool" where
  "tracked rec rec' \<longleftrightarrow>
     (rec_update rec \<longrightarrow> rec_update rec') \<and>
     (rec_err rec \<noteq> None \<longrightarrow> rec_err rec' \<noteq> None) \<and>
     (rec_requeueAfter rec' = 5 * Minute \<and> rec_update rec' \<or>
      rec_requeueAfter rec' = rec_requeueAfter rec \<and> rec_update rec' = rec_update rec) \<and>
     (rec_instance rec' \<notin> {rec_instance rec, with_cpu_request (rec_instance rec)} \<longrightarrow>
      rec_update rec' \<or> rec_err rec' \<noteq> None)"

named_theorems tracking

lemma tracked_refl [tracking]: "tracked rec rec"
  by (simp add: tracked_def)

lemma tracked_trans: "tracked a b \<Longrightarrow> tracked b c \<Longrightarrow> tracked a c"
  unfolding tracked_def by (auto; metis with_cpu_request_idem)

lemma tracked_step: "tracked a b \<Longrightarrow> c = b \<or> P \<Longrightarrow> (P \<Longrightarrow> tracked b c) \<Longrightarrow> tracked a c"
  by (auto intro: tracked_trans)

lemma tracked_Update [tracking]:
  "(instance' \<notin> {rec_instance rec, with_cpu_request (rec_instance rec)} \<longrightarrow> upd \<or> rec_update rec) \<Longrightarrow>
   tracked rec (snd (rec_Update upd (5 * Minute) (rec\<lparr>rec_instance := instance'\<rparr>)))"
  by (auto simp: tracked_def rec_Update_def)

lemma tracked_Error [tracking]: "tracked rec (snd (rec_Error (Some e) (rec\<lparr>rec_instance := instance'\<rparr>)))"
  by (auto simp: tracked_def rec_Error_def)

lemma tracked_Error_same [tracking]: "tracked rec (snd (rec_Error err rec))"
  by (auto simp: tracked_def rec_Error_def)

section \<open>What the operations change\<close>

lemma SetUseImmutableImageStatus_False: "SetUseImmutableImageStatus oa = (False, oa') \<Longrightarrow> oa' = oa"
  by (auto simp: SetUseImmutableImageStatus_def split: if_splits)

lemma reconcileImageVersion_False:
  "reconcileImageVersion K oa w = Returns (False, err, oa', w') \<Longrightarrow> oa' = oa \<and> err = None"
  by (auto simp: reconcileImageVersion_def Let_def split: if_splits prod.splits sum.splits option.splits)

lemma newDaemonSetForCR_instance: "newDaemonSetForCR marshal env v oa cid = (r, oa') \<Longrightarrow> oa' = with_cpu_request oa"
  by (metis newDaemonSetForCR_snd snd_conv)

lemma reconcileRollout_False:
  "reconcileRollout K v oa dtc w = (Inr False, oa', w') \<Longrightarrow> oa' = with_cpu_request oa"
  by (auto simp: reconcileRollout_def dest!: newDaemonSetForCR_instance
      split: if_splits prod.splits sum.splits option.splits)

lemma reconcileInstanceStatuses_False:
  "reconcileInstanceStatuses K oa dtc w = (False, err, oa', w') \<Longrightarrow> oa' = oa"
  by (auto simp: reconcileInstanceStatuses_def Let_def split: if_splits prod.splits)

lemma determineOneAgentPhase_False:
  "determineOneAgentPhase K oa w = (False, None, oa', w') \<Longrightarrow> oa' = oa"
  by (cases oa) (auto simp: determineOneAgentPhase_def Let_def split: if_splits prod.splits sum.splits)

lemma impl_phase_tracked: "impl_phase E rec w = Returns (rec', w') \<Longrightarrow> tracked rec rec'"
proof -
  assume r: "impl_phase E rec w = Returns (rec', w')"
  obtain upd err oa w1 where d: "determineOneAgentPhase (oe_cluster E) (rec_instance rec) w = (upd, err, oa, w1)"
    by (metis prod_cases4)
  show ?thesis
  proof (cases err)
    case None
    with d have "oa \<noteq> rec_instance rec \<longrightarrow> upd" by (cases upd) (auto dest: determineOneAgentPhase_False)
    with None r d tracked_Update [of oa rec upd] show ?thesis
      by (auto simp: impl_phase_def rec_Error_def)
  next
    case (Some e)
    with r d tracked_Error [of rec e oa] show ?thesis by (auto simp: impl_phase_def rec_Error_def)
  qed
qed

lemma impl_version_tracked:
  assumes "rec_update rec" and "impl_version E dtc rec w = Returns (rec', w')"
  shows "tracked rec rec'"
proof (cases "sp_DisableAgentUpdate (cr_Spec (rec_instance rec))")
  case True
  with assms(2) show ?thesis by (simp add: impl_version_def tracked_refl)
next
  case False
  then obtain upd err oa w1 where v: "reconcileVersion (oe_cluster E) (rec_instance rec) dtc w = Returns (upd, err, oa, w1)"
    using assms(2) by (cases "reconcileVersion (oe_cluster E) (rec_instance rec) dtc w")
      (auto simp: impl_version_def)
  show ?thesis
  proof (cases err)
    case (Some e)
    with False v assms(2) tracked_Error [of rec e oa] show ?thesis
      by (auto simp: impl_version_def rec_Error_def split: prod.splits)
  next
    case None
    let ?rec2 = "snd (rec_Update upd (5 * Minute) (rec\<lparr>rec_instance := oa\<rparr>))"
    have t: "tracked rec ?rec2" using assms(1) by (intro tracked_Update) simp
    have "rec' = ?rec2 \<or> impl_phase E ?rec2 w1 = Returns (rec', w')"
      using False v None assms(2) by (auto simp: impl_version_def rec_Error_def rec_Update_def split: if_splits)
    from t this show ?thesis by (rule tracked_step) (rule impl_phase_tracked)
  qed
qed

lemma impl_probe_tracked:
  assumes "impl_probe E dtc rec w = Returns (rec', w')"
  shows "tracked rec rec'"
proof -
  obtain now w1 where n: "k_now (oe_cluster E) w = (now, w1)" by fastforce
  show ?thesis
  proof (cases "update_due (update_interval (k_getenv (oe_cluster E))) (cr_Status (rec_instance rec)) now")
    case False
    with n assms have "impl_phase E rec w1 = Returns (rec', w')" by (simp add: impl_probe_def)
    then show ?thesis by (rule impl_phase_tracked)
  next
    case True
    let ?oa = "update_status (\<lambda>s. s\<lparr>st_LastUpdateProbeTimestamp := Some now\<rparr>) (rec_instance rec)"
    let ?rec1 = "snd (rec_Update True (5 * Minute) (rec\<lparr>rec_instance := ?oa\<rparr>))"
    have t1: "tracked rec ?rec1" by (intro tracked_Update) simp
    have u1: "rec_update ?rec1" and i1: "rec_instance ?rec1 = ?oa" by (simp_all add: rec_Update_def)
    obtain upd err oa w2 where s: "reconcileInstanceStatuses (oe_cluster E) ?oa dtc w1 = (upd, err, oa, w2)"
      by (metis prod_cases4)
    show ?thesis
    proof (cases err)
      case (Some e)
      with True n assms s i1 have "rec' = snd (rec_Error (Some e) (?rec1\<lparr>rec_instance := oa\<rparr>))"
        by (auto simp: impl_probe_def Let_def rec_Error_def split: prod.splits)
      with tracked_trans [OF t1 tracked_Error] show ?thesis by simp
    next
      case None
      let ?rec3 = "snd (rec_Update upd (5 * Minute) (?rec1\<lparr>rec_instance := oa\<rparr>))"
      have t3: "tracked ?rec1 ?rec3" using u1 by (intro tracked_Update) simp
      have u3: "rec_update ?rec3" by (simp add: rec_Update_def)
      have "rec' = ?rec3 \<or> impl_version E dtc ?rec3 w2 = Returns (rec', w')"
        using True n assms s i1 None
        by (auto simp: impl_probe_def Let_def rec_Error_def rec_Update_def split: if_splits)
      from tracked_trans [OF t1 t3] this show ?thesis
        by (rule tracked_step) (rule impl_version_tracked [OF u3])
    qed
  qed
qed

lemma impl_rollout_tracked:
  assumes "impl_rollout E dtc rec w = Returns (rec', w')"
  shows "tracked rec rec'"
proof (cases "reconcileRollout (oe_cluster E) (oe_version E) (rec_instance rec) dtc w")
  case (fields r oa w1)
  show ?thesis
  proof (cases r)
    case (Inl e)
    with fields assms tracked_Error [of rec e oa] show ?thesis by (simp add: impl_rollout_def)
  next
    case (Inr upd)
    let ?rec1 = "snd (rec_Update upd (5 * Minute) (rec\<lparr>rec_instance := oa\<rparr>))"
    have "oa \<noteq> with_cpu_request (rec_instance rec) \<longrightarrow> upd"
      using fields Inr by (cases upd) (auto dest: reconcileRollout_False)
    then have t: "tracked rec ?rec1" by (intro tracked_Update) simp
    have "rec' = ?rec1 \<or> impl_probe E dtc ?rec1 w1 = Returns (rec', w')"
      using fields Inr assms by (auto simp: impl_rollout_def rec_Update_def split: if_splits)
    from t this show ?thesis by (rule tracked_step) (rule impl_probe_tracked)
  qed
qed

lemma impl_image_tracked:
  assumes "impl_image E dtc rec w = Returns (rec', w')"
  shows "tracked rec rec'"
proof -
  obtain changed oa1 where s: "SetUseImmutableImageStatus (rec_instance rec) = (changed, oa1)" by fastforce
  let ?rec1 = "snd (rec_Update changed (5 * Minute) (rec\<lparr>rec_instance := oa1\<rparr>))"
  have "oa1 \<noteq> rec_instance rec \<longrightarrow> changed"
    using s by (cases changed) (auto dest: SetUseImmutableImageStatus_False)
  then have t1: "tracked rec ?rec1" by (intro tracked_Update) simp
  have i1: "rec_instance ?rec1 = oa1" by (simp add: rec_Update_def)
  obtain upd err oa2 w1 where v: "reconcileImageVersion (oe_cluster E) oa1 w = Returns (upd, err, oa2, w1)"
    using assms s i1 by (cases "reconcileImageVersion (oe_cluster E) oa1 w") (auto simp: impl_image_def)
  let ?rec1u = "snd (rec_Update upd (5 * Minute) (?rec1\<lparr>rec_instance := oa2\<rparr>))"
  let ?rec2 = "snd (rec_Error err ?rec1u)"
  have "oa2 \<noteq> oa1 \<longrightarrow> upd" using v by (cases upd) (auto dest: reconcileImageVersion_False)
  then have "tracked ?rec1 ?rec1u" using i1 by (intro tracked_Update) simp
  from tracked_trans [OF tracked_trans [OF t1 this] tracked_Error_same] have t2: "tracked rec ?rec2" .
  have "(\<exists>e. rec' = snd (rec_Error (Some e) ?rec2)) \<or> (\<exists>w2. impl_rollout E dtc ?rec2 w2 = Returns (rec', w'))"
    using assms s v i1 by (auto simp: impl_image_def Let_def split: if_splits prod.splits option.splits)
  then show ?thesis
  proof (elim disjE exE)
    fix e assume "rec' = snd (rec_Error (Some e) ?rec2)"
    with tracked_trans [OF t2 tracked_Error_same] show ?thesis by simp
  next
    fix w2 assume "impl_rollout E dtc ?rec2 w2 = Returns (rec', w')"
    from tracked_trans [OF t2 impl_rollout_tracked [OF this]] show ?thesis .
  qed
qed

text \<open>The run ends in \<open>w'\<close> with a call of \<open>ReconcileIstio\<close> that changed objects of Istio.\<close>

definition istio_changed :: "'w oneagent_env \<Rightarrow> OneAgent \<Rightarrow> 'w \<Rightarrow> bool" where
  "istio_changed E oa w' \<longleftrightarrow> sp_EnableIstio (cr_Spec oa) \<and>
     (\<exists>C dtc w. oe_istio E = Some C \<and> ReconcileIstio C oa dtc w = (Inr True, w'))"

text \<open>The whole run: steps that keep track, and at the end perhaps a change of Istio's objects.\<close>

definition istio_end :: "'w oneagent_env \<Rightarrow> reconciliation \<Rightarrow> reconciliation \<Rightarrow> 'w \<Rightarrow> bool" where
  "istio_end E rec rec' w' \<longleftrightarrow>
     rec' = rec\<lparr>rec_requeueAfter := 30 * Second\<rparr> \<and> istio_changed E (rec_instance rec) w'"

lemma impl_istio_tracked:
  "impl_istio E dtc rec w = Returns (rec', w') \<Longrightarrow> tracked rec rec' \<or> istio_end E rec rec' w'"
  by (auto simp: impl_istio_def call_ReconcileIstio_def istio_end_def istio_changed_def
      split: if_splits prod.splits sum.splits bool.splits option.splits run.splits dest: impl_image_tracked)

lemma reconcileImpl_tracked:
  assumes "reconcileImpl E rec w = Returns (rec', w')"
  shows "\<exists>rec1. tracked rec rec1 \<and> (rec' = rec1 \<or> istio_end E rec1 rec' w')"
proof (cases "validate (rec_instance rec)")
  case (Some e)
  with assms tracked_Error_same [of rec "Some e"] show ?thesis by (auto simp: reconcileImpl_def rec_Error_def)
next
  case None
  obtain res upd oa w1 where t: "Reconcile_tokens (oe_cluster E) (oe_cond E) (oe_dtc E) oneagent_reconciler
      (rec_instance rec) w = (res, upd, oa, w1)" by (metis prod_cases4)
  let ?rec1 = "snd (rec_Update upd (5 * Minute) (rec\<lparr>rec_instance := oa\<rparr>))"
  have "oa \<noteq> rec_instance rec \<longrightarrow> upd" using t by (cases upd) (auto dest: Reconcile_tokens_untouched)
  then have t1: "tracked rec ?rec1" by (intro tracked_Update) simp
  have "(\<exists>e. rec' = snd (rec_Error (Some e) ?rec1)) \<or> (\<exists>dtc. impl_istio E dtc ?rec1 w1 = Returns (rec', w'))"
    using assms None t by (cases res) (auto simp: reconcileImpl_def rec_Error_def [of None])
  then show ?thesis
  proof (elim disjE exE)
    fix e assume "rec' = snd (rec_Error (Some e) ?rec1)"
    with tracked_trans [OF t1 tracked_Error_same] show ?thesis by blast
  next
    fix dtc assume "impl_istio E dtc ?rec1 w1 = Returns (rec', w')"
    from impl_istio_tracked [OF this] t1 show ?thesis by (blast intro: tracked_trans)
  qed
qed

text \<open>How a run that started without a flag can end when there is no error.\<close>

lemma reconcileImpl_ends:
  assumes "reconcileImpl E rec w = Returns (rec', w')" and "rec_err rec' = None"
  shows "(rec_requeueAfter rec' = 30 * Second \<and> istio_changed E (rec_instance rec') w' \<or>
      rec_requeueAfter rec' = 5 * Minute \<and> rec_update rec' \<or>
      rec_requeueAfter rec' = rec_requeueAfter rec \<and> rec_update rec' = rec_update rec) \<and>
    (\<not> rec_update rec' \<longrightarrow> rec_instance rec' \<in> {rec_instance rec, with_cpu_request (rec_instance rec)} \<and>
      cr_Status (rec_instance rec') = cr_Status (rec_instance rec))"
proof -
  obtain rec1 where t: "tracked rec rec1" and e: "rec' = rec1 \<or> istio_end E rec1 rec' w'"
    using reconcileImpl_tracked [OF assms(1)] by (elim exE conjE)
  from e have "rec_instance rec' = rec_instance rec1 \<and> rec_update rec' = rec_update rec1 \<and> rec_err rec' = rec_err rec1 \<and>
      (rec_requeueAfter rec' = rec_requeueAfter rec1 \<or>
       rec_requeueAfter rec' = 30 * Second \<and> istio_changed E (rec_instance rec') w')"
    by (elim disjE) (simp_all add: istio_end_def)
  with t assms(2) show ?thesis
    unfolding tracked_def by (metis insert_iff empty_iff with_cpu_request_sel(3))
qed

section \<open>A run without agent updates\<close>


lemma impl_version_returns:
  "sp_DisableAgentUpdate (cr_Spec (rec_instance rec)) \<Longrightarrow> \<exists>r. impl_version E dtc rec w = Returns r"
  by (simp add: impl_version_def)

lemma rec_Update_instance [simp]: "rec_instance (snd (rec_Update upd d rec)) = rec_instance rec"
  by (simp add: rec_Update_def)

lemma rec_Error_instance [simp]: "rec_instance (snd (rec_Error err rec)) = rec_instance rec"
  by (simp add: rec_Error_def)









section \<open>Concrete inputs\<close>

text \<open>Every token is valid, the clock stands at the epoch, and the registry has the version \<open>ver\<close>.\<close>

definition sample_env :: "Secret \<Rightarrow> DaemonSet option \<Rightarrow> OneAgent option \<Rightarrow> string \<Rightarrow> nat oneagent_env" where
  "sample_env s ds oa ver =
     \<lparr>oe_cluster = sample_oneagent_cluster (build_cluster (Some s)) ds oa ver, oe_cond = sample_cond_lib,
      oe_dtc = (\<lambda>oa a p w. (Inr scoped_client, w)), oe_istio = Some quiet_istio,
      oe_transport = sample_transport 200, oe_codec = sample_codec, oe_version = ''v0.10.0''\<rparr>"

lemma build_cluster_simps [simp]:
  "k_getenv (build_cluster s) = (\<lambda>_. [])" "k_now (build_cluster s) = (\<lambda>w. (0, w))"
  "k_list_pods (build_cluster s) = (\<lambda>ns l w. (Inr [], w))"
  "k_get_secret (build_cluster s) = (\<lambda>ns n w. ((case s of None \<Rightarrow> Inl KubeNotFound | Some x \<Rightarrow> Inr x), w))"
  by (simp_all add: build_cluster_def idle_cluster_def)

text \<open>A OneAgent at which nothing is left to do, and its DaemonSet.\<close>

definition settled_oneagent :: OneAgent where
  "settled_oneagent = (empty_oneagent ''oneagent'' ''dynatrace'')
     \<lparr>cr_Spec := empty_spec\<lparr>sp_APIURL := ''https://abc.live.dynatrace.com/api'', sp_DisableAgentUpdate := True\<rparr>,
      cr_Status := empty_status\<lparr>st_LastPaaSTokenProbeTimestamp := Some 0, st_LastAPITokenProbeTimestamp := Some 0,
        st_Version := ''1.202.0.20190101-000000'', st_Tokens := ''oneagent'', st_Phase := Running,
        st_LastUpdateProbeTimestamp := Some 0\<rparr>\<rparr>"

definition settled_daemonset :: DaemonSet where
  "settled_daemonset = (fst (unhashed_daemonset (\<lambda>_. []) ''v0.10.0'' settled_oneagent ''cluster-id''))
     \<lparr>ds_Annotations := Some [annotationTemplateHash \<mapsto> Itoa (uint (fnv32 ''oneagent''))]\<rparr>"

definition settled_rec :: reconciliation where
  "settled_rec = \<lparr>rec_instance = settled_oneagent, rec_err = None, rec_update = False, rec_requeueAfter = 30 * Minute\<rparr>"

section \<open>Properties\<close>

text \<open>C1: No change of the status is forgotten: a run that ends without an error and without the
  flag that has the status written leaves the name and the status as they were read.  All it may have
  changed is the specification in memory, by the default CPU request that the DaemonSet's builder writes
  into the resource's own map of requests.\<close>

theorem no_status_change_is_lost:
  assumes "reconcileImpl E rec w = Returns (rec', w')" and "rec_err rec' = None" and "\<not> rec_update rec'"
  shows "cr_Status (rec_instance rec') = cr_Status (rec_instance rec) \<and>
    rec_instance rec' \<in> {rec_instance rec, with_cpu_request (rec_instance rec)}"
  using reconcileImpl_ends [OF assms(1)] assms(2,3) by auto

text \<open>The settled OneAgent has no requests, so nothing is written into it.\<close>

lemma settled_requests [simp]: "with_cpu_request settled_oneagent = settled_oneagent"
  by (simp add: with_cpu_request_def settled_oneagent_def empty_resources)

text \<open>What the settled OneAgent looks like to the steps.\<close>

lemma settled_sel [simp]:
  "cr_Name settled_oneagent = ''oneagent''" "cr_Namespace settled_oneagent = ''dynatrace''"
  "sp_APIURL (cr_Spec settled_oneagent) = ''https://abc.live.dynatrace.com/api''"
  "sp_Tokens (cr_Spec settled_oneagent) = []" "\<not> sp_EnableIstio (cr_Spec settled_oneagent)"
  "\<not> sp_UseImmutableImage (cr_Spec settled_oneagent)" "\<not> st_UseImmutableImage (cr_Status settled_oneagent)"
  "sp_DisableAgentUpdate (cr_Spec settled_oneagent)"
  "st_Version (cr_Status settled_oneagent) = ''1.202.0.20190101-000000''"
  "st_Tokens (cr_Status settled_oneagent) = ''oneagent''" "st_Phase (cr_Status settled_oneagent) = Running"
  "st_LastUpdateProbeTimestamp (cr_Status settled_oneagent) = Some 0"
  "st_LastPaaSTokenProbeTimestamp (cr_Status settled_oneagent) = Some 0"
  "st_LastAPITokenProbeTimestamp (cr_Status settled_oneagent) = Some 0"
  "st_Conditions (cr_Status settled_oneagent) = []"
  by (simp_all add: settled_oneagent_def empty_resources)

lemma unhashed_sel [simp]:
  "ds_Name (fst (unhashed_daemonset env v oa cid)) = cr_Name oa"
  "ds_Namespace (fst (unhashed_daemonset env v oa cid)) = cr_Namespace oa"
  "ds_Annotations (fst (unhashed_daemonset env v oa cid)) = Some Map.empty"
  "ds_NumberReady (fst (unhashed_daemonset env v oa cid)) = 0"
  "ds_CurrentNumberScheduled (fst (unhashed_daemonset env v oa cid)) = 0"
  by (simp_all add: unhashed_daemonset_def Let_def split_beta)

lemma settled_daemonset_sel [simp]:
  "ds_NumberReady settled_daemonset = 0" "ds_CurrentNumberScheduled settled_daemonset = 0"
  "getTemplateHash settled_daemonset = Itoa (uint (fnv32 ''oneagent''))"
  by (simp_all add: settled_daemonset_def getTemplateHash_def)

lemma sample_env_sel [simp]:
  "oe_cluster (sample_env s ds oa ver) = sample_oneagent_cluster (build_cluster (Some s)) ds oa ver"
  "oe_cond (sample_env s ds oa ver) = sample_cond_lib"
  "oe_dtc (sample_env s ds oa ver) = (\<lambda>oa a p w. (Inr scoped_client, w))"
  "oe_version (sample_env s ds oa ver) = ''v0.10.0''"
  by (simp_all add: sample_env_def)

lemma settled_tokens:
  "Reconcile_tokens (sample_oneagent_cluster (build_cluster (Some sample_secret)) (Some settled_daemonset) oa [])
     sample_cond_lib (\<lambda>oa a p w. (Inr scoped_client, w)) oneagent_reconciler settled_oneagent 0 =
     (Inr scoped_client, False, settled_oneagent, 0)"
  by (simp add: token_defs sample_secret_def oneagent_reconciler_def zero_time_def Minute_def Second_def)

lemma settled_phase:
  "impl_phase (sample_env sample_secret (Some settled_daemonset) oa []) settled_rec 0 = Returns (settled_rec, 0)"
  by (simp add: impl_phase_def determineOneAgentPhase_def settled_rec_def rec_Error_def rec_Update_def)

lemma settled_rollout:
  "reconcileRollout (sample_oneagent_cluster (build_cluster (Some sample_secret)) (Some settled_daemonset) oa [])
     ''v0.10.0'' settled_oneagent dtc 0 = (Inr False, settled_oneagent, 0)"
  by (simp add: reconcileRollout_def newDaemonSetForCR_def generateDaemonSetHash_def split_beta apply_daemonset_def
      hasDaemonSetChanged_def getTemplateHash_def [of "_\<lparr>ds_Annotations := _\<rparr>"] GetTokensName_def)

lemma settled_run:
  "reconcileImpl (sample_env sample_secret (Some settled_daemonset) oa []) settled_rec 0 = Returns (settled_rec, 0)"
proof -
  let ?E = "sample_env sample_secret (Some settled_daemonset) oa []"
  have rec: "rec_instance settled_rec = settled_oneagent" "settled_rec\<lparr>rec_instance := settled_oneagent\<rparr> = settled_rec"
    by (simp_all add: settled_rec_def)
  have probe: "impl_probe ?E dtc settled_rec 0 = Returns (settled_rec, 0)" for dtc
    using settled_phase [of oa]
    by (simp add: impl_probe_def rec update_due_def update_interval_def defaultUpdateInterval_def Minute_def Second_def)
  have rollout: "impl_rollout ?E dtc settled_rec 0 = Returns (settled_rec, 0)" for dtc
    using probe by (simp add: impl_rollout_def rec settled_rollout rec_Update_def)
  have img: "impl_image ?E dtc settled_rec 0 = Returns (settled_rec, 0)" for dtc
    using rollout by (simp add: impl_image_def rec SetUseImmutableImageStatus_def rec_Update_def
        reconcileImageVersion_def rec_Error_def)
  show ?thesis
    using img by (simp add: reconcileImpl_def rec validate_def rec_Error_def settled_tokens rec_Update_def impl_istio_def)
qed

theorem no_status_change_is_lost_witness:
  "reconcileImpl (sample_env sample_secret (Some settled_daemonset) None []) settled_rec 0 = Returns (settled_rec, 0) \<and>
   rec_instance settled_rec \<in> {settled_oneagent, with_cpu_request settled_oneagent}"
  using no_status_change_is_lost [OF settled_run [of None]] settled_run [of None]
  by (simp add: settled_rec_def)

text \<open>What \<open>finish\<close> makes of a run's record.\<close>

lemma finish_ends:
  assumes "finish E rec w2 = ((d, e), w')"
  shows "case rec_err rec of
      Some err \<Rightarrow> (if is_server_error_code StatusTooManyRequests err then d = Minute \<and> e = None else d = 0 \<and> e = Some err) \<or>
          d = 0 \<and> (\<exists>oa' msg f. fst (updateCR (oe_cluster E) oa' w2) = Some f \<and> e = Some (Wrapped msg f))
    | None \<Rightarrow> (case (if rec_update rec then fst (updateCR (oe_cluster E) (rec_instance rec) w2) else None) of
          Some f \<Rightarrow> d = 0 \<and> e = Some f
        | None \<Rightarrow> e = None \<and> d = rec_requeueAfter rec)"
proof (cases "rec_err rec")
  case None
  with assms show ?thesis by (auto simp: finish_def split: prod.splits option.splits if_splits)
next
  case (Some err)
  obtain changed sts where p: "SetPhaseOnError (Some err) (cr_Status (rec_instance rec)) = (changed, sts)" by fastforce
  obtain f oa' w3 where u: "updateCR (oe_cluster E)
      (if rec_update rec then rec_instance rec else (rec_instance rec)\<lparr>cr_Status := sts\<rparr>) w2 = (f, oa', w3)"
    by (metis prod_cases3)
  then have f: "\<exists>oa'. fst (updateCR (oe_cluster E) oa' w2) = f" by (metis fst_conv)
  show ?thesis
  proof (cases "(rec_update rec \<or> changed) \<and> f \<noteq> None")
    case True
    with assms Some p u have "d = 0 \<and> (\<exists>msg. e = Some (Wrapped msg (the f)))"
      by (auto simp: finish_def finish_error_def)
    with True f Some show ?thesis by auto
  next
    case False
    with assms Some p u have "(d, e) = (if is_server_error_code StatusTooManyRequests err then (Minute, None) else (0, Some err))"
      by (auto simp: finish_def finish_error_def split: if_splits)
    with Some show ?thesis by (auto split: if_splits)
  qed
qed

text \<open>The record that a run starts with.\<close>

definition start_rec :: "OneAgent \<Rightarrow> reconciliation" where
  "start_rec oa = \<lparr>rec_instance = oa, rec_err = None, rec_update = False, rec_requeueAfter = 30 * Minute\<rparr>"

text \<open>C21: The delay until the next run tells how the run ended.  When the resource is gone there is
  none and no error; a failed read is returned.  Otherwise, with the record that the steps leave: a run
  whose steps failed comes back a minute later if it was Dynatrace's rate limit (and the failure was
  stored), else the error is returned and there is no delay; a failed write of the status is returned;
  30 seconds stand for a run that ended with a change of Istio's objects, five minutes for a run that
  changed the resource and stored it, and 30 minutes for a run that left its status as it was.\<close>

theorem requeue_delays:
  assumes "Reconcile E ns name w = Returns ((d, e), w')"
  shows "case k_get_oneagent (oe_cluster E) ns name w of
      (Inl f, w1) \<Rightarrow> d = 0 \<and> e = (if f = KubeNotFound then None else Some f)
    | (Inr oa, w1) \<Rightarrow>
        (\<exists>rec w2. reconcileImpl E (start_rec oa) w1 = Returns (rec, w2) \<and>
          (case rec_err rec of
             Some err \<Rightarrow> (if is_server_error_code StatusTooManyRequests err then d = Minute \<and> e = None else d = 0 \<and> e = Some err) \<or>
                 d = 0 \<and> (\<exists>oa' msg f. fst (updateCR (oe_cluster E) oa' w2) = Some f \<and> e = Some (Wrapped msg f))
           | None \<Rightarrow> (case (if rec_update rec then fst (updateCR (oe_cluster E) (rec_instance rec) w2) else None) of
                 Some f \<Rightarrow> d = 0 \<and> e = Some f
               | None \<Rightarrow> e = None \<and>
                   (d = 30 * Second \<and> istio_changed E (rec_instance rec) w2 \<or>
                    d = 5 * Minute \<and> rec_update rec \<or>
                    d = 30 * Minute \<and> \<not> rec_update rec \<and> cr_Status (rec_instance rec) = cr_Status oa))))"
proof (cases "k_get_oneagent (oe_cluster E) ns name w")
  case (Pair r w1)
  show ?thesis
  proof (cases r)
    case (Inl err)
    with Pair assms show ?thesis by (auto simp: Reconcile_def IsNotFound_iff split: if_splits)
  next
    case (Inr oa)
    obtain rec w2 where i: "reconcileImpl E (start_rec oa) w1 = Returns (rec, w2)" and f: "finish E rec w2 = ((d, e), w')"
      using assms Pair Inr by (cases "reconcileImpl E (start_rec oa) w1") (auto simp: Reconcile_def start_rec_def)
    have "rec_err rec = None \<longrightarrow> rec_requeueAfter rec = 30 * Second \<and> istio_changed E (rec_instance rec) w2 \<or>
        rec_requeueAfter rec = 5 * Minute \<and> rec_update rec \<or>
        rec_requeueAfter rec = 30 * Minute \<and> \<not> rec_update rec \<and> cr_Status (rec_instance rec) = cr_Status oa"
      using reconcileImpl_ends [OF i] by (auto simp: start_rec_def)
    with i finish_ends [OF f] show ?thesis
      unfolding Pair Inr prod.case sum.case
      by (intro exI [of _ rec] exI [of _ w2]; cases "rec_err rec";
          cases "if rec_update rec then fst (updateCR (oe_cluster E) (rec_instance rec) w2) else None")
        (simp_all only: option.case simp_thms)
  qed
qed

lemma settled_reconcile:
  "Reconcile (sample_env sample_secret (Some settled_daemonset) (Some settled_oneagent) []) ''dynatrace'' ''oneagent'' 0 =
     Returns ((30 * Minute, None), 0)"
  using settled_run [of "Some settled_oneagent"] unfolding settled_rec_def by (simp add: Reconcile_def finish_def)

theorem requeue_delays_witness:
  "\<exists>rec w2. reconcileImpl (sample_env sample_secret (Some settled_daemonset) (Some settled_oneagent) [])
       (start_rec settled_oneagent) 0 = Returns (rec, w2) \<and> \<not> rec_update rec \<and> cr_Status (rec_instance rec) = cr_Status settled_oneagent"
proof -
  have delays: "30 * Minute \<noteq> Minute" "30 * Minute \<noteq> 0" "30 * Minute \<noteq> 30 * Second" "30 * Minute \<noteq> 5 * Minute"
    by (simp_all add: Minute_def Second_def)
  show ?thesis
    using requeue_delays [OF settled_reconcile] delays by (auto split: option.splits if_splits)
qed





section \<open>The rollout\<close>

text \<open>
  The DaemonSets of the cluster, seen as their template hashes; the laws are those of an API server
  without other writers: a Get finds what is there, Create adds, Update replaces, nothing else
  touches a DaemonSet.  The server may fill in other fields.
\<close>

type_synonym hash_view = "string \<Rightarrow> string \<rightharpoonup> string"

definition stores_hash :: "('w \<Rightarrow> hash_view) \<Rightarrow> DaemonSet \<Rightarrow> 'w \<Rightarrow> go_error option \<times> 'w \<Rightarrow> bool" where
  "stores_hash V d w r \<longleftrightarrow> fst r = None \<and>
     V (snd r) = (V w)(ds_Namespace d := (V w (ds_Namespace d))(ds_Name d \<mapsto> getTemplateHash d))"

definition rollout_law ::
  "('w \<Rightarrow> hash_view) \<Rightarrow> Namespace \<Rightarrow> ('v, 'w, 'z) oneagent_cluster_scheme \<Rightarrow> 'w dt_client \<Rightarrow> bool" where
  "rollout_law V ks K dtc \<longleftrightarrow>
     (\<forall>w. \<exists>w'. k_get_namespace K ''kube-system'' w = (Inr ks, w') \<and> V w' = V w) \<and>
     (\<forall>ns n w. \<exists>r w'. k_get_daemonset K ns n w = (r, w') \<and> V w' = V w \<and>
        (case V w ns n of None \<Rightarrow> r = Inl KubeNotFound | Some h \<Rightarrow> \<exists>d. r = Inr d \<and> getTemplateHash d = h)) \<and>
     (\<forall>d w. V w (ds_Namespace d) (ds_Name d) = None \<longrightarrow> stores_hash V d w (k_create_daemonset K d w)) \<and>
     (\<forall>d w. V w (ds_Namespace d) (ds_Name d) \<noteq> None \<longrightarrow> stores_hash V d w (k_update_daemonset K d w)) \<and>
     (\<forall>oa d. \<exists>d'. k_set_daemonset_owner K oa d = Inr d' \<and> ds_Name d' = ds_Name d \<and>
        ds_Namespace d' = ds_Namespace d \<and> getTemplateHash d' = getTemplateHash d) \<and>
     (\<forall>d. \<exists>t. k_marshal_daemonset K d = Inr t) \<and>
     (\<forall>w. \<exists>v w'. c_GetLatestAgentVersion dtc ''unix'' ''default'' w = (Inr v, w') \<and> v \<noteq> [] \<and> V w' = V w)"

lemmas rollout_parts = rollout_law_def [THEN iffD1]
lemmas law_namespace = rollout_parts [THEN conjunct1, rule_format]
lemmas law_get_daemonset = rollout_parts [THEN conjunct2, THEN conjunct1, rule_format]
lemmas law_create_daemonset = rollout_parts [THEN conjunct2, THEN conjunct2, THEN conjunct1, rule_format]
lemmas law_update_daemonset = rollout_parts [THEN conjunct2, THEN conjunct2, THEN conjunct2, THEN conjunct1, rule_format]
lemmas law_owner = rollout_parts [THEN conjunct2, THEN conjunct2, THEN conjunct2, THEN conjunct2, THEN conjunct1, rule_format]
lemmas law_marshal = rollout_parts [THEN conjunct2, THEN conjunct2, THEN conjunct2, THEN conjunct2, THEN conjunct2, THEN conjunct1, rule_format]
lemmas law_latest = rollout_parts [THEN conjunct2, THEN conjunct2, THEN conjunct2, THEN conjunct2, THEN conjunct2, THEN conjunct2, rule_format]

lemma apply_daemonset_view:
  assumes "rollout_law V ks K dtc"
  shows "\<exists>w'. apply_daemonset K d w = (None, w') \<and>
     V w' = (V w)(ds_Namespace d := (V w (ds_Namespace d))(ds_Name d \<mapsto> getTemplateHash d))"
proof -
  obtain r w1 where g: "k_get_daemonset K (ds_Namespace d) (ds_Name d) w = (r, w1)" and v1: "V w1 = V w"
    and r: "case V w (ds_Namespace d) (ds_Name d) of None \<Rightarrow> r = Inl KubeNotFound
            | Some h \<Rightarrow> \<exists>d'. r = Inr d' \<and> getTemplateHash d' = h"
    using law_get_daemonset [OF assms, of "ds_Namespace d" "ds_Name d" w] by (elim exE conjE)
  show ?thesis
  proof (cases "V w (ds_Namespace d) (ds_Name d)")
    case None
    with law_create_daemonset [OF assms, of w1 d] v1
    have "stores_hash V d w1 (k_create_daemonset K d w1)" by simp
    with None g r v1 show ?thesis
      by (cases "k_create_daemonset K d w1") (simp add: apply_daemonset_def stores_hash_def)
  next
    case (Some h)
    with r obtain d' where d': "r = Inr d'" "getTemplateHash d' = h" by auto
    from Some law_update_daemonset [OF assms, of w1 d] v1
    have u: "stores_hash V d w1 (k_update_daemonset K d w1)" by simp
    show ?thesis
    proof (cases "hasDaemonSetChanged d d'")
      case True
      with u g d' v1 show ?thesis
        by (cases "k_update_daemonset K d w1") (simp add: apply_daemonset_def stores_hash_def)
    next
      case False
      then have "h = getTemplateHash d" using d' by (simp add: hasDaemonSetChanged_def)
      with Some have "(V w)(ds_Namespace d := (V w (ds_Namespace d))(ds_Name d \<mapsto> getTemplateHash d)) = V w"
        by (simp add: fun_upd_idem)
      with False g d' v1 show ?thesis by (simp add: apply_daemonset_def)
    qed
  qed
qed

lemma GetTokensName_status [simp]: "GetTokensName (oa\<lparr>cr_Status := s\<rparr>) = GetTokensName oa"
  by (simp add: GetTokensName_def Let_def)

lemma GetTokensName_cpu [simp]: "GetTokensName (with_cpu_request oa) = GetTokensName oa"
  by (simp add: GetTokensName_def Let_def)

text \<open>The template hash that the operator wants for a OneAgent.\<close>

definition wanted_hash :: "('v, 'w, 'z) oneagent_cluster_scheme \<Rightarrow> string \<Rightarrow> OneAgent \<Rightarrow> Namespace \<Rightarrow> string" where
  "wanted_hash K version oa ks =
     Itoa (uint (fnv32 (projr (k_marshal_daemonset K (fst (unhashed_daemonset (k_getenv K) version oa (ns_UID ks)))))))"

text \<open>The resource after the rollout, when Dynatrace answers \<open>v\<close> as the latest version.\<close>

definition rolled_out :: "string \<Rightarrow> OneAgent \<Rightarrow> OneAgent" where
  "rolled_out v oa = update_status (\<lambda>s. (if st_Version s = [] then s\<lparr>st_Version := v, st_Phase := Deploying\<rparr> else s)
     \<lparr>st_Tokens := GetTokensName oa\<rparr>) (with_cpu_request oa)"

lemma rollout_view:
  assumes "rollout_law V ks K dtc"
  shows "\<exists>v w'. v \<noteq> [] \<and> reconcileRollout K version oa dtc w =
       (Inr (cr_Status (rolled_out v oa) \<noteq> cr_Status oa), rolled_out v oa, w') \<and>
     V w' = (V w)(cr_Namespace oa := (V w (cr_Namespace oa))(cr_Name oa \<mapsto> wanted_hash K version oa ks))"
proof -
  obtain w1 where n: "k_get_namespace K ''kube-system'' w = (Inr ks, w1)" and v1: "V w1 = V w"
    using law_namespace [OF assms, of w] by (elim exE conjE)
  let ?ds = "fst (unhashed_daemonset (k_getenv K) version oa (ns_UID ks))" and ?oa = "with_cpu_request oa"
  obtain t where t: "k_marshal_daemonset K ?ds = Inr t" using law_marshal [OF assms] by blast
  let ?d = "?ds\<lparr>ds_Annotations := Some [annotationTemplateHash \<mapsto> wanted_hash K version oa ks]\<rparr>"
  have b: "newDaemonSetForCR (k_marshal_daemonset K) (k_getenv K) version oa (ns_UID ks) = (Inr ?d, ?oa)"
    using t by (simp add: newDaemonSetForCR_def generateDaemonSetHash_def wanted_hash_def split_beta)
  obtain d' where ow: "k_set_daemonset_owner K ?oa ?d = Inr d'" and d': "ds_Name d' = cr_Name oa"
    "ds_Namespace d' = cr_Namespace oa" "getTemplateHash d' = wanted_hash K version oa ks"
    using law_owner [OF assms, of ?oa ?d] by (auto simp: getTemplateHash_def [of ?d])
  obtain w2 where a: "apply_daemonset K d' w1 = (None, w2)"
    and v2: "V w2 = (V w)(cr_Namespace oa := (V w (cr_Namespace oa))(cr_Name oa \<mapsto> wanted_hash K version oa ks))"
    using apply_daemonset_view [OF assms, of d' w1] d' v1 by auto
  obtain l w3 where latest: "c_GetLatestAgentVersion dtc ''unix'' ''default'' w2 = (Inr l, w3)" "l \<noteq> []" "V w3 = V w2"
    using law_latest [OF assms, of w2] by (elim exE conjE)
  have "\<exists>v w4. initial_version dtc ?oa w2 = (Inr v, w4) \<and> v \<noteq> [] \<and> V w4 = V w2"
    using latest by (simp add: initial_version_def)
  then obtain v w4 where i: "initial_version dtc ?oa w2 = (Inr v, w4)" "v \<noteq> []" "V w4 = V w2" by (elim exE conjE)
  have sel: "s\<lparr>st_Version := v, st_Phase := ph, st_Tokens := st_Tokens s\<rparr> = s\<lparr>st_Version := v, st_Phase := ph\<rparr>"
    for s :: OneAgentStatus and ph by (cases s) simp
  have tk: "s\<lparr>st_Tokens := x\<rparr> = s \<longleftrightarrow> st_Tokens s = x" for s :: OneAgentStatus and x by (cases s) auto
  show ?thesis
  proof (cases "st_Version (cr_Status oa) = []")
    case False
    have "x\<lparr>cr_Status := cr_Status x\<rparr> = x" for x :: OneAgent by (cases x) simp
    from this [of ?oa] have id: "?oa\<lparr>cr_Status := (cr_Status oa)\<lparr>st_Tokens := GetTokensName oa\<rparr>\<rparr> = ?oa"
      if "st_Tokens (cr_Status oa) = GetTokensName oa"
      using that tk [where s = "cr_Status oa" and x = "GetTokensName oa"] by simp
    from False have "reconcileRollout K version oa dtc w =
        (Inr (cr_Status (rolled_out v oa) \<noteq> cr_Status oa), rolled_out v oa, w2)"
      using n b ow a id by (auto simp: reconcileRollout_def rolled_out_def tk)
    with i v2 show ?thesis by blast
  next
    case True
    then have ne: "cr_Status (rolled_out v oa) \<noteq> cr_Status oa" using i(2) by (auto simp: rolled_out_def dest: arg_cong [where f = st_Version])
    have "reconcileRollout K version oa dtc w = (Inr True, rolled_out v oa, w4)"
      using True n b ow a i(1)
      by (cases "st_Tokens (cr_Status oa) = GetTokensName oa") (simp_all add: reconcileRollout_def rolled_out_def SetPhase_def sel)
    with ne i v2 show ?thesis by auto
  qed
qed

text \<open>C2: The rollout is idempotent.  On a cluster that answers and that nobody else writes, one
  rollout leaves exactly one DaemonSet changed, the resource's own, which then has the template hash
  of the specification; the flag is set exactly if the status changed, and of the rest of the resource
  at most the default CPU request is written; and a second rollout of the resource it returned changes
  neither the resource nor the cluster.\<close>

theorem rollout_is_idempotent:
  assumes "rollout_law V ks K dtc"
  shows "\<exists>upd oa' w1 w2. reconcileRollout K version oa dtc w = (Inr upd, oa', w1) \<and>
    (upd \<longleftrightarrow> cr_Status oa' \<noteq> cr_Status oa) \<and> oa' = (with_cpu_request oa)\<lparr>cr_Status := cr_Status oa'\<rparr> \<and>
    V w1 = (V w)(cr_Namespace oa := (V w (cr_Namespace oa))(cr_Name oa \<mapsto> wanted_hash K version oa ks)) \<and>
    reconcileRollout K version oa' dtc w1 = (Inr False, oa', w2) \<and> V w2 = V w1"
proof -
  obtain v w1 where ne: "v \<noteq> []" and r1: "reconcileRollout K version oa dtc w =
      (Inr (cr_Status (rolled_out v oa) \<noteq> cr_Status oa), rolled_out v oa, w1)"
    and v1: "V w1 = (V w)(cr_Namespace oa := (V w (cr_Namespace oa))(cr_Name oa \<mapsto> wanted_hash K version oa ks))"
    using rollout_view [OF assms, of version oa w] by (elim exE conjE)
  let ?oa = "rolled_out v oa"
  obtain v' w2 where r2: "reconcileRollout K version ?oa dtc w1 =
      (Inr (cr_Status (rolled_out v' ?oa) \<noteq> cr_Status ?oa), rolled_out v' ?oa, w2)"
    and v2: "V w2 = (V w1)(cr_Namespace ?oa := (V w1 (cr_Namespace ?oa))(cr_Name ?oa \<mapsto> wanted_hash K version ?oa ks))"
    using rollout_view [OF assms, of version ?oa w1] by (elim exE conjE)
  have keep: "cr_Spec ?oa = cr_Spec (with_cpu_request oa)" "cr_Name ?oa = cr_Name (with_cpu_request oa)"
    "cr_Namespace ?oa = cr_Namespace (with_cpu_request oa)"
    "st_UseImmutableImage (cr_Status ?oa) = st_UseImmutableImage (cr_Status (with_cpu_request oa))"
    "st_ImageVersion (cr_Status ?oa) = st_ImageVersion (cr_Status (with_cpu_request oa))"
    by (simp_all add: rolled_out_def)
  have h: "wanted_hash K version ?oa ks = wanted_hash K version oa ks"
    by (simp only: wanted_hash_def unhashed_daemonset_cong [OF keep] unhashed_daemonset_again)
  have same: "rolled_out v' ?oa = ?oa"
    using ne by (simp add: rolled_out_def)
  have written: "?oa = (with_cpu_request oa)\<lparr>cr_Status := cr_Status ?oa\<rparr>" by (simp add: rolled_out_def)
  have "V w2 = V w1" unfolding v2 h keep v1 by (simp add: fun_upd_idem)
  with r1 v1 r2 same written show ?thesis by auto
qed

text \<open>A cluster whose world is the template hashes of its DaemonSets.\<close>

definition hash_cluster :: "(string, hash_view) oneagent_cluster" where
  "hash_cluster = (sample_oneagent_cluster (idle_cluster None) None None [])
     \<lparr>k_get_daemonset := (\<lambda>ns n w. ((case w ns n of None \<Rightarrow> Inl KubeNotFound
        | Some h \<Rightarrow> Inr (settled_daemonset\<lparr>ds_Annotations := Some [annotationTemplateHash \<mapsto> h]\<rparr>)), w)),
      k_create_daemonset := (\<lambda>d w. (None, w(ds_Namespace d := (w (ds_Namespace d))(ds_Name d \<mapsto> getTemplateHash d)))),
      k_update_daemonset := (\<lambda>d w. (None, w(ds_Namespace d := (w (ds_Namespace d))(ds_Name d \<mapsto> getTemplateHash d))))\<rparr>"

lemma hash_cluster_law:
  "rollout_law (\<lambda>w. w) \<lparr>ns_Name = ''kube-system'', ns_UID = ''cluster-id'', ns_Labels = None, ns_Annotations = None\<rparr>
     hash_cluster (sample_dt_client None)"
  by (auto simp: rollout_law_def hash_cluster_def stores_hash_def sample_dt_client_def getTemplateHash_def
      split: option.splits)

theorem rollout_is_idempotent_witness:
  "\<exists>upd oa' w1 w2. reconcileRollout hash_cluster ''v0.10.0'' settled_oneagent (sample_dt_client None) (\<lambda>ns n. None) =
      (Inr upd, oa', w1) \<and> w1 ''dynatrace'' ''oneagent'' = Some (Itoa (uint (fnv32 ''oneagent''))) \<and>
    reconcileRollout hash_cluster ''v0.10.0'' oa' (sample_dt_client None) w1 = (Inr False, oa', w2) \<and> w2 = w1"
proof -
  let ?ks = "\<lparr>ns_Name = ''kube-system'', ns_UID = ''cluster-id'', ns_Labels = None, ns_Annotations = None\<rparr>"
  have h: "wanted_hash hash_cluster ''v0.10.0'' settled_oneagent ?ks = Itoa (uint (fnv32 ''oneagent''))"
    by (simp add: wanted_hash_def hash_cluster_def)
  show ?thesis
    using rollout_is_idempotent [OF hash_cluster_law, of "''v0.10.0''" settled_oneagent "\<lambda>ns n. None"]
    unfolding h by (elim exE conjE) (auto intro!: exI)
qed

section \<open>The image version and the phase\<close>

text \<open>C22: The image version of a OneAgent only advances: a probe of the registry sets it when there is
  none yet, or to one that is newer in the order of the versions; it changes the hash only together
  with the version; and a failed probe changes neither.  The comparison can panic, for an image whose
  version has fewer components than the one before; nothing else in the probe can.\<close>

theorem image_version_only_advances:
  "case reconcileImageVersion K oa w of
     Returns (upd, err, oa', w') \<Rightarrow>
       (let old = st_ImageVersion (cr_Status oa); new = st_ImageVersion (cr_Status oa') in
        (new = old \<or> old = [] \<or> isDesiredNewer old new = Some True) \<and>
        (new = old \<longrightarrow> st_ImageHash (cr_Status oa') = st_ImageHash (cr_Status oa)) \<and>
        (err \<noteq> None \<longrightarrow> new = old) \<and> (\<not> upd \<longrightarrow> oa' = oa) \<and> cr_Spec oa' = cr_Spec oa)
   | Panics \<Rightarrow> \<exists>new. isDesiredNewer (st_ImageVersion (cr_Status oa)) new = None
   | Diverges \<Rightarrow> False"
  by (auto simp: reconcileImageVersion_def note_image_version_def Let_def
      split: prod.splits sum.splits option.splits if_splits)

text \<open>An immutable image at version 1.201, a registry that has 1.202, and the pull secret.\<close>

definition immutable_oneagent :: OneAgent where
  "immutable_oneagent = (empty_oneagent ''oneagent'' ''dynatrace'')
     \<lparr>cr_Spec := empty_spec\<lparr>sp_APIURL := ''https://abc.live.dynatrace.com/api'', sp_UseImmutableImage := True\<rparr>,
      cr_Status := empty_status\<lparr>st_UseImmutableImage := True, st_ImageVersion := ''1.201.0.20190101-000000''\<rparr>\<rparr>"

definition pull_secret :: Secret where
  "pull_secret = \<lparr>sec_Name = ''oneagent-pull-secret'', sec_Namespace = ''dynatrace'',
     sec_Type = ''kubernetes.io/dockerconfigjson'',
     sec_Data = Some [''.dockerconfigjson'' \<mapsto> [CHR ''r'', CHR 0x0A, CHR ''u'', CHR 0x0A, CHR ''p'']]\<rparr>"

lemma sample_probe_image:
  "\<exists>w'. GetImageVersion (sample_image_lib ver) img cfg w = (Inr \<lparr>iv_Version = ver, iv_Hash = ''abc''\<rparr>, w')"
  by (simp add: GetImageVersion_def sample_image_lib_def Let_def map_get_def VersionLabel_def)

lemma sample_docker_config: "\<exists>cfg. NewDockerConfig sample_docker_codec pull_secret = Inr cfg"
  by (simp add: NewDockerConfig_def secret_field_def pull_secret_def sample_docker_codec_def)

lemma sample_image_version:
  "\<exists>w'. reconcileImageVersion (sample_oneagent_cluster (build_cluster (Some pull_secret)) None None ver)
      immutable_oneagent 0 = (case note_image_version \<lparr>iv_Version = ver, iv_Hash = ''abc''\<rparr>
        (update_status (\<lambda>s. s\<lparr>st_LastImageVersionProbeTimestamp := Some 0\<rparr>) immutable_oneagent) of
          None \<Rightarrow> Panics | Some oa' \<Rightarrow> Returns (True, None, oa', w'))"
proof -
  obtain cfg where "NewDockerConfig sample_docker_codec pull_secret = Inr cfg" using sample_docker_config by blast
  moreover obtain w' where "GetImageVersion (sample_image_lib ver)
      (BuildOneAgentImage (sp_APIURL (cr_Spec immutable_oneagent)) (sp_AgentVersion (cr_Spec immutable_oneagent))) (Some cfg) (0 :: nat)
      = (Inr \<lparr>iv_Version = ver, iv_Hash = ''abc''\<rparr>, w')" by (rule exE [OF sample_probe_image])
  moreover have "st_UseImmutableImage (cr_Status immutable_oneagent)" "\<not> sp_DisableAgentUpdate (cr_Spec immutable_oneagent)"
    "sp_Image (cr_Spec immutable_oneagent) = []" "st_LastImageVersionProbeTimestamp (cr_Status immutable_oneagent) = None"
    by (simp_all add: immutable_oneagent_def empty_resources)
  ultimately show ?thesis
    by (intro exI [of _ w']) (simp add: reconcileImageVersion_def image_probe_due_def Let_def)
qed

lemma newer_1_202: "isDesiredNewer ''1.201.0.20190101-000000'' ''1.202.0.20190101-000000'' = Some True"
  by code_simp

lemma shorter_panics: "isDesiredNewer ''1.201.0.20190101-000000'' ''1.201'' = None"
  by code_simp

theorem image_version_only_advances_witness:
  "\<exists>oa' w'. reconcileImageVersion (sample_oneagent_cluster (build_cluster (Some pull_secret)) None None
        ''1.202.0.20190101-000000'') immutable_oneagent 0 = Returns (True, None, oa', w') \<and>
      st_ImageVersion (cr_Status oa') = ''1.202.0.20190101-000000'' \<and> cr_Spec oa' = cr_Spec immutable_oneagent"
proof -
  let ?ver = "''1.202.0.20190101-000000''"
  let ?oa = "update_status (\<lambda>s. s\<lparr>st_LastImageVersionProbeTimestamp := Some 0\<rparr>) immutable_oneagent"
  have v: "st_ImageVersion (cr_Status ?oa) = ''1.201.0.20190101-000000''"
    by (simp add: immutable_oneagent_def)
  then have "note_image_version \<lparr>iv_Version = ?ver, iv_Hash = ''abc''\<rparr> ?oa =
      Some (update_status (\<lambda>s. s\<lparr>st_ImageHash := ''abc'', st_ImageVersion := ?ver\<rparr>) ?oa)"
    using newer_1_202 by (simp add: note_image_version_def)
  then obtain oa' w' where r: "reconcileImageVersion (sample_oneagent_cluster (build_cluster (Some pull_secret)) None None
      ?ver) immutable_oneagent 0 = Returns (True, None, oa', w')" and "st_ImageVersion (cr_Status oa') = ?ver"
    using sample_image_version [of ?ver] by auto
  moreover have "cr_Spec oa' = cr_Spec immutable_oneagent"
    using image_version_only_advances [where oa = immutable_oneagent and w = 0
        and K = "sample_oneagent_cluster (build_cluster (Some pull_secret)) None None ?ver"] unfolding r by (simp add: Let_def)
  ultimately show ?thesis by blast
qed

text \<open>When the DaemonSet cannot be read at the end of a run that has nothing else to write, the error
  phase never reaches the cluster: the phase is set in memory before the test that asks whether it
  changes, so the run ends without any further call.\<close>

theorem failed_lookup_phase_is_not_written:
  assumes "k_get_daemonset (oe_cluster E) (cr_Namespace (rec_instance rec)) (cr_Name (rec_instance rec)) w = (Inl e, w1)"
    and "\<not> IsNotFound e" and "\<not> rec_update rec"
  shows "\<exists>rec'. impl_phase E rec w = Returns (rec', w1) \<and> st_Phase (cr_Status (rec_instance rec')) = PhaseError \<and>
    finish E rec' w1 = (if is_server_error_code StatusTooManyRequests e then (Minute, None) else (0, Some e), w1)"
  using assms
  by (simp add: impl_phase_def determineOneAgentPhase_def rec_Error_def finish_def finish_error_def
      SetPhaseOnError_def SetPhase_def)

definition broken_env :: "nat oneagent_env" where
  "broken_env = (sample_env sample_secret None None [])\<lparr>oe_cluster :=
     (sample_oneagent_cluster (build_cluster (Some sample_secret)) None None [])
       \<lparr>k_get_daemonset := (\<lambda>ns n w. (Inl (ExtErr ''timeout''), w))\<rparr>\<rparr>"

theorem failed_lookup_phase_is_not_written_witness:
  "\<exists>rec'. impl_phase broken_env settled_rec 0 = Returns (rec', 0) \<and>
     finish broken_env rec' 0 = ((0, Some (ExtErr ''timeout'')), 0)"
  using failed_lookup_phase_is_not_written [of broken_env settled_rec 0 "ExtErr ''timeout''" 0]
  by (auto simp: broken_env_def settled_rec_def)

end
