(* ===== verification/Apm_Controller.thy ===== *)
theory Apm_Controller
  imports Workloads Token_Props Istio
begin

text \<open>
  The reconciler of OneAgentAPM resources (controllers/oneagentapm/oneagentapm\_controller.go): it
  checks the PaaS token (the API token too when immutable images are used), follows the switch to
  immutable images, writes the status, and looks after Istio; \<open>C\<close> is None when \<open>istio.NewController\<close> answered nil.  \<open>D\<close> is the client function,
  \<open>BuildDynatraceClient\<close> in the operator.
\<close>

text \<open>The copy of \<open>r.dtcReconciler\<close> that \<open>Reconcile\<close> makes.\<close>

definition apm_reconciler :: "OneAgentAPM \<Rightarrow> client_reconciler" where
  "apm_reconciler instance =
     \<lparr>dr_Now = zero_time, dr_UpdatePaaSToken = True, dr_UpdateAPIToken = sp_UseImmutableImage (cr_Spec instance)\<rparr>"

text \<open>The write of the status: the instance that the server answers with.\<close>

definition write_apm ::
  "('v, 'w, 'z) oneagent_cluster_scheme \<Rightarrow> OneAgentAPM \<Rightarrow> 'w \<Rightarrow> (go_error + OneAgentAPM) \<times> 'w" where
  "write_apm K instance w =
     (let (now, w1) = k_now K w
      in case k_update_apm K (update_status (\<lambda>s. s\<lparr>st_UpdatedTimestamp := now, st_Tokens := GetTokensName instance\<rparr>) instance) w1 of
           (Inl e, w2) \<Rightarrow> (Inl (Wrapped ''failed to update OneAgentAPM'' e), w2)
         | (Inr answer, w2) \<Rightarrow> (Inr answer, w2))"

definition Reconcile_apm ::
  "('v, 'w, 'z) oneagent_cluster_scheme \<Rightarrow> 'w cond_lib
     \<Rightarrow> (OneAgentAPM \<Rightarrow> bool \<Rightarrow> bool \<Rightarrow> 'w \<Rightarrow> (go_error + 'w dt_client) \<times> 'w) \<Rightarrow> 'w istio_client option
     \<Rightarrow> string \<Rightarrow> string \<Rightarrow> 'w \<Rightarrow> ((int \<times> go_error option) \<times> 'w) run" where
  "Reconcile_apm K L D C namespace name w =
     (case k_get_apm K namespace name w of
        (Inl err, w1) \<Rightarrow> Returns (if IsNotFound err then (0, None) else (0, Some err), w1)
      | (Inr instance, w1) \<Rightarrow>
     (if sp_APIURL (cr_Spec instance) = [] then Returns ((0, Some (ErrMsg ''.spec.apiUrl is missing'')), w1)
      else let (res, upd1, instance1, w2) = Reconcile_tokens K L D (apm_reconciler instance) instance w1;
               (upd, instance2) = (if upd1 then (True, instance1) else SetUseImmutableImageStatus instance1);
               (written, w3) = (if upd then write_apm K instance2 w2 else (Inr instance2, w2))
      in case written of
        Inl e \<Rightarrow> Returns ((0, Some e), w3)
      | Inr instance3 \<Rightarrow>
     (case res of
        Inl err \<Rightarrow> Returns ((0, Some err), w3)
      | Inr dtc \<Rightarrow>
          (if sp_EnableIstio (cr_Spec instance3)
           then (case call_ReconcileIstio C instance3 dtc w3 of
                   Panics \<Rightarrow> Panics
                 | Diverges \<Rightarrow> Diverges
                 | Returns (Inr True, w4) \<Rightarrow> Returns ((30 * Second, None), w4)
                 | Returns (_, w4) \<Rightarrow> Returns ((30 * Minute, None), w4))
           else Returns ((30 * Minute, None), w3)))))"

section \<open>Properties\<close>

text \<open>A run whose token check has something to write (a probe, for one) does not look at the switch
  to immutable images: it writes the status with the switch it had, and ends well.  A run without such
  a change writes the switch of the specification.\<close>

theorem apm_image_switch_waits:
  assumes "k_get_apm K ns name w = (Inr oa, w1)" and "sp_APIURL (cr_Spec oa) \<noteq> []"
    and "Reconcile_tokens K L D (apm_reconciler oa) oa w1 = (Inr dtc, upd, oa1, w2)" and "k_now K w2 = (now, w3)"
    and "\<And>oa w. \<exists>w'. k_update_apm K oa w = (Inr oa, w')" and "\<not> sp_EnableIstio (cr_Spec oa)"
    and "sp_UseImmutableImage (cr_Spec oa) \<noteq> st_UseImmutableImage (cr_Status oa)"
  shows "\<exists>oa2. Reconcile_apm K L D C ns name w = Returns ((30 * Minute, None), snd (k_update_apm K oa2 w3)) \<and>
    (st_UseImmutableImage (cr_Status oa2) \<noteq> sp_UseImmutableImage (cr_Spec oa) \<longleftrightarrow> upd)"
proof (cases upd)
  case True
  let ?oa2 = "update_status (\<lambda>s. s\<lparr>st_UpdatedTimestamp := now, st_Tokens := GetTokensName oa1\<rparr>) oa1"
  obtain w4 where u: "k_update_apm K ?oa2 w3 = (Inr ?oa2, w4)" using assms(5) [of ?oa2 w3] by (elim exE)
  from True u assms Reconcile_tokens_keeps [OF assms(3)] show ?thesis
    by (intro exI [of _ ?oa2]) (simp add: Reconcile_apm_def write_apm_def)
next
  case False
  with assms(3) have oa1: "oa1 = oa" by (auto dest: Reconcile_tokens_untouched)
  let ?oa1 = "update_status (\<lambda>s. s\<lparr>st_UseImmutableImage := sp_UseImmutableImage (cr_Spec oa)\<rparr>) oa"
  let ?oa2 = "update_status (\<lambda>s. s\<lparr>st_UpdatedTimestamp := now, st_Tokens := GetTokensName ?oa1\<rparr>) ?oa1"
  obtain w4 where u: "k_update_apm K ?oa2 w3 = (Inr ?oa2, w4)" using assms(5) [of ?oa2 w3] by (elim exE)
  from False u assms oa1 show ?thesis
    by (intro exI [of _ ?oa2]) (simp add: Reconcile_apm_def write_apm_def SetUseImmutableImageStatus_def)
qed

text \<open>An OneAgentAPM that has just been switched to immutable images, its tokens never probed.\<close>

definition switched_apm :: OneAgentAPM where
  "switched_apm = (empty_apm ''apm'' ''dynatrace'')
     \<lparr>cr_Spec := (cr_Spec (empty_apm ''apm'' ''dynatrace''))
        \<lparr>sp_APIURL := ''https://abc.live.dynatrace.com/api'', sp_UseImmutableImage := True\<rparr>\<rparr>"

definition apm_cluster :: "(string, time) oneagent_cluster" where
  "apm_cluster = (sample_oneagent_cluster (secret_cluster (Some sample_secret)) None None [])
     \<lparr>k_get_apm := (\<lambda>ns n w. (Inr switched_apm, w))\<rparr>"

lemma switched_tokens:
  "\<exists>oa1. Reconcile_tokens apm_cluster sample_cond_lib (\<lambda>oa a p w. (Inr scoped_client, w))
     (apm_reconciler switched_apm) switched_apm 0 = (Inr scoped_client, True, oa1, 0)"
  by (simp add: token_defs token_samples apm_reconciler_def switched_apm_def apm_cluster_def zero_time_def)

theorem apm_image_switch_waits_witness:
  "\<exists>oa2. Reconcile_apm apm_cluster sample_cond_lib (\<lambda>oa a p w. (Inr scoped_client, w)) (Some quiet_istio) ''dynatrace'' ''apm'' 0 =
      Returns ((30 * Minute, None), snd (k_update_apm apm_cluster oa2 0)) \<and> \<not> st_UseImmutableImage (cr_Status oa2)"
proof -
  obtain oa1 where t: "Reconcile_tokens apm_cluster sample_cond_lib (\<lambda>oa a p w. (Inr scoped_client, w))
     (apm_reconciler switched_apm) switched_apm 0 = (Inr scoped_client, True, oa1, 0)" using switched_tokens by (elim exE)
  have "\<exists>oa2. Reconcile_apm apm_cluster sample_cond_lib (\<lambda>oa a p w. (Inr scoped_client, w)) (Some quiet_istio) ''dynatrace'' ''apm'' 0 =
      Returns ((30 * Minute, None), snd (k_update_apm apm_cluster oa2 0)) \<and>
      (st_UseImmutableImage (cr_Status oa2) \<noteq> sp_UseImmutableImage (cr_Spec switched_apm) \<longleftrightarrow> True)"
    by (rule apm_image_switch_waits [where oa = switched_apm and ?w1.0 = 0 and ?w2.0 = 0 and now = 0, OF _ _ t])
      (simp_all add: apm_cluster_def switched_apm_def empty_resources)
  then show ?thesis by (simp add: switched_apm_def)
qed

end
