(* ===== verification/Webhook.thy ===== *)
theory Webhook
  imports Pods Utils
begin

text \<open>
  The mutating webhook (webhook/server: server.go, flavor.go; names in webhook/config.go): it
  injects an init container, volumes, mounts and environment variables into the pods of a labelled
  namespace.  The admission decoder, \<open>json.MarshalIndent\<close> and the answer made of the raw request
  are parameters.
\<close>

section \<open>config.go\<close>

definition LabelInstance :: string where "LabelInstance = ''oneagent.dynatrace.com/instance''"
definition AnnotationInject :: string where "AnnotationInject = ''oneagent.dynatrace.com/inject''"
definition AnnotationInjected :: string where "AnnotationInjected = ''oneagent.dynatrace.com/injected''"
definition AnnotationFlavor :: string where "AnnotationFlavor = ''oneagent.dynatrace.com/flavor''"
definition AnnotationTechnologies :: string where "AnnotationTechnologies = ''oneagent.dynatrace.com/technologies''"
definition AnnotationInstallPath :: string where "AnnotationInstallPath = ''oneagent.dynatrace.com/install-path''"
definition AnnotationInstallerUrl :: string where "AnnotationInstallerUrl = ''oneagent.dynatrace.com/installer-url''"
definition AnnotationFailurePolicy :: string where "AnnotationFailurePolicy = ''oneagent.dynatrace.com/failure-policy''"
definition AnnotationImage :: string where "AnnotationImage = ''oneagent.dynatrace.com/image''"
definition DefaultInstallPath :: string where "DefaultInstallPath = ''/opt/dynatrace/oneagent-paas''"
definition SecretConfigName :: string where "SecretConfigName = ''dynatrace-oneagent-config''"
definition PullSecretName :: string where "PullSecretName = ''dynatrace-oneagent-pull-secret''"
definition SecretCertsName :: string where "SecretCertsName = ''dynatrace-oneagent-webhook-certs''"

section \<open>The pod of a request\<close>

record InjMount =
  im_Name :: string
  im_MountPath :: string
  im_SubPath :: string

record InjContainer =
  ij_Name :: string
  ij_Image :: string
  ij_ImagePullPolicy :: string
  ij_Command :: "string list"
  ij_Args :: "string list"
  ij_Env :: "EnvVar list"
  ij_SecurityContext :: "SecurityContext option"
  ij_VolumeMounts :: "InjMount list"
  ij_Resources :: ResourceRequirements

record InjPod =
  ip_PodName :: string
  ip_GenerateName :: string
  ip_Annotations :: "(string \<rightharpoonup> string) option"
  ip_Volumes :: "Volume list"
  ip_Containers :: "InjContainer list"
  ip_InitContainers :: "InjContainer list"
  ip_ImagePullSecrets :: "string list"

section \<open>flavor.go\<close>

definition getFlavor :: "string \<Rightarrow> (string \<rightharpoonup> string) option \<Rightarrow> string" where
  "getFlavor libc annotations =
     (let flavor = QueryEscape (GetField annotations AnnotationFlavor libc)
      in if flavor = ''musl'' then flavor else ''default'')"

section \<open>server.go: the injection\<close>

text \<open>What \<open>Handle\<close> reads from the annotations of the pod and from the OneAgentAPM.\<close>

record inject_options =
  io_flavor :: string
  io_technologies :: string
  io_installPath :: string
  io_installerURL :: string
  io_imageAnnotation :: string
  io_failurePolicy :: string
  io_image :: string

definition inject_image :: "string \<Rightarrow> OneAgentAPM \<Rightarrow> string \<Rightarrow> string \<Rightarrow> string \<Rightarrow> string \<Rightarrow> string" where
  "inject_image m_image oa flavor technologies installerURL imageAnnotation =
     (if installerURL = [] \<and> st_UseImmutableImage (cr_Status oa)
      then (if apm_Image (cr_Spec oa) = [] \<and> imageAnnotation = []
            then BuildOneAgentAPMImage (sp_APIURL (cr_Spec oa)) flavor technologies (apm_AgentVersion (cr_Spec oa))
            else if imageAnnotation \<noteq> [] then imageAnnotation
            else if apm_Image (cr_Spec oa) \<noteq> [] then apm_Image (cr_Spec oa) else m_image)
      else m_image)"

definition read_options :: "string \<Rightarrow> OneAgentAPM \<Rightarrow> (string \<rightharpoonup> string) option \<Rightarrow> inject_options" where
  "read_options m_image oa annotations =
     (let flavor = getFlavor (apm_Flavor (cr_Spec oa)) annotations;
          technologies = QueryEscape (GetField annotations AnnotationTechnologies ''all'');
          installerURL = GetField annotations AnnotationInstallerUrl [];
          imageAnnotation = GetField annotations AnnotationImage []
      in \<lparr>io_flavor = flavor, io_technologies = technologies,
          io_installPath = GetField annotations AnnotationInstallPath DefaultInstallPath,
          io_installerURL = installerURL, io_imageAnnotation = imageAnnotation,
          io_failurePolicy = GetField annotations AnnotationFailurePolicy ''silent'',
          io_image = inject_image m_image oa flavor technologies installerURL imageAnnotation\<rparr>)"

definition inject_volumes :: "Volume list" where
  "inject_volumes =
     [\<lparr>vol_Name = ''init'', vol_Source = EmptyDir\<rparr>, \<lparr>vol_Name = ''oneagent'', vol_Source = EmptyDir\<rparr>,
      \<lparr>vol_Name = ''oneagent-config'', vol_Source = SecretVolume SecretConfigName\<rparr>]"

definition env_var :: "string \<Rightarrow> string \<Rightarrow> EnvVar" where
  "env_var n v = \<lparr>ev_Name = n, ev_Value = v, ev_ValueFrom = None\<rparr>"

definition fieldEnvVar :: "string \<Rightarrow> string \<Rightarrow> EnvVar" where
  "fieldEnvVar n key = \<lparr>ev_Name = n, ev_Value = [], ev_ValueFrom = Some (FieldRef key)\<rparr>"

text \<open>Only up to the last dash, exclusive.\<close>

definition basePodName :: "InjPod \<Rightarrow> string" where
  "basePodName pod =
     (let n = (if ip_GenerateName pod = [] then ip_PodName pod else ip_GenerateName pod) in cut_last CHR ''-'' n)"

text \<open>The init container before the loop over the containers; \<open>sc\<close> is that of the first one.\<close>

definition init_container :: "OneAgentAPM \<Rightarrow> inject_options \<Rightarrow> InjPod \<Rightarrow> SecurityContext option \<Rightarrow> InjContainer" where
  "init_container oa opts pod sc =
     \<lparr>ij_Name = ''install-oneagent'', ij_Image = io_image opts, ij_ImagePullPolicy = ''Always'',
      ij_Command = [''/usr/bin/env''], ij_Args = [''bash'', ''/mnt/config/init.sh''],
      ij_Env =
        [env_var ''FLAVOR'' (io_flavor opts), env_var ''TECHNOLOGIES'' (io_technologies opts),
         env_var ''INSTALLPATH'' (io_installPath opts), env_var ''INSTALLER_URL'' (io_installerURL opts),
         env_var ''FAILURE_POLICY'' (io_failurePolicy opts),
         env_var ''CONTAINERS_COUNT'' (Itoa (int (length (ip_Containers pod)))),
         fieldEnvVar ''K8S_PODNAME'' ''metadata.name'', fieldEnvVar ''K8S_PODUID'' ''metadata.uid'',
         env_var ''K8S_BASEPODNAME'' (basePodName pod),
         fieldEnvVar ''K8S_NAMESPACE'' ''metadata.namespace'', fieldEnvVar ''K8S_NODE_NAME'' ''spec.nodeName'',
         env_var ''USE_IMMUTABLE_IMAGE'' (if st_UseImmutableImage (cr_Status oa) then ''true'' else [])],
      ij_SecurityContext = sc,
      ij_VolumeMounts =
        [\<lparr>im_Name = ''init'', im_MountPath = ''/mnt/init'', im_SubPath = []\<rparr>,
         \<lparr>im_Name = ''oneagent'', im_MountPath = ''/mnt/oneagent'', im_SubPath = []\<rparr>,
         \<lparr>im_Name = ''oneagent-config'', im_MountPath = ''/mnt/config'', im_SubPath = []\<rparr>],
      ij_Resources = apm_Resources (cr_Spec oa)\<rparr>"

text \<open>The variables that describe the container \<open>c\<close> at index \<open>i\<close>, counted from one.\<close>

definition container_vars :: "nat \<Rightarrow> InjContainer \<Rightarrow> EnvVar list" where
  "container_vars i c =
     [env_var (''CONTAINER_'' @ Itoa (int (i + 1)) @ ''_NAME'') (ij_Name c),
      env_var (''CONTAINER_'' @ Itoa (int (i + 1)) @ ''_IMAGE'') (ij_Image c)]"

definition inject_container :: "OneAgentAPM \<Rightarrow> string \<Rightarrow> InjContainer \<Rightarrow> InjContainer" where
  "inject_container oa installPath c =
     c\<lparr>ij_VolumeMounts := ij_VolumeMounts c @
        [\<lparr>im_Name = ''oneagent'', im_MountPath = ''/etc/ld.so.preload'', im_SubPath = ''ld.so.preload''\<rparr>,
         \<lparr>im_Name = ''oneagent'', im_MountPath = installPath, im_SubPath = []\<rparr>,
         \<lparr>im_Name = ''oneagent'', im_MountPath = ''/var/lib/dynatrace/oneagent/agent/config/container.conf'',
          im_SubPath = ''container_'' @ ij_Name c @ ''.conf''\<rparr>],
       ij_Env := ij_Env c @ [env_var ''LD_PRELOAD'' (installPath @ ''/agent/lib64/liboneagentproc.so'')] @
        (case sp_Proxy (cr_Spec oa) of
           None \<Rightarrow> []
         | Some p \<Rightarrow> (if prx_Value p \<noteq> [] \<or> prx_ValueFrom p \<noteq> []
                     then [\<lparr>ev_Name = ''DT_PROXY'', ev_Value = [],
                            ev_ValueFrom = Some (SecretKeyRef SecretConfigName ''proxy'')\<rparr>] else [])) @
        (if sp_NetworkZone (cr_Spec oa) \<noteq> [] then [env_var ''DT_NETWORK_ZONE'' (sp_NetworkZone (cr_Spec oa))] else [])\<rparr>"

text \<open>The loop over the containers, from index \<open>i\<close> on.\<close>

fun inject_loop ::
  "OneAgentAPM \<Rightarrow> string \<Rightarrow> nat \<Rightarrow> InjContainer list \<Rightarrow> InjContainer \<Rightarrow> InjContainer list \<times> InjContainer" where
  "inject_loop oa installPath i [] ic = ([], ic)"
| "inject_loop oa installPath i (c # cs) ic =
     (let (cs', ic') = inject_loop oa installPath (i + 1) cs (ic\<lparr>ij_Env := ij_Env ic @ container_vars i c\<rparr>)
      in (inject_container oa installPath c # cs', ic'))"

text \<open>A nil map of annotations is replaced by an empty one.\<close>

definition annotations_of :: "InjPod \<Rightarrow> (string \<rightharpoonup> string)" where
  "annotations_of pod = (case ip_Annotations pod of None \<Rightarrow> Map.empty | Some m \<Rightarrow> m)"

text \<open>The pod with the annotation that it is injected.\<close>

definition mark_injected :: "InjPod \<Rightarrow> InjPod" where
  "mark_injected pod =
     pod\<lparr>ip_Annotations := Some ((annotations_of pod)(AnnotationInjected \<mapsto> ''true''))\<rparr>"

text \<open>The body of \<open>Handle\<close> from the annotation on; None is the panic of \<open>Containers[0]\<close>.\<close>

definition inject_pod :: "string \<Rightarrow> OneAgentAPM \<Rightarrow> InjPod \<Rightarrow> InjPod option" where
  "inject_pod m_image oa pod0 =
     (let pod = mark_injected pod0; opts = read_options m_image oa (ip_Annotations pod)
      in case ip_Containers pod of
           [] \<Rightarrow> None
         | c0 # _ \<Rightarrow>
             (let secrets = (if apm_Image (cr_Spec oa) = [] \<and> io_imageAnnotation opts = [] \<and> st_UseImmutableImage (cr_Status oa)
                             then [PullSecretName] else []);
                  (cs, ic) = inject_loop oa (io_installPath opts) 0 (ip_Containers pod)
                               (init_container oa opts pod (ij_SecurityContext c0))
              in Some (pod\<lparr>ip_Volumes := ip_Volumes pod @ inject_volumes,
                           ip_ImagePullSecrets := ip_ImagePullSecrets pod @ secrets,
                           ip_Containers := cs, ip_InitContainers := ip_InitContainers pod @ [ic]\<rparr>)))"

section \<open>server.go: Handle\<close>

record Request =
  rq_Namespace :: string
  rq_Raw :: string

text \<open>\<open>Patched "" \<close> allows the pod as it is; a patch is made of the raw and the marshalled pod.\<close>

datatype response =
    Errored int go_error
  | Patched
  | PatchFromRaw string string

record pod_injector =
  pi_image :: string
  pi_namespace :: string

definition StatusBadRequest :: int where "StatusBadRequest = 400"
definition StatusInternalServerError :: int where "StatusInternalServerError = 500"

definition Handle ::
  "('v, 'w, 'z) oneagent_cluster_scheme \<Rightarrow> (Request \<Rightarrow> go_error + InjPod) \<Rightarrow> (InjPod \<Rightarrow> go_error + string)
     \<Rightarrow> pod_injector \<Rightarrow> Request \<Rightarrow> 'w \<Rightarrow> (response \<times> 'w) run" where
  "Handle K decode marshal m req w =
     (case decode req of
        Inl err \<Rightarrow> Returns (Errored StatusBadRequest err, w)
      | Inr pod \<Rightarrow>
     (case k_get_namespace K (rq_Namespace req) w of
        (Inl err, w1) \<Rightarrow> Returns (Errored StatusInternalServerError err, w1)
      | (Inr ns, w1) \<Rightarrow>
     (let inject = GetField (ip_Annotations pod) AnnotationInject (GetField (ns_Annotations ns) AnnotationInject ''true'')
      in if inject = ''false'' then Returns (Patched, w1)
      else let oaName = GetField (ns_Labels ns) LabelInstance []
      in if oaName = []
         then Returns (Errored StatusBadRequest
                (ErrMsg (''no OneAgentAPM instance set for namespace: '' @ rq_Namespace req)), w1)
         else case k_get_apm K (pi_namespace m) oaName w1 of
                (Inl err, w2) \<Rightarrow>
                  (if IsNotFound err
                   then Returns (Errored StatusBadRequest (ErrMsg (''namespace '' @ [CHR 0x27] @ rq_Namespace req @ [CHR 0x27] @
                          '' is assigned to OneAgentAPM instance '' @ [CHR 0x27] @ oaName @ [CHR 0x27] @ '' but doesn'' @
                          [CHR 0x27] @ ''t exist'')), w2)
                   else Returns (Errored StatusInternalServerError err, w2))
              | (Inr oa, w2) \<Rightarrow>
                  (if map_get (annotations_of pod) AnnotationInjected = ''true'' then Returns (Patched, w2)
                   else case inject_pod (pi_image m) oa pod of
                          None \<Rightarrow> Panics
                        | Some pod' \<Rightarrow>
                            (case marshal pod' of
                               Inl err \<Rightarrow> Returns (Errored StatusInternalServerError err, w2)
                             | Inr j \<Rightarrow> Returns (PatchFromRaw (rq_Raw req) j, w2))))))"

end
