(* ===== verification/Webhook_Props.thy ===== *)
theory Webhook_Props
  imports Webhook Utils_Props
begin

text \<open>
  What the webhook promises: who is injected, what an injection adds and that it adds nothing else,
  that a pod is injected once, and what becomes of the list of technologies.
\<close>

section \<open>The loop over the containers\<close>

text \<open>The variables of all containers, from index \<open>i\<close> on.\<close>

definition all_container_vars :: "nat \<Rightarrow> InjContainer list \<Rightarrow> EnvVar list" where
  "all_container_vars i cs = concat (map (\<lambda>(j, c). container_vars j c) (List.enumerate i cs))"

lemma inject_loop_eq:
  "inject_loop oa path i cs ic =
     (map (inject_container oa path) cs, ic\<lparr>ij_Env := ij_Env ic @ all_container_vars i cs\<rparr>)"
  by (induction cs arbitrary: i ic) (simp_all add: all_container_vars_def)

text \<open>The pull secret is needed when the image is the operator's choice among immutable ones.\<close>

definition pull_secrets :: "OneAgentAPM \<Rightarrow> inject_options \<Rightarrow> string list" where
  "pull_secrets oa opts =
     (if apm_Image (cr_Spec oa) = [] \<and> io_imageAnnotation opts = [] \<and> st_UseImmutableImage (cr_Status oa)
      then [PullSecretName] else [])"

lemma GetField_mark:
  "key \<noteq> AnnotationInjected \<Longrightarrow>
   GetField (ip_Annotations (mark_injected pod)) key d = GetField (ip_Annotations pod) key d"
  by (auto simp: GetField_def mark_injected_def annotations_of_def map_get_def split: option.splits)

lemmas annotation_names = AnnotationInject_def AnnotationInjected_def AnnotationFlavor_def
  AnnotationTechnologies_def AnnotationInstallPath_def AnnotationInstallerUrl_def
  AnnotationFailurePolicy_def AnnotationImage_def

lemma read_options_mark: "read_options m oa (ip_Annotations (mark_injected pod)) = read_options m oa (ip_Annotations pod)"
  unfolding read_options_def getFlavor_def
  by (simp add: GetField_mark annotation_names)

lemma mark_injected_sel [simp]:
  "ip_Containers (mark_injected pod) = ip_Containers pod"
  "ip_InitContainers (mark_injected pod) = ip_InitContainers pod"
  "ip_Volumes (mark_injected pod) = ip_Volumes pod"
  "ip_ImagePullSecrets (mark_injected pod) = ip_ImagePullSecrets pod"
  "ip_PodName (mark_injected pod) = ip_PodName pod"
  "ip_GenerateName (mark_injected pod) = ip_GenerateName pod"
  "ip_Annotations (mark_injected pod) = Some ((annotations_of pod)(AnnotationInjected \<mapsto> ''true''))"
  by (simp_all add: mark_injected_def)

lemma inject_pod_Some_marked:
  "inject_pod m oa pod = Some pod' \<Longrightarrow> map_get (annotations_of pod') AnnotationInjected = ''true''"
  by (auto simp: inject_pod_def Let_def annotations_of_def map_get_def split: list.splits prod.splits)

section \<open>Technologies\<close>

lemma of_char_less_char: "(of_char c :: nat) < 256"
  using nat_of_char_less_256 .

lemma escape_no_comma: "CHR '','' \<notin> set (QueryEscape s)"
proof -
  have hex: "hex_digit n \<noteq> CHR '',''" if "n < 16" for n
  proof
    assume "hex_digit n = CHR '',''"
    then have "(of_char (hex_digit n) :: nat) = of_char (CHR '','')" by simp
    moreover have "(of_char (hex_digit n) :: nat) = (if n < 10 then 48 + n else 55 + n)"
      using that by (simp add: hex_digit_def of_char_of take_bit_eq_mod)
    ultimately show False by (auto split: if_splits)
  qed
  have "CHR '','' \<notin> set (escape_char c)" for c
  proof -
    have "of_char c div 16 < (16 :: nat)" "of_char c mod 16 < (16 :: nat)"
      using of_char_less_char [of c] by (simp_all add: less_mult_imp_div_less)
    from hex [OF this(1)] hex [OF this(2)] show ?thesis
      by (auto simp: escape_char_def query_unreserved_def is_alnum_def Let_def split: if_splits)
  qed
  then show ?thesis by (simp add: QueryEscape_def)
qed

section \<open>Concrete inputs\<close>

definition nginx_container :: InjContainer where
  "nginx_container = \<lparr>ij_Name = ''web'', ij_Image = ''nginx:1'', ij_ImagePullPolicy = [], ij_Command = [], ij_Args = [],
     ij_Env = [], ij_SecurityContext = None, ij_VolumeMounts = [],
     ij_Resources = \<lparr>rr_Limits = Map.empty, rr_Requests = None\<rparr>\<rparr>"

definition nginx_pod :: "(string \<rightharpoonup> string) option \<Rightarrow> InjPod" where
  "nginx_pod annotations = \<lparr>ip_PodName = [], ip_GenerateName = ''web-77f-'', ip_Annotations = annotations,
     ip_Volumes = [], ip_Containers = [nginx_container], ip_InitContainers = [], ip_ImagePullSecrets = []\<rparr>"

definition immutable_apm :: OneAgentAPM where
  "immutable_apm = (empty_apm ''apm'' ''dynatrace'')
     \<lparr>cr_Spec := (cr_Spec (empty_apm ''apm'' ''dynatrace''))\<lparr>sp_APIURL := ''https://abc.live.dynatrace.com/api''\<rparr>,
      cr_Status := empty_base_status\<lparr>st_UseImmutableImage := True\<rparr>\<rparr>"

definition webhook_cluster :: "(string, nat) oneagent_cluster" where
  "webhook_cluster = (sample_oneagent_cluster (idle_cluster None) None None [])
     \<lparr>k_get_namespace := (\<lambda>n w. (Inr \<lparr>ns_Name = n, ns_UID = ''uid'',
         ns_Labels = Some [LabelInstance \<mapsto> ''apm''], ns_Annotations = None\<rparr>, w)),
      k_get_apm := (\<lambda>ns n w. (Inr immutable_apm, w))\<rparr>"

definition sample_request :: Request where
  "sample_request = \<lparr>rq_Namespace = ''shop'', rq_Raw = ''raw''\<rparr>"

definition sample_injector :: pod_injector where
  "sample_injector = \<lparr>pi_image = ''operator:1'', pi_namespace = ''dynatrace''\<rparr>"

lemma sample_injection:
  "\<exists>pod. inject_pod ''operator:1'' immutable_apm (nginx_pod None) = Some pod \<and>
     ip_Annotations pod = Some [AnnotationInjected \<mapsto> ''true'']"
  by (auto simp: inject_pod_def Let_def nginx_pod_def annotations_of_def mark_injected_def split: prod.splits)

lemma sample_handle:
  assumes "inject_pod ''operator:1'' immutable_apm pod0 = Some pod"
    and "GetField (ip_Annotations pod0) AnnotationInject ''true'' \<noteq> ''false''"
    and "map_get (annotations_of pod0) AnnotationInjected \<noteq> ''true''"
  shows "Handle webhook_cluster (\<lambda>r. Inr pod0) (\<lambda>p. Inr ''json'') sample_injector sample_request 0 =
    Returns (PatchFromRaw ''raw'' ''json'', 0)"
  using assms by (simp add: Handle_def webhook_cluster_def sample_injector_def sample_request_def GetField_def
      map_get_def Let_def)

section \<open>Properties\<close>

text \<open>What an injection does to a container: mounts and variables are added, and nothing else changes.\<close>

definition container_injected :: "OneAgentAPM \<Rightarrow> string \<Rightarrow> InjContainer \<Rightarrow> InjContainer \<Rightarrow> bool" where
  "container_injected oa path c c' \<longleftrightarrow>
     c' = c\<lparr>ij_VolumeMounts := ij_VolumeMounts c', ij_Env := ij_Env c'\<rparr> \<and>
     ij_VolumeMounts c' = ij_VolumeMounts c @
       [\<lparr>im_Name = ''oneagent'', im_MountPath = ''/etc/ld.so.preload'', im_SubPath = ''ld.so.preload''\<rparr>,
        \<lparr>im_Name = ''oneagent'', im_MountPath = path, im_SubPath = []\<rparr>,
        \<lparr>im_Name = ''oneagent'', im_MountPath = ''/var/lib/dynatrace/oneagent/agent/config/container.conf'',
         im_SubPath = ''container_'' @ ij_Name c @ ''.conf''\<rparr>] \<and>
     (\<exists>proxy zone. ij_Env c' = ij_Env c @
        [\<lparr>ev_Name = ''LD_PRELOAD'', ev_Value = path @ ''/agent/lib64/liboneagentproc.so'', ev_ValueFrom = None\<rparr>] @ proxy @ zone \<and>
        proxy = (if \<exists>p. sp_Proxy (cr_Spec oa) = Some p \<and> (prx_Value p \<noteq> [] \<or> prx_ValueFrom p \<noteq> [])
                 then [\<lparr>ev_Name = ''DT_PROXY'', ev_Value = [],
                        ev_ValueFrom = Some (SecretKeyRef ''dynatrace-oneagent-config'' ''proxy'')\<rparr>] else []) \<and>
        zone = (if sp_NetworkZone (cr_Spec oa) = [] then []
                else [\<lparr>ev_Name = ''DT_NETWORK_ZONE'', ev_Value = sp_NetworkZone (cr_Spec oa), ev_ValueFrom = None\<rparr>]))"

lemma inject_container_injected: "container_injected oa path c (inject_container oa path c)"
  by (auto simp: container_injected_def inject_container_def env_var_def SecretConfigName_def split: option.splits)

lemma all_container_vars_nth:
  "i < length cs \<Longrightarrow> set (container_vars (j + i) (cs ! i)) \<subseteq> set (all_container_vars j cs)"
  by (auto simp: all_container_vars_def set_conv_nth [of "List.enumerate _ _"] nth_enumerate_eq intro!: bexI exI [of _ i])

lemma inject_pod_eq:
  "inject_pod m oa pod =
     (let opts = read_options m oa (ip_Annotations pod) in
      if ip_Containers pod = [] then None
      else Some (pod\<lparr>
        ip_Annotations := Some ((annotations_of pod)(AnnotationInjected \<mapsto> ''true'')),
        ip_Volumes := ip_Volumes pod @ inject_volumes,
        ip_ImagePullSecrets := ip_ImagePullSecrets pod @ pull_secrets oa opts,
        ip_Containers := map (inject_container oa (io_installPath opts)) (ip_Containers pod),
        ip_InitContainers := ip_InitContainers pod @
          [(init_container oa opts pod (ij_SecurityContext (hd (ip_Containers pod))))
             \<lparr>ij_Env := ij_Env (init_container oa opts pod None) @ all_container_vars 0 (ip_Containers pod)\<rparr>]\<rparr>))"
proof -
  have b: "basePodName (mark_injected pod) = basePodName pod" by (simp add: basePodName_def)
  have i: "init_container oa opts (mark_injected pod) sc = init_container oa opts pod sc" for opts sc
    by (simp add: init_container_def b)
  have e: "ij_Env (init_container oa opts pod sc) = ij_Env (init_container oa opts pod None)" for opts sc
    by (simp add: init_container_def)
  show ?thesis
    unfolding inject_pod_def read_options_mark Let_def i inject_loop_eq pull_secrets_def [symmetric]
    by (cases "ip_Containers pod") (simp_all add: mark_injected_def e [of _ "ij_SecurityContext _"])
qed

text \<open>C33: An injection adds and never takes away.  The pod keeps its name and its annotations, but for
  the mark that it is injected; its volumes, pull secrets and init containers are followed by those of
  OneAgent; every container is as it was in each field, with the mounts and variables of OneAgent after
  its own.  The init container runs the script with the rights of the first container, and is told how
  many containers there are and the name and the image of each, numbered from one.  Only a pod without
  containers makes the handler panic.\<close>

theorem injection_result:
  "case inject_pod m oa pod of
     None \<Rightarrow> ip_Containers pod = []
   | Some pod' \<Rightarrow>
       ip_PodName pod' = ip_PodName pod \<and> ip_GenerateName pod' = ip_GenerateName pod \<and>
       annotations_of pod' = (annotations_of pod)(''oneagent.dynatrace.com/injected'' \<mapsto> ''true'') \<and>
       ip_Volumes pod' = ip_Volumes pod @
         [\<lparr>vol_Name = ''init'', vol_Source = EmptyDir\<rparr>, \<lparr>vol_Name = ''oneagent'', vol_Source = EmptyDir\<rparr>,
          \<lparr>vol_Name = ''oneagent-config'', vol_Source = SecretVolume ''dynatrace-oneagent-config''\<rparr>] \<and>
       ip_ImagePullSecrets pod' = ip_ImagePullSecrets pod @
         (if apm_Image (cr_Spec oa) = [] \<and> GetField (ip_Annotations pod) ''oneagent.dynatrace.com/image'' [] = [] \<and>
             st_UseImmutableImage (cr_Status oa) then [''dynatrace-oneagent-pull-secret''] else []) \<and>
       list_all2 (container_injected oa (GetField (ip_Annotations pod) ''oneagent.dynatrace.com/install-path''
           ''/opt/dynatrace/oneagent-paas'')) (ip_Containers pod) (ip_Containers pod') \<and>
       (\<exists>ic. ip_InitContainers pod' = ip_InitContainers pod @ [ic] \<and>
          ij_Name ic = ''install-oneagent'' \<and> ij_Command ic = [''/usr/bin/env''] \<and>
          ij_Args ic = [''bash'', ''/mnt/config/init.sh''] \<and>
          ij_SecurityContext ic = ij_SecurityContext (hd (ip_Containers pod)) \<and>
          map_of (map (\<lambda>e. (ev_Name e, ev_Value e)) (ij_Env ic)) ''CONTAINERS_COUNT'' =
            Some (Itoa (int (length (ip_Containers pod)))) \<and>
          (\<forall>i < length (ip_Containers pod).
             \<lparr>ev_Name = ''CONTAINER_'' @ Itoa (int i + 1) @ ''_NAME'', ev_Value = ij_Name (ip_Containers pod ! i),
              ev_ValueFrom = None\<rparr> \<in> set (ij_Env ic) \<and>
             \<lparr>ev_Name = ''CONTAINER_'' @ Itoa (int i + 1) @ ''_IMAGE'', ev_Value = ij_Image (ip_Containers pod ! i),
              ev_ValueFrom = None\<rparr> \<in> set (ij_Env ic)))"
proof (cases "inject_pod m oa pod")
  case None
  then show ?thesis by (simp add: inject_pod_eq Let_def split: if_splits)
next
  case (Some pod')
  let ?opts = "read_options m oa (ip_Annotations pod)"
  let ?ic = "(init_container oa ?opts pod (ij_SecurityContext (hd (ip_Containers pod))))
             \<lparr>ij_Env := ij_Env (init_container oa ?opts pod None) @ all_container_vars 0 (ip_Containers pod)\<rparr>"
  from Some have pod': "pod' = pod\<lparr>
        ip_Annotations := Some ((annotations_of pod)(AnnotationInjected \<mapsto> ''true'')),
        ip_Volumes := ip_Volumes pod @ inject_volumes,
        ip_ImagePullSecrets := ip_ImagePullSecrets pod @ pull_secrets oa ?opts,
        ip_Containers := map (inject_container oa (io_installPath ?opts)) (ip_Containers pod),
        ip_InitContainers := ip_InitContainers pod @ [?ic]\<rparr>"
    by (simp add: inject_pod_eq Let_def split: if_splits)
  have opts: "io_installPath ?opts = GetField (ip_Annotations pod) ''oneagent.dynatrace.com/install-path''
      ''/opt/dynatrace/oneagent-paas''" "io_imageAnnotation ?opts = GetField (ip_Annotations pod) ''oneagent.dynatrace.com/image'' []"
    by (simp_all add: read_options_def Let_def annotation_names DefaultInstallPath_def)
  have init: "ip_InitContainers pod' = ip_InitContainers pod @ [?ic] \<and> ij_Name ?ic = ''install-oneagent'' \<and>
      ij_Command ?ic = [''/usr/bin/env''] \<and> ij_Args ?ic = [''bash'', ''/mnt/config/init.sh''] \<and>
      ij_SecurityContext ?ic = ij_SecurityContext (hd (ip_Containers pod)) \<and>
      map_of (map (\<lambda>e. (ev_Name e, ev_Value e)) (ij_Env ?ic)) ''CONTAINERS_COUNT'' =
        Some (Itoa (int (length (ip_Containers pod))))"
    by (simp add: pod' init_container_def env_var_def)
  have vars: "set (container_vars i (ip_Containers pod ! i)) \<subseteq> set (ij_Env ?ic)" if "i < length (ip_Containers pod)" for i
    using all_container_vars_nth [OF that, of 0] by auto
  have "list_all2 (container_injected oa (io_installPath ?opts)) (ip_Containers pod) (ip_Containers pod')"
    by (simp add: pod' list_all2_map2 list.rel_refl inject_container_injected)
  moreover have "annotations_of pod' = (annotations_of pod)(''oneagent.dynatrace.com/injected'' \<mapsto> ''true'')"
    unfolding annotations_of_def [of pod'] by (simp add: pod' AnnotationInjected_def)
  moreover have "ip_PodName pod' = ip_PodName pod" "ip_GenerateName pod' = ip_GenerateName pod"
    "ip_Volumes pod' = ip_Volumes pod @ inject_volumes"
    "ip_ImagePullSecrets pod' = ip_ImagePullSecrets pod @ pull_secrets oa ?opts"
    by (simp_all add: pod')
  ultimately show ?thesis
    unfolding Some option.case opts(1) using init vars
    by (intro conjI exI [of _ ?ic])
      (simp_all add: inject_volumes_def SecretConfigName_def pull_secrets_def opts(2) PullSecretName_def
        container_vars_def env_var_def add.commute)
qed

theorem injection_result_witness:
  "\<exists>pod' c' ic. inject_pod ''operator:1'' immutable_apm (nginx_pod None) = Some pod' \<and> ip_Containers pod' = [c'] \<and>
     ij_Name c' = ''web'' \<and> ij_Image c' = ''nginx:1'' \<and> ip_InitContainers pod' = [ic] \<and>
     \<lparr>ev_Name = ''CONTAINER_1_IMAGE'', ev_Value = ''nginx:1'', ev_ValueFrom = None\<rparr> \<in> set (ij_Env ic)"
proof -
  obtain pod' where p: "inject_pod ''operator:1'' immutable_apm (nginx_pod None) = Some pod'"
    using sample_injection by (elim exE conjE)
  have one: "Itoa 1 = ''1''" by code_simp
  from injection_result [where m = "''operator:1''" and oa = immutable_apm and pod = "nginx_pod None"] p one show ?thesis
    by (auto simp: nginx_pod_def nginx_container_def container_injected_def list_all2_Cons1)
qed

text \<open>C34: A pod is injected at most once: a pod that an injection produced is never patched again,
  whatever namespace and resource it meets.\<close>

theorem injected_pod_is_not_patched:
  assumes "inject_pod img oa pod0 = Some pod" and "decode req = Inr pod"
    and "Handle K decode marshal m req w = Returns (r, w')"
  shows "r = Patched \<or> (\<exists>code e. r = Errored code e)"
  using assms(2,3) inject_pod_Some_marked [OF assms(1)]
  by (auto simp: Handle_def Let_def split: sum.splits prod.splits if_splits)

theorem injected_pod_is_not_patched_witness:
  "\<exists>pod r. inject_pod ''operator:1'' immutable_apm (nginx_pod None) = Some pod \<and>
     Handle webhook_cluster (\<lambda>r. Inr pod) (\<lambda>p. Inr ''json'') sample_injector sample_request 0 = Returns (r, 0) \<and>
     (r = Patched \<or> (\<exists>code e. r = Errored code e))"
proof -
  obtain pod where p: "inject_pod ''operator:1'' immutable_apm (nginx_pod None) = Some pod"
    and a: "ip_Annotations pod = Some [AnnotationInjected \<mapsto> ''true'']" using sample_injection by (elim exE conjE)
  have h: "Handle webhook_cluster (\<lambda>r. Inr pod) (\<lambda>p. Inr ''json'') sample_injector sample_request 0 = Returns (Patched, 0)"
    by (simp add: Handle_def webhook_cluster_def sample_injector_def sample_request_def GetField_def a
        map_get_def annotations_of_def annotation_names)
  from injected_pod_is_not_patched [OF p refl h] p h show ?thesis by blast
qed

text \<open>How a patch comes about.\<close>

lemma Handle_patch:
  assumes "Handle K decode marshal m req w = Returns (PatchFromRaw raw j, w')"
  shows "\<exists>pod ns w1 oa pod'. decode req = Inr pod \<and> k_get_namespace K (rq_Namespace req) w = (Inr ns, w1) \<and>
    GetField (ip_Annotations pod) AnnotationInject [] \<noteq> ''false'' \<and>
    (GetField (ip_Annotations pod) AnnotationInject [] = [] \<longrightarrow> GetField (ns_Annotations ns) AnnotationInject [] \<noteq> ''false'') \<and>
    GetField (ns_Labels ns) LabelInstance [] \<noteq> [] \<and>
    k_get_apm K (pi_namespace m) (GetField (ns_Labels ns) LabelInstance []) w1 = (Inr oa, w') \<and>
    inject_pod (pi_image m) oa pod = Some pod' \<and> marshal pod' = Inr j"
proof -
  have d: "GetField a k d = (if GetField a k [] = [] then d else GetField a k [])" for a k d
    by (auto simp: GetField_def split: option.splits)
  obtain pod where p: "decode req = Inr pod"
    using assms by (auto simp: Handle_def split: sum.splits)
  obtain ns w1 where n: "k_get_namespace K (rq_Namespace req) w = (Inr ns, w1)"
    using assms p by (auto simp: Handle_def split: sum.splits prod.splits)
  have ann: "GetField (ip_Annotations pod) AnnotationInject (GetField (ns_Annotations ns) AnnotationInject ''true'') \<noteq> ''false''"
    and l: "GetField (ns_Labels ns) LabelInstance [] \<noteq> []"
    using assms p n by (auto simp: Handle_def Let_def split: if_splits)
  obtain oa where a: "k_get_apm K (pi_namespace m) (GetField (ns_Labels ns) LabelInstance []) w1 = (Inr oa, w')"
    using assms p n ann l by (auto simp: Handle_def Let_def split: sum.splits prod.splits if_splits option.splits)
  obtain pod' where "inject_pod (pi_image m) oa pod = Some pod'" "marshal pod' = Inr j"
    using assms p n ann l a by (auto simp: Handle_def Let_def split: sum.splits if_splits option.splits)
  with p n l a ann show ?thesis
    by (intro exI conjI) (assumption | simp add: d [of _ _ "GetField _ _ _"] d [of _ _ "''true''"] split: if_splits)+
qed

text \<open>C35: Only pods that did not opt out are patched: the annotation of the pod decides, and that of
  the namespace when the pod has none; the namespace must be assigned to a OneAgentAPM that exists, and
  the patch is the injection with that resource.\<close>

theorem patched_pod_did_not_opt_out:
  assumes "Handle K decode marshal m req w = Returns (PatchFromRaw raw j, w')"
  shows "\<exists>pod ns w1 oa pod'. decode req = Inr pod \<and> k_get_namespace K (rq_Namespace req) w = (Inr ns, w1) \<and>
    GetField (ip_Annotations pod) AnnotationInject [] \<noteq> ''false'' \<and>
    (GetField (ip_Annotations pod) AnnotationInject [] = [] \<longrightarrow> GetField (ns_Annotations ns) AnnotationInject [] \<noteq> ''false'') \<and>
    GetField (ns_Labels ns) LabelInstance [] \<noteq> [] \<and>
    k_get_apm K (pi_namespace m) (GetField (ns_Labels ns) LabelInstance []) w1 = (Inr oa, w') \<and>
    inject_pod (pi_image m) oa pod = Some pod' \<and> marshal pod' = Inr j"
  using Handle_patch [OF assms] .

theorem patched_pod_did_not_opt_out_witness:
  "\<exists>oa pod'. Handle webhook_cluster (\<lambda>r. Inr (nginx_pod None)) (\<lambda>p. Inr ''json'') sample_injector sample_request 0 =
      Returns (PatchFromRaw ''raw'' ''json'', 0) \<and> inject_pod ''operator:1'' oa (nginx_pod None) = Some pod'"
proof -
  obtain pod where p: "inject_pod ''operator:1'' immutable_apm (nginx_pod None) = Some pod"
    using sample_injection by (elim exE conjE)
  have h: "Handle webhook_cluster (\<lambda>r. Inr (nginx_pod None)) (\<lambda>p. Inr ''json'') sample_injector sample_request 0 =
      Returns (PatchFromRaw ''raw'' ''json'', 0)"
    by (rule sample_handle [OF p]) (simp_all add: nginx_pod_def GetField_def annotations_of_def map_get_def)
  have "\<exists>oa pod'. inject_pod (pi_image sample_injector) oa (nginx_pod None) = Some pod'"
    using patched_pod_did_not_opt_out [OF h] by auto
  with h show ?thesis by (simp add: sample_injector_def)
qed

text \<open>Several technologies of a pod are not split into the tags of its image: the list was escaped
  for a URL before, so its commas are gone and the image has the escaped list as one tag.\<close>

theorem technologies_are_one_tag:
  assumes "technologies = QueryEscape t" and "technologies \<noteq> ''all''"
  shows "BuildOneAgentAPMImage url flavor technologies version =
    GetImageRegistryFromAPIURL url @ ''/linux/codemodule'' @ (if flavor \<noteq> ''default'' then ''-musl'' else []) @
    '':'' @ technologies @ (if version \<noteq> [] then ''-'' @ version else [])"
proof -
  have "Split CHR '','' technologies = [technologies]"
    unfolding assms(1) by (rule Split_no_sep [OF escape_no_comma])
  with assms(2) show ?thesis by (simp add: BuildOneAgentAPMImage_def Let_def)
qed

theorem technologies_are_one_tag_witness:
  "BuildOneAgentAPMImage ''https://abc.live.dynatrace.com/api'' ''default'' ''java%2Cnginx'' [] =
     ''abc.live.dynatrace.com/linux/codemodule:java%2Cnginx''"
proof -
  have q: "''java%2Cnginx'' = QueryEscape ''java,nginx''" by code_simp
  have r: "GetImageRegistryFromAPIURL ''https://abc.live.dynatrace.com/api'' = ''abc.live.dynatrace.com''" by code_simp
  show ?thesis by (subst technologies_are_one_tag [OF q]) (simp_all add: r)
qed

end
