(* ===== verification/Certs.thy ===== *)
theory Certs
  imports Go_Std
begin

text \<open>
  The certificates of the webhook (webhook/bootstrapper/certs.go): a root certificate and a server
  certificate signed by it, renewed when they are missing, unreadable or about to expire.  The
  cryptography (crypto/rsa, crypto/x509, encoding/pem, crypto/rand) is the record \<open>Y\<close> of functions;
  keys are handles, here texts, and a pointer that may be nil is an option.  An entry of the data
  that is there is taken to be a non-nil slice, as the API server delivers it.
\<close>

section \<open>The libraries\<close>

datatype key_usage = KeyEncipherment | DigitalSignature | CertSign

record Certificate =
  x_SerialNumber :: int
  x_Subject :: "(string \<times> string) list"
  x_CommonName :: string
  x_IsCA :: bool
  x_DNSNames :: "string list"
  x_NotBefore :: time
  x_NotAfter :: time
  x_KeyUsage :: "key_usage list"
  x_ExtKeyUsage :: "string list"

text \<open>
  \<open>cy_Decode\<close> gives the bytes of the first block, \<open>cy_Encode\<close> takes the type and the bytes.
  \<open>cy_GenerateKey\<close> is \<open>rsa.GenerateKey\<close> for a number of bits, \<open>cy_RandInt\<close> is \<open>rand.Int\<close> below a limit;
  \<open>cy_Create\<close> is \<open>x509.CreateCertificate\<close>: template, parent, public key, signing key.
\<close>

record 'w crypto =
  cy_Now :: "'w \<Rightarrow> time \<times> 'w"
  cy_Decode :: "string \<Rightarrow> string option"
  cy_Encode :: "string \<Rightarrow> string \<Rightarrow> string"
  cy_ParseCertificate :: "string \<Rightarrow> go_error + Certificate"
  cy_ParseKey :: "string \<Rightarrow> go_error + string"
  cy_MarshalKey :: "string \<Rightarrow> string"
  cy_GenerateKey :: "int \<Rightarrow> 'w \<Rightarrow> (go_error + string) \<times> 'w"
  cy_Validate :: "string \<Rightarrow> go_error option"
  cy_Public :: "string \<Rightarrow> string"
  cy_RandInt :: "int \<Rightarrow> 'w \<Rightarrow> (go_error + int) \<times> 'w"
  cy_Create :: "Certificate \<Rightarrow> Certificate option \<Rightarrow> string \<Rightarrow> string option \<Rightarrow> 'w \<Rightarrow> (go_error + string) \<times> 'w"

section \<open>State\<close>

definition serialNumberLimit :: int where "serialNumberLimit = 2 ^ 128"

definition renewalThreshold :: int where "renewalThreshold = 4 * Hour"

record Certs =
  cs_Domain :: string
  cs_SrcData :: "(string \<rightharpoonup> string) option"
  cs_Data :: "string \<rightharpoonup> string"
  cs_now :: time
  cs_rootPrivateKey :: "string option"
  cs_rootPublicCert :: "Certificate option"

section \<open>Validation\<close>

text \<open>The times are UTC instants; \<open>now.After(t)\<close> is \<open>t < now\<close>.\<close>

definition about_to_expire :: "Certificate \<Rightarrow> time \<Rightarrow> bool" where
  "about_to_expire cert now \<longleftrightarrow> x_NotAfter cert - renewalThreshold < now"

text \<open>Whether the root is to be renewed; what was parsed is kept, a failed parse leaves nil.\<close>

definition validateRootCerts :: "'w crypto \<Rightarrow> Certs \<Rightarrow> time \<Rightarrow> bool \<times> Certs" where
  "validateRootCerts Y cs now =
     (case (cs_Data cs ''ca.key'', cs_Data cs ''ca.crt'') of
        (Some key, Some crt) \<Rightarrow>
          (case cy_Decode Y crt of
             None \<Rightarrow> (True, cs)
           | Some block \<Rightarrow>
               (case cy_ParseCertificate Y block of
                  Inl _ \<Rightarrow> (True, cs\<lparr>cs_rootPublicCert := None\<rparr>)
                | Inr cert \<Rightarrow>
                    (let cs1 = cs\<lparr>cs_rootPublicCert := Some cert\<rparr>
                     in if about_to_expire cert now then (True, cs1)
                        else case cy_Decode Y key of
                               None \<Rightarrow> (True, cs1)
                             | Some kblock \<Rightarrow>
                                 (case cy_ParseKey Y kblock of
                                    Inl _ \<Rightarrow> (True, cs1\<lparr>cs_rootPrivateKey := None\<rparr>)
                                  | Inr k \<Rightarrow> (False, cs1\<lparr>cs_rootPrivateKey := Some k\<rparr>)))))
      | _ \<Rightarrow> (True, cs))"

definition validateServerCerts :: "'w crypto \<Rightarrow> Certs \<Rightarrow> time \<Rightarrow> bool" where
  "validateServerCerts Y cs now =
     (case (cs_Data cs ''tls.key'', cs_Data cs ''tls.crt'') of
        (Some _, Some crt) \<Rightarrow>
          (case cy_Decode Y crt of
             None \<Rightarrow> True
           | Some block \<Rightarrow>
               (case cy_ParseCertificate Y block of Inl _ \<Rightarrow> True | Inr cert \<Rightarrow> about_to_expire cert now))
      | _ \<Rightarrow> True)"

section \<open>Generation\<close>

definition subject :: "(string \<times> string) list" where
  "subject = [(''Country'', ''AT''), (''Province'', ''UA''), (''Locality'', ''Linz''),
     (''Organization'', ''Dynatrace''), (''OrganizationalUnit'', ''OneAgent Webhook'')]"

definition root_template :: "string \<Rightarrow> int \<Rightarrow> time \<Rightarrow> Certificate" where
  "root_template domain serialNumber now =
     \<lparr>x_SerialNumber = serialNumber, x_Subject = subject, x_CommonName = domain, x_IsCA = True, x_DNSNames = [],
      x_NotBefore = now, x_NotAfter = now + 365 * 24 * Hour,
      x_KeyUsage = [KeyEncipherment, DigitalSignature, CertSign], x_ExtKeyUsage = [''ServerAuth'']\<rparr>"

definition server_template :: "string \<Rightarrow> int \<Rightarrow> time \<Rightarrow> Certificate" where
  "server_template domain serialNumber now =
     \<lparr>x_SerialNumber = serialNumber, x_Subject = subject, x_CommonName = domain, x_IsCA = False, x_DNSNames = [domain],
      x_NotBefore = now, x_NotAfter = now + 7 * 24 * Hour,
      x_KeyUsage = [KeyEncipherment, DigitalSignature], x_ExtKeyUsage = [''ServerAuth'']\<rparr>"

text \<open>\<open>cs.Data[k] = v\<close>\<close>

definition put :: "string \<Rightarrow> string \<Rightarrow> Certs \<Rightarrow> Certs" where
  "put k v cs = cs\<lparr>cs_Data := (cs_Data cs)(k \<mapsto> v)\<rparr>"

definition generateRootCerts ::
  "'w crypto \<Rightarrow> Certs \<Rightarrow> string \<Rightarrow> time \<Rightarrow> 'w \<Rightarrow> go_error option \<times> Certs \<times> 'w" where
  "generateRootCerts Y cs domain now w =
     (case cy_GenerateKey Y 4096 w of
        (Inl e, w1) \<Rightarrow> (Some (Wrapped ''failed to generate root private key'' e), cs\<lparr>cs_rootPrivateKey := None\<rparr>, w1)
      | (Inr key, w1) \<Rightarrow>
     (let cs1 = cs\<lparr>cs_rootPrivateKey := Some key\<rparr>
      in case cy_Validate Y key of
        Some e \<Rightarrow> (Some (Wrapped ''validation for root private key failed'' e), cs1, w1)
      | None \<Rightarrow>
     (let cs2 = put ''ca.key'' (cy_Encode Y ''RSA PRIVATE KEY'' (cy_MarshalKey Y key)) cs1
      in case cy_RandInt Y serialNumberLimit w1 of
        (Inl e, w2) \<Rightarrow> (Some (Wrapped ''failed to generate serial number for root certificate'' e), cs2, w2)
      | (Inr serialNumber, w2) \<Rightarrow>
     (let root = root_template domain serialNumber now; cs3 = cs2\<lparr>cs_rootPublicCert := Some root\<rparr>
      in case cy_Create Y root (Some root) (cy_Public Y key) (Some key) w2 of
        (Inl e, w3) \<Rightarrow> (Some (Wrapped ''failed to generate root certificate'' e), cs3, w3)
      | (Inr der, w3) \<Rightarrow> (None, put ''ca.crt'' (cy_Encode Y ''CERTIFICATE'' der) cs3, w3)))))"

definition generateServerCerts ::
  "'w crypto \<Rightarrow> Certs \<Rightarrow> string \<Rightarrow> time \<Rightarrow> 'w \<Rightarrow> go_error option \<times> Certs \<times> 'w" where
  "generateServerCerts Y cs domain now w =
     (case cy_GenerateKey Y 4096 w of
        (Inl e, w1) \<Rightarrow> (Some (Wrapped ''failed to generate server private key'' e), cs, w1)
      | (Inr key, w1) \<Rightarrow>
     (case cy_Validate Y key of
        Some e \<Rightarrow> (Some (Wrapped ''validation for server private key failed'' e), cs, w1)
      | None \<Rightarrow>
     (let cs1 = put ''tls.key'' (cy_Encode Y ''RSA PRIVATE KEY'' (cy_MarshalKey Y key)) cs
      in case cy_RandInt Y serialNumberLimit w1 of
        (Inl e, w2) \<Rightarrow> (Some (Wrapped ''failed to generate serial number for server certificate'' e), cs1, w2)
      | (Inr serialNumber, w2) \<Rightarrow>
     (case cy_Create Y (server_template domain serialNumber now) (cs_rootPublicCert cs1) (cy_Public Y key)
             (cs_rootPrivateKey cs1) w2 of
        (Inl e, w3) \<Rightarrow> (Some (Wrapped ''failed to generate server certificate'' e), cs1, w3)
      | (Inr der, w3) \<Rightarrow> (None, put ''tls.crt'' (cy_Encode Y ''CERTIFICATE'' der) cs1, w3)))))"

section \<open>ValidateCerts\<close>

definition ValidateCerts :: "'w crypto \<Rightarrow> Certs \<Rightarrow> 'w \<Rightarrow> go_error option \<times> Certs \<times> 'w" where
  "ValidateCerts Y cs w =
     (let cs0 = cs\<lparr>cs_Data := (case cs_SrcData cs of None \<Rightarrow> Map.empty | Some m \<Rightarrow> m)\<rparr>;
          (clock, w1) = cy_Now Y w;
          now = (if IsZero (cs_now cs0) then clock else cs_now cs0);
          (renewRootCerts, cs1) = validateRootCerts Y cs0 now;
          (err, cs2, w2) = (if renewRootCerts then generateRootCerts Y cs1 (cs_Domain cs1) now w1 else (None, cs1, w1))
      in if err \<noteq> None then (err, cs2, w2)
         else if renewRootCerts \<or> validateServerCerts Y cs2 now then generateServerCerts Y cs2 (cs_Domain cs2) now w2
         else (None, cs2, w2))"

end
