(* ===== verification/Bootstrapper.thy ===== *)
theory Bootstrapper
  imports Certs Webhook
begin

text \<open>
  The webhook's bootstrapper (webhook/bootstrapper/controller.go): it keeps the secret with the
  certificates, the files that the webhook server reads them from, the Service and the
  MutatingWebhookConfiguration with the root certificate.  Its calls beyond the cluster's are the
  record \<open>B\<close>; \<open>add\<close> only wires the manager and a ticker that asks for a run every five minutes.
\<close>

section \<open>Objects\<close>

definition webhookName :: string where "webhookName = ''dynatrace-oneagent-webhook''"
definition certsDir :: string where "certsDir = ''/mnt/webhook-certs''"

record service_port =
  spo_Protocol :: string
  spo_Port :: int
  spo_TargetPort :: string

record Service =
  svc_Name :: string
  svc_Namespace :: string
  svc_Labels :: "string \<rightharpoonup> string"
  svc_Selector :: "string \<rightharpoonup> string"
  svc_Ports :: "service_port list"

text \<open>A webhook with one rule; the namespace selector is the label that must exist.\<close>

record MutatingWebhook =
  mw_Name :: string
  mw_AdmissionReviewVersions :: "string list"
  mw_Operations :: "string list"
  mw_APIGroups :: "string list"
  mw_APIVersions :: "string list"
  mw_Resources :: "string list"
  mw_Scope :: string
  mw_NamespaceSelectorExists :: string
  mw_ServiceName :: string
  mw_ServiceNamespace :: string
  mw_ServicePath :: string
  mw_CABundle :: string
  mw_SideEffects :: string

record WebhookConfiguration =
  wc_Name :: string
  wc_Labels :: "string \<rightharpoonup> string"
  wc_Webhooks :: "MutatingWebhook list"

text \<open>\<open>bc_IsNotExist\<close> is \<open>os.IsNotExist\<close>.\<close>

record 'w bootstrap_cluster = "(string, 'w) cluster" +
  bc_crypto :: "'w crypto"
  bc_get_service :: "string \<Rightarrow> string \<Rightarrow> 'w \<Rightarrow> (go_error + Service) \<times> 'w"
  bc_create_service :: "Service \<Rightarrow> 'w \<Rightarrow> go_error option \<times> 'w"
  bc_get_config :: "string \<Rightarrow> 'w \<Rightarrow> (go_error + WebhookConfiguration) \<times> 'w"
  bc_create_config :: "WebhookConfiguration \<Rightarrow> 'w \<Rightarrow> go_error option \<times> 'w"
  bc_update_config :: "WebhookConfiguration \<Rightarrow> 'w \<Rightarrow> go_error option \<times> 'w"
  bc_ReadFile :: "string \<Rightarrow> 'w \<Rightarrow> (go_error + string) \<times> 'w"
  bc_WriteFile :: "string \<Rightarrow> string \<Rightarrow> 'w \<Rightarrow> go_error option \<times> 'w"
  bc_IsNotExist :: "go_error \<Rightarrow> bool"

record ReconcileWebhook =
  rw_namespace :: string
  rw_certsDir :: string
  rw_now :: time

section \<open>reconcileService\<close>

definition webhook_labels :: "string \<rightharpoonup> string" where
  "webhook_labels = [''dynatrace.com/operator'' \<mapsto> ''oneagent'',
     ''internal.oneagent.dynatrace.com/component'' \<mapsto> ''webhook'']"

definition expected_service :: "ReconcileWebhook \<Rightarrow> Service" where
  "expected_service r =
     \<lparr>svc_Name = webhookName, svc_Namespace = rw_namespace r, svc_Labels = webhook_labels,
      svc_Selector = [''internal.oneagent.dynatrace.com/component'' \<mapsto> ''webhook'',
        ''internal.oneagent.dynatrace.com/app'' \<mapsto> ''webhook''],
      svc_Ports = [\<lparr>spo_Protocol = ''TCP'', spo_Port = 443, spo_TargetPort = ''server-port''\<rparr>]\<rparr>"

definition reconcileService :: "'w bootstrap_cluster \<Rightarrow> ReconcileWebhook \<Rightarrow> 'w \<Rightarrow> go_error option \<times> 'w" where
  "reconcileService B r w =
     (case bc_get_service B (rw_namespace r) webhookName w of
        (Inl err, w1) \<Rightarrow>
          (if IsNotFound err then bc_create_service B (expected_service r) w1 else (Some err, w1))
      | (Inr svc, w1) \<Rightarrow> (None, w1))"

section \<open>reconcileCerts\<close>

text \<open>
  \<open>filepath.Join\<close> of a clean directory and a file name; a missing entry of the data is written as
  an empty file.
\<close>

fun write_files ::
  "'w bootstrap_cluster \<Rightarrow> string \<Rightarrow> (string \<rightharpoonup> string) \<Rightarrow> string list \<Rightarrow> 'w \<Rightarrow> go_error option \<times> 'w" where
  "write_files B dir data [] w = (None, w)"
| "write_files B dir data (key # keys) w =
     (let f = dir @ ''/'' @ key;
          (got, w1) = bc_ReadFile B f w
      in case (case got of Inl err \<Rightarrow> if bc_IsNotExist B err then Inr True else Inl err
                         | Inr content \<Rightarrow> Inr (content \<noteq> map_get data key)) of
           Inl err \<Rightarrow> (Some err, w1)
         | Inr outdated \<Rightarrow>
             (case (if outdated then bc_WriteFile B f (map_get data key) w1 else (None, w1)) of
                (Some err, w2) \<Rightarrow> (Some err, w2)
              | (None, w2) \<Rightarrow> write_files B dir data keys w2))"

text \<open>The secret as it was read, None when it does not exist.\<close>

definition webhook_certs :: "ReconcileWebhook \<Rightarrow> Secret option \<Rightarrow> Certs" where
  "webhook_certs r secret =
     \<lparr>cs_Domain = webhookName @ ''.'' @ rw_namespace r @ ''.svc'',
      cs_SrcData = Option.bind secret sec_Data,
      cs_Data = Map.empty, cs_now = rw_now r, cs_rootPrivateKey = None, cs_rootPublicCert = None\<rparr>"

definition store_certs ::
  "'w bootstrap_cluster \<Rightarrow> ReconcileWebhook \<Rightarrow> Secret option \<Rightarrow> (string \<rightharpoonup> string) \<Rightarrow> 'w \<Rightarrow> go_error option \<times> 'w" where
  "store_certs B r secret data w =
     (case secret of
        None \<Rightarrow> k_create_secret B \<lparr>sec_Name = SecretCertsName, sec_Namespace = rw_namespace r, sec_Type = [],
                                 sec_Data = Some data\<rparr> w
      | Some s \<Rightarrow> (if Some data \<noteq> sec_Data s then k_update_secret B (s\<lparr>sec_Data := Some data\<rparr>) w else (None, w)))"

definition reconcileCerts :: "'w bootstrap_cluster \<Rightarrow> ReconcileWebhook \<Rightarrow> 'w \<Rightarrow> (go_error + string) \<times> 'w" where
  "reconcileCerts B r w =
     (let (got, w1) = k_get_secret B (rw_namespace r) SecretCertsName w
      in case (case got of Inr s \<Rightarrow> Inr (Some s) | Inl e \<Rightarrow> if IsNotFound e then Inr None else Inl e) of
        Inl err \<Rightarrow> (Inl err, w1)
      | Inr secret \<Rightarrow>
     (case ValidateCerts (bc_crypto B) (webhook_certs r secret) w1 of
        (Some err, _, w2) \<Rightarrow> (Inl err, w2)
      | (None, cs, w2) \<Rightarrow>
     (case store_certs B r secret (cs_Data cs) w2 of
        (Some err, w3) \<Rightarrow> (Inl err, w3)
      | (None, w3) \<Rightarrow>
     (case write_files B (rw_certsDir r) (cs_Data cs) [''tls.crt'', ''tls.key''] w3 of
        (Some err, w4) \<Rightarrow> (Inl err, w4)
      | (None, w4) \<Rightarrow> (Inr (map_get (cs_Data cs) ''ca.crt''), w4)))))"

section \<open>reconcileWebhookConfig\<close>

definition webhook_configuration :: "ReconcileWebhook \<Rightarrow> string \<Rightarrow> WebhookConfiguration" where
  "webhook_configuration r rootCerts =
     \<lparr>wc_Name = webhookName, wc_Labels = webhook_labels,
      wc_Webhooks = [\<lparr>mw_Name = ''webhook.oneagent.dynatrace.com'',
        mw_AdmissionReviewVersions = [''v1beta1''],
        mw_Operations = [''CREATE''], mw_APIGroups = [''''], mw_APIVersions = [''v1''], mw_Resources = [''pods''],
        mw_Scope = ''Namespaced'',
        mw_NamespaceSelectorExists = LabelInstance,
        mw_ServiceName = webhookName, mw_ServiceNamespace = rw_namespace r, mw_ServicePath = ''/inject'',
        mw_CABundle = rootCerts,
        mw_SideEffects = ''None''\<rparr>]\<rparr>"

definition reconcileWebhookConfig ::
  "'w bootstrap_cluster \<Rightarrow> ReconcileWebhook \<Rightarrow> string \<Rightarrow> 'w \<Rightarrow> go_error option \<times> 'w" where
  "reconcileWebhookConfig B r rootCerts w =
     (let webhookConfiguration = webhook_configuration r rootCerts
      in case bc_get_config B webhookName w of
        (Inl err, w1) \<Rightarrow>
          (if IsNotFound err then bc_create_config B webhookConfiguration w1 else (Some err, w1))
      | (Inr cfg, w1) \<Rightarrow>
          (case wc_Webhooks cfg of
             [wh] \<Rightarrow> (if mw_CABundle wh = rootCerts then (None, w1)
                     else bc_update_config B (cfg\<lparr>wc_Webhooks := wc_Webhooks webhookConfiguration\<rparr>) w1)
           | _ \<Rightarrow> bc_update_config B (cfg\<lparr>wc_Webhooks := wc_Webhooks webhookConfiguration\<rparr>) w1))"

section \<open>Reconcile\<close>

text \<open>The result is always the empty one; only the error matters.\<close>

definition Reconcile_webhook :: "'w bootstrap_cluster \<Rightarrow> ReconcileWebhook \<Rightarrow> 'w \<Rightarrow> go_error option \<times> 'w" where
  "Reconcile_webhook B r w =
     (case reconcileCerts B r w of
        (Inl err, w1) \<Rightarrow> (Some (Wrapped ''failed to reconcile certificates'' err), w1)
      | (Inr rootCerts, w1) \<Rightarrow>
     (case reconcileService B r w1 of
        (Some err, w2) \<Rightarrow> (Some (Wrapped ''failed to reconcile service'' err), w2)
      | (None, w2) \<Rightarrow>
     (case reconcileWebhookConfig B r rootCerts w2 of
        (Some err, w3) \<Rightarrow> (Some (Wrapped ''failed to reconcile webhook configuration'' err), w3)
      | (None, w3) \<Rightarrow> (None, w3))))"

end
