(* ===== verification/Certs_Props.thy ===== *)
theory Certs_Props
  imports Certs
begin

text \<open>
  What \<open>ValidateCerts\<close> promises: after it ended without an error the stored certificates and
  keys are readable and valid for at least the renewal threshold, the server certificate is
  signed by the stored root key, and nothing is renewed that need not be.  The laws of the
  cryptography are \<open>crypto_laws\<close>; \<open>toy_crypto\<close> has them.
\<close>

section \<open>Stored certificates\<close>

definition stored :: "('w, 'z) crypto_scheme \<Rightarrow> (string \<rightharpoonup> string) \<Rightarrow> string \<Rightarrow> string option" where
  "stored Y d k = Option.bind (d k) (cy_Decode Y)"

definition stored_cert :: "('w, 'z) crypto_scheme \<Rightarrow> (string \<rightharpoonup> string) \<Rightarrow> string \<Rightarrow> Certificate option" where
  "stored_cert Y d k =
     (case stored Y d k of
        None \<Rightarrow> None
      | Some b \<Rightarrow> (case cy_ParseCertificate Y b of Inl _ \<Rightarrow> None | Inr c \<Rightarrow> Some c))"

definition stored_key :: "('w, 'z) crypto_scheme \<Rightarrow> (string \<rightharpoonup> string) \<Rightarrow> string \<Rightarrow> string option" where
  "stored_key Y d k =
     (case stored Y d k of
        None \<Rightarrow> None
      | Some b \<Rightarrow> (case cy_ParseKey Y b of Inl _ \<Rightarrow> None | Inr c \<Rightarrow> Some c))"

text \<open>Readable, with a key, and valid for four more hours.\<close>

definition root_ok :: "('w, 'z) crypto_scheme \<Rightarrow> (string \<rightharpoonup> string) \<Rightarrow> time \<Rightarrow> bool" where
  "root_ok Y d now \<longleftrightarrow>
     (case (stored_cert Y d ''ca.crt'', stored_key Y d ''ca.key'') of
        (Some c, Some _) \<Rightarrow> now + 4 * Hour \<le> x_NotAfter c
      | _ \<Rightarrow> False)"

definition server_ok :: "('w, 'z) crypto_scheme \<Rightarrow> (string \<rightharpoonup> string) \<Rightarrow> time \<Rightarrow> bool" where
  "server_ok Y d now \<longleftrightarrow>
     (case (stored_cert Y d ''tls.crt'', d ''tls.key'') of
        (Some c, Some _) \<Rightarrow> now + 4 * Hour \<le> x_NotAfter c
      | _ \<Rightarrow> False)"

text \<open>Whatever is stored as a certificate is signed by the stored root key.\<close>

definition chained :: "('w, 'z) crypto_scheme \<Rightarrow> (string \<Rightarrow> string \<Rightarrow> bool) \<Rightarrow> (string \<rightharpoonup> string) \<Rightarrow> bool" where
  "chained Y signs d \<longleftrightarrow>
     (case stored_key Y d ''ca.key'' of
        None \<Rightarrow> True
      | Some k \<Rightarrow> pred_option (signs k) (stored Y d ''ca.crt'') \<and> pred_option (signs k) (stored Y d ''tls.crt''))"

text \<open>
  Documented behaviour of the libraries: what was encoded can be decoded, and a created
  certificate parses, has the names of its template, expires when the template says (in whole
  seconds, the rest is cut off) and is signed by the key it was created with.
\<close>

definition crypto_laws :: "('w, 'z) crypto_scheme \<Rightarrow> (string \<Rightarrow> string \<Rightarrow> bool) \<Rightarrow> bool" where
  "crypto_laws Y signs \<longleftrightarrow>
     (\<forall>t b. cy_Decode Y (cy_Encode Y t b) = Some b) \<and>
     (\<forall>k. cy_ParseKey Y (cy_MarshalKey Y k) = Inr k) \<and>
     (\<forall>tpl parent pub key w der w'. cy_Create Y tpl parent pub (Some key) w = (Inr der, w') \<longrightarrow>
        signs key der \<and>
        (\<exists>c. cy_ParseCertificate Y der = Inr c \<and> x_DNSNames c = x_DNSNames tpl \<and>
             x_NotAfter tpl - Second < x_NotAfter c \<and> x_NotAfter c \<le> x_NotAfter tpl))"

lemmas crypto_Decode = crypto_laws_def [THEN iffD1, THEN conjunct1, rule_format]
lemmas crypto_ParseKey = crypto_laws_def [THEN iffD1, THEN conjunct2, THEN conjunct1, rule_format]
lemmas crypto_Create = crypto_laws_def [THEN iffD1, THEN conjunct2, THEN conjunct2, rule_format]

text \<open>A certificate that was made at \<open>now\<close> to last for \<open>d\<close>.\<close>

definition lasts :: "time \<Rightarrow> time \<Rightarrow> Certificate \<Rightarrow> bool" where
  "lasts now d c \<longleftrightarrow> now + d - Second < x_NotAfter c \<and> x_NotAfter c \<le> now + d"

text \<open>The instant that \<open>ValidateCerts\<close> works with, and the data it starts from.\<close>

definition instant :: "'w crypto \<Rightarrow> Certs \<Rightarrow> 'w \<Rightarrow> time" where
  "instant Y cs w = (if IsZero (cs_now cs) then fst (cy_Now Y w) else cs_now cs)"

definition source_data :: "Certs \<Rightarrow> string \<rightharpoonup> string" where
  "source_data cs = (case cs_SrcData cs of None \<Rightarrow> Map.empty | Some m \<Rightarrow> m)"

section \<open>The steps\<close>

lemma about_to_expire_iff: "about_to_expire c now \<longleftrightarrow> \<not> now + 4 * Hour \<le> x_NotAfter c"
  by (auto simp: about_to_expire_def renewalThreshold_def)

lemma validateRootCerts_iff: "fst (validateRootCerts Y cs now) \<longleftrightarrow> \<not> root_ok Y (cs_Data cs) now"
  by (auto simp: validateRootCerts_def root_ok_def stored_cert_def stored_key_def stored_def
      about_to_expire_iff Let_def split: option.splits sum.splits)

lemma validateRootCerts_frame:
  "validateRootCerts Y cs now = (b, cs') \<Longrightarrow>
     cs_Data cs' = cs_Data cs \<and> cs_Domain cs' = cs_Domain cs \<and> cs_now cs' = cs_now cs \<and> cs_SrcData cs' = cs_SrcData cs"
  by (auto simp: validateRootCerts_def Let_def split: option.splits sum.splits if_splits)

lemma validateRootCerts_key:
  "validateRootCerts Y cs now = (False, cs') \<Longrightarrow> cs_rootPrivateKey cs' = stored_key Y (cs_Data cs) ''ca.key''"
  by (auto simp: validateRootCerts_def stored_key_def stored_def Let_def split: option.splits sum.splits if_splits)

lemma validateServerCerts_iff: "validateServerCerts Y cs now \<longleftrightarrow> \<not> server_ok Y (cs_Data cs) now"
  by (auto simp: validateServerCerts_def server_ok_def stored_cert_def stored_def about_to_expire_iff
      split: option.splits sum.splits)

lemma stored_put [simp]: "k \<noteq> k' \<Longrightarrow> stored Y (cs_Data (put k v cs)) k' = stored Y (cs_Data cs) k'"
  by (simp add: stored_def put_def)

lemma stored_key_put [simp]: "k \<noteq> k' \<Longrightarrow> stored_key Y (cs_Data (put k v cs)) k' = stored_key Y (cs_Data cs) k'"
  by (simp add: stored_key_def)

lemma stored_cert_put [simp]: "k \<noteq> k' \<Longrightarrow> stored_cert Y (cs_Data (put k v cs)) k' = stored_cert Y (cs_Data cs) k'"
  by (simp add: stored_cert_def)

lemma put_simps [simp]:
  "cs_rootPrivateKey (put k v cs) = cs_rootPrivateKey cs"
  "cs_rootPublicCert (put k v cs) = cs_rootPublicCert cs"
  "cs_Domain (put k v cs) = cs_Domain cs" "cs_now (put k v cs) = cs_now cs" "cs_SrcData (put k v cs) = cs_SrcData cs"
  "cs_Data (put k v cs) k' = (if k' = k then Some v else cs_Data cs k')"
  by (simp_all add: put_def)

lemma stored_put_same:
  "crypto_laws Y signs \<Longrightarrow> stored Y (cs_Data (put k (cy_Encode Y t b) cs)) k = Some b"
  by (simp add: stored_def crypto_Decode)

lemma stored_key_put_same:
  "crypto_laws Y signs \<Longrightarrow> stored_key Y (cs_Data (put k (cy_Encode Y t (cy_MarshalKey Y key)) cs)) k = Some key"
  unfolding stored_key_def by (subst stored_put_same, assumption, simp add: crypto_ParseKey)

lemma stored_cert_put_same:
  assumes "crypto_laws Y signs" "cy_ParseCertificate Y der = Inr c"
  shows "stored_cert Y (cs_Data (put k (cy_Encode Y t der) cs)) k = Some c"
  unfolding stored_cert_def by (subst stored_put_same [OF assms(1)]) (simp add: assms(2))

lemma stored_update [simp]:
  "stored Y (cs_Data (cs\<lparr>cs_rootPublicCert := p\<rparr>)) = stored Y (cs_Data cs)"
  by simp

lemma generateRootCerts_ok:
  assumes law: "crypto_laws Y signs" and g: "generateRootCerts Y cs domain now w = (None, cs', w')"
  shows "\<exists>key c der. cs_rootPrivateKey cs' = Some key \<and> stored_key Y (cs_Data cs') ''ca.key'' = Some key \<and>
           stored_cert Y (cs_Data cs') ''ca.crt'' = Some c \<and> stored Y (cs_Data cs') ''ca.crt'' = Some der \<and>
           signs key der \<and> lasts now (365 * 24 * Hour) c"
proof -
  from g obtain key w1 n w2 der where k: "cy_GenerateKey Y 4096 w = (Inr key, w1)"
    and c: "cy_Create Y (root_template domain n now) (Some (root_template domain n now)) (cy_Public Y key) (Some key) w2
            = (Inr der, w')"
    and cs': "cs' = put ''ca.crt'' (cy_Encode Y ''CERTIFICATE'' der)
       ((put ''ca.key'' (cy_Encode Y ''RSA PRIVATE KEY'' (cy_MarshalKey Y key))
           (cs\<lparr>cs_rootPrivateKey := Some key\<rparr>))\<lparr>cs_rootPublicCert := Some (root_template domain n now)\<rparr>)"
    by (auto simp: generateRootCerts_def Let_def split: prod.splits sum.splits option.splits)
  from crypto_Create [OF law c] obtain cert where
    cert: "signs key der" "cy_ParseCertificate Y der = Inr cert"
      "x_NotAfter (root_template domain n now) - Second < x_NotAfter cert"
      "x_NotAfter cert \<le> x_NotAfter (root_template domain n now)" by blast
  have "stored_key Y (cs_Data cs') ''ca.key'' = Some key"
    unfolding cs' by (simp add: stored_key_put_same [OF law])
  moreover have "stored_cert Y (cs_Data cs') ''ca.crt'' = Some cert"
    unfolding cs' by (rule stored_cert_put_same [OF law cert(2)])
  moreover have "stored Y (cs_Data cs') ''ca.crt'' = Some der"
    unfolding cs' by (rule stored_put_same [OF law])
  moreover have "cs_rootPrivateKey cs' = Some key" unfolding cs' by simp
  ultimately show ?thesis using cert by (simp add: root_template_def lasts_def)
qed

lemma generateServerCerts_ok:
  assumes law: "crypto_laws Y signs" and root: "cs_rootPrivateKey cs = Some key"
    and g: "generateServerCerts Y cs domain now w = (None, cs', w')"
  shows "(\<exists>c der. stored_cert Y (cs_Data cs') ''tls.crt'' = Some c \<and> stored Y (cs_Data cs') ''tls.crt'' = Some der \<and>
           signs key der \<and> lasts now (7 * 24 * Hour) c \<and> x_DNSNames c = [domain]) \<and>
         cs_Data cs' ''tls.key'' \<noteq> None \<and>
         (\<forall>k. k \<noteq> ''tls.key'' \<longrightarrow> k \<noteq> ''tls.crt'' \<longrightarrow> cs_Data cs' k = cs_Data cs k)"
proof -
  from g root obtain sk n w2 der where
      c: "cy_Create Y (server_template domain n now) (cs_rootPublicCert cs) (cy_Public Y sk) (Some key) w2 = (Inr der, w')"
    and cs': "cs' = put ''tls.crt'' (cy_Encode Y ''CERTIFICATE'' der)
       (put ''tls.key'' (cy_Encode Y ''RSA PRIVATE KEY'' (cy_MarshalKey Y sk)) cs)"
    by (auto simp: generateServerCerts_def Let_def split: prod.splits sum.splits option.splits)
  from crypto_Create [OF law c] obtain cert where
    cert: "signs key der" "cy_ParseCertificate Y der = Inr cert"
      "x_NotAfter (server_template domain n now) - Second < x_NotAfter cert"
      "x_NotAfter cert \<le> x_NotAfter (server_template domain n now)"
      "x_DNSNames cert = x_DNSNames (server_template domain n now)" by blast
  have "stored_cert Y (cs_Data cs') ''tls.crt'' = Some cert"
    unfolding cs' by (rule stored_cert_put_same [OF law cert(2)])
  moreover have "stored Y (cs_Data cs') ''tls.crt'' = Some der"
    unfolding cs' by (rule stored_put_same [OF law])
  ultimately show ?thesis using cert by (auto simp: server_template_def lasts_def cs')
qed

lemma stored_cong: "d k = d' k \<Longrightarrow> stored Y d k = stored Y d' k"
  by (simp add: stored_def)

lemma root_ok_cong:
  "d ''ca.crt'' = d' ''ca.crt'' \<Longrightarrow> d ''ca.key'' = d' ''ca.key'' \<Longrightarrow> root_ok Y d now = root_ok Y d' now"
  by (simp add: root_ok_def stored_cert_def stored_key_def stored_def)

text \<open>A successful run renewed nothing, or the server certificate, or both.\<close>

lemma ValidateCerts_cases:
  assumes law: "crypto_laws Y signs" and v: "ValidateCerts Y cs w = (None, cs', w')"
  obtains (kept) "root_ok Y (source_data cs) (instant Y cs w)" "server_ok Y (source_data cs) (instant Y cs w)"
      "cs_Data cs' = source_data cs" "w' = snd (cy_Now Y w)"
  | (renewed) cs2 w2 key where "cs_rootPrivateKey cs2 = Some key" "stored_key Y (cs_Data cs2) ''ca.key'' = Some key"
      "generateServerCerts Y cs2 (cs_Domain cs) (instant Y cs w) w2 = (None, cs', w')"
      "root_ok Y (cs_Data cs2) (instant Y cs w)"
      "root_ok Y (source_data cs) (instant Y cs w) \<longrightarrow>
         cs_Data cs2 = source_data cs \<and> \<not> server_ok Y (source_data cs) (instant Y cs w)"
      "\<not> root_ok Y (source_data cs) (instant Y cs w) \<longrightarrow>
         (\<exists>der c. stored Y (cs_Data cs2) ''ca.crt'' = Some der \<and> signs key der \<and>
            stored_cert Y (cs_Data cs2) ''ca.crt'' = Some c \<and> lasts (instant Y cs w) (365 * 24 * Hour) c)"
proof -
  let ?now = "instant Y cs w"
  let ?cs0 = "cs\<lparr>cs_Data := source_data cs\<rparr>"
  obtain clock w1 where clock: "cy_Now Y w = (clock, w1)" by fastforce
  have now: "(if IsZero (cs_now ?cs0) then clock else cs_now ?cs0) = ?now" by (simp add: instant_def clock)
  obtain b cs1 where vr: "validateRootCerts Y ?cs0 ?now = (b, cs1)" by fastforce
  have V: "ValidateCerts Y cs w =
      (let (err, cs2, w2) = (if b then generateRootCerts Y cs1 (cs_Domain cs1) ?now w1 else (None, cs1, w1))
       in if err \<noteq> None then (err, cs2, w2)
          else if b \<or> validateServerCerts Y cs2 ?now then generateServerCerts Y cs2 (cs_Domain cs2) ?now w2
          else (None, cs2, w2))"
    by (simp only: ValidateCerts_def Let_def source_data_def [symmetric] clock prod.case now vr)
  note frame = validateRootCerts_frame [OF vr]
  show thesis
  proof (cases b)
    case False
    with vr have ok: "root_ok Y (source_data cs) ?now"
      using validateRootCerts_iff [of Y ?cs0 ?now] by simp
    from False vr validateRootCerts_key [of Y ?cs0 ?now cs1]
    have key: "cs_rootPrivateKey cs1 = stored_key Y (source_data cs) ''ca.key''" by simp
    from ok obtain k where k: "stored_key Y (source_data cs) ''ca.key'' = Some k"
      by (auto simp: root_ok_def split: option.splits)
    show thesis
    proof (cases "server_ok Y (source_data cs) ?now")
      case True
      with v False frame have "cs' = cs1 \<and> w' = w1"
        by (simp add: V validateServerCerts_iff)
      with True ok frame show thesis by (intro kept) (simp_all add: clock)
    next
      case stale: False
      with v False frame have "generateServerCerts Y cs1 (cs_Domain cs) ?now w1 = (None, cs', w')"
        by (simp add: V validateServerCerts_iff)
      with ok frame key k stale show thesis by (intro renewed [of cs1 k w1]) simp_all
    qed
  next
    case True
    with vr have stale: "\<not> root_ok Y (source_data cs) ?now"
      using validateRootCerts_iff [of Y ?cs0 ?now] by simp
    obtain e cs2 w2 where gr: "generateRootCerts Y cs1 (cs_Domain cs1) ?now w1 = (e, cs2, w2)" by (cases rule: prod_cases3)
    from v True gr have e: "e = None"
      by (auto simp: V split: if_splits)
    with v True gr have gs: "generateServerCerts Y cs2 (cs_Domain cs2) ?now w2 = (None, cs', w')"
      by (simp add: V)
    have dom: "cs_Domain cs2 = cs_Domain cs"
      using gr frame by (auto simp: generateRootCerts_def Let_def split: prod.splits sum.splits option.splits)
    from generateRootCerts_ok [OF law gr [unfolded e]] obtain key c der where
      r: "cs_rootPrivateKey cs2 = Some key" "stored_key Y (cs_Data cs2) ''ca.key'' = Some key"
        "stored_cert Y (cs_Data cs2) ''ca.crt'' = Some c" "stored Y (cs_Data cs2) ''ca.crt'' = Some der"
        "signs key der" "lasts ?now (365 * 24 * Hour) c" by blast
    have "root_ok Y (cs_Data cs2) ?now" using r by (simp add: root_ok_def lasts_def Hour_def Minute_def Second_def)
    with r gs dom stale show thesis by (intro renewed [of cs2 key w2]) simp_all
  qed
qed

lemma stored_present: "stored Y d k = Some b \<Longrightarrow> d k \<noteq> None"
  by (cases "d k") (auto simp: stored_def)

lemma root_ok_present: "root_ok Y d now \<Longrightarrow> d ''ca.crt'' \<noteq> None \<and> d ''ca.key'' \<noteq> None"
  by (auto simp: root_ok_def stored_cert_def stored_key_def dest: stored_present split: option.splits sum.splits)

lemma server_ok_present: "server_ok Y d now \<Longrightarrow> d ''tls.crt'' \<noteq> None \<and> d ''tls.key'' \<noteq> None"
  by (auto simp: server_ok_def stored_cert_def dest: stored_present split: option.splits sum.splits)

text \<open>What a successful run leaves: usable certificates, and the chain of signatures.\<close>

lemma ValidateCerts_good:
  assumes "crypto_laws Y signs" and "ValidateCerts Y cs w = (None, cs', w')"
  shows "root_ok Y (cs_Data cs') (instant Y cs w)" and "server_ok Y (cs_Data cs') (instant Y cs w)"
    and "chained Y signs (source_data cs) \<longrightarrow> chained Y signs (cs_Data cs')"
proof -
  have "root_ok Y (cs_Data cs') (instant Y cs w) \<and> server_ok Y (cs_Data cs') (instant Y cs w) \<and>
    (chained Y signs (source_data cs) \<longrightarrow> chained Y signs (cs_Data cs'))"
    using assms
  proof (cases rule: ValidateCerts_cases)
    case kept
    then show ?thesis by simp
  next
    case (renewed cs2 w2 key)
    note s = generateServerCerts_ok [OF assms(1) renewed(1) renewed(3)]
    have "root_ok Y (cs_Data cs') (instant Y cs w) = root_ok Y (cs_Data cs2) (instant Y cs w)"
      by (rule root_ok_cong) (simp_all add: s)
    with renewed(4) have root_ok: "root_ok Y (cs_Data cs') (instant Y cs w)" by simp
    have server_ok: "server_ok Y (cs_Data cs') (instant Y cs w)"
    proof -
      from s obtain c where "stored_cert Y (cs_Data cs') ''tls.crt'' = Some c"
          "lasts (instant Y cs w) (7 * 24 * Hour) c" by blast
      moreover from s obtain k where "cs_Data cs' ''tls.key'' = Some k" by blast
      ultimately show ?thesis by (simp add: server_ok_def lasts_def Hour_def Minute_def Second_def)
    qed
    from s have root: "stored Y (cs_Data cs') ''ca.crt'' = stored Y (cs_Data cs2) ''ca.crt''"
      "stored_key Y (cs_Data cs') ''ca.key'' = stored_key Y (cs_Data cs2) ''ca.key''"
      by (simp_all add: stored_key_def stored_def)
    have "chained Y signs (cs_Data cs')" if src: "chained Y signs (source_data cs)"
    proof -
      have "pred_option (signs key) (stored Y (cs_Data cs2) ''ca.crt'')"
      proof (cases "root_ok Y (source_data cs) (instant Y cs w)")
        case True
        with renewed(2,5) src show ?thesis by (simp add: chained_def)
      next
        case False
        with renewed(6) show ?thesis by auto
      qed
      moreover from s obtain der where "stored Y (cs_Data cs') ''tls.crt'' = Some der" "signs key der" by blast
      ultimately show ?thesis using renewed(2) by (simp add: chained_def root)
    qed
    with root_ok server_ok show ?thesis by blast
  qed
  then show "root_ok Y (cs_Data cs') (instant Y cs w)" and "server_ok Y (cs_Data cs') (instant Y cs w)"
    and "chained Y signs (source_data cs) \<longrightarrow> chained Y signs (cs_Data cs')" by simp_all
qed

lemma renewed_data:
  assumes "crypto_laws Y signs" and "ValidateCerts Y cs w = (None, cs', w')"
    and "root_ok Y (source_data cs) (instant Y cs w)" "server_ok Y (source_data cs) (instant Y cs w)"
  shows "cs_Data cs' = source_data cs"
  using assms(1,2)
proof (cases rule: ValidateCerts_cases)
  case kept
  then show ?thesis by simp
next
  case renewed
  with assms(3,4) show ?thesis by simp
qed

text \<open>A stored server certificate is for the domain, from the first one on.\<close>

definition names_domain :: "('w, 'z) crypto_scheme \<Rightarrow> string \<Rightarrow> (string \<rightharpoonup> string) \<Rightarrow> bool" where
  "names_domain Y domain d \<longleftrightarrow> pred_option (\<lambda>c. x_DNSNames c = [domain]) (stored_cert Y d ''tls.crt'')"

lemma ValidateCerts_domain:
  assumes "crypto_laws Y signs" and "ValidateCerts Y cs w = (None, cs', w')"
    and "names_domain Y (cs_Domain cs) (source_data cs)"
  shows "names_domain Y (cs_Domain cs) (cs_Data cs')"
  using assms(1,2)
proof (cases rule: ValidateCerts_cases)
  case kept
  with assms(3) show ?thesis by simp
next
  case (renewed cs2 w2 key)
  from generateServerCerts_ok [OF assms(1) renewed(1) renewed(3)]
  obtain c where "stored_cert Y (cs_Data cs') ''tls.crt'' = Some c" "x_DNSNames c = [cs_Domain cs]" by (elim exE conjE)
  then show ?thesis by (simp add: names_domain_def)
qed

section \<open>A concrete cryptography\<close>

text \<open>
  A certificate is the text of its expiry, a comma, its names and the key that signed it; the clock
  stands still and the world is not touched.  In a name every character is marked by an x, a name
  ends with a slash and the last one with a comma.
\<close>

definition toy_names :: "string list \<Rightarrow> string" where
  "toy_names ns = concat (map (\<lambda>n. concat (map (\<lambda>c. [CHR ''x'', c]) n) @ ''/'') ns) @ '',''"

fun read_names :: "string \<Rightarrow> string \<Rightarrow> string list \<times> string" where
  "read_names cur [] = ([], [])"
| "read_names cur [m] = ([], [])"
| "read_names cur (m # c # s) =
     (if m = CHR ''x'' then read_names (cur @ [c]) s
      else if m = CHR ''/'' then (let (ns, r) = read_names [] (c # s) in (cur # ns, r))
      else ([], c # s))"

lemma read_name: "read_names cur (concat (map (\<lambda>c. [CHR ''x'', c]) n) @ s) = read_names (cur @ n) s"
  by (induction n arbitrary: cur) simp_all

lemma read_toy_names: "read_names [] (toy_names ns @ k) = (ns, k)"
proof (induction ns)
  case Nil
  then show ?case by (cases k) (simp_all add: toy_names_def)
next
  case (Cons n ns)
  obtain c s where t: "toy_names ns @ k = c # s" by (cases "toy_names ns @ k") (simp_all add: toy_names_def)
  have "toy_names (n # ns) @ k = concat (map (\<lambda>c. [CHR ''x'', c]) n) @ CHR ''/'' # c # s"
    using t by (simp add: toy_names_def)
  with Cons t show ?case by (simp add: read_name)
qed

definition toy_text :: "int \<Rightarrow> string" where
  "toy_text i = (if i < 0 then CHR ''-'' else CHR ''+'') # nat_digits (nat \<bar>i\<bar>)"

definition toy_time :: "string \<Rightarrow> int option" where
  "toy_time s =
     (case s of
        [] \<Rightarrow> None
      | c # cs \<Rightarrow> map_option (\<lambda>n. if c = CHR ''-'' then - int n else int n) (parse_digits cs))"

definition not_comma :: "char \<Rightarrow> bool" where "not_comma c \<longleftrightarrow> c \<noteq> CHR '','' "

definition toy_signs :: "string \<Rightarrow> string \<Rightarrow> bool" where
  "toy_signs k der \<longleftrightarrow> snd (read_names [] (drop 1 (dropWhile not_comma der))) = k"

definition toy_crypto :: "'w crypto" where
  "toy_crypto =
     \<lparr>cy_Now = (\<lambda>w. (5 * Hour, w)),
      cy_Decode = (\<lambda>s. Some s),
      cy_Encode = (\<lambda>t b. b),
      cy_ParseCertificate = (\<lambda>s. case toy_time (takeWhile not_comma s) of
         None \<Rightarrow> Inl (ExtErr ''x509'')
       | Some t \<Rightarrow> Inr ((server_template [] 0 0)\<lparr>x_NotAfter := t,
           x_DNSNames := fst (read_names [] (drop 1 (dropWhile not_comma s)))\<rparr>)),
      cy_ParseKey = (\<lambda>s. Inr s),
      cy_MarshalKey = (\<lambda>k. k),
      cy_GenerateKey = (\<lambda>bits w. (Inr ''k'', w)),
      cy_Validate = (\<lambda>k. None),
      cy_Public = (\<lambda>k. k),
      cy_RandInt = (\<lambda>limit w. (Inr 42, w)),
      cy_Create = (\<lambda>tpl parent pub key w. case key of
         None \<Rightarrow> (Inl (ExtErr ''x509''), w)
       | Some k \<Rightarrow> (Inr (toy_text (x_NotAfter tpl) @ CHR '','' # toy_names (x_DNSNames tpl) @ k), w))\<rparr>"

lemma toy_text_commas: "c \<in> set (toy_text i) \<Longrightarrow> not_comma c"
  using nat_digits_digits [of "nat \<bar>i\<bar>"] by (auto simp: toy_text_def not_comma_def list_all_iff is_digit_def split: if_splits)

lemma toy_time_text: "toy_time (toy_text i) = Some i"
  by (auto simp: toy_time_def toy_text_def)

lemma toy_cut:
  "takeWhile not_comma (toy_text i @ CHR '','' # k) = toy_text i"
  "dropWhile not_comma (toy_text i @ CHR '','' # k) = CHR '','' # k"
  by (simp_all add: takeWhile_append2 [OF toy_text_commas] dropWhile_append2 [OF toy_text_commas] not_comma_def)

lemma toy_crypto_simps [simp]:
  "cy_Now toy_crypto w = (5 * Hour, w)"
  "cy_Decode toy_crypto x = Some x"
  "cy_Encode toy_crypto t x = x"
  "cy_ParseKey toy_crypto x = Inr x"
  "cy_MarshalKey toy_crypto x = x"
  "cy_GenerateKey toy_crypto bits w = (Inr ''k'', w)"
  "cy_Validate toy_crypto x = None"
  "cy_RandInt toy_crypto limit w = (Inr 42, w)"
  "cy_ParseCertificate toy_crypto x =
     (case toy_time (takeWhile not_comma x) of
        None \<Rightarrow> Inl (ExtErr ''x509'')
      | Some t \<Rightarrow> Inr ((server_template [] 0 0)\<lparr>x_NotAfter := t,
          x_DNSNames := fst (read_names [] (drop 1 (dropWhile not_comma x)))\<rparr>))"
  "cy_Create toy_crypto tpl parent pub (Some k) w = (Inr (toy_text (x_NotAfter tpl) @ CHR '','' # toy_names (x_DNSNames tpl) @ k), w)"
  by (simp_all add: toy_crypto_def)

lemma toy_laws: "crypto_laws toy_crypto toy_signs"
  by (auto simp: crypto_laws_def toy_signs_def toy_cut toy_time_text read_toy_names)

text \<open>A store whose root certificate is good and whose server certificate ends in two hours.\<close>

definition sample_certs :: Certs where
  "sample_certs =
     \<lparr>cs_Domain = ''dynatrace-oneagent-webhook.dynatrace.svc'',
      cs_SrcData = Some [''ca.key'' \<mapsto> ''7'', ''ca.crt'' \<mapsto> ''+999999999999999999999,,7'',
                         ''tls.key'' \<mapsto> ''8'', ''tls.crt'' \<mapsto> ''+25200000000000,,7''],
      cs_Data = Map.empty, cs_now = 5 * Hour, cs_rootPrivateKey = None, cs_rootPublicCert = None\<rparr>"

lemma toy_server_certs:
  "cs_rootPrivateKey cs = Some k \<Longrightarrow> fst (generateServerCerts toy_crypto cs d now w) = None"
  by (simp add: generateServerCerts_def Let_def)

lemma toy_root_certs:
  "\<exists>cs' w'. generateRootCerts toy_crypto cs d now w = (None, cs', w') \<and> cs_rootPrivateKey cs' \<noteq> None"
  by (simp add: generateRootCerts_def Let_def)

lemma toy_ValidateCerts:
  fixes w :: 'w
  shows "\<exists>cs' w'. ValidateCerts toy_crypto cs w = (None, cs', w')"
proof -
  let ?Y = "toy_crypto :: 'w crypto"
  let ?now = "instant ?Y cs w"
  obtain b cs1 where r: "validateRootCerts ?Y (cs\<lparr>cs_Data := source_data cs\<rparr>) ?now = (b, cs1)" by fastforce
  obtain cs2 w2 where g: "generateRootCerts ?Y cs1 (cs_Domain cs1) ?now w = (None, cs2, w2)"
      "cs_rootPrivateKey cs2 \<noteq> None"
    using toy_root_certs [of cs1 "cs_Domain cs1" ?now w] by blast
  have now: "(if IsZero (cs_now (cs\<lparr>cs_Data := source_data cs\<rparr>)) then 5 * Hour
      else cs_now (cs\<lparr>cs_Data := source_data cs\<rparr>)) = ?now"
    by (simp add: instant_def)
  have "\<not> b \<Longrightarrow> cs_rootPrivateKey cs1 \<noteq> None"
    using validateRootCerts_key [of ?Y "cs\<lparr>cs_Data := source_data cs\<rparr>" ?now cs1] r
      validateRootCerts_iff [of ?Y "cs\<lparr>cs_Data := source_data cs\<rparr>" ?now]
    by (auto simp: root_ok_def split: option.splits)
  with g have "fst (ValidateCerts ?Y cs w) = None"
    by (auto simp only: ValidateCerts_def Let_def source_data_def [symmetric] toy_crypto_simps prod.case now r)
      (auto simp: toy_server_certs split: if_splits)
  then show ?thesis by (metis prod.collapse)
qed

abbreviation sample_crypto :: "nat crypto" where "sample_crypto \<equiv> toy_crypto"

lemma sample_instant: "instant toy_crypto sample_certs w = 5 * Hour"
  by (simp add: instant_def sample_certs_def IsZero_def zero_time_def Hour_def Minute_def Second_def)

lemmas stored_defs = root_ok_def server_ok_def stored_cert_def stored_key_def stored_def source_data_def

lemma sample_stored:
  "root_ok sample_crypto (source_data sample_certs) (5 * Hour)"
  "\<not> server_ok sample_crypto (source_data sample_certs) (5 * Hour)"
  "chained sample_crypto toy_signs (source_data sample_certs)"
  by (simp_all add: stored_defs chained_def toy_signs_def sample_certs_def toy_time_def parse_digits_def
      is_digit_def not_comma_def Hour_def Minute_def Second_def)

section \<open>Properties\<close>

text \<open>After \<open>ValidateCerts\<close> ended without an error both certificates and the root key can be read,
  a server key is there, and neither certificate expires within the next four hours.
\<close>

theorem certificates_hold_for_four_hours:
  assumes "crypto_laws Y signs" and "ValidateCerts Y cs w = (None, cs', w')"
  shows "root_ok Y (cs_Data cs') (instant Y cs w) \<and> server_ok Y (cs_Data cs') (instant Y cs w)"
  using ValidateCerts_good [OF assms] by simp

theorem certificates_hold_for_four_hours_witness:
  "\<exists>cs' w'. ValidateCerts sample_crypto sample_certs (0 :: nat) = (None, cs', w') \<and>
     root_ok sample_crypto (cs_Data cs') (5 * Hour) \<and> server_ok sample_crypto (cs_Data cs') (5 * Hour)"
proof -
  obtain cs' w' where v: "ValidateCerts sample_crypto sample_certs (0 :: nat) = (None, cs', w')"
    using toy_ValidateCerts [of sample_certs "0 :: nat"] by blast
  from certificates_hold_for_four_hours [OF toy_laws v] v show ?thesis by (auto simp: sample_instant)
qed



text \<open>C9: Invariant of the stored certificates: whatever is stored as root or server certificate is signed
  by the stored root key, so clients that trust the root accept the server; it holds of an empty
  store and every successful run of \<open>ValidateCerts\<close> keeps it.
\<close>

theorem certificates_stay_chained:
  assumes "crypto_laws Y signs" and "chained Y signs (source_data cs)" and "ValidateCerts Y cs w = (None, cs', w')"
  shows "chained Y signs (cs_Data cs') \<and> chained Y signs Map.empty"
  using ValidateCerts_good [OF assms(1,3)] assms(2) by (simp add: chained_def stored_key_def stored_def)

theorem certificates_stay_chained_witness:
  "\<exists>cs' w'. ValidateCerts sample_crypto sample_certs (0 :: nat) = (None, cs', w') \<and> chained sample_crypto toy_signs (cs_Data cs')"
proof -
  obtain cs' w' where v: "ValidateCerts sample_crypto sample_certs (0 :: nat) = (None, cs', w')"
    using toy_ValidateCerts [of sample_certs "0 :: nat"] by blast
  from certificates_stay_chained [OF toy_laws sample_stored(3) v] v show ?thesis by auto
qed

section \<open>What is not looked at\<close>

text \<open>The server's key is only required to be there: an unreadable one is never replaced.\<close>

lemma server_key_is_not_read:
  "validateServerCerts Y (put ''tls.key'' v cs) now = validateServerCerts Y (put ''tls.key'' v' cs) now"
  by (simp add: validateServerCerts_def)

end
