(* ===== verification/Bootstrapper_Props.thy ===== *)
theory Bootstrapper_Props
  imports Views Bootstrapper Certs_Props Utils_Props
begin

text \<open>
  The bootstrapper as a refinement of one deployment (\<open>deployment\<close>: secret, files, Service,
  configuration): an error-free run leads to a consistent deployment, and on a consistent one it
  changes nothing.  \<open>webhook_laws\<close> says what the calls do to the deployment when they succeed;
  \<open>toy_cluster\<close> has them.
\<close>

section \<open>The deployment\<close>

record deployment =
  v_secret :: "Secret option"
  v_files :: "string \<rightharpoonup> string"
  v_service :: "Service option"
  v_config :: "WebhookConfiguration option"

text \<open>
  The calls on the webhook's own objects in one namespace, while nobody else writes them: only what has
  the webhook's name is found under it, and an update is known only for the object that is there.
\<close>

definition webhook_laws :: "'w bootstrap_cluster \<Rightarrow> string \<Rightarrow> ('w \<Rightarrow> deployment) \<Rightarrow> bool" where
  "webhook_laws B ns v \<longleftrightarrow>
     reads v IsNotFound (k_get_secret B ns SecretCertsName) v_secret \<and>
     (\<forall>s. sec_Name s = SecretCertsName \<and> sec_Namespace s = ns \<longrightarrow>
        writes v (k_create_secret B s) (v_secret_update (\<lambda>_. Some s))) \<and>
     (\<forall>s. writes_at v (k_update_secret B s)
        (\<lambda>d. \<exists>t. v_secret d = Some t \<and> sec_Name s = sec_Name t \<and> sec_Namespace s = sec_Namespace t)
        (v_secret_update (\<lambda>_. Some s))) \<and>
     (\<forall>f. reads v (bc_IsNotExist B) (bc_ReadFile B f) (\<lambda>d. v_files d f)) \<and>
     (\<forall>f x. writes v (bc_WriteFile B f x) (v_files_update (\<lambda>m. m(f \<mapsto> x)))) \<and>
     reads v IsNotFound (bc_get_service B ns webhookName) v_service \<and>
     (\<forall>s. svc_Name s = webhookName \<and> svc_Namespace s = ns \<longrightarrow>
        writes v (bc_create_service B s) (v_service_update (\<lambda>_. Some s))) \<and>
     reads v IsNotFound (bc_get_config B webhookName) v_config \<and>
     (\<forall>c. wc_Name c = webhookName \<longrightarrow> writes v (bc_create_config B c) (v_config_update (\<lambda>_. Some c))) \<and>
     (\<forall>c. writes_at v (bc_update_config B c) (\<lambda>d. \<exists>t. v_config d = Some t \<and> wc_Name c = wc_Name t)
        (v_config_update (\<lambda>_. Some c))) \<and>
     keeps v (cy_Now (bc_crypto B)) \<and> (\<forall>bits. keeps v (cy_GenerateKey (bc_crypto B) bits)) \<and> (\<forall>limit. keeps v (cy_RandInt (bc_crypto B) limit)) \<and>
     (\<forall>t p k s. keeps v (cy_Create (bc_crypto B) t p k s))"

text \<open>The secret's data and whether the deployment agrees with them.\<close>

definition secret_data :: "deployment \<Rightarrow> string \<rightharpoonup> string" where
  "secret_data d = (case Option.bind (v_secret d) sec_Data of None \<Rightarrow> Map.empty | Some m \<Rightarrow> m)"

definition files_agree :: "string \<Rightarrow> deployment \<Rightarrow> bool" where
  "files_agree dir d \<longleftrightarrow>
     v_files d (dir @ ''/tls.crt'') = secret_data d ''tls.crt'' \<and> v_files d (dir @ ''/tls.key'') = secret_data d ''tls.key''"

definition trusted :: "deployment \<Rightarrow> bool" where
  "trusted d \<longleftrightarrow> (\<exists>cfg wh. v_config d = Some cfg \<and> wc_Webhooks cfg = [wh] \<and> Some (mw_CABundle wh) = secret_data d ''ca.crt'')"

definition set_up :: "'w bootstrap_cluster \<Rightarrow> string \<Rightarrow> time \<Rightarrow> deployment \<Rightarrow> bool" where
  "set_up B dir now d \<longleftrightarrow>
     root_ok (bc_crypto B) (secret_data d) now \<and> server_ok (bc_crypto B) (secret_data d) now \<and>
     files_agree dir d \<and> v_service d \<noteq> None \<and> trusted d"

text \<open>
  The objects lead the API server to the webhook server: the secret, the Service and the configuration
  have their names, the Service forwards the port of HTTPS to the webhook's pods, the configuration
  sends the creation of pods in labelled namespaces to that Service's /inject, and the server's
  certificate is for the name of the Service.
\<close>

definition secret_named :: "string \<Rightarrow> Secret \<Rightarrow> bool" where
  "secret_named ns s \<longleftrightarrow> sec_Name s = ''dynatrace-oneagent-webhook-certs'' \<and> sec_Namespace s = ns"

definition service_forwards :: "string \<Rightarrow> Service \<Rightarrow> bool" where
  "service_forwards ns s \<longleftrightarrow> svc_Name s = ''dynatrace-oneagent-webhook'' \<and> svc_Namespace s = ns \<and>
     (\<exists>p \<in> set (svc_Ports s). spo_Port p = 443 \<and> spo_TargetPort p = ''server-port'') \<and>
     svc_Selector s = [''internal.oneagent.dynatrace.com/component'' \<mapsto> ''webhook'',
       ''internal.oneagent.dynatrace.com/app'' \<mapsto> ''webhook'']"

definition webhook_calls_service :: "string \<Rightarrow> MutatingWebhook \<Rightarrow> bool" where
  "webhook_calls_service ns wh \<longleftrightarrow> mw_ServiceName wh = ''dynatrace-oneagent-webhook'' \<and> mw_ServiceNamespace wh = ns \<and>
     mw_ServicePath wh = ''/inject'' \<and> mw_Operations wh = [''CREATE''] \<and> mw_APIGroups wh = [''''] \<and>
     mw_APIVersions wh = [''v1''] \<and> mw_Resources wh = [''pods''] \<and>
     mw_NamespaceSelectorExists wh = ''oneagent.dynatrace.com/instance''"

definition config_calls_service :: "string \<Rightarrow> WebhookConfiguration \<Rightarrow> bool" where
  "config_calls_service ns c \<longleftrightarrow> wc_Name c = ''dynatrace-oneagent-webhook'' \<and>
     (\<forall>wh \<in> set (wc_Webhooks c). webhook_calls_service ns wh)"

definition leads_to_server :: "'w bootstrap_cluster \<Rightarrow> string \<Rightarrow> deployment \<Rightarrow> bool" where
  "leads_to_server B ns d \<longleftrightarrow> pred_option (secret_named ns) (v_secret d) \<and>
     pred_option (service_forwards ns) (v_service d) \<and> pred_option (config_calls_service ns) (v_config d) \<and>
     names_domain (bc_crypto B) (''dynatrace-oneagent-webhook.'' @ ns @ ''.svc'') (secret_data d)"

section \<open>The steps\<close>

lemma ValidateCerts_keeps:
  assumes "keeps v (cy_Now Y)" "\<And>bits. keeps v (cy_GenerateKey Y bits)" "\<And>limit. keeps v (cy_RandInt Y limit)"
    and "\<And>t p k s. keeps v (cy_Create Y t p k s)" and "ValidateCerts Y cs w = (e, cs', w')"
  shows "v w' = v w"
proof -
  note k = keepsD [OF assms(1)] keepsD [OF assms(2)] keepsD [OF assms(3)] keepsD [OF assms(4)]
  have r: "generateRootCerts Y cs d now w = (e, cs', w') \<Longrightarrow> v w' = v w" for cs d now w e cs' w'
    by (auto simp: generateRootCerts_def Let_def dest!: k split: prod.splits sum.splits option.splits)
  have s: "generateServerCerts Y cs d now w = (e, cs', w') \<Longrightarrow> v w' = v w" for cs d now w e cs' w'
    by (auto simp: generateServerCerts_def Let_def dest!: k split: prod.splits sum.splits option.splits)
  show ?thesis
    using assms(5) by (auto simp: ValidateCerts_def Let_def dest!: k r s split: prod.splits if_splits)
qed

lemma write_files_ok:
  assumes r: "\<And>f. reads v (bc_IsNotExist B) (bc_ReadFile B f) (\<lambda>d. v_files d f)"
    and wr: "\<And>f x. writes v (bc_WriteFile B f x) (v_files_update (\<lambda>m. m(f \<mapsto> x)))"
  shows "write_files B dir data keys w = (None, w') \<Longrightarrow> distinct keys \<Longrightarrow>
     (\<exists>m. v w' = (v w)\<lparr>v_files := m\<rparr> \<and> (\<forall>k \<in> set keys. m (dir @ ''/'' @ k) = Some (map_get data k)) \<and>
          (\<forall>k. k \<notin> set keys \<longrightarrow> m (dir @ ''/'' @ k) = v_files (v w) (dir @ ''/'' @ k)))"
proof (induction keys arbitrary: w)
  case Nil
  then show ?case by (intro exI [of _ "v_files (v w)"]) simp
next
  case (Cons k ks)
  let ?f = "dir @ ''/'' @ k"
  obtain got w1 where g: "bc_ReadFile B ?f w = (got, w1)" by fastforce
  note rd = readsD [OF r g]
  have "\<exists>w2. v w2 = (v w)\<lparr>v_files := (v_files (v w))(?f \<mapsto> map_get data k)\<rparr> \<and>
      write_files B dir data ks w2 = (None, w')"
  proof (cases "got = Inr (map_get data k)")
    case True
    with Cons.prems(1) g have "write_files B dir data ks w1 = (None, w')" by simp
    moreover from rd True have "v w1 = v w" "v_files (v w) ?f = Some (map_get data k)" by simp_all
    ultimately show ?thesis by (intro exI [of _ w1]) (simp add: map_upd_triv)
  next
    case False
    with Cons.prems(1) g obtain w2 where w2: "bc_WriteFile B ?f (map_get data k) w1 = (None, w2)"
        "write_files B dir data ks w2 = (None, w')"
      by (auto simp: Let_def split: sum.splits prod.splits option.splits if_splits)
    with writesD [OF wr w2(1)] rd show ?thesis by (intro exI [of _ w2]) simp
  qed
  then obtain w2 where w2: "v w2 = (v w)\<lparr>v_files := (v_files (v w))(?f \<mapsto> map_get data k)\<rparr>"
    "write_files B dir data ks w2 = (None, w')" by blast
  from Cons.IH [OF w2(2)] Cons.prems(2) obtain m where m: "v w' = (v w2)\<lparr>v_files := m\<rparr>"
    "\<forall>k \<in> set ks. m (dir @ ''/'' @ k) = Some (map_get data k)"
    "\<forall>k. k \<notin> set ks \<longrightarrow> m (dir @ ''/'' @ k) = v_files (v w2) (dir @ ''/'' @ k)" by auto
  from m w2(1) Cons.prems(2) show ?case by (intro exI [of _ m]) auto
qed

text \<open>The instant at which a run looks at the certificates.\<close>

definition certs_instant :: "'w bootstrap_cluster \<Rightarrow> ReconcileWebhook \<Rightarrow> 'w \<Rightarrow> time" where
  "certs_instant B r w =
     (if IsZero (rw_now r) then fst (cy_Now (bc_crypto B) (snd (k_get_secret B (rw_namespace r) SecretCertsName w)))
      else rw_now r)"

lemma secret_data_simps [simp]:
  "secret_data (d\<lparr>v_files := m\<rparr>) = secret_data d"
  "secret_data (d\<lparr>v_service := s\<rparr>) = secret_data d"
  "secret_data (d\<lparr>v_config := c\<rparr>) = secret_data d"
  "secret_data (d\<lparr>v_secret := Some x\<rparr>) = (case sec_Data x of None \<Rightarrow> Map.empty | Some m \<Rightarrow> m)"
  by (simp_all add: secret_data_def)

lemma webhook_lawsD:
  assumes "webhook_laws B ns v"
  shows "reads v IsNotFound (k_get_secret B ns SecretCertsName) v_secret"
    and "reads v (bc_IsNotExist B) (bc_ReadFile B f) (\<lambda>d. v_files d f)"
    and "writes v (bc_WriteFile B f y) (v_files_update (\<lambda>m. m(f \<mapsto> y)))"
    and "reads v IsNotFound (bc_get_service B ns webhookName) v_service"
    and "svc_Name svc = webhookName \<Longrightarrow> svc_Namespace svc = ns \<Longrightarrow>
           writes v (bc_create_service B svc) (v_service_update (\<lambda>_. Some svc))"
    and "reads v IsNotFound (bc_get_config B webhookName) v_config"
    and "wc_Name c = webhookName \<Longrightarrow> writes v (bc_create_config B c) (v_config_update (\<lambda>_. Some c))"
    and "writes_at v (bc_update_config B c) (\<lambda>d. \<exists>t. v_config d = Some t \<and> wc_Name c = wc_Name t)
           (v_config_update (\<lambda>_. Some c))"
    and "keeps v (cy_Now (bc_crypto B))" and "keeps v (cy_GenerateKey (bc_crypto B) bits)"
    and "keeps v (cy_RandInt (bc_crypto B) limit)" and "keeps v (cy_Create (bc_crypto B) t p k s)"
    and "sec_Name x = SecretCertsName \<Longrightarrow> sec_Namespace x = ns \<Longrightarrow>
           writes v (k_create_secret B x) (v_secret_update (\<lambda>_. Some x))"
    and "writes_at v (k_update_secret B x)
           (\<lambda>d. \<exists>t. v_secret d = Some t \<and> sec_Name x = sec_Name t \<and> sec_Namespace x = sec_Namespace t)
           (v_secret_update (\<lambda>_. Some x))"
  using assms by (simp_all add: webhook_laws_def)

lemma store_certs_ok:
  assumes laws: "webhook_laws B (rw_namespace r) v" and "store_certs B r secret data w = (None, w')"
    and "v_secret (v w) = secret"
  shows "\<exists>s. v w' = (v w)\<lparr>v_secret := Some s\<rparr> \<and> sec_Data s = Some data \<and>
    (pred_option (secret_named (rw_namespace r)) secret \<longrightarrow> secret_named (rw_namespace r) s)"
proof (cases secret)
  case None
  let ?s = "\<lparr>sec_Name = SecretCertsName, sec_Namespace = rw_namespace r, sec_Type = [], sec_Data = Some data\<rparr>"
  from None assms(2) have e: "k_create_secret B ?s w = (None, w')" by (simp add: store_certs_def)
  have "writes v (k_create_secret B ?s) (v_secret_update (\<lambda>_. Some ?s))"
    by (rule webhook_lawsD(13) [OF laws]) simp_all
  from writesD [where f = "k_create_secret B ?s", OF this e] show ?thesis
    by (intro exI [of _ ?s]) (simp add: secret_named_def SecretCertsName_def)
next
  case (Some s)
  show ?thesis
  proof (cases "Some data = sec_Data s")
    case True
    with assms Some have "w' = w" "v w = (v w)\<lparr>v_secret := Some s\<rparr>" by (simp_all add: store_certs_def)
    with True Some show ?thesis by (intro exI [of _ s]) simp
  next
    case False
    let ?s = "s\<lparr>sec_Data := Some data\<rparr>"
    from False assms(2) Some have e: "k_update_secret B ?s w = (None, w')" by (simp add: store_certs_def)
    from writes_atD [where f = "k_update_secret B ?s", OF webhook_lawsD(14) [OF laws] e] Some assms(3) show ?thesis
      by (intro exI [of _ ?s]) (simp add: secret_named_def)
  qed
qed

lemma Certs_keep:
  "webhook_laws B ns v \<Longrightarrow> ValidateCerts (bc_crypto B) cs w = (e, cs', w') \<Longrightarrow> v w' = v w"
  by (rule ValidateCerts_keeps [OF webhook_lawsD(9-12)])

lemma reconcileCerts_ok:
  assumes laws: "webhook_laws B (rw_namespace r) v" and crypto: "crypto_laws (bc_crypto B) signs"
    and run: "reconcileCerts B r w = (Inr ca, w')"
  defines "Y \<equiv> bc_crypto B" and "now \<equiv> certs_instant B r w"
  shows "root_ok Y (secret_data (v w')) now \<and> server_ok Y (secret_data (v w')) now \<and>
         files_agree (rw_certsDir r) (v w') \<and> secret_data (v w') ''ca.crt'' = Some ca \<and>
         v_service (v w') = v_service (v w) \<and> v_config (v w') = v_config (v w) \<and>
         (chained Y signs (secret_data (v w)) \<longrightarrow> chained Y signs (secret_data (v w'))) \<and>
         (leads_to_server B (rw_namespace r) (v w) \<longrightarrow> leads_to_server B (rw_namespace r) (v w'))"
proof -
  let ?ns = "rw_namespace r"
  obtain got w1 where g: "k_get_secret B ?ns SecretCertsName w = (got, w1)" by fastforce
  from run g obtain secret where secret: "(case got of Inr s \<Rightarrow> Inr (Some s) | Inl e \<Rightarrow> if IsNotFound e then Inr None else Inl e)
      = (Inr secret :: go_error + Secret option)"
    by (auto simp: reconcileCerts_def Let_def split: sum.splits if_splits)
  from readsD [OF webhook_lawsD(1) [OF laws] g] secret
  have v1: "v w1 = v w" "v_secret (v w) = secret" by (auto split: sum.splits if_splits)
  from run g secret obtain cs w2 w3 where
    val: "ValidateCerts (bc_crypto B) (webhook_certs r secret) w1 = (None, cs, w2)" and
    st: "store_certs B r secret (cs_Data cs) w2 = (None, w3)" and
    wf: "write_files B (rw_certsDir r) (cs_Data cs) [''tls.crt'', ''tls.key''] w3 = (None, w')" and
    ca: "ca = map_get (cs_Data cs) ''ca.crt''"
    by (auto simp: reconcileCerts_def Let_def split: option.splits prod.splits)
  have src: "source_data (webhook_certs r secret) = secret_data (v w)"
    by (simp add: source_data_def webhook_certs_def secret_data_def v1)
  have now: "instant (bc_crypto B) (webhook_certs r secret) w1 = now"
    by (simp add: instant_def webhook_certs_def now_def certs_instant_def g)
  from Certs_keep [OF laws val] v1 have v2: "v w2 = v w" by simp
  from store_certs_ok [OF laws st] v1 v2 obtain s where
    s: "v w3 = (v w)\<lparr>v_secret := Some s\<rparr>" "sec_Data s = Some (cs_Data cs)"
      "pred_option (secret_named ?ns) (v_secret (v w)) \<longrightarrow> secret_named ?ns s" by auto
  from write_files_ok [OF webhook_lawsD(2) [OF laws] webhook_lawsD(3) [OF laws] wf] obtain m where
    m: "v w' = (v w3)\<lparr>v_files := m\<rparr>"
      "m (rw_certsDir r @ ''/tls.crt'') = Some (map_get (cs_Data cs) ''tls.crt'')"
      "m (rw_certsDir r @ ''/tls.key'') = Some (map_get (cs_Data cs) ''tls.key'')" by auto
  have data: "secret_data (v w') = cs_Data cs" by (simp add: m s)
  from ValidateCerts_good [OF crypto val] have
    ok: "root_ok Y (cs_Data cs) now" "server_ok Y (cs_Data cs) now"
      "chained Y signs (secret_data (v w)) \<longrightarrow> chained Y signs (cs_Data cs)"
    by (simp_all add: now src Y_def)
  have "cs_Domain (webhook_certs r secret) = ''dynatrace-oneagent-webhook.'' @ ?ns @ ''.svc''"
    by (simp add: webhook_certs_def webhookName_def)
  from ValidateCerts_domain [OF crypto val, unfolded this src]
  have "leads_to_server B ?ns (v w) \<longrightarrow> leads_to_server B ?ns (v w')"
    unfolding leads_to_server_def data by (simp add: m(1) s)
  with root_ok_present [OF ok(1)] server_ok_present [OF ok(2)] ok show ?thesis
    by (auto simp: data files_agree_def m s ca map_get_def)
qed

lemma reconcileService_ok:
  assumes laws: "webhook_laws B (rw_namespace r) v" and run: "reconcileService B r w = (None, w')"
  shows "\<exists>s. v w' = (v w)\<lparr>v_service := Some s\<rparr> \<and>
    (pred_option (service_forwards (rw_namespace r)) (v_service (v w)) \<longrightarrow> service_forwards (rw_namespace r) s)"
proof -
  obtain got w1 where g: "bc_get_service B (rw_namespace r) webhookName w = (got, w1)" by fastforce
  note rd = readsD [OF webhook_lawsD(4) [OF laws] g]
  show ?thesis
  proof (cases got)
    case (Inr s)
    with run g rd show ?thesis by (intro exI [of _ s]) (simp add: reconcileService_def)
  next
    case (Inl e)
    with run g have e: "bc_create_service B (expected_service r) w1 = (None, w')"
      by (auto simp: reconcileService_def split: if_splits)
    have "svc_Name (expected_service r) = webhookName" "svc_Namespace (expected_service r) = rw_namespace r"
      by (simp_all add: expected_service_def)
    from writesD [where f = "bc_create_service B (expected_service r)", OF webhook_lawsD(5) [OF laws this] e] rd
    show ?thesis
      by (intro exI [of _ "expected_service r"]) (simp add: expected_service_def service_forwards_def webhookName_def)
  qed
qed

text \<open>A configuration with several webhooks, or another bundle, gets the webhooks of the code.\<close>

lemma reconcileWebhookConfig_found:
  "bc_get_config B webhookName w = (Inr cfg, w1) \<Longrightarrow>
     reconcileWebhookConfig B r ca w =
       (if \<exists>wh. wc_Webhooks cfg = [wh] \<and> mw_CABundle wh = ca then (None, w1)
        else bc_update_config B (cfg\<lparr>wc_Webhooks := wc_Webhooks (webhook_configuration r ca)\<rparr>) w1)"
  by (auto simp: reconcileWebhookConfig_def Let_def split: list.splits)

lemma webhook_configuration_trusts:
  "\<exists>wh. wc_Webhooks (webhook_configuration r ca) = [wh] \<and> mw_CABundle wh = ca \<and> webhook_calls_service (rw_namespace r) wh"
  by (simp add: webhook_configuration_def webhook_calls_service_def webhookName_def LabelInstance_def)

lemma webhook_configuration_name: "wc_Name (webhook_configuration r ca) = webhookName"
  by (simp add: webhook_configuration_def)

lemma reconcileWebhookConfig_ok:
  assumes laws: "webhook_laws B (rw_namespace r) v" and run: "reconcileWebhookConfig B r ca w = (None, w')"
  shows "\<exists>cfg wh. v w' = (v w)\<lparr>v_config := Some cfg\<rparr> \<and> wc_Webhooks cfg = [wh] \<and> mw_CABundle wh = ca \<and>
    (pred_option (config_calls_service (rw_namespace r)) (v_config (v w)) \<longrightarrow> config_calls_service (rw_namespace r) cfg)"
proof -
  obtain got w1 where g: "bc_get_config B webhookName w = (got, w1)" by fastforce
  note rd = readsD [OF webhook_lawsD(6) [OF laws] g]
  show ?thesis
  proof (cases got)
    case (Inl e)
    let ?c = "webhook_configuration r ca"
    from Inl run g have e: "bc_create_config B ?c w1 = (None, w')"
      by (auto simp: reconcileWebhookConfig_def Let_def split: if_splits)
    from writesD [where f = "bc_create_config B ?c", OF webhook_lawsD(7) [OF laws webhook_configuration_name] e] rd
      webhook_configuration_trusts [of r ca]
    show ?thesis
      by (intro exI [of _ ?c]) (auto simp: config_calls_service_def webhook_configuration_name webhookName_def)
  next
    case (Inr cfg)
    let ?c = "cfg\<lparr>wc_Webhooks := wc_Webhooks (webhook_configuration r ca)\<rparr>"
    note found = reconcileWebhookConfig_found [OF g [unfolded Inr], of r ca]
    show ?thesis
    proof (cases "\<exists>wh. wc_Webhooks cfg = [wh] \<and> mw_CABundle wh = ca")
      case True
      with found run rd Inr have "v w' = (v w)\<lparr>v_config := Some cfg\<rparr>" by simp
      with True rd Inr show ?thesis by auto
    next
      case False
      with found run have e: "bc_update_config B ?c w1 = (None, w')" by simp
      from writes_atD [where f = "bc_update_config B ?c", OF webhook_lawsD(8) [OF laws] e] rd Inr
        webhook_configuration_trusts [of r ca]
      show ?thesis by (intro exI [of _ ?c]) (auto simp: config_calls_service_def)
    qed
  qed
qed

section \<open>A concrete cluster\<close>

text \<open>The world is the deployment itself.\<close>

definition toy_cluster :: "deployment bootstrap_cluster" where
  "toy_cluster =
     cluster.extend
       ((idle_cluster None)
          \<lparr>k_get_secret := (\<lambda>ns n d. (case v_secret d of None \<Rightarrow> Inl KubeNotFound | Some s \<Rightarrow> Inr s, d)),
           k_create_secret := (\<lambda>s d. (None, d\<lparr>v_secret := Some s\<rparr>)),
           k_update_secret := (\<lambda>s d. (None, d\<lparr>v_secret := Some s\<rparr>))\<rparr>)
       (bootstrap_cluster.fields toy_crypto
          (\<lambda>ns n d. (case v_service d of None \<Rightarrow> Inl KubeNotFound | Some s \<Rightarrow> Inr s, d))
          (\<lambda>s d. (None, d\<lparr>v_service := Some s\<rparr>))
          (\<lambda>n d. (case v_config d of None \<Rightarrow> Inl KubeNotFound | Some s \<Rightarrow> Inr s, d))
          (\<lambda>c d. (None, d\<lparr>v_config := Some c\<rparr>))
          (\<lambda>c d. (None, d\<lparr>v_config := Some c\<rparr>))
          (\<lambda>f d. (case v_files d f of None \<Rightarrow> Inl KubeNotFound | Some x \<Rightarrow> Inr x, d))
          (\<lambda>f x d. (None, d\<lparr>v_files := (v_files d)(f \<mapsto> x)\<rparr>))
          IsNotFound)"

lemma toy_cluster_simps [simp]:
  "bc_crypto toy_cluster = toy_crypto"
  "k_get_secret toy_cluster = (\<lambda>ns n d. (case v_secret d of None \<Rightarrow> Inl KubeNotFound | Some s \<Rightarrow> Inr s, d))"
  "k_create_secret toy_cluster = (\<lambda>s d. (None, d\<lparr>v_secret := Some s\<rparr>))"
  "k_update_secret toy_cluster = (\<lambda>s d. (None, d\<lparr>v_secret := Some s\<rparr>))"
  "bc_get_service toy_cluster = (\<lambda>ns n d. (case v_service d of None \<Rightarrow> Inl KubeNotFound | Some s \<Rightarrow> Inr s, d))"
  "bc_create_service toy_cluster = (\<lambda>s d. (None, d\<lparr>v_service := Some s\<rparr>))"
  "bc_get_config toy_cluster = (\<lambda>n d. (case v_config d of None \<Rightarrow> Inl KubeNotFound | Some s \<Rightarrow> Inr s, d))"
  "bc_create_config toy_cluster = (\<lambda>c d. (None, d\<lparr>v_config := Some c\<rparr>))"
  "bc_update_config toy_cluster = (\<lambda>c d. (None, d\<lparr>v_config := Some c\<rparr>))"
  "bc_ReadFile toy_cluster = (\<lambda>f d. (case v_files d f of None \<Rightarrow> Inl KubeNotFound | Some x \<Rightarrow> Inr x, d))"
  "bc_WriteFile toy_cluster = (\<lambda>f x d. (None, d\<lparr>v_files := (v_files d)(f \<mapsto> x)\<rparr>))"
  "bc_IsNotExist toy_cluster = IsNotFound"
  by (simp_all add: toy_cluster_def cluster.defs bootstrap_cluster.defs)

lemma toy_webhook_laws: "webhook_laws toy_cluster ns (\<lambda>d. d)"
  by (auto simp: webhook_laws_def reads_def writes_def writes_at_def keeps_def toy_crypto_def split: option.splits)

lemma toy_store: "\<exists>w'. store_certs toy_cluster r s x w = (None, w')"
  by (auto simp: store_certs_def split: option.split)

lemma toy_files: "\<exists>w'. write_files toy_cluster dir x ks w = (None, w')"
  by (induction ks arbitrary: w) (auto simp: Let_def split: option.split)

lemma toy_service: "\<exists>w'. reconcileService toy_cluster r w = (None, w')"
  by (auto simp: reconcileService_def split: option.split)

lemma toy_config: "\<exists>w'. reconcileWebhookConfig toy_cluster r ca w = (None, w')"
  by (auto simp: reconcileWebhookConfig_def Let_def split: option.split list.split)

lemma toy_certs: "\<exists>ca w. reconcileCerts toy_cluster r d = (Inr ca, w)"
proof -
  obtain cs w2 where v: "ValidateCerts toy_crypto (webhook_certs r (v_secret d)) d = (None, cs, w2)"
    using toy_ValidateCerts [of "webhook_certs r (v_secret d)" d] by blast
  obtain w3 where s: "store_certs toy_cluster r (v_secret d) (cs_Data cs) w2 = (None, w3)" using toy_store by blast
  obtain w4 where f: "write_files toy_cluster (rw_certsDir r) (cs_Data cs) [''tls.crt'', ''tls.key''] w3 = (None, w4)"
    using toy_files by blast
  have get: "(case case v_secret d of None \<Rightarrow> Inl KubeNotFound | Some s \<Rightarrow> Inr s of Inr s \<Rightarrow> Inr (Some s)
      | Inl e \<Rightarrow> if IsNotFound e then Inr None else Inl e) = Inr (v_secret d)"
    by (simp split: option.split)
  show ?thesis
    by (simp only: reconcileCerts_def Let_def toy_cluster_simps prod.case get sum.case v option.case s f)
      (intro exI, rule refl)
qed

lemma toy_webhook_run: "\<exists>d'. Reconcile_webhook toy_cluster r d = (None, d')"
proof -
  obtain ca w1 where c: "reconcileCerts toy_cluster r d = (Inr ca, w1)" using toy_certs by blast
  obtain w2 where s: "reconcileService toy_cluster r w1 = (None, w2)" using toy_service by blast
  obtain w3 where h: "reconcileWebhookConfig toy_cluster r ca w2 = (None, w3)" using toy_config by blast
  show ?thesis by (simp add: Reconcile_webhook_def c s h)
qed

lemma webhook_run_sets_up:
  assumes "webhook_laws B (rw_namespace r) v" and "crypto_laws (bc_crypto B) signs"
    and "Reconcile_webhook B r w = (None, w')"
  shows "set_up B (rw_certsDir r) (certs_instant B r w) (v w') \<and>
         (chained (bc_crypto B) signs (secret_data (v w)) \<longrightarrow> chained (bc_crypto B) signs (secret_data (v w'))) \<and>
         (leads_to_server B (rw_namespace r) (v w) \<longrightarrow> leads_to_server B (rw_namespace r) (v w'))"
proof -
  from assms(3) obtain ca w1 w2 where c: "reconcileCerts B r w = (Inr ca, w1)"
    and s: "reconcileService B r w1 = (None, w2)" and h: "reconcileWebhookConfig B r ca w2 = (None, w')"
    by (auto simp: Reconcile_webhook_def split: prod.splits sum.splits option.splits)
  from reconcileService_ok [OF assms(1) s] obtain svc where v2: "v w2 = (v w1)\<lparr>v_service := Some svc\<rparr>"
    "pred_option (service_forwards (rw_namespace r)) (v_service (v w1)) \<longrightarrow> service_forwards (rw_namespace r) svc" by blast
  from reconcileWebhookConfig_ok [OF assms(1) h] obtain cfg wh where
    v3: "v w' = (v w2)\<lparr>v_config := Some cfg\<rparr>" "wc_Webhooks cfg = [wh]" "mw_CABundle wh = ca"
    "pred_option (config_calls_service (rw_namespace r)) (v_config (v w2)) \<longrightarrow> config_calls_service (rw_namespace r) cfg"
    by blast
  from reconcileCerts_ok [OF assms(1,2) c] v2(2) v3(4) show ?thesis
    by (simp add: set_up_def files_agree_def trusted_def leads_to_server_def v2(1) v3(1-3))
qed

lemma toy_crypto_laws: "crypto_laws (bc_crypto toy_cluster) toy_signs"
  by (simp add: toy_laws)

definition toy_webhook :: ReconcileWebhook where
  "toy_webhook = \<lparr>rw_namespace = ''dynatrace'', rw_certsDir = certsDir, rw_now = 5 * Hour\<rparr>"

definition nothing_deployed :: deployment where
  "nothing_deployed = \<lparr>v_secret = None, v_files = Map.empty, v_service = None, v_config = None\<rparr>"

lemma toy_instant: "certs_instant toy_cluster toy_webhook d = 5 * Hour"
  by (simp add: certs_instant_def toy_webhook_def IsZero_def zero_time_def Hour_def Minute_def Second_def)

lemma toy_set_up:
  "Reconcile_webhook toy_cluster toy_webhook d = (None, d') \<Longrightarrow> set_up toy_cluster certsDir (5 * Hour) d'"
  using webhook_run_sets_up [OF toy_webhook_laws toy_crypto_laws, of toy_webhook d d']
  by (simp add: toy_instant) (simp add: toy_webhook_def)

section \<open>Properties\<close>

text \<open>C4: An error-free run of the bootstrapper leaves a consistent webhook, whatever was there before:
  usable certificates in the secret, the same key and certificate in the files of the server, a
  Service, and a configuration with one webhook that trusts the root certificate of the secret.  And it
  keeps, from the empty deployment on, that the certificates are chained and that the objects lead to
  the server: secret, Service and configuration have the names under which they are looked for, the
  Service forwards HTTPS to the webhook's pods, the configuration sends the creation of pods in
  labelled namespaces to /inject of that Service, and the server's certificate is for its name.
\<close>

theorem webhook_is_set_up:
  assumes "webhook_laws B (rw_namespace r) v" and "crypto_laws (bc_crypto B) signs"
    and "Reconcile_webhook B r w = (None, w')"
  shows "set_up B (rw_certsDir r) (certs_instant B r w) (v w') \<and>
         (chained (bc_crypto B) signs (secret_data (v w)) \<longrightarrow> chained (bc_crypto B) signs (secret_data (v w'))) \<and>
         (leads_to_server B (rw_namespace r) (v w) \<longrightarrow> leads_to_server B (rw_namespace r) (v w'))"
  using webhook_run_sets_up [OF assms] .

theorem webhook_is_set_up_witness:
  "\<exists>d. Reconcile_webhook toy_cluster toy_webhook nothing_deployed = (None, d) \<and>
     set_up toy_cluster certsDir (5 * Hour) d \<and> chained (bc_crypto toy_cluster) toy_signs (secret_data d) \<and>
     leads_to_server toy_cluster ''dynatrace'' d"
proof -
  obtain d where d: "Reconcile_webhook toy_cluster toy_webhook nothing_deployed = (None, d)"
    using toy_webhook_run by blast
  have dir: "rw_certsDir toy_webhook = certsDir" "rw_namespace toy_webhook = ''dynatrace''"
    by (simp_all add: toy_webhook_def)
  note set_up = webhook_is_set_up [OF toy_webhook_laws toy_crypto_laws d, unfolded toy_instant dir]
  have "leads_to_server toy_cluster ''dynatrace'' nothing_deployed"
    by (simp add: leads_to_server_def names_domain_def stored_cert_def stored_def secret_data_def nothing_deployed_def)
  moreover
  have "chained (bc_crypto toy_cluster) toy_signs (secret_data nothing_deployed)"
    by (simp add: chained_def stored_key_def stored_def secret_data_def nothing_deployed_def)
  ultimately show ?thesis using set_up d by (intro exI [of _ d]) simp
qed

section \<open>A settled webhook\<close>

text \<open>The cluster with other calls that write.\<close>

definition with_writers ::
  "'w bootstrap_cluster \<Rightarrow> (Secret \<Rightarrow> 'w \<Rightarrow> go_error option \<times> 'w) \<Rightarrow> (Secret \<Rightarrow> 'w \<Rightarrow> go_error option \<times> 'w)
     \<Rightarrow> (Service \<Rightarrow> 'w \<Rightarrow> go_error option \<times> 'w) \<Rightarrow> (WebhookConfiguration \<Rightarrow> 'w \<Rightarrow> go_error option \<times> 'w)
     \<Rightarrow> (WebhookConfiguration \<Rightarrow> 'w \<Rightarrow> go_error option \<times> 'w) \<Rightarrow> (string \<Rightarrow> string \<Rightarrow> 'w \<Rightarrow> go_error option \<times> 'w)
     \<Rightarrow> 'w bootstrap_cluster" where
  "with_writers B cs us cv cc uc fw =
     B\<lparr>k_create_secret := cs, k_update_secret := us, bc_create_service := cv, bc_create_config := cc,
       bc_update_config := uc, bc_WriteFile := fw\<rparr>"

lemma with_writers_simps [simp]:
  "bc_crypto (with_writers B cs us cv cc uc fw) = bc_crypto B"
  "k_get_secret (with_writers B cs us cv cc uc fw) = k_get_secret B"
  "bc_get_service (with_writers B cs us cv cc uc fw) = bc_get_service B"
  "bc_get_config (with_writers B cs us cv cc uc fw) = bc_get_config B"
  "bc_ReadFile (with_writers B cs us cv cc uc fw) = bc_ReadFile B"
  "bc_IsNotExist (with_writers B cs us cv cc uc fw) = bc_IsNotExist B"
  by (simp_all add: with_writers_def)

lemma settled_service:
  assumes "webhook_laws B (rw_namespace r) v" and "v_service (v w) \<noteq> None"
  shows "reconcileService (with_writers B cs us cv cc uc fw) r w = reconcileService B r w \<and>
         v (snd (reconcileService B r w)) = v w"
proof -
  obtain got w1 where g: "bc_get_service B (rw_namespace r) webhookName w = (got, w1)" by fastforce
  from readsD [OF webhook_lawsD(4) [OF assms(1)] g] assms(2) show ?thesis
    by (auto simp: reconcileService_def g split: sum.split)
qed

lemma settled_config:
  assumes "webhook_laws B (rw_namespace r) v" and "v_config (v w) = Some cfg" "wc_Webhooks cfg = [wh]" "mw_CABundle wh = ca"
  shows "reconcileWebhookConfig (with_writers B cs us cv cc uc fw) r ca w = reconcileWebhookConfig B r ca w \<and>
         v (snd (reconcileWebhookConfig B r ca w)) = v w"
proof -
  obtain got w1 where g: "bc_get_config B webhookName w = (got, w1)" by fastforce
  from readsD [OF webhook_lawsD(6) [OF assms(1)] g] assms(2-) show ?thesis
    by (auto simp: reconcileWebhookConfig_def Let_def g split: sum.split)
qed

lemma settled_files:
  assumes laws: "webhook_laws B ns v"
  shows "\<forall>k \<in> set keys. v_files (v w) (dir @ ''/'' @ k) = Some (map_get data k) \<Longrightarrow>
     write_files (with_writers B cs us cv cc uc fw) dir data keys w = write_files B dir data keys w \<and>
     v (snd (write_files B dir data keys w)) = v w"
proof (induction keys arbitrary: w)
  case Nil
  then show ?case by simp
next
  case (Cons k ks)
  obtain got w1 where g: "bc_ReadFile B (dir @ ''/'' @ k) w = (got, w1)" by fastforce
  from readsD [OF webhook_lawsD(2) [OF laws] g] Cons.prems
  have rd: "v w1 = v w" "\<And>a. got = Inr a \<Longrightarrow> a = map_get data k" "\<And>e. got = Inl e \<Longrightarrow> \<not> bc_IsNotExist B e" by auto
  show ?case
  proof (cases got)
    case (Inl e)
    with rd g show ?thesis by (simp add: Let_def)
  next
    case (Inr a)
    with rd g Cons.IH [of w1] Cons.prems show ?thesis by (simp add: Let_def)
  qed
qed

lemma settled_certs:
  assumes laws: "webhook_laws B (rw_namespace r) v" and crypto: "crypto_laws (bc_crypto B) signs"
    and su: "set_up B (rw_certsDir r) (certs_instant B r w) (v w)"
  shows "reconcileCerts (with_writers B cs us cv cc uc fw) r w = reconcileCerts B r w \<and>
         v (snd (reconcileCerts B r w)) = v w \<and>
         (\<forall>ca w'. reconcileCerts B r w = (Inr ca, w') \<longrightarrow> secret_data (v w) ''ca.crt'' = Some ca)"
proof -
  let ?B = "with_writers B cs us cv cc uc fw"
  let ?Y = "bc_crypto B"
  let ?data = "secret_data (v w)"
  obtain got w1 where g: "k_get_secret B (rw_namespace r) SecretCertsName w = (got, w1)" by fastforce
  note rd = readsD [OF webhook_lawsD(1) [OF laws] g]
  from su have ok: "root_ok ?Y ?data (certs_instant B r w)" "server_ok ?Y ?data (certs_instant B r w)"
    and agree: "files_agree (rw_certsDir r) (v w)" by (simp_all add: set_up_def)
  note present = root_ok_present [OF ok(1)] server_ok_present [OF ok(2)]
  from present obtain s where s: "v_secret (v w) = Some s" "sec_Data s = Some ?data"
    by (cases "v_secret (v w)"; cases "Option.bind (v_secret (v w)) sec_Data") (auto simp: secret_data_def)
  show ?thesis
  proof (cases got)
    case (Inl e)
    with rd s have "\<not> IsNotFound e" by auto
    with Inl rd show ?thesis by (simp add: reconcileCerts_def Let_def g)
  next
    case (Inr t)
    with rd s have t: "t = s" "v w1 = v w" by auto
    obtain err c w2 where val: "ValidateCerts ?Y (webhook_certs r (Some s)) w1 = (err, c, w2)"
      by (cases rule: prod_cases3)
    have v2: "v w2 = v w" using Certs_keep [OF laws val] t by simp
    show ?thesis
    proof (cases err)
      case (Some e)
      with Inr t v2 show ?thesis by (simp add: reconcileCerts_def Let_def g val)
    next
      case None
      have src: "source_data (webhook_certs r (Some s)) = ?data"
        by (simp add: source_data_def webhook_certs_def s)
      have now: "instant ?Y (webhook_certs r (Some s)) w1 = certs_instant B r w"
        by (simp add: instant_def webhook_certs_def certs_instant_def g)
      from renewed_data [OF crypto val [unfolded None]] ok have data: "cs_Data c = ?data" by (simp add: src now)
      have stored: "store_certs ?B r (Some s) ?data w2 = (None, w2)" "store_certs B r (Some s) ?data w2 = (None, w2)"
        by (simp_all add: store_certs_def s)
      from agree present have
        "\<forall>k \<in> set [''tls.crt'', ''tls.key'']. v_files (v w2) (rw_certsDir r @ ''/'' @ k) = Some (map_get ?data k)"
        by (auto simp: files_agree_def map_get_def v2)
      from settled_files [OF laws this, of cs us cv cc uc fw] have
        f: "write_files ?B (rw_certsDir r) ?data [''tls.crt'', ''tls.key''] w2 =
            write_files B (rw_certsDir r) ?data [''tls.crt'', ''tls.key''] w2"
           "v (snd (write_files B (rw_certsDir r) ?data [''tls.crt'', ''tls.key''] w2)) = v w"
        by (simp_all only: v2)
      have step: "reconcileCerts X r w =
          (case write_files X (rw_certsDir r) ?data [''tls.crt'', ''tls.key''] w2 of
             (Some err, w4) \<Rightarrow> (Inl err, w4) | (None, w4) \<Rightarrow> (Inr (map_get ?data ''ca.crt''), w4))"
        if "bc_crypto X = ?Y" "k_get_secret X = k_get_secret B" "store_certs X r (Some s) ?data w2 = (None, w2)" for X
        by (simp only: reconcileCerts_def Let_def that g Inr t prod.case sum.case val None option.case data)
      obtain err4 w4 where w4: "write_files B (rw_certsDir r) ?data [''tls.crt'', ''tls.key''] w2 = (err4, w4)" by fastforce
      from step [of B] step [of ?B] stored f w4 present show ?thesis
        by (auto simp: map_get_def split: option.splits)
    qed
  qed
qed

text \<open>C25: On a webhook that is set up, a run is read-only: it makes the same calls and ends the same way
  whatever the calls that write would do, and the deployment is as before.
\<close>

theorem settled_webhook_is_left_alone:
  assumes "webhook_laws B (rw_namespace r) v" and "crypto_laws (bc_crypto B) signs"
    and "set_up B (rw_certsDir r) (certs_instant B r w) (v w)"
  shows "Reconcile_webhook (with_writers B cs us cv cc uc fw) r w = Reconcile_webhook B r w \<and>
         v (snd (Reconcile_webhook B r w)) = v w"
proof -
  let ?B = "with_writers B cs us cv cc uc fw"
  note certs = settled_certs [OF assms, of cs us cv cc uc fw]
  obtain res w1 where c: "reconcileCerts B r w = (res, w1)" by fastforce
  with certs have c': "reconcileCerts ?B r w = (res, w1)" "v w1 = v w" by simp_all
  show ?thesis
  proof (cases res)
    case (Inl e)
    with c c' show ?thesis by (simp add: Reconcile_webhook_def)
  next
    case (Inr ca)
    obtain e2 w2 where s: "reconcileService B r w1 = (e2, w2)" by fastforce
    from settled_service [OF assms(1), of w1 cs us cv cc uc fw] assms(3) c' s
    have s': "reconcileService ?B r w1 = (e2, w2)" "v w2 = v w" by (simp_all add: set_up_def)
    from assms(3) certs c Inr obtain cfg wh where
      cfg: "v_config (v w) = Some cfg" "wc_Webhooks cfg = [wh]" "mw_CABundle wh = ca"
      by (auto simp: set_up_def trusted_def)
    from settled_config [OF assms(1), of w2 cfg wh ca cs us cv cc uc fw] cfg s' have
      h: "reconcileWebhookConfig ?B r ca w2 = reconcileWebhookConfig B r ca w2"
        "v (snd (reconcileWebhookConfig B r ca w2)) = v w" by simp_all
    obtain e3 w3 where h3: "reconcileWebhookConfig B r ca w2 = (e3, w3)" by fastforce
    with h c c' s s' Inr show ?thesis by (auto simp: Reconcile_webhook_def split: option.split)
  qed
qed

text \<open>All the writers fail, and nobody notices.\<close>

theorem settled_webhook_is_left_alone_witness:
  "\<exists>d. set_up toy_cluster certsDir (5 * Hour) d \<and>
     Reconcile_webhook
       (with_writers toy_cluster (\<lambda>s d. (Some (ExtErr []), d)) (\<lambda>s d. (Some (ExtErr []), d)) (\<lambda>s d. (Some (ExtErr []), d))
          (\<lambda>c d. (Some (ExtErr []), d)) (\<lambda>c d. (Some (ExtErr []), d)) (\<lambda>f x d. (Some (ExtErr []), d)))
       toy_webhook d = (None, d)"
proof -
  obtain d where "Reconcile_webhook toy_cluster toy_webhook nothing_deployed = (None, d)"
    using toy_webhook_run by blast
  then have su: "set_up toy_cluster certsDir (5 * Hour) d" by (rule toy_set_up)
  have "set_up toy_cluster (rw_certsDir toy_webhook) (certs_instant toy_cluster toy_webhook d) d"
    using su by (simp add: toy_instant) (simp add: toy_webhook_def)
  note left_alone = settled_webhook_is_left_alone [where v = "\<lambda>d. d", OF toy_webhook_laws toy_crypto_laws this]
  obtain d' where "Reconcile_webhook toy_cluster toy_webhook d = (None, d')" using toy_webhook_run by blast
  with left_alone su show ?thesis by (intro exI [of _ d]) simp
qed

end
