(* ===== verification/Namespace_Controller.thy ===== *)
theory Namespace_Controller
  imports Webhook
begin

text \<open>
  The namespace controller (controllers/namespace/namespace\_controller.go): for every namespace that
  is labelled with an OneAgentAPM it writes the secret with the init script of the injected pods, and
  the pull secret of the image.  \<open>gen\<close> is the field \<open>pullSecretGeneratorFunc\<close>,
  \<open>GeneratePullSecretData\<close> in the operator.  \<open>Add\<close> and \<open>add\<close> only wire the manager.
\<close>

section \<open>The nodes of the injected OneAgents\<close>

text \<open>The body of the loop over the OneAgents: their nodes with their environment.\<close>

definition add_im_nodes :: "OneAgent \<Rightarrow> (string \<rightharpoonup> string) \<Rightarrow> (string \<rightharpoonup> string)" where
  "add_im_nodes oa imNodes =
     (let s = cr_Status oa
      in if st_EnvironmentID s \<noteq> [] \<and> sp_WebhookInjection (cr_Spec oa)
         then (\<lambda>key. if key \<noteq> [] \<and> key \<in> dom (case st_Instances s of None \<Rightarrow> Map.empty | Some m \<Rightarrow> m)
                     then Some (st_EnvironmentID s) else imNodes key)
         else imNodes)"

definition im_nodes :: "OneAgent list \<Rightarrow> (string \<rightharpoonup> string)" where
  "im_nodes ims = foldl (\<lambda>m oa. add_im_nodes oa m) Map.empty ims"

section \<open>The script\<close>

record script =
  sc_OneAgent :: OneAgentAPM
  sc_PaaSToken :: string
  sc_Proxy :: string
  sc_TrustedCAs :: "string option"
  sc_ClusterID :: string
  sc_IMNodes :: "string \<rightharpoonup> string"

definition script_proxy ::
  "(string, 'w, 'z) cluster_scheme \<Rightarrow> OneAgentProxy option \<Rightarrow> string \<Rightarrow> 'w \<Rightarrow> (go_error + string) \<times> 'w" where
  "script_proxy K proxy ns w =
     (case proxy of
        None \<Rightarrow> (Inr [], w)
      | Some p \<Rightarrow>
          (if prx_ValueFrom p \<noteq> []
           then (case k_get_secret K ns (prx_ValueFrom p) w of
                   (Inl err, w1) \<Rightarrow> (Inl (Wrapped ''failed to query proxy'' err), w1)
                 | (Inr ps, w1) \<Rightarrow> (Inr (case secret_field ps ''proxy'' of None \<Rightarrow> [] | Some x \<Rightarrow> x), w1))
           else (Inr (prx_Value p), w)))"

definition script_certs ::
  "(string, 'w, 'z) cluster_scheme \<Rightarrow> string \<Rightarrow> string \<Rightarrow> 'w \<Rightarrow> (go_error + string option) \<times> 'w" where
  "script_certs K trustedCAs ns w =
     (if trustedCAs = [] then (Inr None, w)
      else case k_get_configmap K ns trustedCAs w of
             (Inl err, w1) \<Rightarrow> (Inl (Wrapped ''failed to query ca'' err), w1)
           | (Inr cam, w1) \<Rightarrow>
               (Inr (Some (map_get (case cm_Data cam of None \<Rightarrow> Map.empty | Some m \<Rightarrow> m) ''certs'')), w1))"

definition newScript ::
  "(string, 'w, 'z) oneagent_cluster_scheme \<Rightarrow> OneAgentAPM \<Rightarrow> Secret \<Rightarrow> (string \<rightharpoonup> string) \<Rightarrow> string \<Rightarrow> 'w
     \<Rightarrow> (go_error + script) \<times> 'w" where
  "newScript K apm tkns imNodes ns w =
     (case k_get_namespace K ''kube-system'' w of
        (Inl err, w1) \<Rightarrow> (Inl (Wrapped ''failed to query for cluster ID'' err), w1)
      | (Inr kubeSystemNS, w1) \<Rightarrow>
     (case script_proxy K (sp_Proxy (cr_Spec apm)) ns w1 of
        (Inl err, w2) \<Rightarrow> (Inl err, w2)
      | (Inr proxy, w2) \<Rightarrow>
     (case script_certs K (sp_TrustedCAs (cr_Spec apm)) ns w2 of
        (Inl err, w3) \<Rightarrow> (Inl err, w3)
      | (Inr trustedCAs, w3) \<Rightarrow>
          (Inr \<lparr>sc_OneAgent = apm,
                sc_PaaSToken = (case secret_field tkns DynatracePaasToken of None \<Rightarrow> [] | Some x \<Rightarrow> x),
                sc_Proxy = proxy, sc_TrustedCAs = trustedCAs, sc_ClusterID = ns_UID kubeSystemNS,
                sc_IMNodes = imNodes\<rparr>, w3))))"

section \<open>The template\<close>

text \<open>
  A line of the script without its end, with its indentation.  The values are inserted as they are,
  by text/template; a slice of bytes is true when it is not empty.
\<close>

definition tab :: char where "tab = CHR 0x09"
definition newline :: char where "newline = CHR 0x0A"

definition line :: "nat \<Rightarrow> string \<Rightarrow> string" where
  "line n s = replicate n tab @ s"

definition bool_text :: "bool \<Rightarrow> string" where
  "bool_text b = (if b then ''true'' else ''false'')"

definition has_bytes :: "string option \<Rightarrow> bool" where
  "has_bytes b \<longleftrightarrow> b \<noteq> None \<and> b \<noteq> Some []"

text \<open>Up to the opening of the table of the nodes.\<close>

definition script_head :: "script \<Rightarrow> string list" where
  \<open>script_head s =
    [line 0 ''#!/usr/bin/env bash'',
     line 0 [],
     line 0 ''set -eu'',
     line 0 [],
     line 0 ''if [[ -f "/var/lib/dynatrace/oneagent/agent/config/ruxithost.id" ]]; then'',
     line 1 ''echo "WARNING: full-stack OneAgent has been injected to this container. App-only and full-stack injection can conflict with each other."'',
     line 0 ''fi'',
     line 0 [],
     line 0 (''api_url="'' @ (sp_APIURL (cr_Spec (sc_OneAgent s))) @ ''"''),
     line 0 ''config_dir="/mnt/config"'',
     line 0 ''target_dir="/mnt/oneagent"'',
     line 0 (''paas_token="'' @ (sc_PaaSToken s) @ ''"''),
     line 0 (''proxy="'' @ (sc_Proxy s) @ ''"''),
     line 0 (''skip_cert_checks="'' @ (bool_text (sp_SkipCertCheck (cr_Spec (sc_OneAgent s)))) @ ''"''),
     line 0 (''custom_ca="'' @ (bool_text (has_bytes (sc_TrustedCAs s))) @ ''"''),
     line 0 ''fail_code=0'',
     line 0 (''cluster_id="'' @ (sc_ClusterID s) @ ''"''),
     line 0 [],
     line 0 ''declare -A im_nodes'',
     line 0 ''im_nodes=('']\<close>

text \<open>After the entries of the table.\<close>

definition script_tail :: "script \<Rightarrow> string list" where
  \<open>script_tail s =
    [line 0 '')'',
     line 0 [],
     line 0 ''set +u'',
     line 0 ''host_tenant="${im_nodes[${K8S_NODE_NAME}]}"'',
     line 0 ''set -u'',
     line 0 [],
     line 0 ''archive="/mnt/init/tmp.$RANDOM"'',
     line 0 [],
     line 0 ''if [[ "${FAILURE_POLICY}" == "fail" ]]; then'',
     line 1 ''fail_code=1'',
     line 0 ''fi'',
     line 0 [],
     line 0 ''if [[ "${INSTALLER_URL}" != "" ]] || [[ "${USE_IMMUTABLE_IMAGE}" != "true" ]]; then'',
     line 1 ''curl_params=('',
     line 2 ''"--silent"'',
     line 2 ''"--output" "${archive}"'',
     line 1 '')'',
     line 0 [],
     line 1 ''if [[ "${INSTALLER_URL}" != "" ]]; then'',
     line 2 ''curl_params+=("${INSTALLER_URL}")'',
     line 1 ''else'',
     line 2 ''curl_params+=('',
     line 3 ''"${api_url}/v1/deployment/installer/agent/unix/paas/latest?flavor=${FLAVOR}&include=${TECHNOLOGIES}&bitness=64"'',
     line 3 ''"--header" "Authorization: Api-Token ${paas_token}"'',
     line 2 '')'',
     line 1 ''fi'',
     line 0 [],
     line 1 ''if [[ "${skip_cert_checks}" == "true" ]]; then'',
     line 2 ''curl_params+=("--insecure")'',
     line 1 ''fi'',
     line 0 [],
     line 1 ''if [[ "${custom_ca}" == "true" ]]; then'',
     line 2 ''curl_params+=("--cacert" "${config_dir}/ca.pem")'',
     line 1 ''fi'',
     line 0 [],
     line 1 ''if [[ "${proxy}" != "" ]]; then'',
     line 2 ''curl_params+=("--proxy" "${proxy}")'',
     line 1 ''fi'',
     line 0 [],
     line 1 ''echo "Downloading OneAgent package..."'',
     line 1 ''if ! curl "${curl_params[@]}"; then'',
     line 2 ''echo "Failed to download the OneAgent package."'',
     line 2 ''exit "${fail_code}"'',
     line 1 ''fi'',
     line 0 [],
     line 1 ''echo "Unpacking OneAgent package..."'',
     line 1 ''if ! unzip -o -d "${target_dir}" "${archive}"; then'',
     line 2 ''echo "Failed to unpack the OneAgent package."'',
     line 2 ''mv "${archive}" "${target_dir}/package.zip"'',
     line 2 ''exit "${fail_code}"'',
     line 1 ''fi'',
     line 0 ''else'',
     line 1 ''echo "Copy OneAgent package..."'',
     line 1 ''if ! cp -r "/opt/dynatrace/oneagent/." "${target_dir}"; then'',
     line 2 ''echo "Failed to copy the OneAgent package."'',
     line 2 ''exit "${fail_code}"'',
     line 1 ''fi'',
     line 0 ''fi'',
     line 0 [],
     line 0 ''echo "Configuring OneAgent..."'',
     line 0 ''echo -n "${INSTALLPATH}/agent/lib64/liboneagentproc.so" >> "${target_dir}/ld.so.preload"'',
     line 0 [],
     line 0 ''for i in $(seq 1 $CONTAINERS_COUNT)'',
     line 0 ''do'',
     line 1 ''container_name_var="CONTAINER_${i}_NAME"'',
     line 1 ''container_image_var="CONTAINER_${i}_IMAGE"'',
     line 0 [],
     line 1 ''container_name="${!container_name_var}"'',
     line 1 ''container_image="${!container_image_var}"'',
     line 0 [],
     line 1 ''container_conf_file="${target_dir}/container_${container_name}.conf"'',
     line 0 [],
     line 1 ''echo "Writing ${container_conf_file} file..."'',
     line 1 ''echo "[container]'',
     line 0 ''containerName ${container_name}'',
     line 0 ''imageName ${container_image}'',
     line 0 ''k8s_fullpodname ${K8S_PODNAME}'',
     line 0 ''k8s_poduid ${K8S_PODUID}'',
     line 0 ''k8s_containername ${container_name}'',
     line 0 ''k8s_basepodname ${K8S_BASEPODNAME}'',
     line 0 ''k8s_namespace ${K8S_NAMESPACE}">>${container_conf_file}'',
     line 0 [],
     line 1 (''if [[ ! -z "${host_tenant}" ]]; then'' @ replicate 2 tab),
     line 2 (''if [[ "'' @ (st_EnvironmentID (cr_Status (sc_OneAgent s))) @ ''" == "${host_tenant}" ]]; then''),
     line 3 ''echo "k8s_node_name ${K8S_NODE_NAME}'',
     line 0 ''k8s_cluster_id ${cluster_id}">>${container_conf_file}'',
     line 2 ''fi'',
     line 0 [],
     line 1 ''echo "'',
     line 0 ''[host]'',
     line 0 ''tenant ${host_tenant}">>${container_conf_file}'',
     line 1 ''fi'',
     line 0 ''done'']\<close>

text \<open>The entries: text/template ranges over a map in the order of its keys.\<close>

definition node_line :: "string \<Rightarrow> string \<Rightarrow> string" where
  \<open>node_line node tenant = line 1 (''["'' @ node @ ''"]="'' @ tenant @ ''"'')\<close>

definition node_lines :: "(string \<rightharpoonup> string) \<Rightarrow> string list" where
  "node_lines m = map (\<lambda>k. node_line k (map_get m k)) (sorted_list_of_set (dom m))"

definition scriptTmpl :: "script \<Rightarrow> string" where
  "scriptTmpl s = concat (map (\<lambda>l. l @ [newline]) (script_head s @ node_lines (sc_IMNodes s) @ script_tail s))"

text \<open>Executing the template over texts into a buffer cannot fail.\<close>

definition generate :: "script \<Rightarrow> (string \<rightharpoonup> string)" where
  "generate s =
     (let data = [''init.sh'' \<mapsto> scriptTmpl s];
          data1 = (case sc_TrustedCAs s of None \<Rightarrow> data | Some ca \<Rightarrow> data(''ca.pem'' \<mapsto> ca))
      in if sc_Proxy s \<noteq> [] then data1(''proxy'' \<mapsto> sc_Proxy s) else data1)"

section \<open>Reconcile\<close>

text \<open>The last part: the two secrets in the namespace.\<close>

definition write_secrets ::
  "('v, 'w, 'z) oneagent_cluster_scheme
     \<Rightarrow> (OneAgentAPM \<Rightarrow> Secret \<Rightarrow> 'w \<Rightarrow> (go_error + (string \<rightharpoonup> string)) \<times> 'w)
     \<Rightarrow> string \<Rightarrow> OneAgentAPM \<Rightarrow> Secret \<Rightarrow> (string \<rightharpoonup> string) \<Rightarrow> 'w \<Rightarrow> (int \<times> go_error option) \<times> 'w" where
  "write_secrets K gen targetNS apm tkns data w =
     (case CreateOrUpdateSecretIfNotExists K SecretConfigName targetNS (Some data) ''Opaque'' w of
        (Some err, w1) \<Rightarrow> ((0, Some err), w1)
      | (None, w1) \<Rightarrow>
          (if apm_Image (cr_Spec apm) \<noteq> [] then ((5 * Minute, None), w1)
           else case gen apm tkns w1 of
             (Inl err, w2) \<Rightarrow> ((0, Some err), w2)
           | (Inr pullSecretData, w2) \<Rightarrow>
               (case CreateOrUpdateSecretIfNotExists K PullSecretName targetNS (Some pullSecretData)
                       ''kubernetes.io/dockerconfigjson'' w2 of
                  (Some err, w3) \<Rightarrow> ((0, Some err), w3)
                | (None, w3) \<Rightarrow> ((5 * Minute, None), w3))))"

text \<open>The result is the delay until the next run and the error.\<close>

definition Reconcile_namespace ::
  "(string, 'w, 'z) oneagent_cluster_scheme
     \<Rightarrow> (OneAgentAPM \<Rightarrow> Secret \<Rightarrow> 'w \<Rightarrow> (go_error + (string \<rightharpoonup> string)) \<times> 'w)
     \<Rightarrow> string \<Rightarrow> string \<Rightarrow> 'w \<Rightarrow> (int \<times> go_error option) \<times> 'w" where
  "Reconcile_namespace K gen namespace targetNS w =
     (case k_get_namespace K targetNS w of
        (Inl err, w1) \<Rightarrow>
          (if IsNotFound err then ((0, None), w1) else ((0, Some (Wrapped ''failed to query Namespace'' err)), w1))
      | (Inr ns, w1) \<Rightarrow>
     (let oaName = map_get (case ns_Labels ns of None \<Rightarrow> Map.empty | Some m \<Rightarrow> m) LabelInstance
      in if oaName = [] then ((0, None), w1)
      else case k_list_oneagents K namespace w1 of
        (Inl err, w2) \<Rightarrow> ((0, Some (Wrapped ''failed to query OneAgentIMs'' err)), w2)
      | (Inr ims, w2) \<Rightarrow>
     (case k_get_apm K namespace oaName w2 of
        (Inl err, w3) \<Rightarrow> ((0, Some (Wrapped ''failed to query OneAgentAPM'' err)), w3)
      | (Inr apm, w3) \<Rightarrow>
     (case k_get_secret K namespace (GetTokensName apm) w3 of
        (Inl err, w4) \<Rightarrow> ((0, Some (Wrapped ''failed to query tokens'' err)), w4)
      | (Inr tkns, w4) \<Rightarrow>
     (case newScript K apm tkns (im_nodes ims) namespace w4 of
        (Inl err, w5) \<Rightarrow> ((0, Some (Wrapped ''failed to generate init script'' err)), w5)
      | (Inr script, w5) \<Rightarrow> write_secrets K gen targetNS apm tkns (generate script) w5)))))"

text \<open>The generator of the operator.\<close>

definition operator_pull_secret ::
  "(string, 'w, 'z) oneagent_cluster_scheme \<Rightarrow> 'w transport \<Rightarrow> codec
     \<Rightarrow> OneAgentAPM \<Rightarrow> Secret \<Rightarrow> 'w \<Rightarrow> (go_error + (string \<rightharpoonup> string)) \<times> 'w" where
  "operator_pull_secret K H J apm tkns w = GeneratePullSecretData K H J apm tkns w"

end
