(* ===== verification/Namespace_Props.thy ===== *)
theory Namespace_Props
  imports Views Namespace_Controller Webhook_Props
begin

text \<open>
  What the namespace controller promises: which environment it notes for a node, that the script's
  table of nodes is the noted one, and, together with the webhook, that an injected pod finds the
  secrets and keys it refers to.
\<close>

section \<open>The nodes\<close>

definition has_node :: "OneAgent \<Rightarrow> string \<Rightarrow> bool" where
  "has_node oa k \<longleftrightarrow>
     st_EnvironmentID (cr_Status oa) \<noteq> [] \<and> sp_WebhookInjection (cr_Spec oa) \<and> k \<noteq> [] \<and>
     k \<in> dom (case st_Instances (cr_Status oa) of None \<Rightarrow> Map.empty | Some m \<Rightarrow> m)"

lemma add_im_nodes_lookup:
  "add_im_nodes oa m k = (if has_node oa k then Some (st_EnvironmentID (cr_Status oa)) else m k)"
  by (simp add: add_im_nodes_def has_node_def Let_def)

lemma im_nodes_snoc: "im_nodes (ims @ [oa]) = add_im_nodes oa (im_nodes ims)"
  by (simp add: im_nodes_def)

lemma im_nodes_find:
  "im_nodes ims k = map_option (\<lambda>oa. st_EnvironmentID (cr_Status oa)) (List.find (\<lambda>oa. has_node oa k) (rev ims))"
  by (induction ims rule: rev_induct) (simp_all add: im_nodes_snoc add_im_nodes_lookup im_nodes_def [of "[]"])

section \<open>Secrets\<close>

text \<open>
  The view is the secrets of one namespace by name: nobody else writes them during the run, and the
  generator of the pull secret does not touch them.
\<close>

definition secret_laws ::
  "(string, 'w, 'z) oneagent_cluster_scheme
     \<Rightarrow> (OneAgentAPM \<Rightarrow> Secret \<Rightarrow> 'w \<Rightarrow> (go_error + (string \<rightharpoonup> string)) \<times> 'w)
     \<Rightarrow> string \<Rightarrow> ('w \<Rightarrow> (string \<rightharpoonup> Secret)) \<Rightarrow> bool" where
  "secret_laws K gen ns v \<longleftrightarrow>
     (\<forall>n. reads v IsNotFound (k_get_secret K ns n) (\<lambda>m. m n)) \<and>
     (\<forall>w n s. v w n = Some s \<longrightarrow> sec_Name s = n \<and> sec_Namespace s = ns) \<and>
     (\<forall>s. sec_Namespace s = ns \<longrightarrow> writes v (k_create_secret K s) (\<lambda>m. m(sec_Name s \<mapsto> s))) \<and>
     (\<forall>s. sec_Namespace s = ns \<longrightarrow>
        writes_at v (k_update_secret K s) (\<lambda>m. sec_Name s \<in> dom m) (\<lambda>m. m(sec_Name s \<mapsto> s))) \<and>
     (\<forall>apm tkns. keeps v (gen apm tkns))"

lemma secret_lawsD:
  assumes "secret_laws K gen ns v"
  shows "reads v IsNotFound (k_get_secret K ns n) (\<lambda>m. m n)"
    and "v w n = Some s \<Longrightarrow> sec_Name s = n \<and> sec_Namespace s = ns"
    and "sec_Namespace s = ns \<Longrightarrow> writes v (k_create_secret K s) (\<lambda>m. m(sec_Name s \<mapsto> s))"
    and "sec_Namespace s = ns \<Longrightarrow>
           writes_at v (k_update_secret K s) (\<lambda>m. sec_Name s \<in> dom m) (\<lambda>m. m(sec_Name s \<mapsto> s))"
    and "keeps v (gen apm tkns)"
  using assms unfolding secret_laws_def by blast+

lemma CreateOrUpdate_ok:
  assumes laws: "secret_laws K gen ns v"
    and run: "CreateOrUpdateSecretIfNotExists K n ns (Some data) ty w = (None, w')"
  shows "\<exists>s. v w' = (v w)(n \<mapsto> s) \<and> sec_Data s = Some data"
proof -
  obtain got w1 where g: "k_get_secret K ns n w = (got, w1)" by fastforce
  note rd = readsD [OF secret_lawsD(1) [OF laws] g]
  show ?thesis
  proof (cases got)
    case (Inl e)
    let ?s = "\<lparr>sec_Name = n, sec_Namespace = ns, sec_Type = ty, sec_Data = Some data\<rparr>"
    from Inl run g have c: "k_create_secret K ?s w1 = (None, w')"
      by (auto simp: CreateOrUpdateSecretIfNotExists_def split: if_splits prod.splits option.splits)
    have "writes v (k_create_secret K ?s) (\<lambda>m. m(sec_Name ?s \<mapsto> ?s))" by (rule secret_lawsD(3) [OF laws]) simp
    from writesD [where f = "k_create_secret K ?s", OF this c] rd show ?thesis by (intro exI [of _ ?s]) simp
  next
    case (Inr cfg)
    with rd have vw: "v w n = Some cfg" "v w1 = v w" by simp_all
    then have name: "sec_Name cfg = n" "sec_Namespace cfg = ns" using secret_lawsD(2) [OF laws] by blast+
    show ?thesis
    proof (cases "Some data = sec_Data cfg")
      case True
      with Inr run g have "w' = w1" by (simp add: CreateOrUpdateSecretIfNotExists_def)
      with True vw show ?thesis by (intro exI [of _ cfg]) (simp add: map_upd_triv)
    next
      case False
      let ?s = "cfg\<lparr>sec_Data := Some data\<rparr>"
      from False Inr run g have c: "k_update_secret K ?s w1 = (None, w')"
        by (auto simp: CreateOrUpdateSecretIfNotExists_def split: if_splits prod.splits option.splits)
      have "writes_at v (k_update_secret K ?s) (\<lambda>m. sec_Name ?s \<in> dom m) (\<lambda>m. m(sec_Name ?s \<mapsto> ?s))"
        by (rule secret_lawsD(4) [OF laws]) (simp add: name)
      from writes_atD [where f = "k_update_secret K ?s", OF this c] vw name
      show ?thesis by (intro exI [of _ ?s]) auto
    qed
  qed
qed

lemma write_secrets_ok:
  assumes laws: "secret_laws K gen ns v" and run: "write_secrets K gen ns apm tkns data w = ((d, None), w')"
  shows "d = 5 * Minute \<and> (\<exists>s. v w' SecretConfigName = Some s \<and> sec_Data s = Some data) \<and>
         (apm_Image (cr_Spec apm) = [] \<longrightarrow> PullSecretName \<in> dom (v w'))"
proof -
  from run obtain w1 where c: "CreateOrUpdateSecretIfNotExists K SecretConfigName ns (Some data) ''Opaque'' w = (None, w1)"
    by (auto simp: write_secrets_def split: prod.splits option.splits)
  from CreateOrUpdate_ok [OF laws c] obtain s where s: "v w1 = (v w)(SecretConfigName \<mapsto> s)" "sec_Data s = Some data" by blast
  show ?thesis
  proof (cases "apm_Image (cr_Spec apm) = []")
    case False
    with run c s show ?thesis by (simp add: write_secrets_def)
  next
    case True
    from run c True obtain pd w2 where g: "gen apm tkns w1 = (Inr pd, w2)"
      and p: "CreateOrUpdateSecretIfNotExists K PullSecretName ns (Some pd) ''kubernetes.io/dockerconfigjson'' w2 = (None, w')"
      and d: "d = 5 * Minute"
      by (auto simp: write_secrets_def split: prod.splits option.splits sum.splits)
    from CreateOrUpdate_ok [OF laws p] obtain t where t: "v w' = (v w2)(PullSecretName \<mapsto> t)" by blast
    from keepsD [where f = "gen apm tkns", OF secret_lawsD(5) [OF laws] g] have "v w2 = v w1" .
    with s t d show ?thesis by (simp add: SecretConfigName_def PullSecretName_def)
  qed
qed

section \<open>What an injected pod refers to\<close>

definition pod_secrets :: "InjPod \<Rightarrow> string set" where
  "pod_secrets pod = {n. \<exists>vol \<in> set (ip_Volumes pod). vol_Source vol = SecretVolume n} \<union> set (ip_ImagePullSecrets pod)"

definition container_keys :: "InjContainer \<Rightarrow> (string \<times> string) set" where
  "container_keys c = {(n, k). \<exists>e \<in> set (ij_Env c). ev_ValueFrom e = Some (SecretKeyRef n k)}"

definition pod_keys :: "InjPod \<Rightarrow> (string \<times> string) set" where
  "pod_keys pod = \<Union> (container_keys ` set (ip_Containers pod @ ip_InitContainers pod))"

definition proxy_is_set :: "OneAgentAPM \<Rightarrow> bool" where
  "proxy_is_set apm \<longleftrightarrow> (case sp_Proxy (cr_Spec apm) of None \<Rightarrow> False | Some p \<Rightarrow> prx_Value p \<noteq> [] \<or> prx_ValueFrom p \<noteq> [])"

lemma inject_container_keys:
  "container_keys (inject_container apm path c) =
     container_keys c \<union> (if proxy_is_set apm then {(SecretConfigName, ''proxy'')} else {})"
  by (auto simp: container_keys_def inject_container_def env_var_def proxy_is_set_def split: option.splits if_splits)

lemma container_vars_keys: "e \<in> set (all_container_vars i cs) \<Longrightarrow> ev_ValueFrom e = None"
  by (auto simp: all_container_vars_def container_vars_def env_var_def)

lemma init_container_keys: "container_keys (init_container apm opts pod sc\<lparr>ij_Env := ij_Env (init_container apm opts pod sc) @
    all_container_vars i cs\<rparr>) = {}"
  by (auto simp: container_keys_def init_container_def env_var_def fieldEnvVar_def dest: container_vars_keys)

lemma inject_pod_refs:
  assumes "inject_pod m apm pod = Some pod'"
  shows "pod_secrets pod' \<subseteq> pod_secrets pod \<union> {SecretConfigName} \<union> (if apm_Image (cr_Spec apm) = [] then {PullSecretName} else {})"
    and "pod_keys pod' = pod_keys pod \<union> (if proxy_is_set apm then {(SecretConfigName, ''proxy'')} else {})"
proof -
  obtain c0 cs where cs: "ip_Containers pod = c0 # cs"
    using assms by (auto simp: inject_pod_def Let_def split: list.splits)
  from assms show "pod_secrets pod' \<subseteq> pod_secrets pod \<union> {SecretConfigName} \<union>
      (if apm_Image (cr_Spec apm) = [] then {PullSecretName} else {})"
    by (auto simp: inject_pod_def Let_def cs pod_secrets_def inject_volumes_def inject_loop_eq
        split: if_splits list.splits)
  have "pod_keys pod' = \<Union> (container_keys ` inject_container apm (io_installPath (read_options m apm (ip_Annotations (mark_injected pod))))
      ` set (ip_Containers pod)) \<union> \<Union> (container_keys ` set (ip_InitContainers pod))"
    using assms by (auto simp: inject_pod_def Let_def cs pod_keys_def inject_loop_eq init_container_keys simp del: mark_injected_sel(7))
  then show "pod_keys pod' = pod_keys pod \<union> (if proxy_is_set apm then {(SecretConfigName, ''proxy'')} else {})"
    by (auto simp: inject_container_keys pod_keys_def cs split: if_splits)
qed

section \<open>The run\<close>

lemma script_proxy_ok:
  "script_proxy K proxy ns w = (Inr x, w') \<Longrightarrow>
     (case proxy of
        None \<Rightarrow> x = []
      | Some p \<Rightarrow> (if prx_ValueFrom p \<noteq> []
                  then \<exists>ps. k_get_secret K ns (prx_ValueFrom p) w = (Inr ps, w') \<and>
                            x = (case secret_field ps ''proxy'' of None \<Rightarrow> [] | Some t \<Rightarrow> t)
                  else x = prx_Value p))"
  by (auto simp: script_proxy_def split: option.splits if_splits prod.splits sum.splits)

lemma newScript_ok:
  assumes "newScript K apm tkns imNodes ns w = (Inr s, w')"
  shows "sc_OneAgent s = apm \<and> sc_IMNodes s = imNodes \<and>
    sc_PaaSToken s = (case secret_field tkns DynatracePaasToken of None \<Rightarrow> [] | Some x \<Rightarrow> x) \<and>
    (\<exists>w1 w2. script_proxy K (sp_Proxy (cr_Spec apm)) ns w1 = (Inr (sc_Proxy s), w2))"
proof -
  from assms obtain w1 kube w2 x w3 ca where
    "k_get_namespace K ''kube-system'' w = (Inr kube, w1)" "script_proxy K (sp_Proxy (cr_Spec apm)) ns w1 = (Inr x, w2)"
    "script_certs K (sp_TrustedCAs (cr_Spec apm)) ns w2 = (Inr ca, w3)"
    by (auto simp: newScript_def split: prod.splits sum.splits)
  moreover from this assms have "sc_Proxy s = x" by (auto simp: newScript_def)
  ultimately have "\<exists>w1 w2. script_proxy K (sp_Proxy (cr_Spec apm)) ns w1 = (Inr (sc_Proxy s), w2)" by blast
  with assms show ?thesis by (auto simp: newScript_def split: prod.splits sum.splits)
qed

lemma Reconcile_namespace_ok:
  assumes "Reconcile_namespace K gen namespace targetNS w = ((d, None), w')" and "d \<noteq> 0"
  shows "\<exists>target w1 ims w2 apm w3 tkns w4 script w5.
    k_get_namespace K targetNS w = (Inr target, w1) \<and>
    k_list_oneagents K namespace w1 = (Inr ims, w2) \<and>
    k_get_apm K namespace (map_get (case ns_Labels target of None \<Rightarrow> Map.empty | Some m \<Rightarrow> m) LabelInstance) w2 = (Inr apm, w3) \<and>
    k_get_secret K namespace (GetTokensName apm) w3 = (Inr tkns, w4) \<and>
    newScript K apm tkns (im_nodes ims) namespace w4 = (Inr script, w5) \<and>
    write_secrets K gen targetNS apm tkns (generate script) w5 = ((d, None), w')"
  using assms by (auto simp: Reconcile_namespace_def Let_def split: prod.splits sum.splits if_splits)

lemma generate_script: "generate s ''init.sh'' = Some (scriptTmpl s)"
  by (simp add: generate_def Let_def split: option.split)

lemma generate_proxy: "''proxy'' \<in> dom (generate s) \<longleftrightarrow> sc_Proxy s \<noteq> []"
  by (auto simp: generate_def Let_def split: option.split)

section \<open>The table in the script\<close>

text \<open>
  How bash reads the table: the lines of the form tab, bracket, quoted node, quoted environment.  A
  quoted text ends at the next quote, and stands for itself when bash expands nothing in it.
\<close>

definition quote :: char where "quote = CHR 0x22"
definition in_quotes :: "char \<Rightarrow> bool" where "in_quotes c \<longleftrightarrow> c \<noteq> quote"

fun table_entry :: "string \<Rightarrow> (string \<times> string) list" where
  "table_entry (a # b # c # cs) =
     (if a = tab \<and> b = CHR ''['' \<and> c = quote
      then [(takeWhile in_quotes cs, takeWhile in_quotes (drop 4 (dropWhile in_quotes cs)))] else [])"
| "table_entry _ = []"

definition script_table :: "string \<Rightarrow> (string \<times> string) list" where
  "script_table text = concat (map table_entry (Split newline text))"

definition plain :: "string \<Rightarrow> bool" where
  "plain s \<longleftrightarrow> set s \<inter> {quote, newline, CHR ''$'', CHR 0x60, CHR 0x5C} = {}"

lemma Split_lines:
  "\<forall>l \<in> set ls. c \<notin> set l \<Longrightarrow> Split c (concat (map (\<lambda>l. l @ [c]) ls)) = ls @ [[]]"
  by (induction ls) (simp_all add: Split_append)

lemma node_line_entry:
  assumes "plain k" "plain t"
  shows "table_entry (node_line k t) = [(k, t)]"
proof -
  have q: "\<And>c. c \<in> set k \<Longrightarrow> in_quotes c" "\<And>c. c \<in> set t \<Longrightarrow> in_quotes c"
    using assms by (auto simp: plain_def in_quotes_def)
  have k: "takeWhile in_quotes (k @ quote # r) = k" "dropWhile in_quotes (k @ quote # r) = quote # r" for r
    by (simp_all add: takeWhile_append2 [OF q(1)] dropWhile_append2 [OF q(1)] in_quotes_def)
  have t: "takeWhile in_quotes (t @ quote # r) = t" for r
    by (simp add: takeWhile_append2 [OF q(2)] in_quotes_def)
  have e: "node_line k t = tab # CHR ''['' # quote # (k @ quote # CHR '']'' # CHR ''='' # quote # (t @ quote # []))"
    by (simp add: node_line_def line_def quote_def)
  show ?thesis by (simp add: e k) (simp add: t)
qed

lemma node_lines_entries:
  assumes "\<forall>k \<in> dom m. plain k" "\<forall>t \<in> ran m. plain t" "finite (dom m)"
  shows "concat (map table_entry (node_lines m)) = map (\<lambda>k. (k, map_get m k)) (sorted_list_of_set (dom m))"
proof -
  have "table_entry (node_line k (map_get m k)) = [(k, map_get m k)]" if "k \<in> dom m" for k
    using that assms by (intro node_line_entry) (auto simp: map_get_def ran_def split: option.split)
  then have "\<forall>k \<in> set (sorted_list_of_set (dom m)). table_entry (node_line k (map_get m k)) = [(k, map_get m k)]"
    using assms(3) by simp
  then have "concat (map (\<lambda>k. table_entry (node_line k (map_get m k))) ks) = map (\<lambda>k. (k, map_get m k)) ks"
    if "set ks \<subseteq> set (sorted_list_of_set (dom m))" for ks
    using that by (induction ks) auto
  from this [OF subset_refl] show ?thesis by (simp add: node_lines_def comp_def)
qed

lemma node_lines_plain:
  assumes "\<forall>k \<in> dom m. plain k" "\<forall>t \<in> ran m. plain t" "finite (dom m)"
  shows "\<forall>l \<in> set (node_lines m). newline \<notin> set l"
proof -
  have "newline \<notin> set (node_line k (map_get m k))" if "k \<in> dom m" for k
    using that assms(1,2)
    by (auto simp: node_line_def line_def plain_def map_get_def ran_def newline_def tab_def split: option.splits)
  with assms(3) show ?thesis by (auto simp: node_lines_def)
qed

text \<open>The values that the script is filled with.\<close>

definition plain_script :: "script \<Rightarrow> bool" where
  "plain_script s \<longleftrightarrow>
     plain (sp_APIURL (cr_Spec (sc_OneAgent s))) \<and> plain (sc_PaaSToken s) \<and> plain (sc_Proxy s) \<and>
     plain (sc_ClusterID s) \<and> plain (st_EnvironmentID (cr_Status (sc_OneAgent s))) \<and>
     finite (dom (sc_IMNodes s)) \<and> (\<forall>k \<in> dom (sc_IMNodes s). plain k) \<and> (\<forall>t \<in> ran (sc_IMNodes s). plain t)"

lemma script_head_lines:
  "plain_script s \<Longrightarrow> (\<forall>l \<in> set (script_head s). newline \<notin> set l) \<and> concat (map table_entry (script_head s)) = []"
  by (simp add: script_head_def line_def plain_script_def plain_def newline_def tab_def bool_text_def)

lemma script_tail_lines:
  "plain_script s \<Longrightarrow> (\<forall>l \<in> set (script_tail s). newline \<notin> set l) \<and> concat (map table_entry (script_tail s)) = []"
  by (simp add: script_tail_def line_def plain_script_def plain_def newline_def tab_def numeral_eq_Suc)

section \<open>Concrete inputs\<close>

text \<open>The world is the secrets by name; at first only that of the tokens.\<close>

type_synonym secret_world = "string \<rightharpoonup> Secret"

definition shop_cluster :: "(string, secret_world) oneagent_cluster" where
  "shop_cluster = (sample_oneagent_cluster (idle_cluster None) None None [])
     \<lparr>k_get_namespace := (\<lambda>n w. (Inr \<lparr>ns_Name = n, ns_UID = ''uid'',
         ns_Labels = Some [LabelInstance \<mapsto> ''apm''], ns_Annotations = None\<rparr>, w)),
      k_get_apm := (\<lambda>ns n w. (if n = ''apm'' then Inr immutable_apm else Inl KubeNotFound, w)),
      k_get_secret := (\<lambda>ns n w. (case w n of None \<Rightarrow> Inl KubeNotFound | Some s \<Rightarrow> Inr (s\<lparr>sec_Name := n, sec_Namespace := ns\<rparr>), w)),
      k_create_secret := (\<lambda>s w. (None, w(sec_Name s \<mapsto> s))),
      k_update_secret := (\<lambda>s w. (None, w(sec_Name s \<mapsto> s)))\<rparr>"

definition shop_view :: "string \<Rightarrow> secret_world \<Rightarrow> secret_world" where
  "shop_view ns w = (\<lambda>n. map_option (\<lambda>s. s\<lparr>sec_Name := n, sec_Namespace := ns\<rparr>) (w n))"

definition shop_gen :: "OneAgentAPM \<Rightarrow> Secret \<Rightarrow> secret_world \<Rightarrow> (go_error + (string \<rightharpoonup> string)) \<times> secret_world" where
  "shop_gen apm tkns w = (Inr [''.dockerconfigjson'' \<mapsto> ''{}''], w)"

definition shop_world :: secret_world where
  "shop_world = [''apm'' \<mapsto> paas_secret]"

lemma shop_laws: "secret_laws shop_cluster shop_gen ns (shop_view ns)"
  by (auto simp: secret_laws_def reads_def writes_def writes_at_def keeps_def shop_cluster_def shop_view_def shop_gen_def
      split: option.splits)

lemma shop_write_secrets: "fst (write_secrets shop_cluster shop_gen ns apm tkns data w) = (5 * Minute, None)"
  by (auto simp: write_secrets_def CreateOrUpdateSecretIfNotExists_def shop_cluster_def shop_gen_def split: option.splits prod.splits)

lemma shop_run: "\<exists>w'. Reconcile_namespace shop_cluster shop_gen ''dynatrace'' ''shop'' shop_world = ((5 * Minute, None), w')"
proof -
  have apm: "k_get_apm shop_cluster ns ''apm'' w = (Inr immutable_apm, w)" for ns w by (simp add: shop_cluster_def)
  have get: "k_get_namespace shop_cluster n w = (Inr \<lparr>ns_Name = n, ns_UID = ''uid'',
         ns_Labels = Some [LabelInstance \<mapsto> ''apm''], ns_Annotations = None\<rparr>, w)" for n w by (simp add: shop_cluster_def)
  have ls: "k_list_oneagents shop_cluster ns w = (Inr [], w)" for ns w
    by (simp add: shop_cluster_def sample_oneagent_cluster_def idle_cluster_def cluster.defs)
  have tokens: "GetTokensName immutable_apm = ''apm''" by (simp add: GetTokensName_def immutable_apm_def empty_resources)
  let ?paas = "paas_secret\<lparr>sec_Name := ''apm'', sec_Namespace := ''dynatrace''\<rparr>"
  have sec: "k_get_secret shop_cluster ''dynatrace'' ''apm'' shop_world = (Inr ?paas, shop_world)"
    by (simp add: shop_cluster_def shop_world_def)
  have "\<exists>s. newScript shop_cluster immutable_apm t m ns w = (Inr s, w)" for t m ns w
    by (simp add: newScript_def get script_proxy_def script_certs_def immutable_apm_def empty_resources)
  then obtain scr where n: "newScript shop_cluster immutable_apm ?paas (im_nodes []) ''dynatrace''
      shop_world = (Inr scr, shop_world)" by blast
  have "Reconcile_namespace shop_cluster shop_gen ''dynatrace'' ''shop'' shop_world =
      write_secrets shop_cluster shop_gen ''shop'' immutable_apm ?paas (generate scr) shop_world"
    by (simp add: Reconcile_namespace_def Let_def get map_get_def ls apm tokens sec n)
  then show ?thesis by (metis shop_write_secrets prod.collapse)
qed

section \<open>Properties\<close>

text \<open>The environment noted for a node is that of the last OneAgent in the list that has the node
  among its instances, takes part in the injection and knows its environment.
\<close>

theorem noted_environment_of_a_node:
  "im_nodes ims k = Some t \<longleftrightarrow>
     (\<exists>pre oa post. ims = pre @ oa # post \<and> has_node oa k \<and> t = st_EnvironmentID (cr_Status oa) \<and>
        (\<forall>oa' \<in> set post. \<not> has_node oa' k))"
proof -
  have "im_nodes ims k = Some t \<longleftrightarrow> (\<exists>oa. List.find (\<lambda>oa. has_node oa k) (rev ims) = Some oa \<and> t = st_EnvironmentID (cr_Status oa))"
    by (auto simp: im_nodes_find)
  also have "\<dots> \<longleftrightarrow> (\<exists>ys oa zs. rev ims = ys @ oa # zs \<and> has_node oa k \<and> (\<forall>y \<in> set ys. \<not> has_node y k) \<and>
      t = st_EnvironmentID (cr_Status oa))"
    by (auto simp: find_Some_split)
  also have "\<dots> \<longleftrightarrow> (\<exists>pre oa post. ims = pre @ oa # post \<and> has_node oa k \<and> t = st_EnvironmentID (cr_Status oa) \<and>
        (\<forall>oa' \<in> set post. \<not> has_node oa' k))" (is "?L \<longleftrightarrow> ?R")
  proof
    assume ?L
    then obtain ys oa zs where h: "rev ims = ys @ oa # zs" "has_node oa k" "\<forall>y \<in> set ys. \<not> has_node y k"
      "t = st_EnvironmentID (cr_Status oa)" by blast
    from h(1) have "ims = rev zs @ oa # rev ys" by (simp add: rev_swap)
    with h show ?R by (intro exI [of _ "rev zs"] exI [of _ oa] exI [of _ "rev ys"]) simp
  next
    assume ?R
    then obtain pre oa post where h: "ims = pre @ oa # post" "has_node oa k" "t = st_EnvironmentID (cr_Status oa)"
      "\<forall>oa' \<in> set post. \<not> has_node oa' k" by blast
    then show ?L by (intro exI [of _ "rev post"] exI [of _ oa] exI [of _ "rev pre"]) simp
  qed
  finally show ?thesis .
qed

definition node_agent :: "string \<Rightarrow> OneAgent" where
  "node_agent env = (empty_oneagent ''oneagent'' ''dynatrace'')
     \<lparr>cr_Spec := empty_spec\<lparr>sp_WebhookInjection := True\<rparr>,
      cr_Status := empty_status\<lparr>st_EnvironmentID := env,
        st_Instances := Some [''node-a'' \<mapsto> \<lparr>inst_PodName = [], inst_Version = [], inst_IPAddress = []\<rparr>]\<rparr>\<rparr>"

theorem noted_environment_of_a_node_witness:
  "im_nodes [node_agent ''env1'', node_agent ''env2'', node_agent []] ''node-a'' = Some ''env2''"
  by (rule noted_environment_of_a_node [THEN iffD2], intro exI [of _ "[node_agent ''env1'']"]
        exI [of _ "node_agent ''env2''"] exI [of _ "[node_agent []]"])
    (simp add: has_node_def node_agent_def)

text \<open>C26: Reading the table back from the generated script gives exactly the noted nodes with their
  environments, each once and in the order of the names, when no inserted value holds a character
  that is special in a quoted text of bash.
\<close>

theorem script_table_roundtrip:
  assumes "plain_script s"
  shows "script_table (scriptTmpl s) = map (\<lambda>k. (k, map_get (sc_IMNodes s) k)) (sorted_list_of_set (dom (sc_IMNodes s)))"
proof -
  let ?ls = "script_head s @ node_lines (sc_IMNodes s) @ script_tail s"
  have m: "\<forall>k \<in> dom (sc_IMNodes s). plain k" "\<forall>t \<in> ran (sc_IMNodes s). plain t" "finite (dom (sc_IMNodes s))"
    using assms by (simp_all add: plain_script_def)
  have "\<forall>l \<in> set ?ls. newline \<notin> set l"
    using script_head_lines [OF assms] script_tail_lines [OF assms] node_lines_plain [OF m] by auto
  then have "Split newline (scriptTmpl s) = ?ls @ [[]]" unfolding scriptTmpl_def by (rule Split_lines)
  moreover have "concat (map table_entry (script_head s)) = []" "concat (map table_entry (script_tail s)) = []"
    using script_head_lines [OF assms] script_tail_lines [OF assms] by simp_all
  ultimately show ?thesis
    by (simp only: script_table_def map_append concat_append node_lines_entries [OF m]) simp
qed

definition two_node_script :: script where
  "two_node_script =
     \<lparr>sc_OneAgent = immutable_apm, sc_PaaSToken = ''tok'', sc_Proxy = [], sc_TrustedCAs = None, sc_ClusterID = ''uid'',
      sc_IMNodes = [''node-b'' \<mapsto> ''env1'', ''node-a'' \<mapsto> ''env2'']\<rparr>"

theorem script_table_roundtrip_witness:
  "script_table (scriptTmpl two_node_script) = [(''node-a'', ''env2''), (''node-b'', ''env1'')]"
proof -
  have "plain_script two_node_script"
    by (simp add: plain_script_def two_node_script_def immutable_apm_def empty_resources plain_def quote_def newline_def)
  note table = script_table_roundtrip [OF this]
  have "''node-a'' \<le> ''node-b''" "\<not> ''node-b'' \<le> ''node-a''" by code_simp+
  then have "sorted_list_of_set {''node-a'', ''node-b''} = [''node-a'', ''node-b'']" by simp
  moreover have "dom (sc_IMNodes two_node_script) = {''node-a'', ''node-b''}" by (auto simp: two_node_script_def)
  ultimately show ?thesis using table by (simp add: two_node_script_def map_get_def)
qed

text \<open>
  The webhook, asked in the world \<open>wh\<close>, still finds the OneAgentAPM that the run found: the namespace has
  the labels of \<open>target\<close>, and the resource of that label is \<open>apm\<close>.
\<close>

definition still_assigned ::
  "('v, 'w, 'z) oneagent_cluster_scheme \<Rightarrow> string \<Rightarrow> string \<Rightarrow> Namespace \<Rightarrow> OneAgentAPM \<Rightarrow> 'w \<Rightarrow> bool" where
  "still_assigned K namespace targetNS target apm wh \<longleftrightarrow>
     (case k_get_namespace K targetNS wh of
        (Inl _, _) \<Rightarrow> True
      | (Inr ns, w1) \<Rightarrow> ns_Labels ns = ns_Labels target \<and>
          fst (k_get_apm K namespace (GetField (ns_Labels target) ''oneagent.dynatrace.com/instance'' []) w1) \<in>
            {Inr apm} \<union> range Inl)"

lemma Handle_assigned:
  assumes "Handle K decode marshal \<lparr>pi_image = img, pi_namespace = namespace\<rparr> req wh = Returns (PatchFromRaw raw j, wh')"
    and "still_assigned K namespace (rq_Namespace req) target apm wh"
  shows "\<exists>pod pod'. decode req = Inr pod \<and> inject_pod img apm pod = Some pod' \<and> marshal pod' = Inr j"
proof -
  obtain pod ns w1 oa pod' where h: "decode req = Inr pod" "k_get_namespace K (rq_Namespace req) wh = (Inr ns, w1)"
    "k_get_apm K namespace (GetField (ns_Labels ns) LabelInstance []) w1 = (Inr oa, wh')"
    "inject_pod img oa pod = Some pod'" "marshal pod' = Inr j"
    using Handle_patch [OF assms(1)] unfolding pod_injector.simps by (elim exE conjE)
  with assms(2) have "oa = apm" by (auto simp: still_assigned_def LabelInstance_def)
  with h show ?thesis by blast
qed

lemma GetField_labels: "map_get (case l of None \<Rightarrow> Map.empty | Some m \<Rightarrow> m) k = GetField l k []"
  by (auto simp: GetField_def map_get_def split: option.splits)

text \<open>C6: The namespace controller and the webhook fit together.  A run of the controller that wrote the
  secrets of a namespace did so for the OneAgentAPM of the namespace's label; and as long as that
  assignment stands, every pod that the webhook patches in the namespace finds what the injection makes
  it refer to: every secret it needs exists there, the script that the init container runs is in the
  configuration secret, and the only key that containers refer to is the proxy of that secret.
\<close>

theorem injected_pods_find_their_secrets:
  assumes "secret_laws K gen targetNS v" and "Reconcile_namespace K gen namespace targetNS w = ((d, None), w')" and "d \<noteq> 0"
  shows "\<exists>target w1 ims w2 apm w3 cfg data.
    k_get_namespace K targetNS w = (Inr target, w1) \<and> k_list_oneagents K namespace w1 = (Inr ims, w2) \<and>
    k_get_apm K namespace (GetField (ns_Labels target) ''oneagent.dynatrace.com/instance'' []) w2 = (Inr apm, w3) \<and>
    v w' ''dynatrace-oneagent-config'' = Some cfg \<and> sec_Data cfg = Some data \<and> ''init.sh'' \<in> dom data \<and>
    (\<forall>decode marshal img req wh raw j wh'.
       rq_Namespace req = targetNS \<and> still_assigned K namespace targetNS target apm wh \<and>
       Handle K decode marshal \<lparr>pi_image = img, pi_namespace = namespace\<rparr> req wh = Returns (PatchFromRaw raw j, wh') \<longrightarrow>
       (\<exists>pod pod'. decode req = Inr pod \<and> inject_pod img apm pod = Some pod' \<and> marshal pod' = Inr j \<and>
          pod_secrets pod' \<subseteq> pod_secrets pod \<union> dom (v w') \<and>
          pod_keys pod' = pod_keys pod \<union> (if proxy_is_set apm then {(''dynatrace-oneagent-config'', ''proxy'')} else {})))"
proof -
  obtain target w1 ims w2 apm w3 tkns scr w5 where t: "k_get_namespace K targetNS w = (Inr target, w1)"
    and l: "k_list_oneagents K namespace w1 = (Inr ims, w2)"
    and a: "k_get_apm K namespace (GetField (ns_Labels target) ''oneagent.dynatrace.com/instance'' []) w2 = (Inr apm, w3)"
    and ws: "write_secrets K gen targetNS apm tkns (generate scr) w5 = ((d, None), w')"
    using Reconcile_namespace_ok [OF assms(2,3)] unfolding GetField_labels LabelInstance_def
    by (elim exE conjE) (rule that)
  from write_secrets_ok [OF assms(1) ws] obtain cfg where
    cfg: "v w' SecretConfigName = Some cfg" "sec_Data cfg = Some (generate scr)"
    and pull: "apm_Image (cr_Spec apm) = [] \<longrightarrow> PullSecretName \<in> dom (v w')" by blast
  have refs: "pod_secrets pod' \<subseteq> pod_secrets pod \<union> dom (v w')" if "inject_pod m apm pod = Some pod'" for m pod pod'
    using inject_pod_refs(1) [OF that] cfg(1) pull by (auto split: if_splits)
  have pods: "\<exists>pod pod'. decode req = Inr pod \<and> inject_pod img apm pod = Some pod' \<and> marshal pod' = Inr j \<and>
      pod_secrets pod' \<subseteq> pod_secrets pod \<union> dom (v w') \<and>
      pod_keys pod' = pod_keys pod \<union> (if proxy_is_set apm then {(SecretConfigName, ''proxy'')} else {})"
    if "rq_Namespace req = targetNS \<and> still_assigned K namespace targetNS target apm wh \<and>
       Handle K decode marshal \<lparr>pi_image = img, pi_namespace = namespace\<rparr> req wh = Returns (PatchFromRaw raw j, wh')"
    for decode marshal img req wh raw j wh'
  proof -
    from that obtain pod pod' where p: "decode req = Inr pod" "inject_pod img apm pod = Some pod'" "marshal pod' = Inr j"
      using Handle_assigned [of K decode marshal img namespace req wh raw j wh' target apm] by blast
    with refs [OF p(2)] inject_pod_refs(2) [OF p(2)] show ?thesis by blast
  qed
  have "''init.sh'' \<in> dom (generate scr)" by (auto simp: generate_script)
  with t l a cfg pods show ?thesis
    unfolding SecretConfigName_def
    by (intro exI [of _ target] exI [of _ w1] exI [of _ ims] exI [of _ w2] exI [of _ apm] exI [of _ w3] exI [of _ cfg]
        exI [of _ "generate scr"] conjI allI impI) assumption+
qed

text \<open>The run on the shop's namespace, and the pod that the webhook patches there afterwards.\<close>

theorem injected_pods_find_their_secrets_witness:
  "\<exists>w' pod'. Reconcile_namespace shop_cluster shop_gen ''dynatrace'' ''shop'' shop_world = ((5 * Minute, None), w') \<and>
     Handle shop_cluster (\<lambda>r. Inr (nginx_pod None)) (\<lambda>p. Inr ''json'') sample_injector sample_request w' =
       Returns (PatchFromRaw ''raw'' ''json'', w') \<and>
     inject_pod ''operator:1'' immutable_apm (nginx_pod None) = Some pod' \<and>
     pod_secrets pod' \<subseteq> dom (shop_view ''shop'' w')"
proof -
  obtain w' where r: "Reconcile_namespace shop_cluster shop_gen ''dynatrace'' ''shop'' shop_world = ((5 * Minute, None), w')"
    using shop_run by blast
  have d: "5 * Minute \<noteq> 0" by (simp add: Minute_def Second_def)
  have ns: "k_get_namespace shop_cluster = (\<lambda>n w. (Inr \<lparr>ns_Name = n, ns_UID = ''uid'',
         ns_Labels = Some [LabelInstance \<mapsto> ''apm''], ns_Annotations = None\<rparr>, w))"
    and apm: "k_get_apm shop_cluster = (\<lambda>ns n w. (if n = ''apm'' then Inr immutable_apm else Inl KubeNotFound, w))"
    by (simp_all add: shop_cluster_def)
  obtain pod where p: "inject_pod ''operator:1'' immutable_apm (nginx_pod None) = Some pod"
    using sample_injection by (elim exE conjE)
  have h: "Handle shop_cluster (\<lambda>r. Inr (nginx_pod None)) (\<lambda>p. Inr ''json'') sample_injector sample_request w' =
      Returns (PatchFromRaw ''raw'' ''json'', w')"
    using p by (simp add: Handle_def ns apm sample_injector_def sample_request_def GetField_def map_get_def Let_def
        nginx_pod_def annotations_of_def)
  have label: "GetField (Some [LabelInstance \<mapsto> ''apm'']) ''oneagent.dynatrace.com/instance'' [] = ''apm''"
    by (simp add: GetField_def LabelInstance_def)
  have assigned: "still_assigned shop_cluster ''dynatrace'' ''shop'' \<lparr>ns_Name = ''shop'', ns_UID = ''uid'',
         ns_Labels = Some [LabelInstance \<mapsto> ''apm''], ns_Annotations = None\<rparr> immutable_apm w'"
    by (simp add: still_assigned_def ns apm label)
  have none: "pod_secrets (nginx_pod None) = {}" by (simp add: pod_secrets_def nginx_pod_def)
  have list: "k_list_oneagents shop_cluster = (\<lambda>ns w. (Inr [], w))"
    by (simp add: shop_cluster_def sample_oneagent_cluster_def idle_cluster_def cluster.defs)
  obtain target w1 ims w2 oa w3 where found: "k_get_namespace shop_cluster ''shop'' shop_world = (Inr target, w1)"
      "k_get_apm shop_cluster ''dynatrace'' (GetField (ns_Labels target) ''oneagent.dynatrace.com/instance'' []) w2 = (Inr oa, w3)"
    and all: "\<forall>decode marshal img req wh raw j wh'.
      rq_Namespace req = ''shop'' \<and> still_assigned shop_cluster ''dynatrace'' ''shop'' target oa wh \<and>
      Handle shop_cluster decode marshal \<lparr>pi_image = img, pi_namespace = ''dynatrace''\<rparr> req wh = Returns (PatchFromRaw raw j, wh') \<longrightarrow>
      (\<exists>pod pod'. decode req = Inr pod \<and> inject_pod img oa pod = Some pod' \<and> marshal pod' = Inr j \<and>
         pod_secrets pod' \<subseteq> pod_secrets pod \<union> dom (shop_view ''shop'' w') \<and>
         pod_keys pod' = pod_keys pod \<union> (if proxy_is_set oa then {(''dynatrace-oneagent-config'', ''proxy'')} else {}))"
    using injected_pods_find_their_secrets [OF shop_laws r d] by (elim exE conjE) (rule that)
  from found have "target = \<lparr>ns_Name = ''shop'', ns_UID = ''uid'', ns_Labels = Some [LabelInstance \<mapsto> ''apm''],
      ns_Annotations = None\<rparr>" "oa = immutable_apm" by (auto simp: ns apm label)
  with all [THEN spec [of _ "\<lambda>r. Inr (nginx_pod None)"], THEN spec [of _ "\<lambda>p. Inr ''json''"], THEN spec [of _ "''operator:1''"],
      THEN spec [of _ sample_request], THEN spec [of _ w'], THEN spec [of _ "''raw''"], THEN spec [of _ "''json''"],
      THEN spec [of _ w'], THEN mp] h assigned none r h
  show ?thesis by (simp add: sample_request_def sample_injector_def) blast
qed

text \<open>C27: A proxy taken from a secret is not checked: the containers refer to the key in any case, but
  the configuration secret has it only if the secret has a non-empty field; without it the reference
  cannot be resolved.
\<close>

theorem proxy_reference_needs_the_field:
  assumes "sp_Proxy (cr_Spec apm) = Some p" and "prx_ValueFrom p \<noteq> []"
    and "\<And>w. fst (k_get_secret K namespace (prx_ValueFrom p) w) = Inr ps"
    and "newScript K apm tkns imNodes namespace w = (Inr scr, w')" and "inject_pod m apm pod = Some pod'"
  shows "(SecretConfigName, ''proxy'') \<in> pod_keys pod' \<and>
    (''proxy'' \<in> dom (generate scr) \<longleftrightarrow> secret_field ps ''proxy'' \<notin> {None, Some []})"
proof -
  from newScript_ok [OF assms(4)] obtain w1 w2 where
    "script_proxy K (sp_Proxy (cr_Spec apm)) namespace w1 = (Inr (sc_Proxy scr), w2)" by blast
  from script_proxy_ok [OF this] assms(1,2) obtain ps' where
    "k_get_secret K namespace (prx_ValueFrom p) w1 = (Inr ps', w2)"
    "sc_Proxy scr = (case secret_field ps' ''proxy'' of None \<Rightarrow> [] | Some t \<Rightarrow> t)" by auto
  moreover from this assms(3) [of w1] have "ps' = ps" by simp
  ultimately show ?thesis using inject_pod_refs(2) [OF assms(5)] assms(1,2)
    by (auto simp: generate_proxy proxy_is_set_def split: option.splits)
qed

definition proxy_apm :: OneAgentAPM where
  "proxy_apm = immutable_apm\<lparr>cr_Spec := (cr_Spec immutable_apm)\<lparr>sp_Proxy := Some \<lparr>prx_Value = [], prx_ValueFrom = ''tokens''\<rparr>\<rparr>\<rparr>"

definition fieldless_cluster :: "(string, nat) oneagent_cluster" where
  "fieldless_cluster = webhook_cluster\<lparr>k_get_secret := (\<lambda>ns n w. (Inr paas_secret, w))\<rparr>"

text \<open>A secret without the field: the reference is made and dangles.\<close>

theorem proxy_reference_needs_the_field_witness:
  "\<exists>scr w' pod. newScript fieldless_cluster proxy_apm paas_secret Map.empty ''dynatrace'' 0 = (Inr scr, w') \<and>
     inject_pod ''operator:1'' proxy_apm (nginx_pod None) = Some pod \<and>
     (SecretConfigName, ''proxy'') \<in> pod_keys pod \<and> ''proxy'' \<notin> dom (generate scr)"
proof -
  obtain pod where pod: "inject_pod ''operator:1'' proxy_apm (nginx_pod None) = Some pod"
    by (auto simp: inject_pod_def Let_def nginx_pod_def split: prod.splits)
  have p: "sp_Proxy (cr_Spec proxy_apm) = Some \<lparr>prx_Value = [], prx_ValueFrom = ''tokens''\<rparr>" by (simp add: proxy_apm_def)
  have get: "k_get_secret fieldless_cluster ns n w = (Inr paas_secret, w)" for ns n w by (simp add: fieldless_cluster_def)
  have kube: "\<exists>ks. k_get_namespace fieldless_cluster n w = (Inr ks, w)" for n w
    by (simp add: fieldless_cluster_def webhook_cluster_def)
  have sp: "\<exists>x. script_proxy fieldless_cluster (sp_Proxy (cr_Spec proxy_apm)) ns w = (Inr x, w)" for ns w
    by (simp add: p script_proxy_def get)
  have ca: "script_certs fieldless_cluster (sp_TrustedCAs (cr_Spec proxy_apm)) ns w = (Inr None, w)" for ns w
    by (simp add: script_certs_def proxy_apm_def immutable_apm_def empty_resources)
  from kube [of "''kube-system''" 0] sp [of "''dynatrace''" 0] obtain scr where
    scr: "newScript fieldless_cluster proxy_apm paas_secret Map.empty ''dynatrace'' 0 = (Inr scr, 0)"
    by (auto simp: newScript_def ca)
  from proxy_reference_needs_the_field [OF p _ _ scr pod, of paas_secret] scr pod show ?thesis
    by (simp add: get secret_field_def paas_secret_def)
qed

end
