(* ===== verification/Wellformed_Props.thy ===== *)
theory Wellformed_Props
  imports Daemonset_Props Webhook_Props
begin

text \<open>
  Well-formed pods, as the API server wants them before it takes one: the DaemonSet of the operator
  has such a template, and the webhook keeps a pod well-formed exactly when the pod does not use the
  names and paths of the injection.
\<close>

section \<open>The template of the DaemonSet\<close>

definition container_wf :: "Volume list \<Rightarrow> Container \<Rightarrow> bool" where
  "container_wf vols c \<longleftrightarrow>
     ctr_Name c \<noteq> [] \<and> ctr_Image c \<noteq> [] \<and>
     vm_Name ` set (ctr_VolumeMounts c) \<subseteq> vol_Name ` set vols \<and> distinct (map vm_MountPath (ctr_VolumeMounts c))"

definition pod_spec_wf :: "PodSpec \<Rightarrow> bool" where
  "pod_spec_wf p \<longleftrightarrow>
     ps_Containers p \<noteq> [] \<and> distinct (map ctr_Name (ps_Containers p)) \<and> distinct (map vol_Name (ps_Volumes p)) \<and>
     list_all (container_wf (ps_Volumes p)) (ps_Containers p)"

definition daemonset_wf :: "DaemonSet \<Rightarrow> bool" where
  "daemonset_wf ds \<longleftrightarrow> pod_spec_wf (ds_TemplateSpec ds) \<and> ds_Selector ds \<subseteq>\<^sub>m ds_TemplateLabels ds"

lemma oneagent_image_nonempty: "BuildOneAgentImage url v \<noteq> []"
  by (simp add: BuildOneAgentImage_def Let_def)

lemma newPodSpecForCR_wf: "pod_spec_wf (fst (newPodSpecForCR env version instance clusterID unprivileged))"
  by (simp add: newPodSpecForCR_def Let_def split_beta preparePodSpecImmutableImage_def preparePodSpecInstaller_def set_image_def
      pod_spec_wf_def container_wf_def prepareVolumes_def prepareVolumeMounts_def oneagent_image_nonempty
      oneagentDockerImage_def oneagentRedhatImage_def)

section \<open>Pods of the webhook\<close>

definition inj_container_wf :: "string set \<Rightarrow> InjContainer \<Rightarrow> bool" where
  "inj_container_wf vols c \<longleftrightarrow>
     im_Name ` set (ij_VolumeMounts c) \<subseteq> vols \<and> distinct (map im_MountPath (ij_VolumeMounts c))"

definition inj_pod_wf :: "InjPod \<Rightarrow> bool" where
  "inj_pod_wf p \<longleftrightarrow>
     distinct (map vol_Name (ip_Volumes p)) \<and> distinct (map ij_Name (ip_InitContainers p @ ip_Containers p)) \<and>
     list_all (inj_container_wf (vol_Name ` set (ip_Volumes p))) (ip_InitContainers p @ ip_Containers p)"

text \<open>The paths that a container gets.\<close>

definition injected_paths :: "string \<Rightarrow> string list" where
  "injected_paths installPath =
     [''/etc/ld.so.preload'', installPath, ''/var/lib/dynatrace/oneagent/agent/config/container.conf'']"

definition leaves_room :: "string \<Rightarrow> InjPod \<Rightarrow> bool" where
  "leaves_room installPath p \<longleftrightarrow>
     vol_Name ` set (ip_Volumes p) \<inter> {''init'', ''oneagent'', ''oneagent-config''} = {} \<and>
     ''install-oneagent'' \<notin> ij_Name ` set (ip_InitContainers p @ ip_Containers p) \<and>
     distinct (injected_paths installPath) \<and>
     list_all (\<lambda>c. im_MountPath ` set (ij_VolumeMounts c) \<inter> set (injected_paths installPath) = {}) (ip_Containers p)"

lemma inject_volumes_names: "map vol_Name inject_volumes = [''init'', ''oneagent'', ''oneagent-config'']"
  by (simp add: inject_volumes_def)

lemma inject_container_mounts:
  "ij_Name (inject_container oa path c) = ij_Name c"
  "map im_Name (ij_VolumeMounts (inject_container oa path c)) =
     map im_Name (ij_VolumeMounts c) @ [''oneagent'', ''oneagent'', ''oneagent'']"
  "map im_MountPath (ij_VolumeMounts (inject_container oa path c)) =
     map im_MountPath (ij_VolumeMounts c) @ injected_paths path"
  by (simp_all add: inject_container_def injected_paths_def)

lemma inj_container_wf_iff:
  "inj_container_wf vols c \<longleftrightarrow>
     set (map im_Name (ij_VolumeMounts c)) \<subseteq> vols \<and> distinct (map im_MountPath (ij_VolumeMounts c))"
  by (simp add: inj_container_wf_def)

lemma inject_container_wf:
  assumes "inj_container_wf vols c" and "vols \<subseteq> vols'" and "''oneagent'' \<in> vols'"
  shows "inj_container_wf vols' (inject_container oa path c) \<longleftrightarrow>
     distinct (injected_paths path) \<and> im_MountPath ` set (ij_VolumeMounts c) \<inter> set (injected_paths path) = {}"
  using assms unfolding inj_container_wf_iff inject_container_mounts by auto

lemma inj_container_wf_mono: "inj_container_wf vols c \<Longrightarrow> vols \<subseteq> vols' \<Longrightarrow> inj_container_wf vols' c"
  by (auto simp: inj_container_wf_def)

lemma init_container_wf:
  "inj_container_wf (insert ''init'' (insert ''oneagent'' (insert ''oneagent-config'' vols)))
     (ij_Env_update f (init_container oa opts pod sc))"
  "ij_Name (ij_Env_update f (init_container oa opts pod sc)) = ''install-oneagent''"
  by (simp_all add: init_container_def inj_container_wf_def)

lemma inject_pod_parts:
  assumes "inject_pod m oa pod = Some pod'"
  defines "path \<equiv> io_installPath (read_options m oa (ip_Annotations pod))"
  shows "ip_Volumes pod' = ip_Volumes pod @ inject_volumes"
    and "ip_Containers pod' = map (inject_container oa path) (ip_Containers pod)" and "ip_Containers pod \<noteq> []"
    and "\<exists>opts p sc f. ip_InitContainers pod' = ip_InitContainers pod @ [ij_Env_update f (init_container oa opts p sc)]"
proof -
  note i = assms(1) [unfolded inject_pod_def read_options_mark Let_def inject_loop_eq]
  show "ip_Volumes pod' = ip_Volumes pod @ inject_volumes"
    "ip_Containers pod' = map (inject_container oa path) (ip_Containers pod)" "ip_Containers pod \<noteq> []"
    using i by (auto simp: path_def split: list.splits)
  from i obtain c cs where c: "ip_Containers pod = c # cs" by (auto split: list.splits)
  have "ip_InitContainers pod' = ip_InitContainers pod @ [ij_Env_update (\<lambda>_. ij_Env
      (init_container oa (read_options m oa (ip_Annotations pod)) (mark_injected pod) (ij_SecurityContext c)) @
        all_container_vars 0 (ip_Containers pod))
      (init_container oa (read_options m oa (ip_Annotations pod)) (mark_injected pod) (ij_SecurityContext c))]"
    using i by (auto simp: c)
  then show "\<exists>opts p sc f. ip_InitContainers pod' = ip_InitContainers pod @ [ij_Env_update f (init_container oa opts p sc)]"
    by blast
qed

lemma list_all_map_conj:
  assumes "xs \<noteq> []" and "\<And>x. x \<in> set xs \<Longrightarrow> P (f x) \<longleftrightarrow> D \<and> R x"
  shows "list_all P (map f xs) \<longleftrightarrow> D \<and> list_all R xs"
  using assms by (cases xs) (auto simp: list_all_iff)

lemma injected_pod_wf_iff:
  assumes wf: "inj_pod_wf pod" and inj: "inject_pod m oa pod = Some pod'"
  shows "inj_pod_wf pod' \<longleftrightarrow> leaves_room (io_installPath (read_options m oa (ip_Annotations pod))) pod"
proof -
  let ?path = "io_installPath (read_options m oa (ip_Annotations pod))"
  let ?vols = "vol_Name ` set (ip_Volumes pod)"
  let ?vols' = "insert ''init'' (insert ''oneagent'' (insert ''oneagent-config'' ?vols))"
  note parts = inject_pod_parts [OF inj]
  from parts(4) obtain opts p sc f where
    init: "ip_InitContainers pod' = ip_InitContainers pod @ [ij_Env_update f (init_container oa opts p sc)]" by blast
  have names: "map ij_Name (ip_InitContainers pod' @ ip_Containers pod') =
      map ij_Name (ip_InitContainers pod) @ ''install-oneagent'' # map ij_Name (ip_Containers pod)"
    by (simp add: init parts(2) init_container_wf(2) inject_container_mounts(1) o_def)
  have vols: "vol_Name ` set (ip_Volumes pod') = ?vols'"
    by (simp add: parts(1) image_Un inject_volumes_def insert_commute)
  have sub: "?vols \<subseteq> ?vols'" by blast
  from wf have wfs: "\<forall>c \<in> set (ip_InitContainers pod @ ip_Containers pod). inj_container_wf ?vols c"
    by (simp add: inj_pod_wf_def list_all_iff)
  then have old: "list_all (inj_container_wf ?vols') (ip_InitContainers pod)"
    using inj_container_wf_mono [OF _ sub] by (simp add: list_all_iff)
  have new: "list_all (inj_container_wf ?vols') (ip_Containers pod') \<longleftrightarrow>
      distinct (injected_paths ?path) \<and>
      list_all (\<lambda>c. im_MountPath ` set (ij_VolumeMounts c) \<inter> set (injected_paths ?path) = {}) (ip_Containers pod)"
  proof -
    have "inj_container_wf ?vols' (inject_container oa ?path c) \<longleftrightarrow> distinct (injected_paths ?path) \<and>
        im_MountPath ` set (ij_VolumeMounts c) \<inter> set (injected_paths ?path) = {}" if "c \<in> set (ip_Containers pod)" for c
      using inject_container_wf [OF _ sub] wfs that by simp
    then show ?thesis unfolding parts(2) by (rule list_all_map_conj [OF parts(3)])
  qed
  have "list_all (inj_container_wf ?vols') (ip_InitContainers pod' @ ip_Containers pod') \<longleftrightarrow>
      list_all (inj_container_wf ?vols') (ip_Containers pod')"
    using old init_container_wf(1) [of ?vols f oa opts p sc] by (simp add: init)
  then show ?thesis
    unfolding inj_pod_wf_def leaves_room_def names vols new
    using wf by (auto simp: inj_pod_wf_def parts(1) inject_volumes_names)
qed

section \<open>Properties\<close>

text \<open>C8: The DaemonSet of every OneAgent is well-formed, whatever the resource says: it has one container with a
  name and an image, every mount is of a volume of the template, no volume and no path is used twice,
  and the selector selects the pods of the template.
\<close>

theorem daemonset_is_well_formed:
  "case newDaemonSetForCR marshal env version oa clusterID of (Inl _, _) \<Rightarrow> True | (Inr ds, _) \<Rightarrow> daemonset_wf ds"
  by (auto simp: newDaemonSetForCR_def unhashed_daemonset_def Let_def split_beta daemonset_wf_def newPodSpecForCR_wf
      mergeLabels_def map_le_add_right split: sum.splits)

text \<open>C7: The webhook keeps a well-formed pod well-formed exactly when the pod leaves room for the injection: it has
  no volume and no container of the injected names, no mount at an injected path, and the install path
  of its annotation is not one of the two other paths.  Nothing in the handler checks that.
\<close>

theorem injected_pod_is_well_formed_iff:
  assumes "inj_pod_wf pod" and "inject_pod m oa pod = Some pod'"
  shows "inj_pod_wf pod' \<longleftrightarrow> leaves_room (io_installPath (read_options m oa (ip_Annotations pod))) pod"
  using injected_pod_wf_iff [OF assms] .

text \<open>Once with room, once without.\<close>

theorem injected_pod_is_well_formed_iff_witness:
  "(\<exists>pod'. inject_pod ''operator:1'' immutable_apm (nginx_pod None) = Some pod' \<and> inj_pod_wf pod') \<and>
   (\<exists>pod'. inject_pod ''operator:1'' immutable_apm
       ((nginx_pod None)\<lparr>ip_Volumes := [\<lparr>vol_Name = ''init'', vol_Source = EmptyDir\<rparr>]\<rparr>) = Some pod' \<and> \<not> inj_pod_wf pod')"
proof
  let ?p = "nginx_pod None"
  obtain pod' where i: "inject_pod ''operator:1'' immutable_apm ?p = Some pod'" using sample_injection by blast
  have wf: "inj_pod_wf ?p" by (simp add: inj_pod_wf_def nginx_pod_def nginx_container_def inj_container_wf_def)
  have "leaves_room (io_installPath (read_options ''operator:1'' immutable_apm (ip_Annotations ?p))) ?p"
    by (simp add: leaves_room_def read_options_def Let_def GetField_def nginx_pod_def nginx_container_def injected_paths_def
        DefaultInstallPath_def)
  with injected_pod_is_well_formed_iff [OF wf i] i
  show "\<exists>pod'. inject_pod ''operator:1'' immutable_apm ?p = Some pod' \<and> inj_pod_wf pod'" by blast
next
  let ?p = "(nginx_pod None)\<lparr>ip_Volumes := [\<lparr>vol_Name = ''init'', vol_Source = EmptyDir\<rparr>]\<rparr>"
  obtain pod' where i: "inject_pod ''operator:1'' immutable_apm ?p = Some pod'"
    by (auto simp: inject_pod_def Let_def nginx_pod_def split: prod.splits)
  have wf: "inj_pod_wf ?p" by (simp add: inj_pod_wf_def nginx_pod_def nginx_container_def inj_container_wf_def)
  have "\<not> leaves_room (io_installPath (read_options ''operator:1'' immutable_apm (ip_Annotations ?p))) ?p"
    by (simp add: leaves_room_def)
  with injected_pod_is_well_formed_iff [OF wf i] i
  show "\<exists>pod'. inject_pod ''operator:1'' immutable_apm ?p = Some pod' \<and> \<not> inj_pod_wf pod'" by blast
qed

end
