(* ===== verification/Startup.thy ===== *)
theory Startup
  imports Nodes Bootstrapper Oneagent_Controller Apm_Controller Namespace_Controller
begin

text \<open>
  The start of the three programs (main.go, operator.go, webhook\_bootstrapper.go, webhook\_server.go,
  debug.go) and what the packages register with the manager (their \<open>Add\<close>, \<open>add\<close> and \<open>AddToManager\<close>).
  controller-runtime's manager, the file system, the clock and the environment are the record \<open>P\<close>;
  a manager is a number that \<open>P\<close> hands out.  Healthz and readyz checks that cannot be added are only
  logged, so their errors are dropped here as in the code.
\<close>

section \<open>The libraries\<close>

record manager_options =
  mo_Namespace :: string
  mo_MetricsBindAddress :: string
  mo_Port :: int
  mo_LeaderElection :: bool
  mo_LeaderElectionID :: string
  mo_LeaderElectionResourceLock :: string
  mo_LeaderElectionNamespace :: string
  mo_HealthProbeBindAddress :: string

text \<open>What a controller watches, and for whom an event enqueues a request.\<close>

datatype watch_source = SourceKind string | SourceChannel
datatype watch_handler = EnqueueRequestForObject | EnqueueRequestForOwner string

text \<open>The reconcilers, with the fields that differ between them; the flag: the Istio controller is not nil.\<close>

datatype reconciler =
    RecOneAgent client_reconciler bool
  | RecOneAgentAPM "OneAgentAPM \<Rightarrow> client_reconciler" bool
  | RecNamespaces string
  | RecWebhook ReconcileWebhook

text \<open>The goroutines that are started: the artificial requests of the bootstrapper, and the components of debug.go.\<close>

datatype goroutine = ArtificialRequests string | StartComponent string string

datatype web_hook = Admission pod_injector | Healthz

record 'w platform =
  pf_AddToScheme :: "string \<Rightarrow> 'w \<Rightarrow> go_error option \<times> 'w"
  pf_GetConfig :: "'w \<Rightarrow> go_error option \<times> 'w"
  pf_NewManager :: "manager_options \<Rightarrow> 'w \<Rightarrow> (go_error + nat) \<times> 'w"
  pf_AddHealthzCheck :: "nat \<Rightarrow> string \<Rightarrow> 'w \<Rightarrow> go_error option \<times> 'w"
  pf_AddReadyzCheck :: "nat \<Rightarrow> string \<Rightarrow> 'w \<Rightarrow> go_error option \<times> 'w"
  pf_NewController :: "nat \<Rightarrow> string \<Rightarrow> reconciler \<Rightarrow> 'w \<Rightarrow> go_error option \<times> 'w"
  pf_Watch :: "nat \<Rightarrow> string \<Rightarrow> watch_source \<Rightarrow> watch_handler \<Rightarrow> 'w \<Rightarrow> go_error option \<times> 'w"
  pf_AddRunnable :: "nat \<Rightarrow> reconcile_nodes \<Rightarrow> 'w \<Rightarrow> go_error option \<times> 'w"
  pf_IstioNewForConfig :: "'w \<Rightarrow> go_error option \<times> 'w"
  pf_SetCerts :: "nat \<Rightarrow> string \<Rightarrow> string \<Rightarrow> string \<Rightarrow> 'w \<Rightarrow> 'w"
  pf_Register :: "nat \<Rightarrow> string \<Rightarrow> web_hook \<Rightarrow> 'w \<Rightarrow> 'w"
  pf_GetPodImages :: "string \<Rightarrow> string \<Rightarrow> 'w \<Rightarrow> (go_error + string list) \<times> 'w"
  pf_Go :: "goroutine \<Rightarrow> 'w \<Rightarrow> 'w"
  pf_Start :: "nat \<Rightarrow> 'w \<Rightarrow> go_error option \<times> 'w"
  pf_Getenv :: "string \<Rightarrow> string"
  pf_Now :: "'w \<Rightarrow> time \<times> 'w"
  pf_Sleep :: "int \<Rightarrow> 'w \<Rightarrow> 'w"
  pf_Stat :: "string \<Rightarrow> 'w \<Rightarrow> go_error option \<times> 'w"
  pf_IsNotExist :: "go_error \<Rightarrow> bool"

section \<open>What the packages register\<close>

text \<open>\<open>istio.NewController\<close>: a failed client makes it nil; the error is only logged.\<close>

definition initialiseIstioClient :: "'w platform \<Rightarrow> 'w \<Rightarrow> go_error option \<times> 'w" where
  "initialiseIstioClient P w = pf_IstioNewForConfig P w"

definition NewController :: "'w platform \<Rightarrow> 'w \<Rightarrow> bool \<times> 'w" where
  "NewController P w =
     (case initialiseIstioClient P w of (Some _, w1) \<Rightarrow> (False, w1) | (None, w1) \<Rightarrow> (True, w1))"

definition add_oneagent :: "'w platform \<Rightarrow> nat \<Rightarrow> reconciler \<Rightarrow> 'w \<Rightarrow> go_error option \<times> 'w" where
  "add_oneagent P mgr r w =
     (let c = ''oneagent-controller''
      in case pf_NewController P mgr c r w of
        (Some err, w1) \<Rightarrow> (Some err, w1)
      | (None, w1) \<Rightarrow>
     (case pf_Watch P mgr c (SourceKind ''OneAgent'') EnqueueRequestForObject w1 of
        (Some err, w2) \<Rightarrow> (Some err, w2)
      | (None, w2) \<Rightarrow>
     (case pf_Watch P mgr c (SourceKind ''DaemonSet'') (EnqueueRequestForOwner ''OneAgent'') w2 of
        (Some err, w3) \<Rightarrow> (Some err, w3)
      | (None, w3) \<Rightarrow> (None, w3))))"

definition NewOneAgentReconciler :: "'w platform \<Rightarrow> 'w \<Rightarrow> reconciler \<times> 'w" where
  "NewOneAgentReconciler P w = (let (istio, w1) = NewController P w in (RecOneAgent oneagent_reconciler istio, w1))"

definition Add_oneagent :: "'w platform \<Rightarrow> nat \<Rightarrow> string \<Rightarrow> 'w \<Rightarrow> go_error option \<times> 'w" where
  "Add_oneagent P mgr ns w =
     (let (r, w1) = NewOneAgentReconciler P w in add_oneagent P mgr r w1)"

definition add_oneagentapm :: "'w platform \<Rightarrow> nat \<Rightarrow> reconciler \<Rightarrow> 'w \<Rightarrow> go_error option \<times> 'w" where
  "add_oneagentapm P mgr r w =
     (let c = ''oneagentapm-controller''
      in case pf_NewController P mgr c r w of
        (Some err, w1) \<Rightarrow> (Some err, w1)
      | (None, w1) \<Rightarrow> pf_Watch P mgr c (SourceKind ''OneAgentAPM'') EnqueueRequestForObject w1)"

definition Add_oneagentapm :: "'w platform \<Rightarrow> nat \<Rightarrow> string \<Rightarrow> 'w \<Rightarrow> go_error option \<times> 'w" where
  "Add_oneagentapm P mgr ns w =
     (let (istio, w1) = NewController P w in add_oneagentapm P mgr (RecOneAgentAPM apm_reconciler istio) w1)"

definition add_namespace :: "'w platform \<Rightarrow> nat \<Rightarrow> reconciler \<Rightarrow> 'w \<Rightarrow> go_error option \<times> 'w" where
  "add_namespace P mgr r w =
     (let c = ''namespace-controller''
      in case pf_NewController P mgr c r w of
        (Some err, w1) \<Rightarrow> (Some err, w1)
      | (None, w1) \<Rightarrow>
     (case pf_Watch P mgr c (SourceKind ''Namespace'') EnqueueRequestForObject w1 of
        (Some err, w2) \<Rightarrow> (Some err, w2)
      | (None, w2) \<Rightarrow> (None, w2)))"

definition Add_namespace :: "'w platform \<Rightarrow> nat \<Rightarrow> string \<Rightarrow> 'w \<Rightarrow> go_error option \<times> 'w" where
  "Add_namespace P mgr ns w = add_namespace P mgr (RecNamespaces ns) w"

definition Add_nodes :: "'w platform \<Rightarrow> nat \<Rightarrow> string \<Rightarrow> 'w \<Rightarrow> go_error option \<times> 'w" where
  "Add_nodes P mgr ns w =
     pf_AddRunnable P mgr \<lparr>rn_namespace = ns, rn_local = (pf_Getenv P ''RUN_LOCAL'' = ''true'')\<rparr> w"

text \<open>\<open>bootstrapper.add\<close>: the goroutine of the artificial requests is started before the health checks.\<close>

text \<open>
  Its \<open>n\<close>-th event, when it is started at \<open>start\<close>: it sleeps, starts the ticker, sends one event, and then one per
  tick.
\<close>

definition artificial_request :: "string \<Rightarrow> time \<Rightarrow> nat \<Rightarrow> time \<times> string \<times> string" where
  "artificial_request ns start n = (start + 10 * Second + int n * (5 * Minute), ns, webhookName)"

definition add_webhook :: "'w platform \<Rightarrow> nat \<Rightarrow> ReconcileWebhook \<Rightarrow> 'w \<Rightarrow> go_error option \<times> 'w" where
  "add_webhook P mgr r w =
     (let c = ''webhook-bootstrapper-controller''
      in case pf_NewController P mgr c (RecWebhook r) w of
        (Some err, w1) \<Rightarrow> (Some err, w1)
      | (None, w1) \<Rightarrow>
     (case pf_Watch P mgr c SourceChannel EnqueueRequestForObject w1 of
        (Some err, w2) \<Rightarrow> (Some err, w2)
      | (None, w2) \<Rightarrow>
     (let w3 = pf_Go P (ArtificialRequests (rw_namespace r)) w2;
          (_, w4) = pf_AddHealthzCheck P mgr ''healthz'' w3;
          (_, w5) = pf_AddReadyzCheck P mgr ''readyz'' w4
      in (None, w5))))"

definition AddToManager_bootstrapper :: "'w platform \<Rightarrow> nat \<Rightarrow> string \<Rightarrow> 'w \<Rightarrow> go_error option \<times> 'w" where
  "AddToManager_bootstrapper P mgr ns w =
     add_webhook P mgr \<lparr>rw_namespace = ns, rw_certsDir = Bootstrapper.certsDir, rw_now = zero_time\<rparr> w"

text \<open>\<open>server.AddToManager\<close>: the image of the injector is that of its own first container.\<close>

definition AddToManager_server :: "'w platform \<Rightarrow> nat \<Rightarrow> string \<Rightarrow> 'w \<Rightarrow> (go_error option \<times> 'w) run" where
  "AddToManager_server P mgr ns w =
     (let podName = pf_Getenv P ''POD_NAME''
      in case pf_GetPodImages P ns podName w of
        (Inl err, w1) \<Rightarrow> Returns (Some err, w1)
      | (Inr [], w1) \<Rightarrow> Panics
      | (Inr (img # _), w1) \<Rightarrow>
          Returns (None, pf_Register P mgr ''/healthz'' Healthz
            (pf_Register P mgr ''/inject'' (Admission \<lparr>pi_image = img, pi_namespace = ns\<rparr>) w1)))"

section \<open>operator.go and webhook\_bootstrapper.go\<close>

definition leader_options :: "string \<Rightarrow> string \<Rightarrow> string \<Rightarrow> int \<Rightarrow> string \<Rightarrow> manager_options" where
  "leader_options ns metrics lock port probe =
     \<lparr>mo_Namespace = ns, mo_MetricsBindAddress = metrics, mo_Port = port, mo_LeaderElection = True,
      mo_LeaderElectionID = lock, mo_LeaderElectionResourceLock = ''configmaps'',
      mo_LeaderElectionNamespace = ns, mo_HealthProbeBindAddress = probe\<rparr>"

text \<open>The loop over the \<open>Add\<close> functions of the packages.\<close>

fun add_all ::
  "(nat \<Rightarrow> string \<Rightarrow> 'w \<Rightarrow> go_error option \<times> 'w) list \<Rightarrow> nat \<Rightarrow> string \<Rightarrow> 'w \<Rightarrow> go_error option \<times> 'w" where
  "add_all [] mgr ns w = (None, w)"
| "add_all (f # fs) mgr ns w =
     (case f mgr ns w of (Some err, w1) \<Rightarrow> (Some err, w1) | (None, w1) \<Rightarrow> add_all fs mgr ns w1)"

definition startOperator :: "'w platform \<Rightarrow> string \<Rightarrow> 'w \<Rightarrow> (go_error + nat) \<times> 'w" where
  "startOperator P ns w =
     (case pf_NewManager P (leader_options ns '':8080'' ''dynatrace-oneagent-operator-lock'' 8383 ''0.0.0.0:10080'') w of
        (Inl err, w1) \<Rightarrow> (Inl err, w1)
      | (Inr mgr, w1) \<Rightarrow>
     (let (_, w2) = pf_AddHealthzCheck P mgr ''healthz'' w1;
          (_, w3) = pf_AddReadyzCheck P mgr ''readyz'' w2
      in case add_all [Add_oneagent P, Add_oneagentapm P, Add_namespace P, Add_nodes P] mgr ns w3 of
        (Some err, w4) \<Rightarrow> (Inl err, w4)
      | (None, w4) \<Rightarrow> (Inr mgr, w4)))"

definition startWebhookBoostrapper :: "'w platform \<Rightarrow> string \<Rightarrow> 'w \<Rightarrow> (go_error + nat) \<times> 'w" where
  "startWebhookBoostrapper P ns w =
     (case pf_NewManager P (leader_options ns '':8484'' ''dynatrace-oneagent-webhook-bootstrapper-lock'' 0 ''0.0.0.0:9080'') w of
        (Inl err, w1) \<Rightarrow> (Inl err, w1)
      | (Inr mgr, w1) \<Rightarrow>
     (let (_, w2) = pf_AddHealthzCheck P mgr ''healthz'' w1;
          (_, w3) = pf_AddReadyzCheck P mgr ''readyz'' w2
      in case AddToManager_bootstrapper P mgr ns w3 of
        (Some err, w4) \<Rightarrow> (Inl err, w4)
      | (None, w4) \<Rightarrow> (Inr mgr, w4)))"

section \<open>webhook\_server.go\<close>

text \<open>The flags of main.go.\<close>

record server_flags =
  fl_certsDir :: string
  fl_certFile :: string
  fl_keyFile :: string

definition default_flags :: server_flags where
  "default_flags = \<lparr>fl_certsDir = ''/mnt/webhook-certs'', fl_certFile = ''tls.crt'', fl_keyFile = ''tls.key''\<rparr>"

text \<open>\<open>path.Clean\<close> and \<open>path.Join\<close>: the stack holds the elements kept so far, the last one first.\<close>

fun clean_elems :: "bool \<Rightarrow> string list \<Rightarrow> string list \<Rightarrow> string list" where
  "clean_elems rooted stack [] = rev stack"
| "clean_elems rooted stack (e # es) =
     (if e = [] \<or> e = ''.'' then clean_elems rooted stack es
      else if e = ''..'' then
        (case stack of
           [] \<Rightarrow> clean_elems rooted (if rooted then [] else [''..'']) es
         | t # ts \<Rightarrow> clean_elems rooted (if t = ''..'' then ''..'' # stack else ts) es)
      else clean_elems rooted (e # stack) es)"

definition path_Clean :: "string \<Rightarrow> string" where
  "path_Clean p =
     (let rooted = (p \<noteq> [] \<and> hd p = CHR ''/'');
          es = clean_elems rooted [] (Split (CHR ''/'') p)
      in if rooted then ''/'' @ Join es ''/''
         else if es = [] then ''.'' else Join es ''/'')"

definition path_Join :: "string \<Rightarrow> string \<Rightarrow> string" where
  "path_Join a b =
     (if a \<noteq> [] then path_Clean (a @ ''/'' @ b) else if b \<noteq> [] then path_Clean b else [])"

text \<open>The loop that waits for the certificate; None: it never ends.\<close>

partial_function (option) wait_for_certs ::
  "'w platform \<Rightarrow> string \<Rightarrow> time \<Rightarrow> 'w \<Rightarrow> (go_error option \<times> 'w) option" where
  "wait_for_certs P certFilePath threshold w =
     (let (now, w1) = pf_Now P w
      in if now < threshold
         then (case pf_Stat P certFilePath w1 of
                 (Some err, w2) \<Rightarrow>
                   (if pf_IsNotExist P err
                    then wait_for_certs P certFilePath threshold (pf_Sleep P (10 * Second) w2)
                    else Some (Some err, w2))
               | (None, w2) \<Rightarrow> Some (None, w2))
         else Some (None, w1))"

definition startWebhookServer :: "'w platform \<Rightarrow> server_flags \<Rightarrow> string \<Rightarrow> 'w \<Rightarrow> ((go_error + nat) \<times> 'w) run" where
  "startWebhookServer P flags ns w =
     (case pf_NewManager P (leader_options ns '':8383'' ''dynatrace-oneagent-webhook-server-lock'' 8443 []) w of
        (Inl err, w1) \<Rightarrow> Returns (Inl err, w1)
      | (Inr mgr, w1) \<Rightarrow>
     (let w2 = pf_SetCerts P mgr (fl_certsDir flags) (fl_keyFile flags) (fl_certFile flags) w1;
          certFilePath = path_Join (fl_certsDir flags) (fl_certFile flags);
          (now, w3) = pf_Now P w2
      in case wait_for_certs P certFilePath (now + 5 * Minute) w3 of
        None \<Rightarrow> Diverges
      | Some (Some err, w4) \<Rightarrow> Returns (Inl err, w4)
      | Some (None, w4) \<Rightarrow>
     (case AddToManager_server P mgr ns w4 of
        Panics \<Rightarrow> Panics
      | Diverges \<Rightarrow> Diverges
      | Returns (Some err, w5) \<Rightarrow> Returns (Inl err, w5)
      | Returns (None, w5) \<Rightarrow> Returns (Inr mgr, w5))))"

section \<open>main.go and debug.go\<close>

text \<open>The commands: a missing key of the map is a nil function.\<close>

definition subcmdCallbacks ::
  "'w platform \<Rightarrow> server_flags \<Rightarrow> string \<rightharpoonup> (string \<Rightarrow> 'w \<Rightarrow> ((go_error + nat) \<times> 'w) run)" where
  "subcmdCallbacks P flags =
     [''operator'' \<mapsto> (\<lambda>ns w. Returns (startOperator P ns w)),
      ''webhook-bootstrapper'' \<mapsto> (\<lambda>ns w. Returns (startWebhookBoostrapper P ns w)),
      ''webhook-server'' \<mapsto> startWebhookServer P flags]"

definition getSubcommand ::
  "'w platform \<Rightarrow> server_flags \<Rightarrow> string \<Rightarrow> go_error + (string \<Rightarrow> 'w \<Rightarrow> ((go_error + nat) \<times> 'w) run)" where
  "getSubcommand P flags name =
     (case subcmdCallbacks P flags name of
        None \<Rightarrow> Inl (ErrMsg ''subcommand must be operator, webhook-bootstrapper, or webhook-server'')
      | Some f \<Rightarrow> Inr f)"

text \<open>How the process, or one of its goroutines, ends: by \<open>os.Exit\<close> with a code, or by returning.\<close>

datatype ending = Exit int | Ended

definition startSubCommand ::
  "'w platform \<Rightarrow> string \<Rightarrow> (string \<Rightarrow> 'w \<Rightarrow> ((go_error + nat) \<times> 'w) run) \<Rightarrow> 'w \<Rightarrow> (ending \<times> 'w) run" where
  "startSubCommand P ns cmd w =
     (case cmd ns w of
        Panics \<Rightarrow> Panics
      | Diverges \<Rightarrow> Diverges
      | Returns (Inl err, w1) \<Rightarrow> Returns (Exit 1, w1)
      | Returns (Inr mgr, w1) \<Rightarrow>
          (case pf_Start P mgr w1 of (Some err, w2) \<Rightarrow> Returns (Exit 1, w2) | (None, w2) \<Rightarrow> Returns (Ended, w2)))"

definition startComponent :: "'w platform \<Rightarrow> server_flags \<Rightarrow> string \<Rightarrow> string \<Rightarrow> 'w \<Rightarrow> (ending \<times> 'w) run" where
  "startComponent P flags ns name w =
     (case getSubcommand P flags name of
        Inl err \<Rightarrow> Returns (Ended, w)
      | Inr subCmd \<Rightarrow> startSubCommand P ns subCmd w)"

definition isDebugFlagSet :: "'w platform \<Rightarrow> bool" where
  "isDebugFlagSet P \<longleftrightarrow> pf_Getenv P ''DEBUG_OPERATOR'' = ''true''"

text \<open>The two goroutines run \<open>startComponent\<close> on their name.\<close>

definition startWebhookAndBootstrapperIfDebugFlagSet :: "'w platform \<Rightarrow> string \<Rightarrow> 'w \<Rightarrow> 'w" where
  "startWebhookAndBootstrapperIfDebugFlagSet P ns w =
     (if isDebugFlagSet P
      then pf_Go P (StartComponent ''webhook-server'' ns) (pf_Go P (StartComponent ''webhook-bootstrapper'' ns) w)
      else w)"

text \<open>\<open>init\<close>: \<open>utilruntime.Must\<close> panics on an error.\<close>

fun init_schemes :: "'w platform \<Rightarrow> string list \<Rightarrow> 'w \<Rightarrow> 'w run" where
  "init_schemes P [] w = Returns w"
| "init_schemes P (s # ss) w =
     (case pf_AddToScheme P s w of (Some err, w1) \<Rightarrow> Panics | (None, w1) \<Rightarrow> init_schemes P ss w1)"

definition main_init :: "'w platform \<Rightarrow> 'w \<Rightarrow> 'w run" where
  "main_init P w = init_schemes P [''client-go'', ''dynatrace.com/v1alpha1'', ''networking.istio.io/v1alpha3''] w"

definition main :: "'w platform \<Rightarrow> server_flags \<Rightarrow> string list \<Rightarrow> 'w \<Rightarrow> (ending \<times> 'w) run" where
  "main P flags args w =
     (let subcmd = (case args of [] \<Rightarrow> ''operator'' | a # _ \<Rightarrow> a)
      in case subcmdCallbacks P flags subcmd of
        None \<Rightarrow> Returns (Exit 1, w)
      | Some subcmdFn \<Rightarrow>
     (let namespace = pf_Getenv P ''POD_NAMESPACE''
      in case pf_GetConfig P w of
        (Some err, w1) \<Rightarrow> Returns (Exit 1, w1)
      | (None, w1) \<Rightarrow>
     (case subcmdFn namespace w1 of
        Panics \<Rightarrow> Panics
      | Diverges \<Rightarrow> Diverges
      | Returns (Inl err, w2) \<Rightarrow> Returns (Exit 1, w2)
      | Returns (Inr mgr, w2) \<Rightarrow>
          (case pf_Start P mgr (startWebhookAndBootstrapperIfDebugFlagSet P namespace w2) of
             (Some err, w3) \<Rightarrow> Returns (Exit 1, w3)
           | (None, w3) \<Rightarrow> Returns (Ended, w3)))))"

end
