(* ===== verification/Startup_Props.thy ===== *)
theory Startup_Props
  imports Startup Bootstrapper_Props Oneagent_Props
begin

text \<open>
  The webhook server's wait for its certificate ends, and at once on a webhook that is set up
  (\<open>Bootstrapper_Props\<close>); the operator registers the controllers with what they watch; the process
  ends by its exit code.
\<close>

section \<open>The wait for the certificate\<close>

text \<open>
  The clock of the process, \<open>clock\<close> in the world: \<open>Now\<close> reads it, no call turns it back, and a sleep
  of \<open>d\<close> lasts at least \<open>d\<close>.
\<close>

definition clock_laws :: "'w platform \<Rightarrow> ('w \<Rightarrow> time) \<Rightarrow> bool" where
  "clock_laws P clock \<longleftrightarrow>
     (\<forall>w. fst (pf_Now P w) = clock w \<and> clock w \<le> clock (snd (pf_Now P w))) \<and>
     (\<forall>f w. clock w \<le> clock (snd (pf_Stat P f w))) \<and>
     (\<forall>d w. clock w + d \<le> clock (pf_Sleep P d w))"

lemma clock_lawsD:
  assumes "clock_laws P clock"
  shows "pf_Now P w = (t, w') \<Longrightarrow> t = clock w \<and> clock w \<le> clock w'"
    and "pf_Stat P f w = (e, w') \<Longrightarrow> clock w \<le> clock w'"
    and "clock w + d \<le> clock (pf_Sleep P d w)"
  using assms unfolding clock_laws_def by (metis fst_conv snd_conv)+

text \<open>The loop with at most \<open>n\<close> rounds.\<close>

fun wait_rounds ::
  "nat \<Rightarrow> 'w platform \<Rightarrow> string \<Rightarrow> time \<Rightarrow> 'w \<Rightarrow> (go_error option \<times> 'w) option" where
  "wait_rounds 0 P f threshold w = None"
| "wait_rounds (Suc n) P f threshold w =
     (let (now, w1) = pf_Now P w
      in if now < threshold
         then (case pf_Stat P f w1 of
                 (Some err, w2) \<Rightarrow>
                   (if pf_IsNotExist P err
                    then wait_rounds n P f threshold (pf_Sleep P (10 * Second) w2)
                    else Some (Some err, w2))
               | (None, w2) \<Rightarrow> Some (None, w2))
         else Some (None, w1))"

lemma wait_rounds_sound: "wait_rounds n P f t w = Some x \<Longrightarrow> wait_for_certs P f t w = Some x"
proof (induction n arbitrary: w)
  case 0
  then show ?case by simp
next
  case (Suc n)
  from Suc.prems show ?case
    by (subst wait_for_certs.simps)
      (auto simp: Let_def intro: Suc.IH split: prod.splits option.splits if_splits)
qed

text \<open>Each round that is not the last one moves the clock by the sleep.\<close>

lemma wait_rounds_end:
  assumes laws: "clock_laws P clock"
  shows "t \<le> clock w + int n * (10 * Second) \<Longrightarrow> \<exists>x. wait_rounds (Suc n) P f t w = Some x"
proof (induction n arbitrary: w)
  case 0
  obtain now w1 where n: "pf_Now P w = (now, w1)" by fastforce
  from clock_lawsD(1) [OF laws n] 0 n show ?case by simp
next
  case (Suc n)
  obtain now w1 where n: "pf_Now P w = (now, w1)" by fastforce
  obtain e w2 where e: "pf_Stat P f w1 = (e, w2)" by fastforce
  have "clock w + 10 * Second \<le> clock (pf_Sleep P (10 * Second) w2)"
    using clock_lawsD(1) [OF laws n] clock_lawsD(2) [OF laws e] clock_lawsD(3) [OF laws, of w2 "10 * Second"] by linarith
  with Suc.prems have "t \<le> clock (pf_Sleep P (10 * Second) w2) + int n * (10 * Second)"
    by (simp add: algebra_simps)
  from Suc.IH [OF this] n e show ?case by (auto simp: Let_def split: option.splits)
qed

text \<open>
  The calls of the server before and in the loop: \<open>slept\<close> sums up the sleeps, which nothing else
  touches, setting the names of the certificates does not turn back the clock, and a file that can be
  looked at is \<open>there\<close>.
\<close>

definition server_laws :: "'w platform \<Rightarrow> ('w \<Rightarrow> time) \<Rightarrow> ('w \<Rightarrow> time) \<Rightarrow> string \<Rightarrow> ('w \<Rightarrow> bool) \<Rightarrow> bool" where
  "server_laws P clock slept f there \<longleftrightarrow> clock_laws P clock \<and>
     (\<forall>m dir key crt w. clock w \<le> clock (pf_SetCerts P m dir key crt w) \<and> slept (pf_SetCerts P m dir key crt w) = slept w) \<and>
     (\<forall>opts. keeps slept (pf_NewManager P opts)) \<and> keeps slept (pf_Now P) \<and> keeps slept (pf_Stat P f) \<and>
     (\<forall>d w. slept (pf_Sleep P d w) = slept w + d) \<and>
     (\<forall>w. fst (pf_Stat P f w) = None \<longrightarrow> there (snd (pf_Stat P f w)))"

lemma server_lawsD:
  assumes "server_laws P clock slept f there"
  shows "clock_laws P clock" and "clock w \<le> clock (pf_SetCerts P m dir key crt w)"
    and "slept (pf_SetCerts P m dir key crt w) = slept w"
    and "pf_NewManager P opts w = (r, w') \<Longrightarrow> slept w' = slept w"
    and "pf_Now P w = (t, w') \<Longrightarrow> slept w' = slept w"
    and "pf_Stat P f w = (e, w') \<Longrightarrow> slept w' = slept w \<and> (e = None \<longrightarrow> there w')"
    and "slept (pf_Sleep P d w) = slept w + d"
  using assms unfolding server_laws_def keeps_def by (metis fst_conv snd_conv)+

text \<open>How it ends: the certificate was seen, the time is over, or the file cannot be looked at; and
  every round but the last sleeps once.\<close>

lemma wait_rounds_result:
  assumes laws: "server_laws P clock slept f there"
  shows "wait_rounds (Suc n) P f t w = Some (e, w') \<Longrightarrow>
     (case e of None \<Rightarrow> there w' \<or> t \<le> clock w' | Some err \<Rightarrow> \<not> pf_IsNotExist P err) \<and>
     slept w' \<le> slept w + int n * (10 * Second)"
proof (induction n arbitrary: w)
  case 0
  obtain now w1 where n: "pf_Now P w = (now, w1)" by fastforce
  obtain s w2 where s: "pf_Stat P f w1 = (s, w2)" by fastforce
  note facts = clock_lawsD(1) [OF server_lawsD(1) [OF laws] n] server_lawsD(5) [OF laws n] server_lawsD(6) [OF laws s]
  from 0 n s facts show ?case by (auto split: if_splits option.splits)
next
  case (Suc n)
  obtain now w1 where n: "pf_Now P w = (now, w1)" by fastforce
  obtain s w2 where s: "pf_Stat P f w1 = (s, w2)" by fastforce
  note facts = clock_lawsD(1) [OF server_lawsD(1) [OF laws] n] server_lawsD(5) [OF laws n] server_lawsD(6) [OF laws s]
  have pos: "0 \<le> int (Suc n) * (10 * Second)" by (simp add: Second_def)
  show ?case
  proof (cases "now < t \<and> (\<exists>err. s = Some err \<and> pf_IsNotExist P err)")
    case True
    with Suc.prems n s have r: "wait_rounds (Suc n) P f t (pf_Sleep P (10 * Second) w2) = Some (e, w')"
      by (auto simp del: wait_rounds.simps(2) simp: wait_rounds.simps(2) [of "Suc n"])
    have "slept (pf_Sleep P (10 * Second) w2) = slept w + 10 * Second"
      using facts server_lawsD(7) [OF laws] by simp
    with Suc.IH [OF r] show ?thesis by (simp add: algebra_simps)
  next
    case False
    with Suc.prems n s facts have "(case e of None \<Rightarrow> there w' \<or> t \<le> clock w' | Some err \<Rightarrow> \<not> pf_IsNotExist P err) \<and>
        slept w' = slept w"
      by (auto simp del: wait_rounds.simps(2) simp: wait_rounds.simps(2) [of "Suc n"] split: if_splits option.splits)
    with pos show ?thesis by linarith
  qed
qed

text \<open>A certificate that is there at the first look ends the wait without a sleep.\<close>

lemma wait_ends_at_once:
  assumes "pf_Now P w = (now, w1)" and "now < t" and "pf_Stat P f w1 = (None, w2)"
  shows "wait_for_certs P f t w = Some (None, w2)"
  using assms by (subst wait_for_certs.simps) simp

lemma default_cert_path:
  "path_Join (fl_certsDir default_flags) (fl_certFile default_flags) = Bootstrapper.certsDir @ ''/tls.crt''"
  "path_Join (fl_certsDir default_flags) (fl_keyFile default_flags) = Bootstrapper.certsDir @ ''/tls.key''"
  by (simp_all add: path_Join_def path_Clean_def default_flags_def Bootstrapper.certsDir_def)

section \<open>What is registered\<close>

datatype registration =
    Controller nat string reconciler
  | Watches nat string watch_source watch_handler
  | Runnable nat reconcile_nodes

text \<open>\<open>regs\<close>: what the managers were told, in order.\<close>

definition register_laws :: "'w platform \<Rightarrow> ('w \<Rightarrow> registration list) \<Rightarrow> bool" where
  "register_laws P regs \<longleftrightarrow>
     (\<forall>m c r. writes regs (pf_NewController P m c r) (\<lambda>l. l @ [Controller m c r])) \<and>
     (\<forall>m c s h. writes regs (pf_Watch P m c s h) (\<lambda>l. l @ [Watches m c s h])) \<and>
     (\<forall>m r. writes regs (pf_AddRunnable P m r) (\<lambda>l. l @ [Runnable m r])) \<and>
     (\<forall>opts. keeps regs (pf_NewManager P opts)) \<and>
     (\<forall>m n. keeps regs (pf_AddHealthzCheck P m n)) \<and> (\<forall>m n. keeps regs (pf_AddReadyzCheck P m n)) \<and>
     keeps regs (pf_IstioNewForConfig P)"

lemma register_lawsD:
  assumes "register_laws P regs"
  shows "pf_NewController P m c r w = (None, w') \<Longrightarrow> regs w' = regs w @ [Controller m c r]"
    and "pf_Watch P m c s h w = (None, w') \<Longrightarrow> regs w' = regs w @ [Watches m c s h]"
    and "pf_AddRunnable P m n w = (None, w') \<Longrightarrow> regs w' = regs w @ [Runnable m n]"
    and "pf_NewManager P opts w = (g, w') \<Longrightarrow> regs w' = regs w"
    and "pf_AddHealthzCheck P m c w = (e, w') \<Longrightarrow> regs w' = regs w"
    and "pf_AddReadyzCheck P m c w = (e, w') \<Longrightarrow> regs w' = regs w"
    and "pf_IstioNewForConfig P w = (e, w') \<Longrightarrow> regs w' = regs w"
  using assms unfolding register_laws_def writes_def keeps_def by (metis fst_conv snd_conv)+

text \<open>The registrations of each package; \<open>istio\<close> tells whether the Istio controller is there.\<close>

definition oneagent_registrations :: "nat \<Rightarrow> bool \<Rightarrow> registration list" where
  "oneagent_registrations m istio =
     [Controller m ''oneagent-controller'' (RecOneAgent oneagent_reconciler istio),
      Watches m ''oneagent-controller'' (SourceKind ''OneAgent'') EnqueueRequestForObject,
      Watches m ''oneagent-controller'' (SourceKind ''DaemonSet'') (EnqueueRequestForOwner ''OneAgent'')]"

definition apm_registrations :: "nat \<Rightarrow> bool \<Rightarrow> registration list" where
  "apm_registrations m istio =
     [Controller m ''oneagentapm-controller'' (RecOneAgentAPM apm_reconciler istio),
      Watches m ''oneagentapm-controller'' (SourceKind ''OneAgentAPM'') EnqueueRequestForObject]"

definition namespace_registrations :: "nat \<Rightarrow> string \<Rightarrow> registration list" where
  "namespace_registrations m ns =
     [Controller m ''namespace-controller'' (RecNamespaces ns),
      Watches m ''namespace-controller'' (SourceKind ''Namespace'') EnqueueRequestForObject]"

definition nodes_registrations :: "'w platform \<Rightarrow> nat \<Rightarrow> string \<Rightarrow> registration list" where
  "nodes_registrations P m ns =
     [Runnable m \<lparr>rn_namespace = ns, rn_local = (pf_Getenv P ''RUN_LOCAL'' = ''true'')\<rparr>]"

lemma NewController_keeps:
  "register_laws P regs \<Longrightarrow> NewController P w = (i, w') \<Longrightarrow> regs w' = regs w"
  by (auto simp: NewController_def initialiseIstioClient_def dest: register_lawsD(7) split: prod.splits option.splits)

lemma Add_oneagent_registers:
  assumes "register_laws P regs"
  shows "Add_oneagent P m ns w = (None, w') \<Longrightarrow> regs w' = regs w @ oneagent_registrations m (fst (NewController P w))"
  by (auto simp: Add_oneagent_def NewOneAgentReconciler_def add_oneagent_def oneagent_registrations_def Let_def
      dest!: NewController_keeps [OF assms] register_lawsD(1,2) [OF assms] split: prod.splits option.splits)

lemma Add_oneagentapm_registers:
  assumes "register_laws P regs"
  shows "Add_oneagentapm P m ns w = (None, w') \<Longrightarrow> regs w' = regs w @ apm_registrations m (fst (NewController P w))"
  by (auto simp: Add_oneagentapm_def add_oneagentapm_def apm_registrations_def Let_def
      dest!: NewController_keeps [OF assms] register_lawsD(1,2) [OF assms] split: prod.splits option.splits)

lemma Add_namespace_registers:
  assumes "register_laws P regs"
  shows "Add_namespace P m ns w = (None, w') \<Longrightarrow> regs w' = regs w @ namespace_registrations m ns"
  by (auto simp: Add_namespace_def add_namespace_def namespace_registrations_def Let_def
      dest!: register_lawsD(1,2) [OF assms] split: prod.splits option.splits)

lemma Add_nodes_registers:
  assumes "register_laws P regs"
  shows "Add_nodes P m ns w = (None, w') \<Longrightarrow> regs w' = regs w @ nodes_registrations P m ns"
  by (auto simp: Add_nodes_def nodes_registrations_def dest!: register_lawsD(3) [OF assms])

lemma startOperator_registers:
  assumes "register_laws P regs" and "startOperator P ns w = (Inr m, w')"
  shows "\<exists>i j. regs w' = regs w @ oneagent_registrations m i @ apm_registrations m j @
           namespace_registrations m ns @ nodes_registrations P m ns"
  using assms(2)
  by (auto simp: startOperator_def Let_def split: prod.splits sum.splits option.splits
      dest!: Add_oneagent_registers [OF assms(1)] Add_oneagentapm_registers [OF assms(1)]
        Add_namespace_registers [OF assms(1)] Add_nodes_registers [OF assms(1)] register_lawsD(4-6) [OF assms(1)])
    (intro exI, rule refl)

section \<open>The instances of the laws\<close>

text \<open>A platform on any world with a clock, files and registrations, and one such world.\<close>

definition plain_platform ::
  "('w \<Rightarrow> time) \<Rightarrow> (int \<Rightarrow> 'w \<Rightarrow> 'w) \<Rightarrow> ('w \<Rightarrow> string \<rightharpoonup> string) \<Rightarrow> (registration \<Rightarrow> 'w \<Rightarrow> 'w) \<Rightarrow> 'w platform" where
  "plain_platform clock tick files register =
     \<lparr>pf_AddToScheme = (\<lambda>s w. (None, w)), pf_GetConfig = (\<lambda>w. (None, w)), pf_NewManager = (\<lambda>opts w. (Inr 0, w)),
      pf_AddHealthzCheck = (\<lambda>m n w. (None, w)), pf_AddReadyzCheck = (\<lambda>m n w. (None, w)),
      pf_NewController = (\<lambda>m c r w. (None, register (Controller m c r) w)),
      pf_Watch = (\<lambda>m c s h w. (None, register (Watches m c s h) w)),
      pf_AddRunnable = (\<lambda>m r w. (None, register (Runnable m r) w)),
      pf_IstioNewForConfig = (\<lambda>w. (None, w)),
      pf_SetCerts = (\<lambda>m dir key crt w. w), pf_Register = (\<lambda>m path h w. w),
      pf_GetPodImages = (\<lambda>ns n w. (Inr [''image''], w)), pf_Go = (\<lambda>g w. w), pf_Start = (\<lambda>m w. (None, w)),
      pf_Getenv = (\<lambda>k. []), pf_Now = (\<lambda>w. (clock w, w)), pf_Sleep = tick,
      pf_Stat = (\<lambda>f w. (if files w f = None then Some ErrNotFound else None, w)),
      pf_IsNotExist = (\<lambda>e. True)\<rparr>"

lemma plain_platform_simps [simp]:
  "pf_Now (plain_platform clock tick files register) = (\<lambda>w. (clock w, w))"
  "pf_Sleep (plain_platform clock tick files register) = tick"
  "pf_Stat (plain_platform clock tick files register) =
     (\<lambda>f w. (if files w f = None then Some ErrNotFound else None, w))"
  "pf_IsNotExist (plain_platform clock tick files register) = (\<lambda>e. True)"
  "pf_Getenv (plain_platform clock tick files register) = (\<lambda>k. [])"
  by (simp_all add: plain_platform_def)

record process_world =
  pw_clock :: time
  pw_files :: "string \<rightharpoonup> string"
  pw_regs :: "registration list"
  pw_slept :: time

definition toy_platform :: "process_world platform" where
  "toy_platform =
     plain_platform pw_clock (\<lambda>d w. w\<lparr>pw_clock := pw_clock w + \<bar>d\<bar>, pw_slept := pw_slept w + d\<rparr>) pw_files
       (\<lambda>r w. w\<lparr>pw_regs := pw_regs w @ [r]\<rparr>)"

definition fresh_process :: process_world where
  "fresh_process = \<lparr>pw_clock = 0, pw_files = Map.empty, pw_regs = [], pw_slept = 0\<rparr>"

lemma toy_clock_laws: "clock_laws toy_platform pw_clock"
  by (simp add: clock_laws_def toy_platform_def abs_ge_self)

text \<open>Files never come.\<close>

definition bare_platform :: "process_world platform" where
  "bare_platform =
     plain_platform pw_clock (\<lambda>d w. w\<lparr>pw_clock := pw_clock w + \<bar>d\<bar>, pw_slept := pw_slept w + d\<rparr>) (\<lambda>_. Map.empty) (\<lambda>r w. w)"

lemma bare_clock_laws: "clock_laws bare_platform pw_clock"
  by (simp add: clock_laws_def bare_platform_def abs_ge_self)

lemma bare_server_laws: "server_laws bare_platform pw_clock pw_slept f (\<lambda>w. False)"
  by (simp add: server_laws_def bare_clock_laws keeps_def) (simp add: bare_platform_def plain_platform_def)

lemma toy_register_laws: "register_laws toy_platform pw_regs"
  by (simp add: register_laws_def writes_def keeps_def toy_platform_def plain_platform_def)

lemma toy_operator_starts: "\<exists>w'. startOperator toy_platform ns w = (Inr 0, w')"
  by (simp add: startOperator_def toy_platform_def plain_platform_def Add_oneagent_def NewOneAgentReconciler_def add_oneagent_def
      Add_oneagentapm_def add_oneagentapm_def Add_namespace_def add_namespace_def Add_nodes_def
      NewController_def initialiseIstioClient_def Let_def)

section \<open>The server after the bootstrapper\<close>

text \<open>\<open>Stat\<close> changes nothing, and says that a file does not exist only of one that does not.\<close>

definition stat_laws :: "'w platform \<Rightarrow> ('w \<Rightarrow> deployment) \<Rightarrow> bool" where
  "stat_laws P v \<longleftrightarrow>
     keeps v (pf_Now P) \<and>
     (\<forall>f w. case pf_Stat P f w of (None, _) \<Rightarrow> True | (Some e, _) \<Rightarrow> pf_IsNotExist P e \<longrightarrow> v_files (v w) f = None)"

lemma no_wait_for_a_file:
  assumes laws: "stat_laws P v" and "v_files (v w) f \<noteq> None" and n: "pf_Now P w = (now, w1)"
  shows "wait_for_certs P f t w = Some (if now < t then pf_Stat P f w1 else (None, w1))"
proof -
  obtain e w2 where s: "pf_Stat P f w1 = (e, w2)" by fastforce
  have "v w1 = v w" using laws n by (auto simp: stat_laws_def dest: keepsD)
  with assms(2) laws s have "\<not> pf_IsNotExist P err" if "e = Some err" for err
    using that by (force simp: stat_laws_def split: prod.splits option.splits)
  with n s show ?thesis by (subst wait_for_certs.simps) (auto split: option.split)
qed

text \<open>The reconciler that \<open>bootstrapper.AddToManager\<close> registers.\<close>

definition bootstrapper_reconciler :: "string \<Rightarrow> ReconcileWebhook" where
  "bootstrapper_reconciler ns = \<lparr>rw_namespace = ns, rw_certsDir = Bootstrapper.certsDir, rw_now = zero_time\<rparr>"

lemma AddToManager_bootstrapper_reconciler:
  "AddToManager_bootstrapper P m ns w = add_webhook P m (bootstrapper_reconciler ns) w"
  by (simp add: AddToManager_bootstrapper_def bootstrapper_reconciler_def)

lemma bootstrapper_leaves_files:
  assumes "webhook_laws B ns v" and "crypto_laws (bc_crypto B) signs"
    and "Reconcile_webhook B (bootstrapper_reconciler ns) w = (None, w')"
  shows "v_files (v w') (Bootstrapper.certsDir @ ''/tls.crt'') \<noteq> None"
    "v_files (v w') (Bootstrapper.certsDir @ ''/tls.key'') \<noteq> None"
proof -
  let ?r = "bootstrapper_reconciler ns"
  have "webhook_laws B (rw_namespace ?r) v" using assms(1) by (simp add: bootstrapper_reconciler_def)
  from webhook_run_sets_up [OF this assms(2,3)]
  have su: "set_up B Bootstrapper.certsDir (certs_instant B ?r w) (v w')" by (simp add: bootstrapper_reconciler_def)
  then have "server_ok (bc_crypto B) (secret_data (v w')) (certs_instant B ?r w)" by (simp add: set_up_def)
  note present = server_ok_present [OF this]
  from su present show "v_files (v w') (Bootstrapper.certsDir @ ''/tls.crt'') \<noteq> None"
    "v_files (v w') (Bootstrapper.certsDir @ ''/tls.key'') \<noteq> None" by (simp_all add: set_up_def files_agree_def)
qed

section \<open>The certificates over time\<close>

text \<open>The root and the server certificate of the data have not expired.\<close>

definition certificates_valid :: "'w crypto \<Rightarrow> (string \<rightharpoonup> string) \<Rightarrow> time \<Rightarrow> bool" where
  "certificates_valid Y d t \<longleftrightarrow>
     (case (stored_cert Y d ''ca.crt'', stored_cert Y d ''tls.crt'') of
        (Some ca, Some crt) \<Rightarrow> t \<le> x_NotAfter ca \<and> t \<le> x_NotAfter crt
      | _ \<Rightarrow> False)"

lemma set_up_valid:
  "set_up B dir now d \<Longrightarrow> t \<le> now + 4 * Hour \<Longrightarrow> certificates_valid (bc_crypto B) (secret_data d) t"
proof -
  assume "set_up B dir now d" and t: "t \<le> now + 4 * Hour"
  then have ok: "root_ok (bc_crypto B) (secret_data d) now" "server_ok (bc_crypto B) (secret_data d) now"
    by (simp_all add: set_up_def)
  obtain ca where ca: "stored_cert (bc_crypto B) (secret_data d) ''ca.crt'' = Some ca" "now + 4 * Hour \<le> x_NotAfter ca"
    using ok(1) by (auto simp: root_ok_def split: option.splits)
  obtain crt where crt: "stored_cert (bc_crypto B) (secret_data d) ''tls.crt'' = Some crt" "now + 4 * Hour \<le> x_NotAfter crt"
    using ok(2) by (auto simp: server_ok_def split: option.splits)
  from ca crt t show "certificates_valid (bc_crypto B) (secret_data d) t" by (simp add: certificates_valid_def)
qed

text \<open>Of instants that grow beyond every bound, one is the last before \<open>t\<close>.\<close>

lemma last_before:
  fixes c :: "nat \<Rightarrow> int"
  assumes "c 0 \<le> t" and "\<exists>n. t \<le> c (Suc n)"
  shows "\<exists>n. c n \<le> t \<and> t \<le> c (Suc n)"
proof -
  from iffD1 [OF exists_least_iff assms(2)] obtain k where k: "t \<le> c (Suc k)" "\<And>i. i < k \<Longrightarrow> \<not> t \<le> c (Suc i)"
    by blast
  show ?thesis
  proof (cases k)
    case 0
    with k(1) assms(1) show ?thesis by blast
  next
    case (Suc j)
    with k(2) [of j] have "c (Suc j) \<le> t" by simp
    with k(1) Suc show ?thesis by blast
  qed
qed

lemma request_step:
  "fst (artificial_request ns start (Suc n)) = fst (artificial_request ns start n) + 5 * Minute"
  by (simp add: artificial_request_def algebra_simps)

lemma requests_unbounded: "\<exists>n. t \<le> fst (artificial_request ns start (Suc n))"
proof -
  have "t \<le> fst (artificial_request ns start (Suc (nat \<bar>t - start\<bar>)))"
  proof -
    have "\<bar>t - start\<bar> \<le> \<bar>t - start\<bar> * 300000000000" "t - start \<le> \<bar>t - start\<bar>" by simp_all
    then have "t \<le> start + (310000000000 + \<bar>t - start\<bar> * 300000000000)" by linarith
    then show ?thesis by (simp add: artificial_request_def Minute_def Second_def algebra_simps)
  qed
  then show ?thesis ..
qed

text \<open>Runs one after the other on the concrete cluster, each looking at the clock when it is asked for.\<close>

definition toy_reconciler :: "nat \<Rightarrow> ReconcileWebhook" where
  "toy_reconciler n =
     (bootstrapper_reconciler ''dynatrace'')\<lparr>rw_now := fst (artificial_request ''dynatrace'' Hour n)\<rparr>"

primrec toy_runs :: "nat \<Rightarrow> deployment" where
  "toy_runs 0 = nothing_deployed"
| "toy_runs (Suc n) = snd (Reconcile_webhook toy_cluster (toy_reconciler n) (toy_runs n))"

lemma toy_runs_ok: "Reconcile_webhook toy_cluster (toy_reconciler n) (toy_runs n) = (None, toy_runs (Suc n))"
  using toy_webhook_run [of "toy_reconciler n" "toy_runs n"] by auto

lemma toy_runs_instant:
  "certs_instant toy_cluster (toy_reconciler n) d = fst (artificial_request ''dynatrace'' Hour n)"
proof -
  have "0 < fst (artificial_request ''dynatrace'' Hour n)"
    by (simp add: artificial_request_def Minute_def Second_def Hour_def)
  then show ?thesis
    by (simp add: certs_instant_def toy_reconciler_def IsZero_def zero_time_def)
qed

section \<open>Properties\<close>

text \<open>C12: The start of the webhook server always ends, and waits for its certificate for at most five
  minutes of sleep, however fast or slow the clock and the calls are.  When the manager cannot be made
  the server is not started; else the wait ends with the certificate there, or with five minutes gone by
  on the clock since the manager was made (the time out is not an error, and the server goes on without
  a certificate), and what is left is the registration of the handlers; or with the error of a file that
  cannot be looked at, never with that of a missing one.
\<close>

theorem wait_for_certs_ends:
  assumes "server_laws P clock slept (path_Join (fl_certsDir flags) (fl_certFile flags)) there"
  shows "startWebhookServer P flags ns w \<noteq> Diverges \<and>
    (case pf_NewManager P (leader_options ns '':8383'' ''dynatrace-oneagent-webhook-server-lock'' 8443 []) w of
       (Inl err, w1) \<Rightarrow> startWebhookServer P flags ns w = Returns (Inl err, w1)
     | (Inr mgr, w1) \<Rightarrow>
         (\<exists>e w'. slept w' \<le> slept w + 5 * Minute \<and>
           (case e of
              Some err \<Rightarrow> \<not> pf_IsNotExist P err \<and> startWebhookServer P flags ns w = Returns (Inl err, w')
            | None \<Rightarrow> (there w' \<or> clock w1 + 5 * Minute \<le> clock w') \<and>
                startWebhookServer P flags ns w =
                  (case AddToManager_server P mgr ns w' of
                     Panics \<Rightarrow> Panics
                   | Diverges \<Rightarrow> Diverges
                   | Returns (Some err, w5) \<Rightarrow> Returns (Inl err, w5)
                   | Returns (None, w5) \<Rightarrow> Returns (Inr mgr, w5)))))"
proof (cases "pf_NewManager P (leader_options ns '':8383'' ''dynatrace-oneagent-webhook-server-lock'' 8443 []) w")
  case (Pair r w1)
  show ?thesis
  proof (cases r)
    case (Inl err)
    with Pair show ?thesis by (simp add: startWebhookServer_def)
  next
    case (Inr mgr)
    let ?f = "path_Join (fl_certsDir flags) (fl_certFile flags)"
    let ?w2 = "pf_SetCerts P mgr (fl_certsDir flags) (fl_keyFile flags) (fl_certFile flags) w1"
    obtain now w3 where n: "pf_Now P ?w2 = (now, w3)" by fastforce
    note clocks = clock_lawsD(1) [OF server_lawsD(1) [OF assms] n]
      server_lawsD(2) [OF assms, of w1 mgr "fl_certsDir flags" "fl_keyFile flags" "fl_certFile flags"]
    note sleeps = server_lawsD(4) [OF assms Pair] server_lawsD(3) [OF assms] server_lawsD(5) [OF assms n]
    have "now + 5 * Minute \<le> clock w3 + int 30 * (10 * Second)" using clocks by (simp add: Minute_def)
    from wait_rounds_end [OF server_lawsD(1) [OF assms] this, of ?f]
    obtain e w4 where r: "wait_rounds (Suc 30) P ?f (now + 5 * Minute) w3 = Some (e, w4)" by force
    from wait_rounds_result [OF assms r] sleeps have slept: "slept w4 \<le> slept w + 5 * Minute" by (simp add: Minute_def)
    from wait_rounds_result [OF assms r] clocks have ends:
      "case e of None \<Rightarrow> there w4 \<or> clock w1 + 5 * Minute \<le> clock w4 | Some err \<Rightarrow> \<not> pf_IsNotExist P err"
      by (auto split: option.splits)
    have start: "startWebhookServer P flags ns w =
        (case e of Some err \<Rightarrow> Returns (Inl err, w4)
         | None \<Rightarrow> (case AddToManager_server P mgr ns w4 of
             Panics \<Rightarrow> Panics
           | Diverges \<Rightarrow> Diverges
           | Returns (Some err, w5) \<Rightarrow> Returns (Inl err, w5)
           | Returns (None, w5) \<Rightarrow> Returns (Inr mgr, w5)))"
      by (simp add: startWebhookServer_def Pair Inr n wait_rounds_sound [OF r] split: option.split)
    then have "startWebhookServer P flags ns w \<noteq> Diverges"
      by (auto simp: AddToManager_server_def split: option.splits prod.splits sum.splits list.splits)
    with slept ends start show ?thesis
      by (simp add: Pair Inr) (intro exI [of _ e] exI [of _ w4], simp split: option.split_asm)
  qed
qed

text \<open>Without the file the wait runs to its time out, and the server starts without its certificate.\<close>

theorem wait_for_certs_ends_witness:
  "\<exists>w'. 5 * Minute \<le> pw_clock w' \<and> pw_slept w' \<le> 5 * Minute \<and>
     startWebhookServer bare_platform default_flags ''dynatrace'' fresh_process = Returns (Inr 0, w')"
proof -
  have m: "pf_NewManager bare_platform = (\<lambda>opts w. (Inr 0, w))" "pf_IsNotExist bare_platform = (\<lambda>e. True)"
    by (simp_all add: bare_platform_def plain_platform_def)
  have a: "AddToManager_server bare_platform m ns w = Returns (None, w)" for m ns w
    by (simp add: AddToManager_server_def bare_platform_def plain_platform_def)
  from wait_for_certs_ends [OF bare_server_laws, of default_flags "''dynatrace''" fresh_process]
  show ?thesis by (auto simp: m a fresh_process_def split: option.splits)
qed

text \<open>C15: The operator that starts without an error has registered its four parts and what they watch,
  in this order and nothing else: the controllers of OneAgent (which also follows the DaemonSets it
  owns), OneAgentAPM and namespaces, and the runnable of the nodes.
\<close>

theorem operator_registers_its_controllers:
  assumes "register_laws P regs" and "startOperator P ns w = (Inr m, w')"
  shows "\<exists>i j. regs w' = regs w @ oneagent_registrations m i @ apm_registrations m j @
           namespace_registrations m ns @ nodes_registrations P m ns"
  using startOperator_registers [OF assms] .

theorem operator_registers_its_controllers_witness:
  "\<exists>w'. startOperator toy_platform ''dynatrace'' fresh_process = (Inr 0, w') \<and> length (pw_regs w') = 8"
proof -
  obtain w' where w': "startOperator toy_platform ''dynatrace'' fresh_process = (Inr 0, w')"
    using toy_operator_starts by blast
  from operator_registers_its_controllers [OF toy_register_laws w'] w' show ?thesis
    by (auto simp: fresh_process_def oneagent_registrations_def apm_registrations_def namespace_registrations_def
        nodes_registrations_def)
qed

text \<open>C5: After an error-free run of the bootstrapper that \<open>AddToManager\<close> registers, the webhook server with
  its default flags does not wait: the loop ends with the first look at the clock and the file, without
  a sleep; and the private key it will need beside the certificate is there as well.
\<close>

theorem server_finds_the_files_of_the_bootstrapper:
  assumes "webhook_laws B ns v" and "crypto_laws (bc_crypto B) signs" and "stat_laws P v"
    and "Reconcile_webhook B (bootstrapper_reconciler ns) w = (None, w1)" and "pf_Now P w1 = (now, w2)"
  shows "wait_for_certs P (path_Join (fl_certsDir default_flags) (fl_certFile default_flags)) t w1 =
           Some (if now < t then pf_Stat P (path_Join (fl_certsDir default_flags) (fl_certFile default_flags)) w2
                 else (None, w2)) \<and>
         v_files (v w1) (path_Join (fl_certsDir default_flags) (fl_keyFile default_flags)) \<noteq> None"
  unfolding default_cert_path
  using no_wait_for_a_file [OF assms(3) bootstrapper_leaves_files(1) [OF assms(1,2,4)] assms(5)]
    bootstrapper_leaves_files(2) [OF assms(1,2,4)] by simp

text \<open>The platform's world is the deployment, its files are those of the bootstrapper.\<close>

theorem server_finds_the_files_of_the_bootstrapper_witness:
  "\<exists>d. Reconcile_webhook toy_cluster (bootstrapper_reconciler ''dynatrace'') nothing_deployed = (None, d) \<and>
     wait_for_certs (plain_platform (\<lambda>_. 0) (\<lambda>_ d. nothing_deployed) v_files (\<lambda>_ d. d))
       ''/mnt/webhook-certs/tls.crt'' 1 d = Some (None, d)"
proof -
  let ?P = "plain_platform (\<lambda>_. 0) (\<lambda>_ d. nothing_deployed) v_files (\<lambda>_ d. d)"
  obtain d where d: "Reconcile_webhook toy_cluster (bootstrapper_reconciler ''dynatrace'') nothing_deployed = (None, d)"
    using toy_webhook_run by blast
  have stat: "stat_laws ?P (\<lambda>d. d)" by (simp add: stat_laws_def keeps_def)
  have now: "pf_Now ?P d = (0, d)" by simp
  have path: "path_Join (fl_certsDir default_flags) (fl_certFile default_flags) = ''/mnt/webhook-certs/tls.crt''"
    by (simp add: default_cert_path Bootstrapper.certsDir_def)
  have "v_files d ''/mnt/webhook-certs/tls.crt'' \<noteq> None"
    using bootstrapper_leaves_files(1) [OF toy_webhook_laws toy_crypto_laws d] by (simp add: Bootstrapper.certsDir_def)
  with server_finds_the_files_of_the_bootstrapper [OF toy_webhook_laws toy_crypto_laws stat d now, of 1] d path
  show ?thesis by (intro exI [of _ d]) simp
qed

text \<open>C10: The certificates of the webhook never expire: when every artificial request of the ticker leads to an
  error-free run within \<open>delay\<close>, three hours and 55 minutes at most, then at every instant from the first
  run on the certificates that the last run left are valid, for the renewal threshold of four hours
  outlasts the distance of two runs.
\<close>

theorem certificates_never_expire:
  assumes "webhook_laws B ns v" and "crypto_laws (bc_crypto B) signs"
    and "\<And>n. Reconcile_webhook B ((bootstrapper_reconciler ns)\<lparr>rw_now := now n\<rparr>) (w n) = (None, w' n)"
    and "\<And>n. certs_instant B ((bootstrapper_reconciler ns)\<lparr>rw_now := now n\<rparr>) (w n) = at n"
    and "\<And>n. fst (artificial_request ns start n) \<le> at n \<and> at n \<le> fst (artificial_request ns start n) + delay"
    and "delay \<le> 3 * Hour + 55 * Minute" and "at 0 \<le> t"
  shows "\<exists>n. at n \<le> t \<and> t \<le> at (Suc n) \<and> certificates_valid (bc_crypto B) (secret_data (v (w' n))) t"
proof -
  obtain k where "t \<le> fst (artificial_request ns start (Suc k))" using requests_unbounded by blast
  with assms(5) [of "Suc k"] have "t \<le> at (Suc k)" by linarith
  with last_before [where c = at, OF assms(7)] obtain n where n: "at n \<le> t" "t \<le> at (Suc n)" by blast
  have "t \<le> at n + 4 * Hour"
    using n(2) assms(5) [of n] assms(5) [of "Suc n"] assms(6) request_step [of ns start n] by (simp add: Hour_def)
  moreover have "set_up B Bootstrapper.certsDir (at n) (v (w' n))"
    using webhook_run_sets_up [OF _ assms(2) assms(3) [of n], of v] assms(1) assms(4) [of n]
    by (simp add: bootstrapper_reconciler_def)
  ultimately show ?thesis using n set_up_valid by blast
qed

theorem certificates_never_expire_witness:
  "\<exists>n. certificates_valid (toy_crypto :: deployment crypto) (secret_data (toy_runs (Suc n))) (1000 * Hour)"
proof -
  have "\<exists>n. fst (artificial_request ''dynatrace'' Hour n) \<le> 1000 * Hour \<and>
      1000 * Hour \<le> fst (artificial_request ''dynatrace'' Hour (Suc n)) \<and>
      certificates_valid (bc_crypto toy_cluster) (secret_data (toy_runs (Suc n))) (1000 * Hour)"
    by (rule certificates_never_expire [where start = Hour and delay = 0 and ns = "''dynatrace''", OF toy_webhook_laws toy_crypto_laws
          toy_runs_ok [unfolded toy_reconciler_def] toy_runs_instant [unfolded toy_reconciler_def]])
      (simp_all add: artificial_request_def Hour_def Minute_def Second_def)
  then obtain n where "certificates_valid (bc_crypto toy_cluster) (secret_data (toy_runs (Suc n))) (1000 * Hour)" by blast
  then have "certificates_valid (toy_crypto :: deployment crypto) (secret_data (toy_runs (Suc n))) (1000 * Hour)" by (simp only: toy_cluster_simps)
  then show ?thesis by (rule exI [of _ n])
qed

section \<open>Where the start falls short\<close>

text \<open>The server does not look for the private key: with the certificate alone the wait is over.\<close>

lemma server_does_not_wait_for_the_key:
  "wait_for_certs toy_platform (path_Join (fl_certsDir default_flags) (fl_certFile default_flags)) (5 * Minute)
     (fresh_process\<lparr>pw_files := [Bootstrapper.certsDir @ ''/tls.crt'' \<mapsto> ''cert'']\<rparr>) =
   Some (None, fresh_process\<lparr>pw_files := [Bootstrapper.certsDir @ ''/tls.crt'' \<mapsto> ''cert'']\<rparr>)"
  unfolding default_cert_path
proof (rule wait_ends_at_once)
  let ?w = "fresh_process\<lparr>pw_files := [Bootstrapper.certsDir @ ''/tls.crt'' \<mapsto> ''cert'']\<rparr>"
  show "pf_Now toy_platform ?w = (0, ?w)" by (simp add: toy_platform_def fresh_process_def)
  show "(0 :: time) < 5 * Minute" by simp
  have "pw_files ?w (Bootstrapper.certsDir @ ''/tls.crt'') = Some ''cert''" by simp
  then show "pf_Stat toy_platform (Bootstrapper.certsDir @ ''/tls.crt'') ?w = (None, ?w)" by (simp add: toy_platform_def)
qed

text \<open>And the bootstrapper writes the certificate first: when the key cannot be written, it is alone.\<close>

lemma certificate_without_key:
  fixes d :: deployment
  assumes "v_files d = Map.empty" and "distinct [dir @ ''/tls.crt'', dir @ ''/tls.key'']"
  shows "write_files (toy_cluster\<lparr>bc_WriteFile :=
             (\<lambda>f x d. if f = dir @ ''/tls.key'' then (Some (ExtErr ''no space''), d)
                     else (None, d\<lparr>v_files := (v_files d)(f \<mapsto> x)\<rparr>))\<rparr>)
           dir [''tls.crt'' \<mapsto> ''cert'', ''tls.key'' \<mapsto> ''key''] [''tls.crt'', ''tls.key''] d =
         (Some (ExtErr ''no space''), d\<lparr>v_files := [dir @ ''/tls.crt'' \<mapsto> ''cert'']\<rparr>)"
  using assms by (simp add: Let_def map_get_def)

text \<open>A failed Istio client is no error: the controllers are registered with a nil Istio controller, and panic on its use.\<close>

lemma failed_istio_client_is_not_reported:
  assumes "pf_IstioNewForConfig P w = (Some e, w1)"
  shows "Add_oneagent P m ns w = add_oneagent P m (RecOneAgent oneagent_reconciler False) w1"
    and "Add_oneagentapm P m ns w = add_oneagentapm P m (RecOneAgentAPM apm_reconciler False) w1"
    and "call_ReconcileIstio None instance dtc w2 = Panics"
  using assms
  by (simp_all add: Add_oneagent_def NewOneAgentReconciler_def Add_oneagentapm_def NewController_def initialiseIstioClient_def call_ReconcileIstio_def)

text \<open>How a process ends: an error of the configuration, of the start of the chosen program or of its manager
  always ends in exit code 1, an unknown command as well and without any effect; and a process that ends
  normally had a known command (\<open>operator\<close> when there is none), whose manager it ran to its end.
\<close>

theorem process_ends:
  "(case main P flags args w of
      Returns (Exit c, w') \<Rightarrow> c = 1
    | Returns (Ended, w') \<Rightarrow>
        (\<exists>cmd w1 m w2. subcmdCallbacks P flags (case args of [] \<Rightarrow> ''operator'' | a # _ \<Rightarrow> a) = Some cmd \<and>
           pf_GetConfig P w = (None, w1) \<and> cmd (pf_Getenv P ''POD_NAMESPACE'') w1 = Returns (Inr m, w2) \<and>
           pf_Start P m (startWebhookAndBootstrapperIfDebugFlagSet P (pf_Getenv P ''POD_NAMESPACE'') w2) = (None, w'))
    | _ \<Rightarrow> True) \<and>
   main P flags (''no such command'' # args) w = Returns (Exit 1, w)"
  by (auto simp: main_def Let_def subcmdCallbacks_def split: run.splits prod.splits option.splits sum.splits list.splits)

end
