(* ===== verification/Go_Heap.thy ===== *)
theory Go_Heap
  imports Prelude
begin

text \<open>
  A heap of Go, for code whose point is what is shared: cells of some type \<open>'c\<close> at the addresses below
  a limit, new cells at the limit.  A slice or a map is the address of one cell with all of its
  elements (no code of the repository slices a slice that it copies).  \<open>deep_copies\<close> is the contract of
  a deep copy, for values with a meaning \<open>val\<close> and the set \<open>foot\<close> of the cells they reach.
\<close>

section \<open>The heap\<close>

type_synonym addr = nat

record 'c go_heap =
  hp_cells :: "addr \<Rightarrow> 'c"
  hp_lim :: addr

definition alloc :: "'c \<Rightarrow> 'c go_heap \<Rightarrow> addr \<times> 'c go_heap" where
  "alloc c h = (hp_lim h, h\<lparr>hp_cells := (hp_cells h)(hp_lim h := c), hp_lim := Suc (hp_lim h)\<rparr>)"

definition store :: "addr \<Rightarrow> 'c \<Rightarrow> 'c go_heap \<Rightarrow> 'c go_heap" where
  "store a c h = h\<lparr>hp_cells := (hp_cells h)(a := c)\<rparr>"

text \<open>\<open>h'\<close> has the cells of \<open>h\<close>, and perhaps more.\<close>

definition extends :: "'c go_heap \<Rightarrow> 'c go_heap \<Rightarrow> bool" where
  "extends h h' \<longleftrightarrow> hp_lim h \<le> hp_lim h' \<and> (\<forall>a < hp_lim h. hp_cells h' a = hp_cells h a)"

lemma extends_refl [simp]: "extends h h"
  by (simp add: extends_def)

lemma extends_trans: "extends h h1 \<Longrightarrow> extends h1 h2 \<Longrightarrow> extends h h2"
  by (simp add: extends_def)

lemma extends_alloc: "alloc c h = (a, h') \<Longrightarrow> extends h h' \<and> a = hp_lim h \<and> hp_lim h' = Suc a \<and> hp_cells h' a = c"
  by (auto simp: alloc_def extends_def)

lemma extends_store: "extends h h' \<Longrightarrow> hp_lim h \<le> a \<Longrightarrow> extends h (store a c h')"
  by (simp add: extends_def store_def)

lemma store_simps [simp]: "hp_lim (store a c h) = hp_lim h" "hp_cells (store a c h) = (hp_cells h)(a := c)"
  by (simp_all add: store_def)

section \<open>The contract of a deep copy\<close>

text \<open>
  A value depends on the cells it reaches only; a copy of a value whose cells exist has the same
  meaning, reaches new cells only, and leaves the old cells as they were.
\<close>

definition deep_copies ::
  "('c go_heap \<Rightarrow> 'a \<Rightarrow> 'v) \<Rightarrow> ('c go_heap \<Rightarrow> 'a \<Rightarrow> addr set) \<Rightarrow> ('a \<Rightarrow> 'c go_heap \<Rightarrow> 'a \<times> 'c go_heap) \<Rightarrow> bool" where
  "deep_copies val foot dc \<longleftrightarrow>
     (\<forall>h h' x. (\<forall>a \<in> foot h x. hp_cells h' a = hp_cells h a) \<longrightarrow> val h' x = val h x \<and> foot h' x = foot h x) \<and>
     (\<forall>h x y h'. foot h x \<subseteq> {..<hp_lim h} \<and> dc x h = (y, h') \<longrightarrow>
        extends h h' \<and> val h' y = val h x \<and> foot h' y \<subseteq> {hp_lim h..<hp_lim h'})"

lemma deep_copiesI:
  assumes "\<And>h h' x. \<forall>a \<in> foot h x. hp_cells h' a = hp_cells h a \<Longrightarrow> val h' x = val h x \<and> foot h' x = foot h x"
    and "\<And>h x y h'. foot h x \<subseteq> {..<hp_lim h} \<Longrightarrow> dc x h = (y, h') \<Longrightarrow>
           extends h h' \<and> val h' y = val h x \<and> foot h' y \<subseteq> {hp_lim h..<hp_lim h'}"
  shows "deep_copies val foot dc"
  using assms unfolding deep_copies_def by blast

lemma deep_copies_local:
  "deep_copies val foot dc \<Longrightarrow> \<forall>a \<in> foot h x. hp_cells h' a = hp_cells h a \<Longrightarrow>
     val h' x = val h x \<and> foot h' x = foot h x"
  unfolding deep_copies_def by blast

lemma deep_copies_copy:
  "deep_copies val foot dc \<Longrightarrow> foot h x \<subseteq> {..<hp_lim h} \<Longrightarrow> dc x h = (y, h') \<Longrightarrow>
     extends h h' \<and> val h' y = val h x \<and> foot h' y \<subseteq> {hp_lim h..<hp_lim h'}"
  unfolding deep_copies_def by blast

lemma deep_copies_view: "deep_copies val foot dc \<Longrightarrow> deep_copies (\<lambda>h x. g (val h x)) foot dc"
  by (rule deep_copiesI) (metis deep_copies_local, metis deep_copies_copy)

text \<open>What is below the limit stays what it was.\<close>

lemma deep_copies_kept:
  assumes "deep_copies val foot dc" and "foot h x \<subseteq> {..<hp_lim h}" and "extends h h'"
  shows "val h' x = val h x \<and> foot h' x = foot h x \<and> foot h' x \<subseteq> {..<hp_lim h'}"
proof -
  have "\<forall>a \<in> foot h x. hp_cells h' a = hp_cells h a" using assms(2,3) by (auto simp: extends_def)
  note l = deep_copies_local [OF assms(1) this]
  with assms(2,3) show ?thesis by (auto simp: extends_def)
qed

locale deep_copy =
  fixes val :: "'c go_heap \<Rightarrow> 'a \<Rightarrow> 'v" and foot :: "'c go_heap \<Rightarrow> 'a \<Rightarrow> addr set"
    and dc :: "'a \<Rightarrow> 'c go_heap \<Rightarrow> 'a \<times> 'c go_heap"
  assumes copies: "deep_copies val foot dc"
begin

text \<open>The copy equals the original, before and after.\<close>

lemma equal_copy:
  assumes "foot h x \<subseteq> {..<hp_lim h}" and "dc x h = (y, h')"
  shows "val h' y = val h x" "val h' x = val h x"
  using deep_copies_copy [OF copies assms] deep_copies_kept [OF copies assms(1)] by blast+

text \<open>They share no cell.\<close>

lemma disjoint_copy:
  assumes "foot h x \<subseteq> {..<hp_lim h}" and "dc x h = (y, h')"
  shows "foot h' x \<inter> foot h' y = {}"
proof -
  note c = deep_copies_copy [OF copies assms]
  with deep_copies_kept [OF copies assms(1)] have "foot h' x = foot h x" by blast
  with assms(1) c show ?thesis by (fastforce simp: subset_iff)
qed

text \<open>Whatever is written to the cells of the copy, the original does not change, and vice versa.\<close>

lemma isolated_copy:
  assumes "foot h x \<subseteq> {..<hp_lim h}" and "dc x h = (y, h')"
  shows "(\<And>a. a \<notin> foot h' y \<Longrightarrow> hp_cells g a = hp_cells h' a) \<Longrightarrow> val g x = val h x"
    and "(\<And>a. a \<notin> foot h' x \<Longrightarrow> hp_cells g a = hp_cells h' a) \<Longrightarrow> val g y = val h x"
proof -
  note d = disjoint_copy [OF assms]
  note e = equal_copy [OF assms]
  { assume "\<And>a. a \<notin> foot h' y \<Longrightarrow> hp_cells g a = hp_cells h' a"
    with d have "\<forall>a \<in> foot h' x. hp_cells g a = hp_cells h' a" by blast
    from deep_copies_local [OF copies this] e show "val g x = val h x" by simp }
  { assume "\<And>a. a \<notin> foot h' x \<Longrightarrow> hp_cells g a = hp_cells h' a"
    with d have "\<forall>a \<in> foot h' y. hp_cells g a = hp_cells h' a" by blast
    from deep_copies_local [OF copies this] e show "val g y = val h x" by simp }
qed

end

section \<open>Copies of plain values, pairs and lists\<close>

definition plain_val :: "'c go_heap \<Rightarrow> 'a \<Rightarrow> 'a" where "plain_val h x = x"
definition plain_foot :: "'c go_heap \<Rightarrow> 'a \<Rightarrow> addr set" where "plain_foot h x = {}"
definition copy_plain :: "'a \<Rightarrow> 'c go_heap \<Rightarrow> 'a \<times> 'c go_heap" where "copy_plain x h = (x, h)"

lemma deep_copies_plain: "deep_copies plain_val plain_foot copy_plain"
  by (rule deep_copiesI) (auto simp: plain_val_def plain_foot_def copy_plain_def)

definition pair_val ::
  "('h \<Rightarrow> 'a \<Rightarrow> 'v) \<Rightarrow> ('h \<Rightarrow> 'b \<Rightarrow> 'w) \<Rightarrow> 'h \<Rightarrow> 'a \<times> 'b \<Rightarrow> 'v \<times> 'w" where
  "pair_val val1 val2 h x = (val1 h (fst x), val2 h (snd x))"

definition pair_foot ::
  "('h \<Rightarrow> 'a \<Rightarrow> addr set) \<Rightarrow> ('h \<Rightarrow> 'b \<Rightarrow> addr set) \<Rightarrow> 'h \<Rightarrow> 'a \<times> 'b \<Rightarrow> addr set" where
  "pair_foot foot1 foot2 h x = foot1 h (fst x) \<union> foot2 h (snd x)"

definition copy_pair ::
  "('a \<Rightarrow> 'c go_heap \<Rightarrow> 'a \<times> 'c go_heap) \<Rightarrow> ('b \<Rightarrow> 'c go_heap \<Rightarrow> 'b \<times> 'c go_heap)
     \<Rightarrow> 'a \<times> 'b \<Rightarrow> 'c go_heap \<Rightarrow> ('a \<times> 'b) \<times> 'c go_heap" where
  "copy_pair dc1 dc2 x h = (let (a, h1) = dc1 (fst x) h; (b, h2) = dc2 (snd x) h1 in ((a, b), h2))"

lemma deep_copies_pair:
  assumes "deep_copies val1 foot1 dc1" and "deep_copies val2 foot2 dc2"
  shows "deep_copies (pair_val val1 val2) (pair_foot foot1 foot2) (copy_pair dc1 dc2)"
  unfolding pair_val_def pair_foot_def
proof (rule deep_copiesI)
  fix h h' :: "'a go_heap" and x :: "'b \<times> 'd"
  assume "\<forall>a \<in> foot1 h (fst x) \<union> foot2 h (snd x). hp_cells h' a = hp_cells h a"
  with deep_copies_local [OF assms(1), of h "fst x" h'] deep_copies_local [OF assms(2), of h "snd x" h']
  show "(val1 h' (fst x), val2 h' (snd x)) = (val1 h (fst x), val2 h (snd x)) \<and>
      foot1 h' (fst x) \<union> foot2 h' (snd x) = foot1 h (fst x) \<union> foot2 h (snd x)" by simp
next
  fix h x y h'
  assume f: "foot1 h (fst x) \<union> foot2 h (snd x) \<subseteq> {..<hp_lim h}" and run: "copy_pair dc1 dc2 x h = (y, h')"
  from run obtain a b h1 where a: "dc1 (fst x) h = (a, h1)" and b: "dc2 (snd x) h1 = (b, h')" and y: "y = (a, b)"
    by (auto simp: copy_pair_def Let_def split: prod.splits)
  from f have f1: "foot1 h (fst x) \<subseteq> {..<hp_lim h}" and f2: "foot2 h (snd x) \<subseteq> {..<hp_lim h}" by auto
  note c1 = deep_copies_copy [OF assms(1) f1 a]
  from c1 have e1: "extends h h1" by simp
  note k2 = deep_copies_kept [OF assms(2) f2 e1]
  then have "foot2 h1 (snd x) \<subseteq> {..<hp_lim h1}" by blast
  note c2 = deep_copies_copy [OF assms(2) this b]
  from c1 have "foot1 h1 a \<subseteq> {..<hp_lim h1}" by auto
  from deep_copies_kept [OF assms(1) this, of h'] c1 c2 k2
  show "extends h h' \<and> (val1 h' (fst y), val2 h' (snd y)) = (val1 h (fst x), val2 h (snd x)) \<and>
      foot1 h' (fst y) \<union> foot2 h' (snd y) \<subseteq> {hp_lim h..<hp_lim h'}"
    by (auto simp: y extends_def)
qed

fun copy_list :: "('a \<Rightarrow> 'c go_heap \<Rightarrow> 'a \<times> 'c go_heap) \<Rightarrow> 'a list \<Rightarrow> 'c go_heap \<Rightarrow> 'a list \<times> 'c go_heap" where
  "copy_list dc [] h = ([], h)"
| "copy_list dc (x # xs) h = (let (y, h1) = dc x h; (ys, h2) = copy_list dc xs h1 in (y # ys, h2))"

definition list_val :: "('h \<Rightarrow> 'a \<Rightarrow> 'v) \<Rightarrow> 'h \<Rightarrow> 'a list \<Rightarrow> 'v list" where
  "list_val val h xs = map (val h) xs"

definition list_foot :: "('h \<Rightarrow> 'a \<Rightarrow> addr set) \<Rightarrow> 'h \<Rightarrow> 'a list \<Rightarrow> addr set" where
  "list_foot foot h xs = \<Union> (foot h ` set xs)"

lemma deep_copies_list:
  assumes "deep_copies val foot dc"
  shows "deep_copies (list_val val) (list_foot foot) (copy_list dc)"
  unfolding list_val_def list_foot_def
proof (rule deep_copiesI)
  fix h h' :: "'a go_heap" and xs :: "'b list"
  assume "\<forall>a \<in> \<Union> (foot h ` set xs). hp_cells h' a = hp_cells h a"
  then have "val h' x = val h x \<and> foot h' x = foot h x" if "x \<in> set xs" for x
    using deep_copies_local [OF assms, of h x h'] that by blast
  then show "map (val h') xs = map (val h) xs \<and> \<Union> (foot h' ` set xs) = \<Union> (foot h ` set xs)" by simp
next
  fix h xs ys h'
  show "\<Union> (foot h ` set xs) \<subseteq> {..<hp_lim h} \<Longrightarrow> copy_list dc xs h = (ys, h') \<Longrightarrow>
      extends h h' \<and> map (val h') ys = map (val h) xs \<and> \<Union> (foot h' ` set ys) \<subseteq> {hp_lim h..<hp_lim h'}"
  proof (induction xs arbitrary: h ys)
    case Nil
    then show ?case by simp
  next
    case (Cons x xs)
    from Cons.prems(2) obtain z h1 zs where z: "dc x h = (z, h1)" and zs: "copy_list dc xs h1 = (zs, h')" and ys: "ys = z # zs"
      by (auto simp: Let_def split: prod.splits)
    from Cons.prems(1) have fx: "foot h x \<subseteq> {..<hp_lim h}" by simp
    note c = deep_copies_copy [OF assms fx z]
    have k: "val h1 u = val h u \<and> foot h1 u = foot h u \<and> foot h1 u \<subseteq> {..<hp_lim h1}" if "u \<in> set xs" for u
      using deep_copies_kept [OF assms, of h u h1] Cons.prems(1) c that by auto
    then have "\<Union> (foot h1 ` set xs) \<subseteq> {..<hp_lim h1}" by auto
    note ih = Cons.IH [OF this zs]
    from c have "foot h1 z \<subseteq> {..<hp_lim h1}" by auto
    note kz = deep_copies_kept [OF assms this, of h']
    from ih k have "map (val h') zs = map (val h) xs" by simp
    moreover have "\<Union> (foot h' ` set zs) \<subseteq> {hp_lim h..<hp_lim h'}" using ih c by (auto simp: extends_def)
    moreover have "foot h' z \<subseteq> {hp_lim h..<hp_lim h'}" using c ih kz by (auto simp: extends_def)
    ultimately show ?case using c ih kz ys by (auto intro: extends_trans)
  qed
qed

section \<open>Copies behind a pointer\<close>

text \<open>
  \<open>if in != nil { *out = new(T); ... }\<close>: the new cell is there, with the zero value, before what it
  will hold is copied; it is filled when all of that is copied, as nobody else knows it before.
\<close>

definition copy_pointer ::
  "('c \<Rightarrow> 'a) \<Rightarrow> ('a \<Rightarrow> 'c) \<Rightarrow> 'c \<Rightarrow> ('a \<Rightarrow> 'c go_heap \<Rightarrow> 'a \<times> 'c go_heap)
     \<Rightarrow> addr option \<Rightarrow> 'c go_heap \<Rightarrow> addr option \<times> 'c go_heap" where
  "copy_pointer get put zero dc p h =
     (case p of
        None \<Rightarrow> (None, h)
      | Some a \<Rightarrow>
          (let (b, h1) = alloc zero h;
               (v, h2) = dc (get (hp_cells h1 a)) h1
           in (Some b, store b (put v) h2)))"

definition pointer_val :: "('c \<Rightarrow> 'a) \<Rightarrow> ('c go_heap \<Rightarrow> 'a \<Rightarrow> 'v) \<Rightarrow> 'c go_heap \<Rightarrow> addr option \<Rightarrow> 'v option" where
  "pointer_val get val h p = map_option (\<lambda>a. val h (get (hp_cells h a))) p"

definition pointer_foot :: "('c \<Rightarrow> 'a) \<Rightarrow> ('c go_heap \<Rightarrow> 'a \<Rightarrow> addr set) \<Rightarrow> 'c go_heap \<Rightarrow> addr option \<Rightarrow> addr set" where
  "pointer_foot get foot h p = (case p of None \<Rightarrow> {} | Some a \<Rightarrow> insert a (foot h (get (hp_cells h a))))"

lemma deep_copies_pointer:
  assumes "deep_copies val foot dc" and "\<And>v. get (put v) = v"
  shows "deep_copies (pointer_val get val) (pointer_foot get foot) (copy_pointer get put zero dc)"
proof (rule deep_copiesI)
  fix h h' :: "'a go_heap" and p
  assume l: "\<forall>a \<in> pointer_foot get foot h p. hp_cells h' a = hp_cells h a"
  show "pointer_val get val h' p = pointer_val get val h p \<and> pointer_foot get foot h' p = pointer_foot get foot h p"
  proof (cases p)
    case None
    then show ?thesis by (simp add: pointer_val_def pointer_foot_def)
  next
    case (Some a)
    with l have "hp_cells h' a = hp_cells h a" "\<forall>i \<in> foot h (get (hp_cells h a)). hp_cells h' i = hp_cells h i"
      by (simp_all add: pointer_foot_def)
    with deep_copies_local [OF assms(1) this(2)] Some show ?thesis by (simp add: pointer_val_def pointer_foot_def)
  qed
next
  fix h p q h'
  assume f: "pointer_foot get foot h p \<subseteq> {..<hp_lim h}" and run: "copy_pointer get put zero dc p h = (q, h')"
  show "extends h h' \<and> pointer_val get val h' q = pointer_val get val h p \<and>
      pointer_foot get foot h' q \<subseteq> {hp_lim h..<hp_lim h'}"
  proof (cases p)
    case None
    with run show ?thesis by (simp add: copy_pointer_def pointer_val_def pointer_foot_def)
  next
    case (Some a)
    let ?x = "get (hp_cells h a)"
    obtain b h1 where b: "alloc zero h = (b, h1)" by fastforce
    note al = extends_alloc [OF b]
    from f Some have a: "a < hp_lim h" and fx: "foot h ?x \<subseteq> {..<hp_lim h}" by (simp_all add: pointer_foot_def)
    with al have cell: "hp_cells h1 a = hp_cells h a" by (simp add: extends_def)
    obtain v h2 where v: "dc ?x h1 = (v, h2)" by fastforce
    from run Some b v cell have q: "q = Some b" "h' = store b (put v) h2" by (simp_all add: copy_pointer_def)
    from al have ext: "extends h h1" by simp
    note k = deep_copies_kept [OF assms(1) fx ext]
    then have "foot h1 ?x \<subseteq> {..<hp_lim h1}" by blast
    note c = deep_copies_copy [OF assms(1) this v]
    from c al have "\<forall>i \<in> foot h2 v. hp_cells h' i = hp_cells h2 i" by (auto simp: q)
    note kept = deep_copies_local [OF assms(1) this]
    from al c have "extends h h'" "hp_lim h' = hp_lim h2" "hp_lim h \<le> b" "b < hp_lim h2"
      by (auto simp: q extends_def)
    with Some q c k kept al show ?thesis by (auto simp: pointer_val_def pointer_foot_def assms(2))
  qed
qed

section \<open>Copies of structs\<close>

text \<open>
  A struct \<open>x\<close> whose references are \<open>refs x\<close>, and \<open>plain x\<close> the struct without them: copying it assigns the
  struct and then replaces its references by copies.
\<close>

definition copy_struct ::
  "('s \<Rightarrow> 'r) \<Rightarrow> ('r \<Rightarrow> 's \<Rightarrow> 's) \<Rightarrow> ('r \<Rightarrow> 'c go_heap \<Rightarrow> 'r \<times> 'c go_heap) \<Rightarrow> 's \<Rightarrow> 'c go_heap \<Rightarrow> 's \<times> 'c go_heap" where
  "copy_struct refs set_refs dc x h = (let (r, h1) = dc (refs x) h in (set_refs r x, h1))"

definition struct_val :: "('s \<Rightarrow> 'p) \<Rightarrow> ('s \<Rightarrow> 'r) \<Rightarrow> ('h \<Rightarrow> 'r \<Rightarrow> 'v) \<Rightarrow> 'h \<Rightarrow> 's \<Rightarrow> 'p \<times> 'v" where
  "struct_val plain refs val h x = (plain x, val h (refs x))"

definition struct_foot :: "('s \<Rightarrow> 'r) \<Rightarrow> ('h \<Rightarrow> 'r \<Rightarrow> addr set) \<Rightarrow> 'h \<Rightarrow> 's \<Rightarrow> addr set" where
  "struct_foot refs foot h x = foot h (refs x)"

lemma deep_copies_struct:
  assumes "deep_copies val foot dc" and "\<And>r x. refs (set_refs r x) = r" and "\<And>r x. plain (set_refs r x) = plain x"
  shows "deep_copies (struct_val plain refs val) (struct_foot refs foot) (copy_struct refs set_refs dc)"
  unfolding struct_val_def struct_foot_def
proof (rule deep_copiesI)
  fix h h' :: "'a go_heap" and x
  assume "\<forall>a \<in> foot h (refs x). hp_cells h' a = hp_cells h a"
  from deep_copies_local [OF assms(1) this]
  show "(plain x, val h' (refs x)) = (plain x, val h (refs x)) \<and> foot h' (refs x) = foot h (refs x)" by simp
next
  fix h x y h'
  assume f: "foot h (refs x) \<subseteq> {..<hp_lim h}" and run: "copy_struct refs set_refs dc x h = (y, h')"
  from run obtain r where r: "dc (refs x) h = (r, h')" and y: "y = set_refs r x"
    by (auto simp: copy_struct_def Let_def split: prod.splits)
  from deep_copies_copy [OF assms(1) f r]
  show "extends h h' \<and> (plain y, val h' (refs y)) = (plain x, val h (refs x)) \<and>
      foot h' (refs y) \<subseteq> {hp_lim h..<hp_lim h'}" by (simp add: y assms(2,3))
qed

end
