(* ===== verification/Deepcopy.thy ===== *)
theory Deepcopy
  imports Go_Heap Api_Types
begin

text \<open>
  The deep copies of the custom resources (api/v1alpha1/zz\_generated.deepcopy.go), on structs as they
  are in memory: a pointer, a slice or a map is an address, nil is None.  \<open>DeepCopyInto\<close> gives what it
  writes to \<open>out\<close>; all of \<open>*out\<close> is overwritten at once (\<open>*out = *in\<close>).  The structs of the Kubernetes
  libraries (metadata, conditions, instants, tolerations, variables, resources) are of a type \<open>'l\<close> with
  their own copies; \<open>lib_laws\<close> says that these are deep.
\<close>

section \<open>The structs in memory\<close>

record mBaseOneAgentSpec =
  ms_APIURL :: string
  ms_Tokens :: string
  ms_SkipCertCheck :: bool
  ms_EnableIstio :: bool
  ms_Proxy :: "addr option"
  ms_TrustedCAs :: string
  ms_NetworkZone :: string
  ms_UseImmutableImage :: bool

record 'l mBaseOneAgentStatus =
  mt_UpdatedTimestamp :: 'l
  mt_Conditions :: "addr option"
  mt_LastAPITokenProbeTimestamp :: "addr option"
  mt_LastPaaSTokenProbeTimestamp :: "addr option"
  mt_EnvironmentID :: string
  mt_Tokens :: string
  mt_UseImmutableImage :: bool

record 'l mOneAgentSpec =
  mg_BaseOneAgentSpec :: mBaseOneAgentSpec
  mg_NodeSelector :: "addr option"
  mg_Tolerations :: "addr option"
  mg_WaitReadySeconds :: "addr option"
  mg_Image :: string
  mg_AgentVersion :: string
  mg_CustomPullSecret :: string
  mg_Resources :: 'l
  mg_WebhookInjection :: bool
  mg_Args :: "addr option"
  mg_Env :: "addr option"
  mg_PriorityClassName :: string
  mg_DisableAgentUpdate :: bool
  mg_DNSPolicy :: string
  mg_ServiceAccountName :: string
  mg_Labels :: "addr option"
  mg_UseUnprivilegedMode :: "addr option"

record 'l mOneAgentStatus =
  mu_BaseOneAgentStatus :: "'l mBaseOneAgentStatus"
  mu_Version :: string
  mu_Instances :: "addr option"
  mu_Phase :: OneAgentPhaseType
  mu_LastUpdateProbeTimestamp :: "addr option"
  mu_ImageHash :: string
  mu_ImageVersion :: string
  mu_LastImageVersionProbeTimestamp :: "addr option"

record 'l mOneAgentAPMSpec =
  ma_BaseOneAgentSpec :: mBaseOneAgentSpec
  ma_Image :: string
  ma_AgentVersion :: string
  ma_Resources :: 'l
  ma_Flavor :: string

record 'l mOneAgentAPMStatus =
  mp_BaseOneAgentStatus :: "'l mBaseOneAgentStatus"

text \<open>A resource with its two parts, and a list of resources.\<close>

record ('l, 's, 't) mResource =
  mr_TypeMeta :: "string \<times> string"
  mr_ObjectMeta :: 'l
  mr_Spec :: 's
  mr_Status :: 't

record 'l mList =
  ml_TypeMeta :: "string \<times> string"
  ml_ListMeta :: 'l
  ml_Items :: "addr option"

type_synonym 'l mOneAgent = "('l, 'l mOneAgentSpec, 'l mOneAgentStatus) mResource"
type_synonym 'l mOneAgentAPM = "('l, 'l mOneAgentAPMSpec, 'l mOneAgentAPMStatus) mResource"

text \<open>What a cell holds; \<open>Fresh\<close> is the zero value of a new one, which nobody reads.\<close>

datatype 'l cell =
    Fresh
  | CProxy (proxy_of: OneAgentProxy)
  | CInstance (instance_of: OneAgentInstance)
  | CLib (lib_of: 'l)
  | CLibs (libs_of: "'l list")
  | CWord (word_of: "16 word")
  | CBool (bool_of: bool)
  | CStrings (strings_of: "string list")
  | CStringMap (string_map_of: "string \<rightharpoonup> string")
  | CInstanceMap (instance_map_of: "string \<rightharpoonup> OneAgentInstance")
  | CBaseSpec (base_spec_of: mBaseOneAgentSpec)
  | CBaseStatus (base_status_of: "'l mBaseOneAgentStatus")
  | COneAgentSpec (oneagent_spec_of: "'l mOneAgentSpec")
  | COneAgentStatus (oneagent_status_of: "'l mOneAgentStatus")
  | CApmSpec (apm_spec_of: "'l mOneAgentAPMSpec")
  | CApmStatus (apm_status_of: "'l mOneAgentAPMStatus")
  | COneAgent (oneagent_of: "'l mOneAgent")
  | CApm (apm_of: "'l mOneAgentAPM")
  | COneAgents (oneagents_of: "'l mOneAgent list")
  | CApms (apms_of: "'l mOneAgentAPM list")
  | COneAgentList (oneagent_list_of: "'l mList")
  | CApmList (apm_list_of: "'l mList")

type_synonym 'l mem = "'l cell go_heap"

text \<open>
  The libraries' code, \<open>DeepCopyInto\<close> of their structs and \<open>(*Time).DeepCopy\<close>; and what their structs mean
  and reach, which only the laws speak of.
\<close>

record ('l, 'v) library =
  lb_DeepCopyInto :: "'l \<Rightarrow> 'l mem \<Rightarrow> 'l \<times> 'l mem"
  lb_Time_DeepCopy :: "addr \<Rightarrow> 'l mem \<Rightarrow> addr \<times> 'l mem"
  lb_val :: "'l mem \<Rightarrow> 'l \<Rightarrow> 'v"
  lb_foot :: "'l mem \<Rightarrow> 'l \<Rightarrow> addr set"

section \<open>The code\<close>

text \<open>The forms that the generator uses: \<open>new\<close> and assignment, \<open>make\<close> and \<open>copy\<close> or the loop over the keys of a map.\<close>

definition copy_new :: "('l cell \<Rightarrow> 'a) \<Rightarrow> ('a \<Rightarrow> 'l cell) \<Rightarrow> addr option \<Rightarrow> 'l mem \<Rightarrow> addr option \<times> 'l mem" where
  "copy_new get put = copy_pointer get put Fresh copy_plain"

text \<open>\<open>make\<close> and the loop that copies each library struct.\<close>

definition copy_libs :: "('l, 'v) library \<Rightarrow> addr option \<Rightarrow> 'l mem \<Rightarrow> addr option \<times> 'l mem" where
  "copy_libs L = copy_pointer libs_of CLibs Fresh (copy_list (lb_DeepCopyInto L))"

definition copy_time :: "('l, 'v) library \<Rightarrow> addr option \<Rightarrow> 'l mem \<Rightarrow> addr option \<times> 'l mem" where
  "copy_time L p h =
     (case p of None \<Rightarrow> (None, h) | Some a \<Rightarrow> (let (b, h1) = lb_Time_DeepCopy L a h in (Some b, h1)))"

definition OneAgentProxy_DeepCopyInto :: "OneAgentProxy \<Rightarrow> 'l mem \<Rightarrow> OneAgentProxy \<times> 'l mem" where
  "OneAgentProxy_DeepCopyInto i h = (i, h)"

definition OneAgentProxy_DeepCopy :: "addr option \<Rightarrow> 'l mem \<Rightarrow> addr option \<times> 'l mem" where
  "OneAgentProxy_DeepCopy = copy_pointer proxy_of CProxy Fresh OneAgentProxy_DeepCopyInto"

definition OneAgentInstance_DeepCopyInto :: "OneAgentInstance \<Rightarrow> 'l mem \<Rightarrow> OneAgentInstance \<times> 'l mem" where
  "OneAgentInstance_DeepCopyInto i h = (i, h)"

definition OneAgentInstance_DeepCopy :: "addr option \<Rightarrow> 'l mem \<Rightarrow> addr option \<times> 'l mem" where
  "OneAgentInstance_DeepCopy = copy_pointer instance_of CInstance Fresh OneAgentInstance_DeepCopyInto"

definition BaseOneAgentSpec_DeepCopyInto :: "mBaseOneAgentSpec \<Rightarrow> 'l mem \<Rightarrow> mBaseOneAgentSpec \<times> 'l mem" where
  "BaseOneAgentSpec_DeepCopyInto i h =
     (let (proxy, h1) = copy_new proxy_of CProxy (ms_Proxy i) h
      in (i\<lparr>ms_Proxy := proxy\<rparr>, h1))"

definition BaseOneAgentSpec_DeepCopy :: "addr option \<Rightarrow> 'l mem \<Rightarrow> addr option \<times> 'l mem" where
  "BaseOneAgentSpec_DeepCopy = copy_pointer base_spec_of CBaseSpec Fresh BaseOneAgentSpec_DeepCopyInto"

definition BaseOneAgentStatus_DeepCopyInto ::
  "('l, 'v) library \<Rightarrow> 'l mBaseOneAgentStatus \<Rightarrow> 'l mem \<Rightarrow> 'l mBaseOneAgentStatus \<times> 'l mem" where
  "BaseOneAgentStatus_DeepCopyInto L i h =
     (let (updated, h1) = lb_DeepCopyInto L (mt_UpdatedTimestamp i) h;
          (conditions, h2) = copy_libs L (mt_Conditions i) h1;
          (api, h3) = copy_time L (mt_LastAPITokenProbeTimestamp i) h2;
          (paas, h4) = copy_time L (mt_LastPaaSTokenProbeTimestamp i) h3
      in (i\<lparr>mt_UpdatedTimestamp := updated, mt_Conditions := conditions,
            mt_LastAPITokenProbeTimestamp := api, mt_LastPaaSTokenProbeTimestamp := paas\<rparr>, h4))"

definition BaseOneAgentStatus_DeepCopy :: "('l, 'v) library \<Rightarrow> addr option \<Rightarrow> 'l mem \<Rightarrow> addr option \<times> 'l mem" where
  "BaseOneAgentStatus_DeepCopy L = copy_pointer base_status_of CBaseStatus Fresh (BaseOneAgentStatus_DeepCopyInto L)"

definition OneAgentSpec_DeepCopyInto ::
  "('l, 'v) library \<Rightarrow> 'l mOneAgentSpec \<Rightarrow> 'l mem \<Rightarrow> 'l mOneAgentSpec \<times> 'l mem" where
  "OneAgentSpec_DeepCopyInto L i h =
     (let (base, h1) = BaseOneAgentSpec_DeepCopyInto (mg_BaseOneAgentSpec i) h;
          (selector, h2) = copy_new string_map_of CStringMap (mg_NodeSelector i) h1;
          (tolerations, h3) = copy_libs L (mg_Tolerations i) h2;
          (wait, h4) = copy_new word_of CWord (mg_WaitReadySeconds i) h3;
          (resources, h5) = lb_DeepCopyInto L (mg_Resources i) h4;
          (args, h6) = copy_new strings_of CStrings (mg_Args i) h5;
          (env, h7) = copy_libs L (mg_Env i) h6;
          (labels, h8) = copy_new string_map_of CStringMap (mg_Labels i) h7;
          (unprivileged, h9) = copy_new bool_of CBool (mg_UseUnprivilegedMode i) h8
      in (i\<lparr>mg_BaseOneAgentSpec := base, mg_NodeSelector := selector, mg_Tolerations := tolerations,
            mg_WaitReadySeconds := wait, mg_Resources := resources, mg_Args := args, mg_Env := env,
            mg_Labels := labels, mg_UseUnprivilegedMode := unprivileged\<rparr>, h9))"

definition OneAgentSpec_DeepCopy :: "('l, 'v) library \<Rightarrow> addr option \<Rightarrow> 'l mem \<Rightarrow> addr option \<times> 'l mem" where
  "OneAgentSpec_DeepCopy L = copy_pointer oneagent_spec_of COneAgentSpec Fresh (OneAgentSpec_DeepCopyInto L)"

definition OneAgentStatus_DeepCopyInto ::
  "('l, 'v) library \<Rightarrow> 'l mOneAgentStatus \<Rightarrow> 'l mem \<Rightarrow> 'l mOneAgentStatus \<times> 'l mem" where
  "OneAgentStatus_DeepCopyInto L i h =
     (let (base, h1) = BaseOneAgentStatus_DeepCopyInto L (mu_BaseOneAgentStatus i) h;
          (instances, h2) = copy_new instance_map_of CInstanceMap (mu_Instances i) h1;
          (update, h3) = copy_time L (mu_LastUpdateProbeTimestamp i) h2;
          (version, h4) = copy_time L (mu_LastImageVersionProbeTimestamp i) h3
      in (i\<lparr>mu_BaseOneAgentStatus := base, mu_Instances := instances,
            mu_LastUpdateProbeTimestamp := update, mu_LastImageVersionProbeTimestamp := version\<rparr>, h4))"

definition OneAgentStatus_DeepCopy :: "('l, 'v) library \<Rightarrow> addr option \<Rightarrow> 'l mem \<Rightarrow> addr option \<times> 'l mem" where
  "OneAgentStatus_DeepCopy L = copy_pointer oneagent_status_of COneAgentStatus Fresh (OneAgentStatus_DeepCopyInto L)"

definition OneAgentAPMSpec_DeepCopyInto ::
  "('l, 'v) library \<Rightarrow> 'l mOneAgentAPMSpec \<Rightarrow> 'l mem \<Rightarrow> 'l mOneAgentAPMSpec \<times> 'l mem" where
  "OneAgentAPMSpec_DeepCopyInto L i h =
     (let (base, h1) = BaseOneAgentSpec_DeepCopyInto (ma_BaseOneAgentSpec i) h;
          (resources, h2) = lb_DeepCopyInto L (ma_Resources i) h1
      in (i\<lparr>ma_BaseOneAgentSpec := base, ma_Resources := resources\<rparr>, h2))"

definition OneAgentAPMSpec_DeepCopy :: "('l, 'v) library \<Rightarrow> addr option \<Rightarrow> 'l mem \<Rightarrow> addr option \<times> 'l mem" where
  "OneAgentAPMSpec_DeepCopy L = copy_pointer apm_spec_of CApmSpec Fresh (OneAgentAPMSpec_DeepCopyInto L)"

definition OneAgentAPMStatus_DeepCopyInto ::
  "('l, 'v) library \<Rightarrow> 'l mOneAgentAPMStatus \<Rightarrow> 'l mem \<Rightarrow> 'l mOneAgentAPMStatus \<times> 'l mem" where
  "OneAgentAPMStatus_DeepCopyInto L i h =
     (let (base, h1) = BaseOneAgentStatus_DeepCopyInto L (mp_BaseOneAgentStatus i) h
      in (i\<lparr>mp_BaseOneAgentStatus := base\<rparr>, h1))"

definition OneAgentAPMStatus_DeepCopy :: "('l, 'v) library \<Rightarrow> addr option \<Rightarrow> 'l mem \<Rightarrow> addr option \<times> 'l mem" where
  "OneAgentAPMStatus_DeepCopy L = copy_pointer apm_status_of CApmStatus Fresh (OneAgentAPMStatus_DeepCopyInto L)"

definition OneAgent_DeepCopyInto :: "('l, 'v) library \<Rightarrow> 'l mOneAgent \<Rightarrow> 'l mem \<Rightarrow> 'l mOneAgent \<times> 'l mem" where
  "OneAgent_DeepCopyInto L i h =
     (let (meta, h1) = lb_DeepCopyInto L (mr_ObjectMeta i) h;
          (spec, h2) = OneAgentSpec_DeepCopyInto L (mr_Spec i) h1;
          (status, h3) = OneAgentStatus_DeepCopyInto L (mr_Status i) h2
      in (i\<lparr>mr_TypeMeta := mr_TypeMeta i, mr_ObjectMeta := meta, mr_Spec := spec, mr_Status := status\<rparr>, h3))"

definition OneAgent_DeepCopy :: "('l, 'v) library \<Rightarrow> addr option \<Rightarrow> 'l mem \<Rightarrow> addr option \<times> 'l mem" where
  "OneAgent_DeepCopy L = copy_pointer oneagent_of COneAgent Fresh (OneAgent_DeepCopyInto L)"

definition OneAgentAPM_DeepCopyInto ::
  "('l, 'v) library \<Rightarrow> 'l mOneAgentAPM \<Rightarrow> 'l mem \<Rightarrow> 'l mOneAgentAPM \<times> 'l mem" where
  "OneAgentAPM_DeepCopyInto L i h =
     (let (meta, h1) = lb_DeepCopyInto L (mr_ObjectMeta i) h;
          (spec, h2) = OneAgentAPMSpec_DeepCopyInto L (mr_Spec i) h1;
          (status, h3) = OneAgentAPMStatus_DeepCopyInto L (mr_Status i) h2
      in (i\<lparr>mr_TypeMeta := mr_TypeMeta i, mr_ObjectMeta := meta, mr_Spec := spec, mr_Status := status\<rparr>, h3))"

definition OneAgentAPM_DeepCopy :: "('l, 'v) library \<Rightarrow> addr option \<Rightarrow> 'l mem \<Rightarrow> addr option \<times> 'l mem" where
  "OneAgentAPM_DeepCopy L = copy_pointer apm_of CApm Fresh (OneAgentAPM_DeepCopyInto L)"

definition OneAgentList_DeepCopyInto :: "('l, 'v) library \<Rightarrow> 'l mList \<Rightarrow> 'l mem \<Rightarrow> 'l mList \<times> 'l mem" where
  "OneAgentList_DeepCopyInto L i h =
     (let (meta, h1) = lb_DeepCopyInto L (ml_ListMeta i) h;
          (items, h2) = copy_pointer oneagents_of COneAgents Fresh (copy_list (OneAgent_DeepCopyInto L)) (ml_Items i) h1
      in (i\<lparr>ml_TypeMeta := ml_TypeMeta i, ml_ListMeta := meta, ml_Items := items\<rparr>, h2))"

definition OneAgentList_DeepCopy :: "('l, 'v) library \<Rightarrow> addr option \<Rightarrow> 'l mem \<Rightarrow> addr option \<times> 'l mem" where
  "OneAgentList_DeepCopy L = copy_pointer oneagent_list_of COneAgentList Fresh (OneAgentList_DeepCopyInto L)"

definition OneAgentAPMList_DeepCopyInto :: "('l, 'v) library \<Rightarrow> 'l mList \<Rightarrow> 'l mem \<Rightarrow> 'l mList \<times> 'l mem" where
  "OneAgentAPMList_DeepCopyInto L i h =
     (let (meta, h1) = lb_DeepCopyInto L (ml_ListMeta i) h;
          (items, h2) = copy_pointer apms_of CApms Fresh (copy_list (OneAgentAPM_DeepCopyInto L)) (ml_Items i) h1
      in (i\<lparr>ml_TypeMeta := ml_TypeMeta i, ml_ListMeta := meta, ml_Items := items\<rparr>, h2))"

definition OneAgentAPMList_DeepCopy :: "('l, 'v) library \<Rightarrow> addr option \<Rightarrow> 'l mem \<Rightarrow> addr option \<times> 'l mem" where
  "OneAgentAPMList_DeepCopy L = copy_pointer apm_list_of CApmList Fresh (OneAgentAPMList_DeepCopyInto L)"

text \<open>
  A \<open>runtime.Object\<close> is nil or a pointer with its type; a nil pointer becomes the nil object, not an
  object that holds a nil pointer.
\<close>

datatype object =
    NilObject
  | AnOneAgent "addr option"
  | AnOneAgentAPM "addr option"
  | AnOneAgentList "addr option"
  | AnOneAgentAPMList "addr option"

definition as_object :: "(addr option \<Rightarrow> object) \<Rightarrow> addr option \<times> 'l mem \<Rightarrow> object \<times> 'l mem" where
  "as_object kind c = (if fst c \<noteq> None then (kind (fst c), snd c) else (NilObject, snd c))"

definition OneAgent_DeepCopyObject :: "('l, 'v) library \<Rightarrow> addr option \<Rightarrow> 'l mem \<Rightarrow> object \<times> 'l mem" where
  "OneAgent_DeepCopyObject L i h = as_object AnOneAgent (OneAgent_DeepCopy L i h)"

definition OneAgentAPM_DeepCopyObject :: "('l, 'v) library \<Rightarrow> addr option \<Rightarrow> 'l mem \<Rightarrow> object \<times> 'l mem" where
  "OneAgentAPM_DeepCopyObject L i h = as_object AnOneAgentAPM (OneAgentAPM_DeepCopy L i h)"

definition OneAgentList_DeepCopyObject :: "('l, 'v) library \<Rightarrow> addr option \<Rightarrow> 'l mem \<Rightarrow> object \<times> 'l mem" where
  "OneAgentList_DeepCopyObject L i h = as_object AnOneAgentList (OneAgentList_DeepCopy L i h)"

definition OneAgentAPMList_DeepCopyObject :: "('l, 'v) library \<Rightarrow> addr option \<Rightarrow> 'l mem \<Rightarrow> object \<times> 'l mem" where
  "OneAgentAPMList_DeepCopyObject L i h = as_object AnOneAgentAPMList (OneAgentAPMList_DeepCopy L i h)"

end
