(* ===== verification/Deepcopy_Props.thy ===== *)
theory Deepcopy_Props
  imports Deepcopy
begin

text \<open>
  The deep copies are deep: what each type means and reaches (\<open>val\<close> and \<open>foot\<close>, built as the types are),
  the contract \<open>deep_copies\<close> of each function, and from it that a copy equals its original and shares
  nothing with it.
\<close>

section \<open>The libraries\<close>

definition time_val :: "('l, 'v) library \<Rightarrow> 'l mem \<Rightarrow> addr option \<Rightarrow> 'v option" where
  "time_val L = pointer_val lib_of (lb_val L)"

definition time_foot :: "('l, 'v) library \<Rightarrow> 'l mem \<Rightarrow> addr option \<Rightarrow> addr set" where
  "time_foot L = pointer_foot lib_of (lb_foot L)"

definition lib_laws :: "('l, 'v) library \<Rightarrow> bool" where
  "lib_laws L \<longleftrightarrow>
     deep_copies (lb_val L) (lb_foot L) (lb_DeepCopyInto L) \<and>
     deep_copies (time_val L) (time_foot L) (copy_time L)"

lemmas lib_lawsD = lib_laws_def [THEN iffD1, THEN conjunct1] lib_laws_def [THEN iffD1, THEN conjunct2]

named_theorems deep

lemma deep_new [deep]:
  "(\<And>v. get (put v) = v) \<Longrightarrow> deep_copies (pointer_val get plain_val) (pointer_foot get plain_foot) (copy_new get put)"
  unfolding copy_new_def by (rule deep_copies_pointer [OF deep_copies_plain])

lemma deep_libs [deep]:
  "lib_laws L \<Longrightarrow> deep_copies (pointer_val libs_of (list_val (lb_val L))) (pointer_foot libs_of (list_foot (lb_foot L))) (copy_libs L)"
  unfolding copy_libs_def by (rule deep_copies_pointer [OF deep_copies_list [OF lib_lawsD(1)]]) simp_all

lemmas [deep] = deep_copies_pair deep_copies_plain lib_lawsD

section \<open>Specs\<close>

text \<open>The meaning of the base spec is the record of \<open>Api_Types\<close>.\<close>

definition base_spec_val :: "'l mem \<Rightarrow> mBaseOneAgentSpec \<Rightarrow> BaseOneAgentSpec" where
  "base_spec_val h x =
     \<lparr>sp_APIURL = ms_APIURL x, sp_Tokens = ms_Tokens x, sp_SkipCertCheck = ms_SkipCertCheck x,
      sp_EnableIstio = ms_EnableIstio x, sp_Proxy = pointer_val proxy_of plain_val h (ms_Proxy x),
      sp_TrustedCAs = ms_TrustedCAs x, sp_NetworkZone = ms_NetworkZone x,
      sp_UseImmutableImage = ms_UseImmutableImage x\<rparr>"

definition base_spec_plain :: "mBaseOneAgentSpec \<Rightarrow> OneAgentProxy option \<Rightarrow> BaseOneAgentSpec" where
  "base_spec_plain x p =
     \<lparr>sp_APIURL = ms_APIURL x, sp_Tokens = ms_Tokens x, sp_SkipCertCheck = ms_SkipCertCheck x,
      sp_EnableIstio = ms_EnableIstio x, sp_Proxy = p, sp_TrustedCAs = ms_TrustedCAs x,
      sp_NetworkZone = ms_NetworkZone x, sp_UseImmutableImage = ms_UseImmutableImage x\<rparr>"

definition base_spec_foot :: "'l mem \<Rightarrow> mBaseOneAgentSpec \<Rightarrow> addr set" where
  "base_spec_foot = struct_foot ms_Proxy (pointer_foot proxy_of plain_foot)"

lemma deep_base_spec [deep]: "deep_copies base_spec_val base_spec_foot BaseOneAgentSpec_DeepCopyInto"
proof -
  let ?val = "struct_val base_spec_plain ms_Proxy (pointer_val proxy_of plain_val)"
  have c: "BaseOneAgentSpec_DeepCopyInto = copy_struct ms_Proxy (\<lambda>r. ms_Proxy_update (\<lambda>_. r)) (copy_new proxy_of CProxy)"
    by (intro ext) (simp add: BaseOneAgentSpec_DeepCopyInto_def copy_struct_def)
  have "deep_copies ?val base_spec_foot BaseOneAgentSpec_DeepCopyInto"
    unfolding base_spec_foot_def c
    by (rule deep_copies_struct [OF deep_new]) (simp_all add: base_spec_plain_def fun_eq_iff)
  from deep_copies_view [OF this, of "\<lambda>(s, p). s p"] show ?thesis
    by (simp add: struct_val_def base_spec_plain_def base_spec_val_def [abs_def])
qed

definition spec_refs where
  "spec_refs x = (mg_BaseOneAgentSpec x, mg_NodeSelector x, mg_Tolerations x, mg_WaitReadySeconds x, mg_Resources x,
     mg_Args x, mg_Env x, mg_Labels x, mg_UseUnprivilegedMode x)"

definition spec_set_refs where
  "spec_set_refs = (\<lambda>(b, n, t, w, r, a, e, l, u) x. x\<lparr>mg_BaseOneAgentSpec := b, mg_NodeSelector := n,
     mg_Tolerations := t, mg_WaitReadySeconds := w, mg_Resources := r, mg_Args := a, mg_Env := e, mg_Labels := l,
     mg_UseUnprivilegedMode := u\<rparr>)"

definition spec_plain where
  "spec_plain x = (mg_Image x, mg_AgentVersion x, mg_CustomPullSecret x, mg_WebhookInjection x, mg_PriorityClassName x,
     mg_DisableAgentUpdate x, mg_DNSPolicy x, mg_ServiceAccountName x)"

definition spec_val where
  "spec_val L = struct_val spec_plain spec_refs
     (pair_val base_spec_val (pair_val (pointer_val string_map_of plain_val)
     (pair_val (pointer_val libs_of (list_val (lb_val L))) (pair_val (pointer_val word_of plain_val) (pair_val (lb_val L)
     (pair_val (pointer_val strings_of plain_val) (pair_val (pointer_val libs_of (list_val (lb_val L)))
     (pair_val (pointer_val string_map_of plain_val) (pointer_val bool_of plain_val)))))))))"

definition spec_foot where
  "spec_foot L = struct_foot spec_refs
     (pair_foot base_spec_foot (pair_foot (pointer_foot string_map_of plain_foot)
     (pair_foot (pointer_foot libs_of (list_foot (lb_foot L))) (pair_foot (pointer_foot word_of plain_foot) (pair_foot (lb_foot L)
     (pair_foot (pointer_foot strings_of plain_foot) (pair_foot (pointer_foot libs_of (list_foot (lb_foot L)))
     (pair_foot (pointer_foot string_map_of plain_foot) (pointer_foot bool_of plain_foot)))))))))"

lemma spec_copy_struct:
  "OneAgentSpec_DeepCopyInto L = copy_struct spec_refs spec_set_refs
     (copy_pair BaseOneAgentSpec_DeepCopyInto (copy_pair (copy_new string_map_of CStringMap)
     (copy_pair (copy_libs L) (copy_pair (copy_new word_of CWord) (copy_pair (lb_DeepCopyInto L)
     (copy_pair (copy_new strings_of CStrings) (copy_pair (copy_libs L)
     (copy_pair (copy_new string_map_of CStringMap) (copy_new bool_of CBool)))))))))"
  by (intro ext) (simp add: OneAgentSpec_DeepCopyInto_def copy_struct_def copy_pair_def spec_refs_def spec_set_refs_def
      Let_def split: prod.split)

lemma deep_spec [deep]:
  "lib_laws L \<Longrightarrow> deep_copies (spec_val L) (spec_foot L) (OneAgentSpec_DeepCopyInto L)"
  unfolding spec_copy_struct spec_val_def spec_foot_def
  by (rule deep_copies_struct; (intro deep)?)
    (simp_all add: spec_refs_def spec_set_refs_def spec_plain_def split: prod.splits)

section \<open>Statuses and resources\<close>

definition base_status_refs where
  "base_status_refs x = (mt_UpdatedTimestamp x, mt_Conditions x, mt_LastAPITokenProbeTimestamp x, mt_LastPaaSTokenProbeTimestamp x)"

definition base_status_set_refs where
  "base_status_set_refs = (\<lambda>(r0, r1, r2, r3) x. x\<lparr>mt_UpdatedTimestamp := r0, mt_Conditions := r1, mt_LastAPITokenProbeTimestamp := r2, mt_LastPaaSTokenProbeTimestamp := r3\<rparr>)"

definition base_status_plain where
  "base_status_plain x = (mt_EnvironmentID x, mt_Tokens x, mt_UseImmutableImage x)"

definition base_status_val where
  "base_status_val L = struct_val base_status_plain base_status_refs
     (pair_val (lb_val L) (pair_val (pointer_val libs_of (list_val (lb_val L))) (pair_val (time_val L) (time_val L))))"

definition base_status_foot where
  "base_status_foot L = struct_foot base_status_refs
     (pair_foot (lb_foot L) (pair_foot (pointer_foot libs_of (list_foot (lb_foot L))) (pair_foot (time_foot L) (time_foot L))))"

lemma base_status_copy_struct:
  "BaseOneAgentStatus_DeepCopyInto L = copy_struct base_status_refs base_status_set_refs
     (copy_pair (lb_DeepCopyInto L) (copy_pair (copy_libs L) (copy_pair (copy_time L) (copy_time L))))"
  by (intro ext) (simp add: BaseOneAgentStatus_DeepCopyInto_def copy_struct_def copy_pair_def base_status_refs_def base_status_set_refs_def
      Let_def split: prod.split)

lemma deep_base_status [deep]:
  "lib_laws L \<Longrightarrow> deep_copies (base_status_val L) (base_status_foot L) (BaseOneAgentStatus_DeepCopyInto L)"
  unfolding base_status_copy_struct base_status_val_def base_status_foot_def
  by (rule deep_copies_struct; (intro deep)?)
    (simp_all add: base_status_refs_def base_status_set_refs_def base_status_plain_def split: prod.splits)

definition status_refs where
  "status_refs x = (mu_BaseOneAgentStatus x, mu_Instances x, mu_LastUpdateProbeTimestamp x, mu_LastImageVersionProbeTimestamp x)"

definition status_set_refs where
  "status_set_refs = (\<lambda>(r0, r1, r2, r3) x. x\<lparr>mu_BaseOneAgentStatus := r0, mu_Instances := r1, mu_LastUpdateProbeTimestamp := r2, mu_LastImageVersionProbeTimestamp := r3\<rparr>)"

definition status_plain where
  "status_plain x = (mu_Version x, mu_Phase x, mu_ImageHash x, mu_ImageVersion x)"

definition status_val where
  "status_val L = struct_val status_plain status_refs
     (pair_val (base_status_val L) (pair_val (pointer_val instance_map_of plain_val) (pair_val (time_val L) (time_val L))))"

definition status_foot where
  "status_foot L = struct_foot status_refs
     (pair_foot (base_status_foot L) (pair_foot (pointer_foot instance_map_of plain_foot) (pair_foot (time_foot L) (time_foot L))))"

lemma status_copy_struct:
  "OneAgentStatus_DeepCopyInto L = copy_struct status_refs status_set_refs
     (copy_pair (BaseOneAgentStatus_DeepCopyInto L) (copy_pair (copy_new instance_map_of CInstanceMap) (copy_pair (copy_time L) (copy_time L))))"
  by (intro ext) (simp add: OneAgentStatus_DeepCopyInto_def copy_struct_def copy_pair_def status_refs_def status_set_refs_def
      Let_def split: prod.split)

lemma deep_status [deep]:
  "lib_laws L \<Longrightarrow> deep_copies (status_val L) (status_foot L) (OneAgentStatus_DeepCopyInto L)"
  unfolding status_copy_struct status_val_def status_foot_def
  by (rule deep_copies_struct; (intro deep)?)
    (simp_all add: status_refs_def status_set_refs_def status_plain_def split: prod.splits)

definition apm_spec_refs where
  "apm_spec_refs x = (ma_BaseOneAgentSpec x, ma_Resources x)"

definition apm_spec_set_refs where
  "apm_spec_set_refs = (\<lambda>(r0, r1) x. x\<lparr>ma_BaseOneAgentSpec := r0, ma_Resources := r1\<rparr>)"

definition apm_spec_plain where
  "apm_spec_plain x = (ma_Image x, ma_AgentVersion x, ma_Flavor x)"

definition apm_spec_val where
  "apm_spec_val L = struct_val apm_spec_plain apm_spec_refs
     (pair_val base_spec_val (lb_val L))"

definition apm_spec_foot where
  "apm_spec_foot L = struct_foot apm_spec_refs
     (pair_foot base_spec_foot (lb_foot L))"

lemma apm_spec_copy_struct:
  "OneAgentAPMSpec_DeepCopyInto L = copy_struct apm_spec_refs apm_spec_set_refs
     (copy_pair BaseOneAgentSpec_DeepCopyInto (lb_DeepCopyInto L))"
  by (intro ext) (simp add: OneAgentAPMSpec_DeepCopyInto_def copy_struct_def copy_pair_def apm_spec_refs_def apm_spec_set_refs_def
      Let_def split: prod.split)

lemma deep_apm_spec [deep]:
  "lib_laws L \<Longrightarrow> deep_copies (apm_spec_val L) (apm_spec_foot L) (OneAgentAPMSpec_DeepCopyInto L)"
  unfolding apm_spec_copy_struct apm_spec_val_def apm_spec_foot_def
  by (rule deep_copies_struct; (intro deep)?)
    (simp_all add: apm_spec_refs_def apm_spec_set_refs_def apm_spec_plain_def split: prod.splits)

definition apm_status_refs where
  "apm_status_refs x = mp_BaseOneAgentStatus x"

definition apm_status_set_refs where
  "apm_status_set_refs = (\<lambda>r0 x. x\<lparr>mp_BaseOneAgentStatus := r0\<rparr>)"

definition apm_status_plain where
  "apm_status_plain x = ()"

definition apm_status_val where
  "apm_status_val L = struct_val apm_status_plain apm_status_refs
     (base_status_val L)"

definition apm_status_foot where
  "apm_status_foot L = struct_foot apm_status_refs
     (base_status_foot L)"

lemma apm_status_copy_struct:
  "OneAgentAPMStatus_DeepCopyInto L = copy_struct apm_status_refs apm_status_set_refs
     (BaseOneAgentStatus_DeepCopyInto L)"
  by (intro ext) (simp add: OneAgentAPMStatus_DeepCopyInto_def copy_struct_def copy_pair_def apm_status_refs_def apm_status_set_refs_def
      Let_def split: prod.split)

lemma deep_apm_status [deep]:
  "lib_laws L \<Longrightarrow> deep_copies (apm_status_val L) (apm_status_foot L) (OneAgentAPMStatus_DeepCopyInto L)"
  unfolding apm_status_copy_struct apm_status_val_def apm_status_foot_def
  by (rule deep_copies_struct; (intro deep)?)
    (simp_all add: apm_status_refs_def apm_status_set_refs_def apm_status_plain_def split: prod.splits)

definition oneagent_refs where
  "oneagent_refs x = (mr_ObjectMeta x, mr_Spec x, mr_Status x)"

definition oneagent_set_refs where
  "oneagent_set_refs = (\<lambda>(r0, r1, r2) x. x\<lparr>mr_ObjectMeta := r0, mr_Spec := r1, mr_Status := r2\<rparr>)"

definition oneagent_plain where
  "oneagent_plain x = mr_TypeMeta x"

definition oneagent_val where
  "oneagent_val L = struct_val oneagent_plain oneagent_refs
     (pair_val (lb_val L) (pair_val (spec_val L) (status_val L)))"

definition oneagent_foot where
  "oneagent_foot L = struct_foot oneagent_refs
     (pair_foot (lb_foot L) (pair_foot (spec_foot L) (status_foot L)))"

lemma oneagent_copy_struct:
  "OneAgent_DeepCopyInto L = copy_struct oneagent_refs oneagent_set_refs
     (copy_pair (lb_DeepCopyInto L) (copy_pair (OneAgentSpec_DeepCopyInto L) (OneAgentStatus_DeepCopyInto L)))"
  by (intro ext) (simp add: OneAgent_DeepCopyInto_def copy_struct_def copy_pair_def oneagent_refs_def oneagent_set_refs_def
      Let_def split: prod.split)

lemma deep_oneagent [deep]:
  "lib_laws L \<Longrightarrow> deep_copies (oneagent_val L) (oneagent_foot L) (OneAgent_DeepCopyInto L)"
  unfolding oneagent_copy_struct oneagent_val_def oneagent_foot_def
  by (rule deep_copies_struct; (intro deep)?)
    (simp_all add: oneagent_refs_def oneagent_set_refs_def oneagent_plain_def split: prod.splits)

definition apm_refs where
  "apm_refs x = (mr_ObjectMeta x, mr_Spec x, mr_Status x)"

definition apm_set_refs where
  "apm_set_refs = (\<lambda>(r0, r1, r2) x. x\<lparr>mr_ObjectMeta := r0, mr_Spec := r1, mr_Status := r2\<rparr>)"

definition apm_plain where
  "apm_plain x = mr_TypeMeta x"

definition apm_val where
  "apm_val L = struct_val apm_plain apm_refs
     (pair_val (lb_val L) (pair_val (apm_spec_val L) (apm_status_val L)))"

definition apm_foot where
  "apm_foot L = struct_foot apm_refs
     (pair_foot (lb_foot L) (pair_foot (apm_spec_foot L) (apm_status_foot L)))"

lemma apm_copy_struct:
  "OneAgentAPM_DeepCopyInto L = copy_struct apm_refs apm_set_refs
     (copy_pair (lb_DeepCopyInto L) (copy_pair (OneAgentAPMSpec_DeepCopyInto L) (OneAgentAPMStatus_DeepCopyInto L)))"
  by (intro ext) (simp add: OneAgentAPM_DeepCopyInto_def copy_struct_def copy_pair_def apm_refs_def apm_set_refs_def
      Let_def split: prod.split)

lemma deep_apm [deep]:
  "lib_laws L \<Longrightarrow> deep_copies (apm_val L) (apm_foot L) (OneAgentAPM_DeepCopyInto L)"
  unfolding apm_copy_struct apm_val_def apm_foot_def
  by (rule deep_copies_struct; (intro deep)?)
    (simp_all add: apm_refs_def apm_set_refs_def apm_plain_def split: prod.splits)

lemma deep_items [deep]:
  "lib_laws L \<Longrightarrow> deep_copies (pointer_val oneagents_of (list_val (oneagent_val L)))
     (pointer_foot oneagents_of (list_foot (oneagent_foot L)))
     (copy_pointer oneagents_of COneAgents Fresh (copy_list (OneAgent_DeepCopyInto L)))"
  "lib_laws L \<Longrightarrow> deep_copies (pointer_val apms_of (list_val (apm_val L)))
     (pointer_foot apms_of (list_foot (apm_foot L)))
     (copy_pointer apms_of CApms Fresh (copy_list (OneAgentAPM_DeepCopyInto L)))"
  by (intro deep_copies_pointer deep_copies_list deep_oneagent deep_apm; simp)+

definition oneagent_list_refs where
  "oneagent_list_refs x = (ml_ListMeta x, ml_Items x)"

definition oneagent_list_set_refs where
  "oneagent_list_set_refs = (\<lambda>(r0, r1) x. x\<lparr>ml_ListMeta := r0, ml_Items := r1\<rparr>)"

definition oneagent_list_plain where
  "oneagent_list_plain x = ml_TypeMeta x"

definition oneagent_list_val where
  "oneagent_list_val L = struct_val oneagent_list_plain oneagent_list_refs
     (pair_val (lb_val L) (pointer_val oneagents_of (list_val (oneagent_val L))))"

definition oneagent_list_foot where
  "oneagent_list_foot L = struct_foot oneagent_list_refs
     (pair_foot (lb_foot L) (pointer_foot oneagents_of (list_foot (oneagent_foot L))))"

lemma oneagent_list_copy_struct:
  "OneAgentList_DeepCopyInto L = copy_struct oneagent_list_refs oneagent_list_set_refs
     (copy_pair (lb_DeepCopyInto L) (copy_pointer oneagents_of COneAgents Fresh (copy_list (OneAgent_DeepCopyInto L))))"
  by (intro ext) (simp add: OneAgentList_DeepCopyInto_def copy_struct_def copy_pair_def oneagent_list_refs_def oneagent_list_set_refs_def
      Let_def split: prod.split)

lemma deep_oneagent_list [deep]:
  "lib_laws L \<Longrightarrow> deep_copies (oneagent_list_val L) (oneagent_list_foot L) (OneAgentList_DeepCopyInto L)"
  unfolding oneagent_list_copy_struct oneagent_list_val_def oneagent_list_foot_def
  by (rule deep_copies_struct; (intro deep)?)
    (simp_all add: oneagent_list_refs_def oneagent_list_set_refs_def oneagent_list_plain_def split: prod.splits)

definition apm_list_refs where
  "apm_list_refs x = (ml_ListMeta x, ml_Items x)"

definition apm_list_set_refs where
  "apm_list_set_refs = (\<lambda>(r0, r1) x. x\<lparr>ml_ListMeta := r0, ml_Items := r1\<rparr>)"

definition apm_list_plain where
  "apm_list_plain x = ml_TypeMeta x"

definition apm_list_val where
  "apm_list_val L = struct_val apm_list_plain apm_list_refs
     (pair_val (lb_val L) (pointer_val apms_of (list_val (apm_val L))))"

definition apm_list_foot where
  "apm_list_foot L = struct_foot apm_list_refs
     (pair_foot (lb_foot L) (pointer_foot apms_of (list_foot (apm_foot L))))"

lemma apm_list_copy_struct:
  "OneAgentAPMList_DeepCopyInto L = copy_struct apm_list_refs apm_list_set_refs
     (copy_pair (lb_DeepCopyInto L) (copy_pointer apms_of CApms Fresh (copy_list (OneAgentAPM_DeepCopyInto L))))"
  by (intro ext) (simp add: OneAgentAPMList_DeepCopyInto_def copy_struct_def copy_pair_def apm_list_refs_def apm_list_set_refs_def
      Let_def split: prod.split)

lemma deep_apm_list [deep]:
  "lib_laws L \<Longrightarrow> deep_copies (apm_list_val L) (apm_list_foot L) (OneAgentAPMList_DeepCopyInto L)"
  unfolding apm_list_copy_struct apm_list_val_def apm_list_foot_def
  by (rule deep_copies_struct; (intro deep)?)
    (simp_all add: apm_list_refs_def apm_list_set_refs_def apm_list_plain_def split: prod.splits)

section \<open>DeepCopy and DeepCopyObject\<close>

text \<open>Three types need no library; the contract's facts are theirs.\<close>

lemma deep_proxy: "deep_copies plain_val plain_foot OneAgentProxy_DeepCopyInto"
  and deep_instance: "deep_copies plain_val plain_foot OneAgentInstance_DeepCopyInto"
  using deep_copies_plain
  by (simp_all add: OneAgentProxy_DeepCopyInto_def [abs_def] OneAgentInstance_DeepCopyInto_def [abs_def] copy_plain_def [abs_def])

interpretation proxy: deep_copy "pointer_val proxy_of plain_val" "pointer_foot proxy_of plain_foot" OneAgentProxy_DeepCopy
  by unfold_locales (simp add: OneAgentProxy_DeepCopy_def deep_copies_pointer deep_proxy)

interpretation inst: deep_copy "pointer_val instance_of plain_val" "pointer_foot instance_of plain_foot" OneAgentInstance_DeepCopy
  by unfold_locales (simp add: OneAgentInstance_DeepCopy_def deep_copies_pointer deep_instance)

interpretation base_spec: deep_copy "pointer_val base_spec_of base_spec_val" "pointer_foot base_spec_of base_spec_foot" BaseOneAgentSpec_DeepCopy
  by unfold_locales (simp add: BaseOneAgentSpec_DeepCopy_def deep_copies_pointer deep_base_spec)

text \<open>The others are deep when the libraries' copies are.\<close>

lemma DeepCopy_deep:
  assumes "lib_laws L"
  shows "deep_copy (pointer_val base_status_of (base_status_val L)) (pointer_foot base_status_of (base_status_foot L)) (BaseOneAgentStatus_DeepCopy L)"
    and "deep_copy (pointer_val oneagent_spec_of (spec_val L)) (pointer_foot oneagent_spec_of (spec_foot L)) (OneAgentSpec_DeepCopy L)"
    and "deep_copy (pointer_val oneagent_status_of (status_val L)) (pointer_foot oneagent_status_of (status_foot L)) (OneAgentStatus_DeepCopy L)"
    and "deep_copy (pointer_val apm_spec_of (apm_spec_val L)) (pointer_foot apm_spec_of (apm_spec_foot L)) (OneAgentAPMSpec_DeepCopy L)"
    and "deep_copy (pointer_val apm_status_of (apm_status_val L)) (pointer_foot apm_status_of (apm_status_foot L)) (OneAgentAPMStatus_DeepCopy L)"
    and DeepCopy_oneagent: "deep_copy (pointer_val oneagent_of (oneagent_val L)) (pointer_foot oneagent_of (oneagent_foot L)) (OneAgent_DeepCopy L)"
    and DeepCopy_apm: "deep_copy (pointer_val apm_of (apm_val L)) (pointer_foot apm_of (apm_foot L)) (OneAgentAPM_DeepCopy L)"
    and DeepCopy_oneagent_list: "deep_copy (pointer_val oneagent_list_of (oneagent_list_val L)) (pointer_foot oneagent_list_of (oneagent_list_foot L)) (OneAgentList_DeepCopy L)"
    and DeepCopy_apm_list: "deep_copy (pointer_val apm_list_of (apm_list_val L)) (pointer_foot apm_list_of (apm_list_foot L)) (OneAgentAPMList_DeepCopy L)"
  unfolding deep_copy_def BaseOneAgentStatus_DeepCopy_def OneAgentSpec_DeepCopy_def OneAgentStatus_DeepCopy_def
    OneAgentAPMSpec_DeepCopy_def OneAgentAPMStatus_DeepCopy_def OneAgent_DeepCopy_def OneAgentAPM_DeepCopy_def
    OneAgentList_DeepCopy_def OneAgentAPMList_DeepCopy_def
  by (simp_all add: deep_copies_pointer deep_base_status deep_spec deep_status deep_apm_spec deep_apm_status
      deep_oneagent deep_apm deep_oneagent_list deep_apm_list assms)

section \<open>Objects\<close>

text \<open>What an object means and reaches; a nil pointer means what the nil object means.\<close>

datatype ('o, 'a, 'ol, 'al) meaning = MeansNil | MeansOneAgent 'o | MeansApm 'a | MeansOneAgents 'ol | MeansApms 'al

definition means :: "('v \<Rightarrow> 'm) \<Rightarrow> 'm \<Rightarrow> 'v option \<Rightarrow> 'm" where
  "means kind nil x = (case x of None \<Rightarrow> nil | Some v \<Rightarrow> kind v)"

definition object_val where
  "object_val L h x =
     (case x of
        NilObject \<Rightarrow> MeansNil
      | AnOneAgent p \<Rightarrow> means MeansOneAgent MeansNil (pointer_val oneagent_of (oneagent_val L) h p)
      | AnOneAgentAPM p \<Rightarrow> means MeansApm MeansNil (pointer_val apm_of (apm_val L) h p)
      | AnOneAgentList p \<Rightarrow> means MeansOneAgents MeansNil (pointer_val oneagent_list_of (oneagent_list_val L) h p)
      | AnOneAgentAPMList p \<Rightarrow> means MeansApms MeansNil (pointer_val apm_list_of (apm_list_val L) h p))"

definition object_foot :: "('l, 'v) library \<Rightarrow> 'l mem \<Rightarrow> object \<Rightarrow> addr set" where
  "object_foot L h x =
     (case x of
        NilObject \<Rightarrow> {}
      | AnOneAgent p \<Rightarrow> pointer_foot oneagent_of (oneagent_foot L) h p
      | AnOneAgentAPM p \<Rightarrow> pointer_foot apm_of (apm_foot L) h p
      | AnOneAgentList p \<Rightarrow> pointer_foot oneagent_list_of (oneagent_list_foot L) h p
      | AnOneAgentAPMList p \<Rightarrow> pointer_foot apm_list_of (apm_list_foot L) h p)"

text \<open>The method call on a \<open>runtime.Object\<close>; the nil object has no methods.\<close>

definition DeepCopyObject :: "('l, 'v) library \<Rightarrow> object \<Rightarrow> 'l mem \<Rightarrow> object \<times> 'l mem" where
  "DeepCopyObject L x h =
     (case x of
        NilObject \<Rightarrow> (NilObject, h)
      | AnOneAgent p \<Rightarrow> OneAgent_DeepCopyObject L p h
      | AnOneAgentAPM p \<Rightarrow> OneAgentAPM_DeepCopyObject L p h
      | AnOneAgentList p \<Rightarrow> OneAgentList_DeepCopyObject L p h
      | AnOneAgentAPMList p \<Rightarrow> OneAgentAPMList_DeepCopyObject L p h)"

lemma as_object_copy:
  assumes "deep_copy (pointer_val get val) (pointer_foot get foot) dc"
    and "pointer_foot get foot h p \<subseteq> {..<hp_lim h}" and "as_object kind (dc p h) = (y, h')"
  shows "\<exists>q. (y = kind q \<and> q \<noteq> None \<or> y = NilObject \<and> q = None) \<and> extends h h' \<and>
     pointer_val get val h' q = pointer_val get val h p \<and> pointer_foot get foot h' q \<subseteq> {hp_lim h..<hp_lim h'}"
proof -
  from assms(3) have "dc p h = (fst (dc p h), h')" by (cases "dc p h") (auto simp: as_object_def split: if_splits)
  from deep_copies_copy [OF assms(1) [unfolded deep_copy_def] assms(2) this] assms(3) show ?thesis
    by (intro exI [of _ "fst (dc p h)"]) (auto simp: as_object_def split: if_splits)
qed

lemma pointer_val_None [simp]: "pointer_val get val h None = None" "pointer_foot get foot h None = {}"
  by (simp_all add: pointer_val_def pointer_foot_def)

lemma as_object_deep:
  assumes "deep_copy (pointer_val get val) (pointer_foot get foot) dc"
    and "\<And>h q. object_val L h (kind q) = means K MeansNil (pointer_val get val h q)"
    and "\<And>h q. object_foot L h (kind q) = pointer_foot get foot h q"
    and "object_foot L h (kind p) \<subseteq> {..<hp_lim h}" and "as_object kind (dc p h) = (y, h')"
  shows "extends h h' \<and> object_val L h' y = object_val L h (kind p) \<and> object_foot L h' y \<subseteq> {hp_lim h..<hp_lim h'}"
proof -
  have "pointer_foot get foot h p \<subseteq> {..<hp_lim h}" using assms(4) by (simp only: assms(3))
  from as_object_copy [OF assms(1) this assms(5)] obtain q where
    q: "y = kind q \<or> y = NilObject \<and> q = None" "extends h h'" "pointer_val get val h' q = pointer_val get val h p"
      "pointer_foot get foot h' q \<subseteq> {hp_lim h..<hp_lim h'}" by blast
  from q(1) show ?thesis
  proof
    assume "y = kind q"
    with q show ?thesis by (simp only: assms(2,3) simp_thms)
  next
    assume "y = NilObject \<and> q = None"
    with q show ?thesis by (simp add: assms(2)) (simp add: object_val_def object_foot_def means_def)
  qed
qed

lemma deep_object:
  assumes "lib_laws L"
  shows "deep_copies (object_val L) (object_foot L) (DeepCopyObject L)"
proof (rule deep_copiesI)
  fix h h' :: "'a mem" and x
  assume "\<forall>a \<in> object_foot L h x. hp_cells h' a = hp_cells h a"
  then show "object_val L h' x = object_val L h x \<and> object_foot L h' x = object_foot L h x"
    using deep_copies_local [OF DeepCopy_oneagent [OF assms, unfolded deep_copy_def], of h _ h']
      deep_copies_local [OF DeepCopy_apm [OF assms, unfolded deep_copy_def], of h _ h']
      deep_copies_local [OF DeepCopy_oneagent_list [OF assms, unfolded deep_copy_def], of h _ h']
      deep_copies_local [OF DeepCopy_apm_list [OF assms, unfolded deep_copy_def], of h _ h']
    by (cases x) (simp_all add: object_val_def object_foot_def)
next
  fix h h' :: "'a mem" and x y
  assume f: "object_foot L h x \<subseteq> {..<hp_lim h}" and run: "DeepCopyObject L x h = (y, h')"
  show "extends h h' \<and> object_val L h' y = object_val L h x \<and> object_foot L h' y \<subseteq> {hp_lim h..<hp_lim h'}"
  proof (cases x)
    case NilObject
    with run show ?thesis by (simp add: DeepCopyObject_def object_val_def object_foot_def)
  next
    case (AnOneAgent p)
    from run have "as_object AnOneAgent (OneAgent_DeepCopy L p h) = (y, h')"
      by (simp add: AnOneAgent DeepCopyObject_def OneAgent_DeepCopyObject_def)
    from as_object_deep [OF DeepCopy_oneagent [OF assms] _ _ f [unfolded AnOneAgent] this] show ?thesis
      by (simp add: AnOneAgent object_val_def object_foot_def)
  next
    case (AnOneAgentAPM p)
    from run have "as_object AnOneAgentAPM (OneAgentAPM_DeepCopy L p h) = (y, h')"
      by (simp add: AnOneAgentAPM DeepCopyObject_def OneAgentAPM_DeepCopyObject_def)
    from as_object_deep [OF DeepCopy_apm [OF assms] _ _ f [unfolded AnOneAgentAPM] this] show ?thesis
      by (simp add: AnOneAgentAPM object_val_def object_foot_def)
  next
    case (AnOneAgentList p)
    from run have "as_object AnOneAgentList (OneAgentList_DeepCopy L p h) = (y, h')"
      by (simp add: AnOneAgentList DeepCopyObject_def OneAgentList_DeepCopyObject_def)
    from as_object_deep [OF DeepCopy_oneagent_list [OF assms] _ _ f [unfolded AnOneAgentList] this] show ?thesis
      by (simp add: AnOneAgentList object_val_def object_foot_def)
  next
    case (AnOneAgentAPMList p)
    from run have "as_object AnOneAgentAPMList (OneAgentAPMList_DeepCopy L p h) = (y, h')"
      by (simp add: AnOneAgentAPMList DeepCopyObject_def OneAgentAPMList_DeepCopyObject_def)
    from as_object_deep [OF DeepCopy_apm_list [OF assms] _ _ f [unfolded AnOneAgentAPMList] this] show ?thesis
      by (simp add: AnOneAgentAPMList object_val_def object_foot_def)
  qed
qed

section \<open>A concrete library\<close>

text \<open>A library struct is a text and a pointer to a flag.\<close>

type_synonym toy_struct = "string \<times> addr option"

definition toy_copy :: "toy_struct \<Rightarrow> toy_struct mem \<Rightarrow> toy_struct \<times> toy_struct mem" where
  "toy_copy = copy_pair copy_plain (copy_new bool_of CBool)"

definition toy_library :: "(toy_struct, string \<times> bool option) library" where
  "toy_library =
     \<lparr>lb_DeepCopyInto = toy_copy,
      lb_Time_DeepCopy = (\<lambda>a h. (let (b, h1) = alloc Fresh h; (v, h2) = toy_copy (lib_of (hp_cells h1 a)) h1
                               in (b, store b (CLib v) h2))),
      lb_val = pair_val plain_val (pointer_val bool_of plain_val),
      lb_foot = pair_foot plain_foot (pointer_foot bool_of plain_foot)\<rparr>"

lemma toy_lib_laws: "lib_laws toy_library"
proof -
  have d: "deep_copies (lb_val toy_library) (lb_foot toy_library) toy_copy"
    unfolding toy_library_def toy_copy_def by simp (intro deep; simp)
  have "copy_time toy_library = copy_pointer lib_of CLib Fresh toy_copy"
    by (intro ext) (simp add: copy_time_def copy_pointer_def toy_library_def split: option.split prod.split)
  then have "deep_copies (time_val toy_library) (time_foot toy_library) (copy_time toy_library)"
    unfolding time_val_def time_foot_def by (simp add: deep_copies_pointer d)
  with d show ?thesis by (simp add: lib_laws_def) (simp add: toy_library_def)
qed

text \<open>A OneAgent at 0 with a proxy at 1 and an annotated name, whose flag is at 2.\<close>

definition toy_resource :: "toy_struct mOneAgent" where
  "toy_resource =
     \<lparr>mr_TypeMeta = (''OneAgent'', ''v1alpha1''), mr_ObjectMeta = (''oneagent'', Some 2),
      mr_Spec =
        \<lparr>mg_BaseOneAgentSpec =
           \<lparr>ms_APIURL = ''url'', ms_Tokens = [], ms_SkipCertCheck = False, ms_EnableIstio = True, ms_Proxy = Some 1,
            ms_TrustedCAs = [], ms_NetworkZone = [], ms_UseImmutableImage = False\<rparr>,
         mg_NodeSelector = None, mg_Tolerations = None, mg_WaitReadySeconds = None, mg_Image = [], mg_AgentVersion = [],
         mg_CustomPullSecret = [], mg_Resources = ([], None), mg_WebhookInjection = False, mg_Args = None, mg_Env = None,
         mg_PriorityClassName = [], mg_DisableAgentUpdate = False, mg_DNSPolicy = [], mg_ServiceAccountName = [],
         mg_Labels = None, mg_UseUnprivilegedMode = None\<rparr>,
      mr_Status =
        \<lparr>mu_BaseOneAgentStatus =
           \<lparr>mt_UpdatedTimestamp = ([], None), mt_Conditions = None, mt_LastAPITokenProbeTimestamp = None,
            mt_LastPaaSTokenProbeTimestamp = None, mt_EnvironmentID = [], mt_Tokens = [], mt_UseImmutableImage = False\<rparr>,
         mu_Version = [], mu_Instances = None, mu_Phase = Running, mu_LastUpdateProbeTimestamp = None, mu_ImageHash = [],
         mu_ImageVersion = [], mu_LastImageVersionProbeTimestamp = None\<rparr>\<rparr>"

definition toy_mem :: "toy_struct mem" where
  "toy_mem =
     \<lparr>hp_cells = (\<lambda>_. Fresh)(0 := COneAgent toy_resource, 1 := CProxy \<lparr>prx_Value = ''proxy'', prx_ValueFrom = []\<rparr>,
                            2 := CBool True), hp_lim = 3\<rparr>"

lemma toy_foot: "object_foot toy_library toy_mem (AnOneAgent (Some 0)) = {0, 1, 2}"
  by (simp add: object_foot_def toy_mem_def toy_resource_def pointer_foot_def oneagent_foot_def struct_foot_def oneagent_refs_def
      pair_foot_def toy_library_def plain_foot_def spec_foot_def spec_refs_def base_spec_foot_def status_foot_def status_refs_def
      base_status_foot_def base_status_refs_def time_foot_def)

section \<open>Properties\<close>

text \<open>C13: \<open>DeepCopyObject\<close> of every resource and list of the API is a deep copy: the copy equals the original,
  through all pointers, slices and maps, reaches only cells that did not exist before, so that the two
  share nothing, and the original is as it was.
\<close>

theorem deep_copy_equals_and_shares_nothing:
  assumes "lib_laws L" and "object_foot L h x \<subseteq> {..<hp_lim h}" and "DeepCopyObject L x h = (y, h')"
  shows "object_val L h' y = object_val L h x \<and> object_val L h' x = object_val L h x \<and>
         object_foot L h' y \<subseteq> {hp_lim h..<hp_lim h'} \<and> object_foot L h' x \<inter> object_foot L h' y = {}"
  using deep_copies_copy [OF deep_object [OF assms(1)] assms(2,3)]
    deep_copy.equal_copy [OF deep_copy.intro [OF deep_object [OF assms(1)]] assms(2,3)]
    deep_copy.disjoint_copy [OF deep_copy.intro [OF deep_object [OF assms(1)]] assms(2,3)] by blast

theorem deep_copy_equals_and_shares_nothing_witness:
  "\<exists>y h'. DeepCopyObject toy_library (AnOneAgent (Some 0)) toy_mem = (y, h') \<and>
     object_val toy_library h' y = object_val toy_library toy_mem (AnOneAgent (Some 0)) \<and>
     object_foot toy_library h' y \<inter> {0, 1, 2} = {}"
proof -
  obtain y h' where run: "DeepCopyObject toy_library (AnOneAgent (Some 0)) toy_mem = (y, h')" by fastforce
  have f: "object_foot toy_library toy_mem (AnOneAgent (Some 0)) \<subseteq> {..<hp_lim toy_mem}"
    by (simp add: toy_foot) (simp add: toy_mem_def)
  from deep_copy_equals_and_shares_nothing [OF toy_lib_laws f run] run
  show ?thesis by (intro exI [of _ y] exI [of _ h']) (fastforce simp: toy_mem_def)
qed

text \<open>C14: Nothing that is done to a deep copy shows in the original, and nothing that is done to the original in
  the copy: whatever later heap differs only in cells that the one reaches, the other means what it did
  when it was copied.
\<close>

theorem deep_copies_are_isolated:
  assumes "lib_laws L" and "object_foot L h x \<subseteq> {..<hp_lim h}" and "DeepCopyObject L x h = (y, h')"
  shows "((\<forall>a. a \<notin> object_foot L h' y \<longrightarrow> hp_cells g a = hp_cells h' a) \<longrightarrow> object_val L g x = object_val L h x) \<and>
         ((\<forall>a. a \<notin> object_foot L h' x \<longrightarrow> hp_cells g a = hp_cells h' a) \<longrightarrow> object_val L g y = object_val L h x)"
  using deep_copy.isolated_copy [OF deep_copy.intro [OF deep_object [OF assms(1)]] assms(2,3), of g] by blast

text \<open>A write to the cell of the copied proxy, say: the copy's cells are all from 3 on.\<close>

theorem deep_copies_are_isolated_witness:
  "\<exists>y h'. DeepCopyObject toy_library (AnOneAgent (Some 0)) toy_mem = (y, h') \<and>
     (\<exists>a \<in> object_foot toy_library h' y.
        object_val toy_library (store a Fresh h') (AnOneAgent (Some 0)) = object_val toy_library toy_mem (AnOneAgent (Some 0)))"
proof -
  obtain y h' where run: "DeepCopyObject toy_library (AnOneAgent (Some 0)) toy_mem = (y, h')" by fastforce
  have f: "object_foot toy_library toy_mem (AnOneAgent (Some 0)) \<subseteq> {..<hp_lim toy_mem}"
    by (simp add: toy_foot) (simp add: toy_mem_def)
  have "fst (OneAgent_DeepCopy toy_library (Some 0) toy_mem) \<noteq> None"
    by (simp add: OneAgent_DeepCopy_def copy_pointer_def Let_def split: prod.split)
  with run obtain a where "y = AnOneAgent (Some a)"
    by (auto simp: DeepCopyObject_def OneAgent_DeepCopyObject_def as_object_def)
  then have a: "a \<in> object_foot toy_library h' y" by (simp add: object_foot_def pointer_foot_def)
  from deep_copies_are_isolated [OF toy_lib_laws f run, of "store a Fresh h'"] a
  have "object_val toy_library (store a Fresh h') (AnOneAgent (Some 0)) = object_val toy_library toy_mem (AnOneAgent (Some 0))"
    by auto
  with a run show ?thesis by blast
qed

end
