(* ===== verification/Logger.thy ===== *)
theory Logger
  imports Prelude
begin

text \<open>
  The logger (logger/logger.go): two zap loggers, one to standard output and one to standard error.  The
  library's logger is a value of type \<open>'g\<close> with the operations \<open>Z\<close>; a line is written to the world.
\<close>

datatype stream = Stdout | Stderr

record ('g, 'x, 'w) zap =
  zp_New :: "stream \<Rightarrow> 'g"
  zp_Info :: "'g \<Rightarrow> string \<Rightarrow> 'x list \<Rightarrow> 'w \<Rightarrow> 'w"
  zp_Error :: "'g \<Rightarrow> go_error \<Rightarrow> string \<Rightarrow> 'x list \<Rightarrow> 'w \<Rightarrow> 'w"
  zp_Enabled :: "'g \<Rightarrow> bool"
  zp_V :: "int \<Rightarrow> 'g \<Rightarrow> 'g"
  zp_WithValues :: "'x list \<Rightarrow> 'g \<Rightarrow> 'g"
  zp_WithName :: "string \<Rightarrow> 'g \<Rightarrow> 'g"

record 'g DTLogger =
  dtl_info :: 'g
  dtl_error :: 'g

definition NewDTLogger :: "('g, 'x, 'w) zap \<Rightarrow> 'g DTLogger" where
  "NewDTLogger Z = \<lparr>dtl_info = zp_New Z Stdout, dtl_error = zp_New Z Stderr\<rparr>"

definition DTLogger_Info :: "('g, 'x, 'w) zap \<Rightarrow> 'g DTLogger \<Rightarrow> string \<Rightarrow> 'x list \<Rightarrow> 'w \<Rightarrow> 'w" where
  "DTLogger_Info Z dtl msg kvs w = zp_Info Z (dtl_info dtl) msg kvs w"

definition DTLogger_Enabled :: "('g, 'x, 'w) zap \<Rightarrow> 'g DTLogger \<Rightarrow> bool" where
  "DTLogger_Enabled Z dtl = zp_Enabled Z (dtl_info dtl)"

definition DTLogger_Error :: "('g, 'x, 'w) zap \<Rightarrow> 'g DTLogger \<Rightarrow> go_error \<Rightarrow> string \<Rightarrow> 'x list \<Rightarrow> 'w \<Rightarrow> 'w" where
  "DTLogger_Error Z dtl err msg kvs w = zp_Error Z (dtl_error dtl) err msg kvs w"

text \<open>The logger of a level is one of the library.\<close>

definition DTLogger_V :: "('g, 'x, 'w) zap \<Rightarrow> 'g DTLogger \<Rightarrow> int \<Rightarrow> 'g" where
  "DTLogger_V Z dtl level = zp_V Z level (dtl_error dtl)"

definition DTLogger_WithValues :: "('g, 'x, 'w) zap \<Rightarrow> 'g DTLogger \<Rightarrow> 'x list \<Rightarrow> 'g DTLogger" where
  "DTLogger_WithValues Z dtl kvs =
     \<lparr>dtl_info = zp_WithValues Z kvs (dtl_info dtl), dtl_error = zp_WithValues Z kvs (dtl_error dtl)\<rparr>"

definition DTLogger_WithName :: "('g, 'x, 'w) zap \<Rightarrow> 'g DTLogger \<Rightarrow> string \<Rightarrow> 'g DTLogger" where
  "DTLogger_WithName Z dtl name =
     \<lparr>dtl_info = zp_WithName Z name (dtl_info dtl), dtl_error = zp_WithName Z name (dtl_error dtl)\<rparr>"

section \<open>Streams\<close>

text \<open>\<open>out g\<close> is the stream that a library logger writes to; derived loggers keep it.\<close>

definition zap_laws :: "('g, 'x, 'w) zap \<Rightarrow> ('g \<Rightarrow> stream) \<Rightarrow> bool" where
  "zap_laws Z out \<longleftrightarrow>
     (\<forall>s. out (zp_New Z s) = s) \<and> (\<forall>l g. out (zp_V Z l g) = out g) \<and>
     (\<forall>kvs g. out (zp_WithValues Z kvs g) = out g) \<and> (\<forall>n g. out (zp_WithName Z n g) = out g)"

text \<open>The loggers that come of \<open>NewDTLogger\<close>.\<close>

inductive derived :: "('g, 'x, 'w) zap \<Rightarrow> 'g DTLogger \<Rightarrow> bool" for Z where
  fresh: "derived Z (NewDTLogger Z)"
| with_values: "derived Z l \<Longrightarrow> derived Z (DTLogger_WithValues Z l kvs)"
| with_name: "derived Z l \<Longrightarrow> derived Z (DTLogger_WithName Z l n)"

text \<open>Information goes to standard output, errors to standard error.\<close>

lemma derived_streams:
  assumes "zap_laws Z out"
  shows "derived Z l \<Longrightarrow> out (dtl_info l) = Stdout \<and> out (dtl_error l) = Stderr"
  by (induction rule: derived.induct)
    (use assms in \<open>simp_all add: zap_laws_def NewDTLogger_def DTLogger_WithValues_def DTLogger_WithName_def\<close>)

text \<open>But what is logged at a level, as information too, goes to standard error.\<close>

lemma level_goes_to_stderr: "zap_laws Z out \<Longrightarrow> derived Z l \<Longrightarrow> out (DTLogger_V Z l level) = Stderr"
  using derived_streams [of Z out l] by (simp add: DTLogger_V_def zap_laws_def)

text \<open>The laws can hold: a logger that is its stream.\<close>

lemma stream_logger_laws:
  "zap_laws \<lparr>zp_New = (\<lambda>s. s), zp_Info = (\<lambda>g m kvs w. (g, m) # w), zp_Error = (\<lambda>g e m kvs w. (g, m) # w),
     zp_Enabled = (\<lambda>_. True), zp_V = (\<lambda>_ g. g), zp_WithValues = (\<lambda>_ g. g), zp_WithName = (\<lambda>_ g. g)\<rparr> (\<lambda>g. g)"
  by (simp add: zap_laws_def)

end
