(* ===== verification/Spec2Isabelle.thy ===== *)
theory Spec2Isabelle
  imports Nodes_Props Watchers Pods_Props Utils_Props Token_Props Daemonset_Props Istio_Props
    Oneagent_Props Apm_Controller Webhook_Props Bootstrapper_Props Namespace_Props Wellformed_Props
    Startup_Props Deepcopy_Props Logger
begin

text \<open>
  A verification of the Dynatrace OneAgent operator (Go), a Kubernetes operator that rolls out
  the OneAgent to the nodes of a cluster and injects it into pods.

  \<^bold>\<open>The program.\<close>  One binary runs as one of three programs.
  \<^item> The \<^emph>\<open>operator\<close> holds four controllers.  The OneAgent controller (controllers/oneagent) brings a
    \<open>OneAgent\<close> resource and its DaemonSet together and replaces outdated pods; the OneAgentAPM
    controller (controllers/oneagentapm) checks the tokens of \<open>OneAgentAPM\<close> resources; the namespace
    controller (controllers/namespace) writes the secrets that injected pods need into labelled
    namespaces; the nodes controller (controllers/nodes) tells Dynatrace about nodes that are cordoned
    or gone.  The first two use the Istio controller (controllers/istio) and the token reconciler
    (controllers/utils); all of them talk to Dynatrace by the REST client (dtclient).
  \<^item> The \<^emph>\<open>webhook bootstrapper\<close> (webhook/bootstrapper) keeps the certificates, the Service and the
    configuration of the webhook.
  \<^item> The \<^emph>\<open>webhook server\<close> (webhook/server) injects the OneAgent into new pods of labelled namespaces.

  \<^bold>\<open>How it is modelled.\<close>  A Go struct is a record (fields with a prefix of the struct), an interface
  or an enumeration a datatype, a function one definition that takes and returns the state that the
  Go code reads and writes.  An error is a value of \<open>go_error\<close>; a function with an error result gives
  \<open>go_error option\<close> or \<open>go_error + 'a\<close>; a function that may panic or not return gives \<open>'a run\<close> (Returns,
  Panics, Diverges).  A nil map or pointer is None.  Texts and byte slices are lists of \<open>char\<close>;
  \<open>uint16\<close> and \<open>uint32\<close> values that are computed with are words; \<open>int\<close> is used where no wrap-around is
  possible; instants and durations are nanoseconds.  Everything outside the repository is a parameter:
  the Kubernetes API, the environment, the clock, the HTTP transport, JSON, the Istio clients, the
  container registry, the cryptography and the files are records of functions over an abstract world
  \<open>'w\<close> that every call takes and returns, so other actors may move between two calls.  What the
  properties need of such a parameter is a named law (\<open>range_law\<close>, \<open>crypto_laws\<close>, \<open>webhook_laws\<close>,
  \<open>secret_laws\<close>, \<open>server_laws\<close>, \<open>docker_json_law\<close> and the like), and a concrete parameter that has it is
  in the same theory.  Two of them name a history that the world keeps: the deletions and listings of pods
  (\<open>history_laws\<close>) and the answers about tokens (\<open>answer_laws\<close>).
  The order in which \<open>range\<close> visits a map is \<open>k_range\<close>, any enumeration of the keys.

  \<^bold>\<open>The theories.\<close>
  \<^item> \<open>Prelude\<close>: errors, time, maps and list lemmas; \<open>Go_Std\<close>: how a call ends (\<open>run\<close>), strings, strconv, QueryEscape, fnv;
    \<open>Base64\<close>: encoding/base64 with its round trip; \<open>Views\<close>: calls that keep, read or write a part of
    the world; \<open>Throttle\<close>: the locale of what is done at most once in an interval, interpreted by the
    marks of nodes, the token probes, the image probe and the instance update.
  \<^item> \<open>Api_Types\<close>: api/v1alpha1.  \<open>Kube\<close> and \<open>Workloads\<close>: the objects and calls of the cluster.
  \<^item> \<open>Dt_Client\<close>: dtclient, with the host cache and the locale \<open>agent_client\<close> of its lookups.
  \<^item> \<open>Agent_Version\<close>: \<open>isDesiredNewer\<close> against the linear order of an abstract version type.
  \<^item> \<open>Node_Cache\<close>, \<open>Nodes\<close>, \<open>Nodes_Props\<close>: controllers/nodes, its cache (locale \<open>node_store\<close>), handlers and
    loop; \<open>Watchers\<close>: the goroutines and channels around the loop, as a step relation.
  \<^item> \<open>Pods\<close>, \<open>Pods_Props\<close>: oneagent\_utils.go, oneagent\_update.go, error\_handler.go.  \<open>Daemonset\<close>,
    \<open>Daemonset_Props\<close>: oneagent\_daemonset.go.  \<open>Oneagent_Controller\<close>, \<open>Oneagent_Props\<close>:
    oneagent\_controller.go, which calls the two and the token reconciler.
  \<^item> \<open>Utils\<close>, \<open>Utils_Props\<close>: controllers/utils; \<open>Token_Reconciler\<close>, \<open>Token_Props\<close>:
    dynatrace\_client\_reconciler.go; \<open>Apm_Controller\<close>: controllers/oneagentapm.
  \<^item> \<open>Istio\<close>, \<open>Istio_Props\<close>: controllers/istio.
  \<^item> \<open>Certs\<close>, \<open>Certs_Props\<close>: webhook/bootstrapper/certs.go; \<open>Bootstrapper\<close>, \<open>Bootstrapper_Props\<close>:
    webhook/bootstrapper/controller.go; \<open>Webhook\<close>, \<open>Webhook_Props\<close>: webhook/server and webhook/config.go;
    \<open>Namespace_Controller\<close>, \<open>Namespace_Props\<close>: controllers/namespace.  \<open>Wellformed_Props\<close>: well-formed pods
    of the DaemonSet and of the webhook.
  \<^item> \<open>Startup\<close>, \<open>Startup_Props\<close>: main.go, operator.go, webhook\_bootstrapper.go, webhook\_server.go, debug.go
    and what every package's \<open>Add\<close> registers with the manager; \<open>Logger\<close>: logger/logger.go.
  \<^item> \<open>Go_Heap\<close>: a heap, the contract of a deep copy (locale \<open>deep_copy\<close>) and its rules for pointers, lists,
    pairs and structs; \<open>Deepcopy\<close>, \<open>Deepcopy_Props\<close>: zz\_generated.deepcopy.go on structs in that heap.  All
    other theories have structs as values.  Where the code writes through a shared map the write is part of the
    result: \<open>pod_resources\<close> returns the resource with the CPU request that the DaemonSet's builder puts into its map
    of requests.  The Istio controller is an option, since \<open>NewController\<close> may answer nil.
  Where the Go code has one long function the model has it in the same order, cut into steps that are
  named after what they do (\<open>impl_probe\<close>, \<open>store_certs\<close>, \<open>write_secrets\<close>).

  \<^bold>\<open>What is proved.\<close>
  \<^item> The OneAgent controller: a run that does not ask for the status to be written has not changed it;
    what each delay until the next run stands for; a run without agent updates never hangs, and panics only
    with a nil Istio controller; the rollout leads to the wanted DaemonSet and a second one changes nothing;
    the image version only advances.
  \<^item> Pods: the wait for a new pod ends within a bounded number of rounds for every time-out up to
    65530 seconds and may never end at 65535 (the counter has 16 bits and advances by 10); pods are
    replaced one by one, in runs that fail as well; the outdated pods are those with an older version.
  \<^item> Versions: \<open>isDesiredNewer\<close> is the order of versions of one length, and when it panics.
  \<^item> Istio: one run leads to the objects of the endpoints and no others, a second one changes nothing.
  \<^item> Webhook: exactly what an injection adds, who is injected, and that nobody is injected twice.
    Together with the namespace controller: a pod injected for the namespace's label finds the secrets it refers to; the one key
    that may be missing is that of the proxy, and when.
  \<^item> Bootstrapper: an error-free run leaves a consistent deployment, whatever it found, with certificates
    that are good for four hours and form a chain, and objects that lead to the server; on such a deployment a run makes no writing call.
    The certificates never expire while the runs that the ticker asks for are not hours late, and the
    webhook server finds its certificate and key after a run.
  \<^item> Start: the operator registers its controllers and their watches and nothing else; the webhook server's
    start always ends, with at most five minutes of sleep.
  \<^item> Types: the DaemonSet's template is well-formed whatever the resource says; an injected pod is exactly
    when it leaves room for the injection.
  \<^item> Deep copies equal their originals, share nothing with them and are isolated from them.
  \<^item> Nodes: the cache after a full reconciliation, with exactly the departed nodes whose removal failed; at most one mark an hour; the watchers and the loop
    lose, double and reorder nothing in any interleaving, and never get stuck with an event.
  \<^item> Tokens and client: ready only on an answer of Dynatrace in the run, probes five minutes apart, the
    requests of every operation and the token each carries, the host cache, the pull secret's credentials.
  \<^item> Behaviour that is not what the code means to do, found on the way and stated as theorems: among
    others the panic of \<open>isDesiredNewer\<close>, the wrap-around of the wait, events and instances that are
    lost after an error, technologies that make an invalid tag, and the missing key of the proxy.

  \<^bold>\<open>Bounds and fuel.\<close>  No definition of the model has fuel.  The loops of the code that may not end are
  those of \<open>waitPodReadyState\<close> and of \<open>startWebhookServer\<close>: they are \<open>partial_function (option)\<close>, None meaning
  that they do not return.  \<open>Pods_Props\<close> proves for which time-outs the first one returns, \<open>Startup_Props\<close> that
  the second one does when the clock advances by what is slept (31 rounds of 10 seconds are more than five
  minutes).  All other loops run over finite lists.  The channels
  of \<open>Watchers\<close> have the capacities of the code.

  \<^bold>\<open>Not modelled.\<close>  Scheme registration (groupversion\_info.go) and the mock client of the tests; flag
  parsing, of which \<open>server_flags\<close> is the result.  Log messages are left out everywhere, and with them the
  branches that only log.  The shell script of the namespace controller is modelled as the text that it is, with
  only its table of nodes given a meaning.  Values of Kubernetes types that the code only passes on
  (tolerations, resource quantities) are texts, or of an abstract type where they are copied.
\<close>

end
